(* ===== verification/Prelude.thy ===== *)
theory Prelude
  imports Main
begin

text \<open>
  Shared vocabulary of the store-platform development. The backend of the
  repository (\<open>src/backend/src\<close>) is TypeScript running on Node's single-threaded
  event loop; every function that talks to the database or the cluster either
  returns a value or throws. The model writes such a function as an \<^emph>\<open>action\<close>:
  a function from a state to a result (\<open>Inl\<close> of the thrown error, \<open>Inr\<close> of the
  value) and the state after it. The combinators below are the three control
  constructs the sources use: sequencing of awaited calls (\<open>bind_act\<close>,
  \<open>seq_act\<close>), \<open>throw\<close> (\<open>raise_act\<close>) and \<open>try ... catch\<close> (\<open>try_catch\<close>).
  The theory also holds the string helpers the sources use for messages:
  JavaScript's rendering of a number in a template literal and
  \<open>String.prototype.includes\<close>.
\<close>

named_theorems act_simps "evaluation rules of the action combinators"

type_synonym ms = nat
type_synonym uuid = nat

type_synonym ('e, 's, 'a) act = "'s \<Rightarrow> ('e + 'a) \<times> 's"

section \<open>Actions: sequencing, throw, try/catch\<close>

definition ok_act :: "'a \<Rightarrow> ('e, 's, 'a) act" where
  "ok_act a s = (Inr a, s)"

definition raise_act :: "'e \<Rightarrow> ('e, 's, 'a) act" where
  "raise_act e s = (Inl e, s)"

definition modify_act :: "('s \<Rightarrow> 's) \<Rightarrow> ('e, 's, unit) act" where
  "modify_act f s = (Inr (), f s)"

definition bind_act :: "('e, 's, 'a) act \<Rightarrow> ('a \<Rightarrow> ('e, 's, 'b) act) \<Rightarrow> ('e, 's, 'b) act" where
  "bind_act m f s = (case m s of (Inl e, s') \<Rightarrow> (Inl e, s') | (Inr a, s') \<Rightarrow> f a s')"

definition try_catch :: "('e, 's, 'a) act \<Rightarrow> ('e \<Rightarrow> ('e, 's, 'a) act) \<Rightarrow> ('e, 's, 'a) act" where
  "try_catch m h s = (case m s of (Inl e, s') \<Rightarrow> h e s' | r \<Rightarrow> r)"

text \<open>A block of statements: each runs after the one before returned, the first throw ends it.\<close>

fun seq_act :: "('e, 's, unit) act list \<Rightarrow> ('e, 's, unit) act" where
  "seq_act [] = ok_act ()"
| "seq_act (a # as) = bind_act a (\<lambda>_. seq_act as)"

lemma ok_act_apply [simp, act_simps]: "ok_act a s = (Inr a, s)"
  by (simp add: ok_act_def)

lemma raise_act_apply [simp, act_simps]: "raise_act e s = (Inl e, s)"
  by (simp add: raise_act_def)

lemma modify_act_apply [simp, act_simps]: "modify_act f s = (Inr (), f s)"
  by (simp add: modify_act_def)

lemma bind_act_Inr [simp, act_simps]: "m s = (Inr a, s') \<Longrightarrow> bind_act m f s = f a s'"
  by (simp add: bind_act_def)

lemma bind_act_Inl [simp, act_simps]: "m s = (Inl e, s') \<Longrightarrow> bind_act m f s = (Inl e, s')"
  by (simp add: bind_act_def)

lemma try_catch_Inr [simp, act_simps]: "m s = (Inr a, s') \<Longrightarrow> try_catch m h s = (Inr a, s')"
  by (simp add: try_catch_def)

lemma try_catch_Inl [simp, act_simps]: "m s = (Inl e, s') \<Longrightarrow> try_catch m h s = h e s'"
  by (simp add: try_catch_def)

lemma bind_act_ok [simp, act_simps]: "bind_act (ok_act a) f = f a"
  by (simp add: fun_eq_iff bind_act_def)

lemma bind_act_modify [simp, act_simps]: "bind_act (modify_act g) f = (\<lambda>s. f () (g s))"
  by (simp add: fun_eq_iff bind_act_def)

lemma bind_act_raise [simp, act_simps]: "bind_act (raise_act e) f = raise_act e"
  by (simp add: fun_eq_iff bind_act_def)

lemma bind_act_assoc: "bind_act (bind_act m f) g = bind_act m (\<lambda>a. bind_act (f a) g)"
  by (simp add: fun_eq_iff bind_act_def split: prod.splits sum.splits)

lemma seq_act_append: "seq_act (as @ bs) = bind_act (seq_act as) (\<lambda>_. seq_act bs)"
  by (induction as) (simp_all add: bind_act_assoc)

lemma seq_act_single [simp, act_simps]: "seq_act [a] = bind_act a (\<lambda>_. ok_act ())"
  by simp

text \<open>
  A block that returns has run every statement: the state it returns is reached by running
  each statement in turn. The case split on whether the first statement throws is the
  whole argument.
\<close>

lemma seq_act_Cons_cases:
  "seq_act (a # as) s = (case a s of (Inl e, s') \<Rightarrow> (Inl e, s') | (Inr _, s') \<Rightarrow> seq_act as s')"
  by (simp add: bind_act_def)

section \<open>What the code throws\<close>

text \<open>
  The backend throws three kinds of values: the \<open>HttpError\<close> of
  \<open>@kubernetes/client-node\<close>, whose \<open>response.statusCode\<close> the handlers test
  (409 conflict, 404 not found); a plain \<open>new Error(message)\<close> the code raises
  itself (timeouts, a failed job, an unknown plan, a missing store); and the
  \<open>SqliteError\<close> of \<open>better-sqlite3\<close> (a violated UNIQUE constraint).
\<close>

datatype error =
    HttpError nat string
  | Error string
  | SqliteError string

fun err_message :: "error \<Rightarrow> string" where
  "err_message (HttpError _ m) = m"
| "err_message (Error m) = m"
| "err_message (SqliteError m) = m"

text \<open>\<open>err?.response?.statusCode\<close>: only an HTTP error carries a response.\<close>

fun status_code :: "error \<Rightarrow> nat option" where
  "status_code (HttpError c _) = Some c"
| "status_code _ = None"

section \<open>Actions that keep a property\<close>

text \<open>
  Most frame and invariant facts of the model have one shape: an action, run from a state
  where \<open>I\<close> holds, ends in a state where \<open>I\<close> holds, whether it returns or throws. The
  combinators keep that shape, so such facts are proved once per primitive and composed.
\<close>

named_theorems keeps_intros "compositional rules and primitive facts of act_keeps"

definition act_keeps :: "('s \<Rightarrow> bool) \<Rightarrow> ('e, 's, 'a) act \<Rightarrow> bool" where
  "act_keeps I a = (\<forall>s. I s \<longrightarrow> I (snd (a s)))"

lemma act_keepsD: "act_keeps I a \<Longrightarrow> I s \<Longrightarrow> a s = (r, s') \<Longrightarrow> I s'"
  by (metis act_keeps_def snd_conv)

lemma act_keeps_ok [keeps_intros]: "act_keeps I (ok_act x)"
  by (simp add: act_keeps_def)

lemma act_keeps_raise [keeps_intros]: "act_keeps I (raise_act e)"
  by (simp add: act_keeps_def)

lemma act_keeps_modify [keeps_intros]: "(\<And>s. I s \<Longrightarrow> I (f s)) \<Longrightarrow> act_keeps I (modify_act f)"
  by (simp add: act_keeps_def)

lemma act_keeps_bind [keeps_intros]:
  "act_keeps I m \<Longrightarrow> (\<And>x. act_keeps I (f x)) \<Longrightarrow> act_keeps I (bind_act m f)"
  by (auto simp: act_keeps_def bind_act_def split: prod.splits sum.splits)

lemma act_keeps_try [keeps_intros]:
  "act_keeps I m \<Longrightarrow> (\<And>e. act_keeps I (h e)) \<Longrightarrow> act_keeps I (try_catch m h)"
  by (auto simp: act_keeps_def try_catch_def split: prod.splits sum.splits)

lemma act_keeps_seq [keeps_intros]: "(\<And>a. a \<in> set as \<Longrightarrow> act_keeps I a) \<Longrightarrow> act_keeps I (seq_act as)"
  by (induction as) (auto intro: act_keeps_bind act_keeps_ok)

lemma act_keeps_if [keeps_intros]: "act_keeps I a \<Longrightarrow> act_keeps I b \<Longrightarrow> act_keeps I (if c then a else b)"
  by simp

lemma act_keeps_let [keeps_intros]: "(\<And>x. act_keeps I (f x)) \<Longrightarrow> act_keeps I (Let v f)"
  by simp

lemma act_keeps_conj:
  "act_keeps I a \<Longrightarrow> act_keeps J a \<Longrightarrow> act_keeps (\<lambda>s. I s \<and> J s) a"
  by (simp add: act_keeps_def)

section \<open>Actions that return\<close>

text \<open>
  The dual fact: from every state satisfying \<open>P\<close> the action returns normally, in a state
  satisfying \<open>P\<close>. A block of such actions returns normally; this is how a run in which
  no step throws is proved to reach the end of the block.
\<close>

definition act_returns :: "('s \<Rightarrow> bool) \<Rightarrow> ('e, 's, unit) act \<Rightarrow> bool" where
  "act_returns P a = (\<forall>s. P s \<longrightarrow> (\<exists>s'. a s = (Inr (), s') \<and> P s'))"

lemma act_returnsI: "(\<And>s. P s \<Longrightarrow> \<exists>s'. a s = (Inr (), s') \<and> P s') \<Longrightarrow> act_returns P a"
  by (simp add: act_returns_def)

lemma act_returnsD: "act_returns P a \<Longrightarrow> P s \<Longrightarrow> \<exists>s'. a s = (Inr (), s') \<and> P s'"
  by (simp add: act_returns_def)

lemma act_returns_seq: "(\<And>a. a \<in> set as \<Longrightarrow> act_returns P a) \<Longrightarrow> act_returns P (seq_act as)"
proof (induction as)
  case Nil
  then show ?case by (simp add: act_returns_def)
next
  case (Cons a as)
  show ?case
  proof (rule act_returnsI)
    fix s assume "P s"
    then obtain s1 where s1: "a s = (Inr (), s1)" "P s1"
      using Cons.prems act_returnsD by (metis list.set_intros(1))
    then obtain s2 where "seq_act as s1 = (Inr (), s2)" "P s2"
      using Cons act_returnsD by (metis list.set_intros(2))
    with s1 show "\<exists>s'. seq_act (a # as) s = (Inr (), s') \<and> P s'"
      by (simp add: bind_act_def)
  qed
qed

text \<open>
  Returning normally or throwing only errors of a class \<open>Q\<close>, in a state satisfying
  \<open>P\<close>: a \<open>try\<close> block of such statements whose handler recovers from \<open>Q\<close> returns.
\<close>

definition act_returns_or :: "('s \<Rightarrow> bool) \<Rightarrow> ('e \<Rightarrow> bool) \<Rightarrow> ('e, 's, unit) act \<Rightarrow> bool" where
  "act_returns_or P Q a = (\<forall>s. P s \<longrightarrow> (\<exists>r s'. a s = (r, s') \<and> P s' \<and> (case r of Inl e \<Rightarrow> Q e | Inr _ \<Rightarrow> True)))"

lemma act_returns_or_returns: "act_returns P a \<Longrightarrow> act_returns_or P Q a"
  by (force simp: act_returns_def act_returns_or_def)

lemma act_returns_or_seq: "(\<And>a. a \<in> set as \<Longrightarrow> act_returns_or P Q a) \<Longrightarrow> act_returns_or P Q (seq_act as)"
proof (induction as)
  case Nil
  then show ?case by (simp add: act_returns_or_def)
next
  case (Cons a as)
  have ha: "act_returns_or P Q a" and hs: "act_returns_or P Q (seq_act as)"
    using Cons by auto
  show ?case
    unfolding act_returns_or_def
  proof (intro allI impI)
    fix s assume "P s"
    then obtain r1 s1 where a: "a s = (r1, s1)" "P s1" "case r1 of Inl e \<Rightarrow> Q e | Inr _ \<Rightarrow> True"
      using ha by (auto simp: act_returns_or_def)
    show "\<exists>r s'. seq_act (a # as) s = (r, s') \<and> P s' \<and> (case r of Inl e \<Rightarrow> Q e | Inr _ \<Rightarrow> True)"
    proof (cases r1)
      case (Inl e)
      with a show ?thesis by (simp add: bind_act_def)
    next
      case (Inr u)
      with a hs show ?thesis by (auto simp: bind_act_def act_returns_or_def)
    qed
  qed
qed

lemma act_returns_try:
  assumes "act_returns_or P Q m" and "\<And>e. Q e \<Longrightarrow> act_returns P (h e)"
  shows "act_returns P (try_catch m h)"
proof (rule act_returnsI)
  fix s assume "P s"
  then obtain r s1 where m: "m s = (r, s1)" "P s1" "case r of Inl e \<Rightarrow> Q e | Inr _ \<Rightarrow> True"
    using assms(1) by (auto simp: act_returns_or_def)
  show "\<exists>s'. try_catch m h s = (Inr (), s') \<and> P s'"
  proof (cases r)
    case (Inl e)
    with m assms(2) show ?thesis by (auto simp: try_catch_def act_returns_def)
  next
    case (Inr u)
    with m show ?thesis by (simp add: try_catch_def)
  qed
qed

section \<open>Triples: what a run of an action establishes\<close>

text \<open>
  \<open>triple P a Q E\<close>: run from a state satisfying \<open>P\<close>, the action either returns \<open>x\<close>
  in a state satisfying \<open>Q x\<close> or throws \<open>e\<close> in a state satisfying \<open>E e\<close>. Actions
  are total functions, so this is total correctness; the rules are those of a Hoare logic
  with exceptions, one per combinator.
\<close>

named_theorems triple_rules "structural rules of triple"

definition triple :: "('s \<Rightarrow> bool) \<Rightarrow> ('e, 's, 'a) act \<Rightarrow> ('a \<Rightarrow> 's \<Rightarrow> bool) \<Rightarrow> ('e \<Rightarrow> 's \<Rightarrow> bool) \<Rightarrow> bool" where
  "triple P a Q E = (\<forall>s. P s \<longrightarrow> (case a s of (Inr x, s') \<Rightarrow> Q x s' | (Inl e, s') \<Rightarrow> E e s'))"

lemma tripleD:
  "triple P a Q E \<Longrightarrow> P s \<Longrightarrow> a s = (r, s') \<Longrightarrow> (case r of Inr x \<Rightarrow> Q x s' | Inl e \<Rightarrow> E e s')"
  by (auto simp: triple_def split: sum.splits)

lemma triple_ok [triple_rules]: "(\<And>s. P s \<Longrightarrow> Q x s) \<Longrightarrow> triple P (ok_act x) Q E"
  by (simp add: triple_def)

lemma triple_raise [triple_rules]: "(\<And>s. P s \<Longrightarrow> E e s) \<Longrightarrow> triple P (raise_act e) Q E"
  by (simp add: triple_def)

lemma triple_modify [triple_rules]: "(\<And>s. P s \<Longrightarrow> Q () (f s)) \<Longrightarrow> triple P (modify_act f) Q E"
  by (simp add: triple_def)

lemma triple_bind [triple_rules]:
  "triple P m R E \<Longrightarrow> (\<And>x. triple (R x) (f x) Q E) \<Longrightarrow> triple P (bind_act m f) Q E"
  by (fastforce simp: triple_def bind_act_def split: prod.splits sum.splits)

lemma triple_try [triple_rules]:
  "triple P m Q E' \<Longrightarrow> (\<And>e. triple (E' e) (h e) Q E) \<Longrightarrow> triple P (try_catch m h) Q E"
  by (fastforce simp: triple_def try_catch_def split: prod.splits sum.splits)

lemma triple_if [triple_rules]:
  "(c \<Longrightarrow> triple P a Q E) \<Longrightarrow> (\<not> c \<Longrightarrow> triple P b Q E) \<Longrightarrow> triple P (if c then a else b) Q E"
  by simp

lemma triple_seq_Nil [triple_rules]: "(\<And>s. P s \<Longrightarrow> Q () s) \<Longrightarrow> triple P (seq_act []) Q E"
  by (simp add: triple_def)

lemma triple_seq_Cons [triple_rules]:
  "triple P a (\<lambda>_. R) E \<Longrightarrow> triple R (seq_act as) Q E \<Longrightarrow> triple P (seq_act (a # as)) Q E"
  by (simp add: triple_bind)

lemma triple_pre: "triple P' a Q E \<Longrightarrow> (\<And>s. P s \<Longrightarrow> P' s) \<Longrightarrow> triple P a Q E"
  by (simp add: triple_def)

lemma triple_post:
  "triple P a Q' E' \<Longrightarrow> (\<And>x s. Q' x s \<Longrightarrow> Q x s) \<Longrightarrow> (\<And>e s. E' e s \<Longrightarrow> E e s) \<Longrightarrow> triple P a Q E"
  by (fastforce simp: triple_def split: prod.splits sum.splits)

lemma triple_returns:
  "triple P a (\<lambda>_. Q) (\<lambda>_ _. False) \<Longrightarrow> P s \<Longrightarrow> \<exists>s'. a s = (Inr (), s') \<and> Q s'"
  by (cases "a s") (drule (1) tripleD, auto split: sum.splits)

lemma triple_throws:
  "triple P a (\<lambda>_ _. False) E \<Longrightarrow> P s \<Longrightarrow> \<exists>e s'. a s = (Inl e, s') \<and> E e s'"
  by (cases "a s") (drule (1) tripleD, auto split: sum.splits)

section \<open>Strings of the sources\<close>

text \<open>JavaScript renders a non-negative integer in a template literal as its decimal digits.\<close>

fun show_nat :: "nat \<Rightarrow> string" where
  "show_nat n = (if n < 10 then [char_of (48 + n)] else show_nat (n div 10) @ [char_of (48 + n mod 10)])"

declare show_nat.simps [simp del]

lemma show_nat_nonempty: "show_nat n \<noteq> []"
  by (subst show_nat.simps) simp

text \<open>\<open>String.prototype.startsWith\<close> and \<open>String.prototype.includes\<close>.\<close>

fun starts_with :: "string \<Rightarrow> string \<Rightarrow> bool" where
  "starts_with [] p = (p = [])"
| "starts_with (c # cs) p = (case p of [] \<Rightarrow> True | d # ds \<Rightarrow> c = d \<and> starts_with cs ds)"

fun str_includes :: "string \<Rightarrow> string \<Rightarrow> bool" where
  "str_includes [] p = (p = [])"
| "str_includes (c # cs) p = (starts_with (c # cs) p \<or> str_includes cs p)"

lemma starts_with_Nil [simp]: "starts_with s []"
  by (cases s) auto

lemma starts_with_append [simp]: "starts_with (p @ s) p"
  by (induction p) auto

lemma starts_with_str_includes: "starts_with s p \<Longrightarrow> str_includes s p"
  by (cases s) auto

lemma starts_with_iff: "starts_with s p \<longleftrightarrow> (\<exists>r. s = p @ r)"
  by (induction s arbitrary: p) (auto split: list.splits)

lemma str_includes_iff: "str_includes s p \<longleftrightarrow> (\<exists>a b. s = a @ p @ b)"
proof (induction s)
  case Nil
  then show ?case by simp
next
  case (Cons c cs)
  show ?case
  proof
    assume "str_includes (c # cs) p"
    then show "\<exists>a b. c # cs = a @ p @ b"
      using Cons.IH by (auto simp: starts_with_iff) (metis append_Cons append_Nil)+
  next
    assume "\<exists>a b. c # cs = a @ p @ b"
    then obtain a b where e: "c # cs = a @ p @ b" by blast
    show "str_includes (c # cs) p"
    proof (cases a)
      case Nil
      with e have "starts_with (c # cs) p" by simp
      then show ?thesis by (rule starts_with_str_includes)
    next
      case (Cons a0 a')
      with e Cons.IH show ?thesis by auto
    qed
  qed
qed

lemma str_includes_append_middle [simp]: "str_includes (a @ p @ b) p"
  using str_includes_iff by blast

section \<open>Association lists of the manifests\<close>

text \<open>
  Labels, annotations and string data of a Kubernetes object are JavaScript object literals
  with string keys; the model writes them as association lists, looked up with
  \<^const>\<open>map_of\<close>.
\<close>

type_synonym kv = "(string \<times> string) list"

end
