(* ===== verification/Names.thy ===== *)
theory Names
  imports Prelude
begin

text \<open>
  Store names, slugs and namespaces: \<open>src/backend/src/utils/nameGenerator.ts\<close>
  (\<open>generateSlug\<close>, \<open>generateNamespace\<close>) and the validation of a store name in
  \<open>src/backend/src/routes/stores.ts\<close> (the zod schema \<open>createStoreSchema\<close>).
  \<open>generateSlug\<close> is a chain of six string passes; each is one definition here, named
  after the JavaScript call it models, and the slug is their composition.
  Characters are Isabelle's 8-bit \<^typ>\<open>char\<close>: the model covers names whose
  UTF-16 code units are all below 256 (ASCII and Latin-1), for which JavaScript's
  \<open>toLowerCase\<close>, \<open>trim\<close> and \<open>\s\<close> are written out below.
\<close>

section \<open>JavaScript character classes\<close>

text \<open>
  \<open>\s\<close> and \<open>String.prototype.trim\<close> use the same white space set; below 256 it is
  TAB, LF, VT, FF, CR, SPACE and NO-BREAK SPACE (U+00A0).
\<close>

definition js_space :: "char \<Rightarrow> bool" where
  "js_space c = (let n = (of_char c :: nat) in (9 \<le> n \<and> n \<le> 13) \<or> n = 32 \<or> n = 160)"

definition is_lower_ascii :: "char \<Rightarrow> bool" where
  "is_lower_ascii c = (let n = (of_char c :: nat) in 97 \<le> n \<and> n \<le> 122)"

definition is_upper_ascii :: "char \<Rightarrow> bool" where
  "is_upper_ascii c = (let n = (of_char c :: nat) in 65 \<le> n \<and> n \<le> 90)"

definition is_digit_ascii :: "char \<Rightarrow> bool" where
  "is_digit_ascii c = (let n = (of_char c :: nat) in 48 \<le> n \<and> n \<le> 57)"

text \<open>
  \<open>toLowerCase\<close> below 256: A--Z and the Latin-1 capitals U+00C0--U+00DE (but the
  multiplication sign U+00D7) move up by 32; everything else is unchanged.
\<close>

definition js_lower_char :: "char \<Rightarrow> char" where
  "js_lower_char c = (let n = (of_char c :: nat) in
     if (65 \<le> n \<and> n \<le> 90) \<or> (192 \<le> n \<and> n \<le> 222 \<and> n \<noteq> 215) then char_of (n + 32) else c)"

definition to_lower_case :: "string \<Rightarrow> string" where
  "to_lower_case s = map js_lower_char s"

definition js_trim :: "string \<Rightarrow> string" where
  "js_trim s = rev (dropWhile js_space (rev (dropWhile js_space s)))"

section \<open>The passes of generateSlug\<close>

text \<open>\<open>.replace(/[^a-z0-9\s-]/g, '')\<close>: keep lower-case letters, digits, white space and hyphens.\<close>

definition slug_keep :: "char \<Rightarrow> bool" where
  "slug_keep c = (is_lower_ascii c \<or> is_digit_ascii c \<or> js_space c \<or> c = CHR ''-'')"

definition strip_disallowed :: "string \<Rightarrow> string" where
  "strip_disallowed s = filter slug_keep s"

text \<open>
  \<open>.replace(/P+/g, '-')\<close>: every maximal run of characters of class \<open>P\<close> becomes one
  hyphen. The scan carries whether the previous character was in a run already replaced.
\<close>

fun replace_runs :: "(char \<Rightarrow> bool) \<Rightarrow> bool \<Rightarrow> string \<Rightarrow> string" where
  "replace_runs P inrun [] = []"
| "replace_runs P inrun (c # cs) =
     (if P c then (if inrun then replace_runs P True cs else CHR ''-'' # replace_runs P True cs)
      else c # replace_runs P False cs)"

definition spaces_to_hyphen :: "string \<Rightarrow> string" where
  "spaces_to_hyphen s = replace_runs js_space False s"

definition collapse_hyphens :: "string \<Rightarrow> string" where
  "collapse_hyphens s = replace_runs (\<lambda>c. c = CHR ''-'') False s"

text \<open>
  \<open>.replace(/^-|-$/g, '')\<close>: a global scan that removes a hyphen at the start and a
  hyphen at the end (one each: the alternatives are anchored).
\<close>

definition trim_edge_hyphens :: "string \<Rightarrow> string" where
  "trim_edge_hyphens s =
     (let s1 = (case s of c # r \<Rightarrow> if c = CHR ''-'' then r else s | [] \<Rightarrow> [])
      in if s1 \<noteq> [] \<and> last s1 = CHR ''-'' then butlast s1 else s1)"

text \<open>\<open>.substring(0, 40)\<close>.\<close>

definition slug_max :: nat where
  "slug_max = 40"

definition generateSlug :: "string \<Rightarrow> string" where
  "generateSlug name =
     take slug_max (trim_edge_hyphens (collapse_hyphens (spaces_to_hyphen
       (strip_disallowed (js_trim (to_lower_case name))))))"

definition generateNamespace :: "string \<Rightarrow> string" where
  "generateNamespace slug = ''store-'' @ slug"

section \<open>Validation of a store name\<close>

text \<open>
  \<open>z.string().min(2).max(50).regex(/^[a-zA-Z0-9\s-]+$/)\<close> of \<open>createStoreSchema\<close>.
\<close>

definition name_char :: "char \<Rightarrow> bool" where
  "name_char c = (is_lower_ascii c \<or> is_upper_ascii c \<or> is_digit_ascii c \<or> js_space c \<or> c = CHR ''-'')"

definition valid_store_name :: "string \<Rightarrow> bool" where
  "valid_store_name n = (2 \<le> length n \<and> length n \<le> 50 \<and> n \<noteq> [] \<and> list_all name_char n)"

text \<open>A character that survives into the slug: a letter once lower-cased, or a digit.\<close>

definition name_alnum :: "char \<Rightarrow> bool" where
  "name_alnum c = (is_lower_ascii (js_lower_char c) \<or> is_digit_ascii c)"

section \<open>What a slug looks like\<close>

text \<open>
  The shape the spec promises: only \<open>[a-z0-9-]\<close>, no hyphen first, no two hyphens in a
  row, at most 40 characters. (The spec also promises no hyphen last; the code does not
  keep that promise, see below.)
\<close>

definition slug_char :: "char \<Rightarrow> bool" where
  "slug_char c = (is_lower_ascii c \<or> is_digit_ascii c \<or> c = CHR ''-'')"

fun no_double_hyphen :: "string \<Rightarrow> bool" where
  "no_double_hyphen (a # b # r) = (\<not> (a = CHR ''-'' \<and> b = CHR ''-'') \<and> no_double_hyphen (b # r))"
| "no_double_hyphen _ = True"

definition no_leading_hyphen :: "string \<Rightarrow> bool" where
  "no_leading_hyphen s = (case s of [] \<Rightarrow> True | c # _ \<Rightarrow> c \<noteq> CHR ''-'')"

definition ends_with_hyphen :: "string \<Rightarrow> bool" where
  "ends_with_hyphen s = (s \<noteq> [] \<and> last s = CHR ''-'')"

text \<open>
  A Kubernetes namespace name is an RFC 1123 label: 1 to 63 characters of
  \<open>[a-z0-9-]\<close>, starting and ending with a letter or digit. (This is the cluster's
  rule, not code of the repository; it is what \<open>createNamespace\<close> checks.)
\<close>

definition dns_label :: "string \<Rightarrow> bool" where
  "dns_label s = (s \<noteq> [] \<and> length s \<le> 63 \<and> list_all slug_char s
     \<and> hd s \<noteq> CHR ''-'' \<and> last s \<noteq> CHR ''-'')"

section \<open>Lemmas on the passes\<close>

named_theorems char_class_defs "unfoldings of the character classes"
declare js_space_def [char_class_defs] is_lower_ascii_def [char_class_defs]
  is_upper_ascii_def [char_class_defs] is_digit_ascii_def [char_class_defs]
  slug_char_def [char_class_defs] slug_keep_def [char_class_defs]

lemma slug_char_not_space: "slug_char c \<Longrightarrow> \<not> js_space c"
  by (auto simp: char_class_defs Let_def)

lemma slug_char_lower_id: "slug_char c \<Longrightarrow> js_lower_char c = c"
  by (auto simp: char_class_defs js_lower_char_def Let_def)

lemma slug_char_keep: "slug_char c \<Longrightarrow> slug_keep c"
  by (auto simp: char_class_defs Let_def)

lemma slug_keep_not_space: "slug_keep c \<Longrightarrow> \<not> js_space c \<Longrightarrow> slug_char c"
  by (auto simp: char_class_defs Let_def)

lemma hyphen_slug_char [simp]: "slug_char CHR ''-''"
  by (simp add: slug_char_def)

lemma no_leading_hyphen_Cons [simp]: "no_leading_hyphen (c # s) \<longleftrightarrow> c \<noteq> CHR ''-''"
  by (simp add: no_leading_hyphen_def)

lemma no_leading_hyphen_Nil [simp]: "no_leading_hyphen []"
  by (simp add: no_leading_hyphen_def)

lemma no_double_hyphen_Cons_iff:
  "no_double_hyphen (c # s) \<longleftrightarrow> no_double_hyphen s \<and> (c = CHR ''-'' \<longrightarrow> no_leading_hyphen s)"
  by (cases s) auto

lemma no_double_hyphen_Cons: "no_double_hyphen (c # s) \<Longrightarrow> no_double_hyphen s"
  by (simp add: no_double_hyphen_Cons_iff)

lemma no_double_hyphen_prefix: "no_double_hyphen (a @ b) \<Longrightarrow> no_double_hyphen a"
proof (induction a)
  case Nil
  then show ?case by simp
next
  case (Cons c a)
  then show ?case
    by (cases a) (auto simp: no_double_hyphen_Cons_iff)
qed

lemma double_hyphen_infix: "\<not> no_double_hyphen (a @ CHR ''-'' # CHR ''-'' # b)"
  by (induction a) (auto simp: no_double_hyphen_Cons_iff)

lemma no_double_hyphen_take: "no_double_hyphen s \<Longrightarrow> no_double_hyphen (take n s)"
  by (metis append_take_drop_id no_double_hyphen_prefix)

lemma no_double_hyphen_butlast: "no_double_hyphen s \<Longrightarrow> no_double_hyphen (butlast s)"
  by (metis append_butlast_last_id butlast.simps(1) no_double_hyphen_prefix)

lemma no_leading_hyphen_take: "no_leading_hyphen s \<Longrightarrow> no_leading_hyphen (take n s)"
  by (cases s; cases n) (auto simp: no_leading_hyphen_def)

lemma no_leading_hyphen_butlast: "no_leading_hyphen s \<Longrightarrow> no_leading_hyphen (butlast s)"
  by (cases s) (auto simp: no_leading_hyphen_def)

text \<open>\<open>replace_runs\<close>: what it keeps, and that it leaves no run behind.\<close>

lemma set_replace_runs: "set (replace_runs P b s) \<subseteq> {c \<in> set s. \<not> P c} \<union> {CHR ''-''}"
  by (induction P b s rule: replace_runs.induct) auto

lemma replace_runs_id: "\<forall>c \<in> set s. \<not> P c \<Longrightarrow> replace_runs P b s = s"
  by (induction P b s rule: replace_runs.induct) auto

lemma collapse_runs_shape:
  "no_double_hyphen (replace_runs (\<lambda>c. c = CHR ''-'') b s)
   \<and> (b \<longrightarrow> no_leading_hyphen (replace_runs (\<lambda>c. c = CHR ''-'') b s))"
  by (induction s arbitrary: b) (auto simp: no_double_hyphen_Cons_iff)

lemma collapse_runs_id:
  "no_double_hyphen s \<Longrightarrow> (b \<longrightarrow> no_leading_hyphen s)
   \<Longrightarrow> replace_runs (\<lambda>c. c = CHR ''-'') b s = s"
proof (induction s arbitrary: b)
  case Nil
  then show ?case by simp
next
  case (Cons c s)
  then show ?case by (auto simp: no_double_hyphen_Cons_iff)
qed

text \<open>\<open>trim_edge_hyphens\<close> on a string without doubled hyphens.\<close>

lemma trim_edge_hyphens_shape:
  assumes "no_double_hyphen s"
  shows "no_double_hyphen (trim_edge_hyphens s) \<and> no_leading_hyphen (trim_edge_hyphens s)
         \<and> \<not> ends_with_hyphen (trim_edge_hyphens s)
         \<and> set (trim_edge_hyphens s) \<subseteq> set s"
proof -
  define s1 where "s1 = (case s of c # r \<Rightarrow> if c = CHR ''-'' then r else s | [] \<Rightarrow> [])"
  have nd1: "no_double_hyphen s1"
    using assms by (auto simp: s1_def split: list.splits dest: no_double_hyphen_Cons)
  have nl1: "no_leading_hyphen s1"
    using assms by (auto simp: s1_def no_leading_hyphen_def split: list.splits)
  have set1: "set s1 \<subseteq> set s"
    by (auto simp: s1_def split: list.splits)
  have e: "trim_edge_hyphens s = (if s1 \<noteq> [] \<and> last s1 = CHR ''-'' then butlast s1 else s1)"
    by (simp add: trim_edge_hyphens_def s1_def)
  have last_bl: "\<not> ends_with_hyphen (butlast s1)" if "s1 \<noteq> []" "last s1 = CHR ''-''"
  proof
    assume h: "ends_with_hyphen (butlast s1)"
    then obtain a where "butlast s1 = a @ [CHR ''-'']"
      by (metis ends_with_hyphen_def append_butlast_last_id)
    with that have "s1 = a @ [CHR ''-'', CHR ''-'']"
      by (metis append_butlast_last_id append.assoc append_Cons append_Nil)
    with nd1 show False
      using double_hyphen_infix [of a "[]"] by simp
  qed
  show ?thesis
    using nd1 nl1 set1 last_bl
    by (auto simp: e ends_with_hyphen_def no_double_hyphen_butlast no_leading_hyphen_butlast
             dest: in_set_butlastD)
qed

section \<open>The shape of a slug\<close>

lemma pre_slug_chars:
  "list_all slug_char (collapse_hyphens (spaces_to_hyphen (strip_disallowed s)))"
proof -
  have "set (spaces_to_hyphen (strip_disallowed s)) \<subseteq> {c. slug_char c}"
    using set_replace_runs [of js_space False "strip_disallowed s"]
    by (auto simp: spaces_to_hyphen_def strip_disallowed_def intro: slug_keep_not_space)
  then show ?thesis
    using set_replace_runs [of "\<lambda>c. c = CHR ''-''" False "spaces_to_hyphen (strip_disallowed s)"]
    by (auto simp: collapse_hyphens_def list_all_iff)
qed

lemma slug_of_trimmed:
  "generateSlug name = take slug_max (trim_edge_hyphens (collapse_hyphens (spaces_to_hyphen
       (strip_disallowed (js_trim (to_lower_case name))))))"
  by (simp add: generateSlug_def)

lemma trimmed_pre_slug_shape:
  fixes name :: string
  defines "t \<equiv> trim_edge_hyphens (collapse_hyphens (spaces_to_hyphen
       (strip_disallowed (js_trim (to_lower_case name)))))"
  shows "list_all slug_char t \<and> no_double_hyphen t \<and> no_leading_hyphen t \<and> \<not> ends_with_hyphen t"
proof -
  let ?c = "collapse_hyphens (spaces_to_hyphen (strip_disallowed (js_trim (to_lower_case name))))"
  have nd: "no_double_hyphen ?c"
    using collapse_runs_shape by (simp add: collapse_hyphens_def)
  have "list_all slug_char ?c" by (rule pre_slug_chars)
  with trim_edge_hyphens_shape [OF nd] show ?thesis
    by (auto simp: t_def list_all_iff)
qed

lemma dropWhile_none: "\<forall>c \<in> set s. \<not> P c \<Longrightarrow> dropWhile P s = s"
  by (induction s) auto

lemma trim_edge_hyphens_no_leading:
  "no_leading_hyphen s \<Longrightarrow> trim_edge_hyphens s = (if ends_with_hyphen s then butlast s else s)"
  by (cases s) (auto simp: trim_edge_hyphens_def ends_with_hyphen_def)

text \<open>A string that already has the shape of a slug goes through every pass unchanged
  but the hyphen trim at its end.\<close>

lemma generateSlug_of_shaped:
  assumes "list_all slug_char s" "no_leading_hyphen s" "no_double_hyphen s" "length s \<le> slug_max"
  shows "generateSlug s = (if ends_with_hyphen s then butlast s else s)"
proof -
  have chars: "\<forall>c \<in> set s. slug_char c" using assms(1) by (simp add: list_all_iff)
  have "to_lower_case s = s"
    using chars by (simp add: to_lower_case_def map_idI slug_char_lower_id)
  moreover have "js_trim s = s"
    using chars by (simp add: js_trim_def dropWhile_none slug_char_not_space)
  moreover have "strip_disallowed s = s"
    using chars by (simp add: strip_disallowed_def slug_char_keep)
  moreover have "spaces_to_hyphen s = s"
    using chars by (simp add: spaces_to_hyphen_def replace_runs_id slug_char_not_space)
  moreover have "collapse_hyphens s = s"
    using assms(3) by (simp add: collapse_hyphens_def collapse_runs_id)
  moreover have "length (if ends_with_hyphen s then butlast s else s) \<le> slug_max"
    using assms(4) by auto
  ultimately show ?thesis
    using assms(2) by (simp add: generateSlug_def trim_edge_hyphens_no_leading)
qed

section \<open>Properties of generateSlug and generateNamespace\<close>

lemma generateSlug_shape_all:
  "list_all slug_char (generateSlug name) \<and> no_leading_hyphen (generateSlug name)
   \<and> no_double_hyphen (generateSlug name) \<and> length (generateSlug name) \<le> slug_max"
proof -
  let ?t = "trim_edge_hyphens (collapse_hyphens (spaces_to_hyphen
       (strip_disallowed (js_trim (to_lower_case name)))))"
  have t: "list_all slug_char ?t \<and> no_double_hyphen ?t \<and> no_leading_hyphen ?t"
    using trimmed_pre_slug_shape [of name] by simp
  then show ?thesis
    by (auto simp: generateSlug_def list_all_iff no_double_hyphen_take no_leading_hyphen_take
             dest: in_set_takeD)
qed

text \<open>
  C1. Every slug the code generates consists of lower-case letters, digits and hyphens,
  never starts with a hyphen, never holds two hyphens in a row, and is at most 40
  characters long.
\<close>

theorem generateSlug_shape:
  "list_all slug_char (generateSlug name) \<and> no_leading_hyphen (generateSlug name)
   \<and> no_double_hyphen (generateSlug name) \<and> length (generateSlug name) \<le> 40"
  using generateSlug_shape_all [of name] by (simp add: slug_max_def)

lemma generateSlug_ends_hyphen_truncated:
  "ends_with_hyphen (generateSlug name) \<Longrightarrow> length (generateSlug name) = slug_max"
proof -
  let ?t = "trim_edge_hyphens (collapse_hyphens (spaces_to_hyphen
       (strip_disallowed (js_trim (to_lower_case name)))))"
  assume e: "ends_with_hyphen (generateSlug name)"
  have nt: "\<not> ends_with_hyphen ?t" using trimmed_pre_slug_shape [of name] by simp
  show ?thesis
  proof (cases "length ?t \<le> slug_max")
    case True
    then have "generateSlug name = ?t" by (simp add: generateSlug_def)
    with e nt show ?thesis by simp
  next
    case False
    then show ?thesis by (simp add: generateSlug_def)
  qed
qed

text \<open>
  A slug ends with a hyphen only when \<open>substring(0, 40)\<close> cut the name inside a run
  of white space or hyphens: the trailing-hyphen trim runs before the truncation, so
  whatever the truncation leaves at the end stays.
\<close>

theorem generateSlug_trailing_hyphen_iff_cut:
  "ends_with_hyphen (generateSlug name) \<Longrightarrow> length (generateSlug name) = 40"
  using generateSlug_ends_hyphen_truncated by (simp add: slug_max_def)

lemma generateSlug_trailing_hyphen_iff_cut_witness:
  "ends_with_hyphen (generateSlug (replicate 39 CHR ''a'' @ '' b''))
   \<and> length (generateSlug (replicate 39 CHR ''a'' @ '' b'')) = 40"
proof -
  have h: "ends_with_hyphen (generateSlug (replicate 39 CHR ''a'' @ '' b''))" by code_simp
  show ?thesis using h generateSlug_trailing_hyphen_iff_cut [OF h] by simp
qed

text \<open>
  C3. Applying \<open>generateSlug\<close> to a slug gives the slug back, except that a trailing
  hyphen (left by the truncation) is dropped: \<open>generateSlug\<close> is idempotent exactly on
  the names whose slug does not end with a hyphen.
\<close>

theorem generateSlug_twice:
  "generateSlug (generateSlug name) =
     (if ends_with_hyphen (generateSlug name) then butlast (generateSlug name) else generateSlug name)"
  using generateSlug_shape_all [of name] by (intro generateSlug_of_shaped) auto

text \<open>
  The spec's \<open>slug(slug(name)) == slug(name)\<close> does not hold: a 39-letter word
  followed by a space and a letter has the slug of the 39 letters and a hyphen, and
  slugging that again drops the hyphen.
\<close>

theorem generateSlug_not_idempotent:
  "generateSlug (generateSlug (replicate 39 CHR ''a'' @ '' b'')) \<noteq>
   generateSlug (replicate 39 CHR ''a'' @ '' b'')"
  by code_simp

text \<open>
  C5. The namespace \<open>store-<slug>\<close> is a valid Kubernetes namespace name (an RFC 1123
  label) exactly when the slug is not empty and does not end with a hyphen.
\<close>

theorem generateNamespace_dns_label_iff:
  "dns_label (generateNamespace (generateSlug name)) \<longleftrightarrow>
     generateSlug name \<noteq> [] \<and> \<not> ends_with_hyphen (generateSlug name)"
proof -
  let ?s = "generateSlug name"
  have sh: "list_all slug_char ?s" "length ?s \<le> slug_max"
    using generateSlug_shape_all [of name] by simp_all
  have pre: "list_all slug_char ''store-''"
    by (simp add: char_class_defs Let_def)
  have len: "length (''store-'' @ ?s) \<le> 63" using sh(2) by (simp add: slug_max_def)
  show ?thesis
    using sh(1) pre len
    by (cases "?s = []") (auto simp: dns_label_def generateNamespace_def ends_with_hyphen_def)
qed

lemma dropWhile_keeps: "x \<in> set s \<Longrightarrow> \<not> P x \<Longrightarrow> x \<in> set (dropWhile P s)"
  by (induction s) auto

lemma js_trim_keeps: "x \<in> set s \<Longrightarrow> \<not> js_space x \<Longrightarrow> x \<in> set (js_trim s)"
  unfolding js_trim_def using dropWhile_keeps [of x _ js_space]
  by (metis set_rev)

lemma js_trim_subset: "set (js_trim s) \<subseteq> set s"
  unfolding js_trim_def by (auto dest!: set_dropWhileD)

lemma replace_runs_keeps: "x \<in> set s \<Longrightarrow> \<not> P x \<Longrightarrow> x \<in> set (replace_runs P b s)"
  by (induction P b s rule: replace_runs.induct) auto

lemma trim_edge_hyphens_keeps: "x \<in> set s \<Longrightarrow> x \<noteq> CHR ''-'' \<Longrightarrow> x \<in> set (trim_edge_hyphens s)"
proof -
  assume x: "x \<in> set s" "x \<noteq> CHR ''-''"
  let ?s1 = "case s of c # r \<Rightarrow> if c = CHR ''-'' then r else s | [] \<Rightarrow> []"
  have s1: "x \<in> set ?s1" using x by (cases s) auto
  have "x \<in> set (butlast ?s1)" if "last ?s1 = CHR ''-''"
  proof -
    have "?s1 = butlast ?s1 @ [last ?s1]" using s1 by (intro append_butlast_last_id [symmetric]) auto
    then have "x \<in> set (butlast ?s1) \<or> x = last ?s1" using s1 by (metis rotate1.simps(2) set_ConsD set_rotate1)
    then show ?thesis using that x(2) by auto
  qed
  then show ?thesis using s1 by (simp add: trim_edge_hyphens_def Let_def)
qed

lemma hyphens_trim_empty:
  "list_all (\<lambda>c. c = CHR ''-'') s \<Longrightarrow> no_double_hyphen s \<Longrightarrow> trim_edge_hyphens s = []"
  by (cases s rule: no_double_hyphen.cases) (auto simp: trim_edge_hyphens_def)

text \<open>
  C6. The slug of a name is empty exactly when the name holds no ASCII letter or digit.
  Names such as \<open>--\<close> or \<open>a\<close> followed by nothing but blanks pass the zod schema, which
  only asks for two to fifty characters of \<open>[a-zA-Z0-9\s-]\<close>; for every name without a
  letter or digit the namespace is \<open>store-\<close>, which is no valid namespace name.
\<close>

theorem valid_name_empty_slug:
  "generateSlug name = [] \<longleftrightarrow> \<not> list_ex name_alnum name"
proof
  assume e: "generateSlug name = []"
  show "\<not> list_ex name_alnum name"
  proof
    assume "list_ex name_alnum name"
    then obtain c where c: "c \<in> set name" "name_alnum c" by (auto simp: list_ex_iff)
    let ?x = "js_lower_char c"
    have k: "slug_keep ?x" "\<not> js_space ?x" "?x \<noteq> CHR ''-''"
      using c(2) by (auto simp: name_alnum_def slug_keep_def js_lower_char_def char_class_defs Let_def)
    have "?x \<in> set (js_trim (to_lower_case name))"
      using c(1) k(2) by (intro js_trim_keeps) (simp_all add: to_lower_case_def)
    then have "?x \<in> set (strip_disallowed (js_trim (to_lower_case name)))"
      using k(1) by (simp add: strip_disallowed_def)
    then have "?x \<in> set (trim_edge_hyphens (collapse_hyphens (spaces_to_hyphen (strip_disallowed (js_trim (to_lower_case name))))))"
      using k(2,3) unfolding collapse_hyphens_def spaces_to_hyphen_def
      by (intro trim_edge_hyphens_keeps replace_runs_keeps) simp_all
    then show False using e by (auto simp: generateSlug_def slug_max_def)
  qed
next
  assume n: "\<not> list_ex name_alnum name"
  let ?t = "strip_disallowed (js_trim (to_lower_case name))"
  have "\<forall>x \<in> set ?t. js_space x \<or> x = CHR ''-''"
  proof
    fix x assume "x \<in> set ?t"
    then have x: "slug_keep x" "x \<in> set (to_lower_case name)"
      using js_trim_subset [of "to_lower_case name"] by (auto simp: strip_disallowed_def)
    then obtain c where "c \<in> set name" "x = js_lower_char c" by (auto simp: to_lower_case_def)
    moreover have "\<not> name_alnum c" using calculation(1) n by (auto simp: list_ex_iff)
    ultimately show "js_space x \<or> x = CHR ''-''"
      using x(1) by (auto simp: slug_keep_def name_alnum_def js_lower_char_def char_class_defs Let_def)
  qed
  then have "list_all (\<lambda>c. c = CHR ''-'') (collapse_hyphens (spaces_to_hyphen ?t))"
    using set_replace_runs [of js_space False ?t]
      set_replace_runs [of "\<lambda>c. c = CHR ''-''" False "spaces_to_hyphen ?t"]
    by (fastforce simp: collapse_hyphens_def spaces_to_hyphen_def list_all_iff)
  moreover have "no_double_hyphen (collapse_hyphens (spaces_to_hyphen ?t))"
    using collapse_runs_shape by (simp add: collapse_hyphens_def)
  ultimately show "generateSlug name = []"
    by (simp add: generateSlug_def hyphens_trim_empty)
qed

end
