(* ===== verification/Queue.thy ===== *)
theory Queue
  imports Prelude
begin

text \<open>
  The provisioning queue of \<open>src/backend/src/services/provisioningService.ts\<close>: a
  \<open>PQueue\<close> of the \<open>p-queue\<close> library with \<open>concurrency = provisioningConcurrency\<close>.
  The library is not part of the repository; its documented behaviour is modelled: a task
  added while fewer than \<open>concurrency\<close> tasks run starts at once, otherwise it waits; when
  a running task settles, the oldest waiting task starts. \<open>queue.size\<close> is the number
  waiting and \<open>queue.pending\<close> the number running. The queue holds the tasks' keys
  (for the provisioning queue, the stores).
\<close>

record 'a pqueue =
  pq_waiting :: "'a list"
  pq_running :: "'a list"
  pq_concurrency :: nat

definition pq_empty :: "nat \<Rightarrow> 'a pqueue" where
  "pq_empty n = \<lparr>pq_waiting = [], pq_running = [], pq_concurrency = n\<rparr>"

text \<open>\<open>queue.add(task)\<close>.\<close>

definition pq_add :: "'a \<Rightarrow> 'a pqueue \<Rightarrow> 'a pqueue" where
  "pq_add x q = (if length (pq_running q) < pq_concurrency q
                 then q\<lparr>pq_running := pq_running q @ [x]\<rparr>
                 else q\<lparr>pq_waiting := pq_waiting q @ [x]\<rparr>)"

text \<open>A running task settles (returns or throws): the next waiting task starts.\<close>

definition pq_done :: "'a \<Rightarrow> 'a pqueue \<Rightarrow> 'a pqueue" where
  "pq_done x q = (case pq_waiting q of
       [] \<Rightarrow> q\<lparr>pq_running := remove1 x (pq_running q)\<rparr>
     | y # ys \<Rightarrow> q\<lparr>pq_waiting := ys, pq_running := remove1 x (pq_running q) @ [y]\<rparr>)"

text \<open>\<open>getQueueSize()\<close>: \<open>queue.size + queue.pending\<close>.\<close>

definition getQueueSize :: "'a pqueue \<Rightarrow> nat" where
  "getQueueSize q = length (pq_waiting q) + length (pq_running q)"

datatype 'a pq_event = PAdd 'a | PDone 'a

text \<open>
  A run of the queue: events applied in order. \<open>PDone x\<close> is only an event of the
  queue when \<open>x\<close> runs; otherwise the queue ignores it. The run also returns the tasks in
  the order they started.
\<close>

fun pq_step :: "'a pq_event \<Rightarrow> 'a pqueue \<Rightarrow> 'a pqueue \<times> 'a list" where
  "pq_step (PAdd x) q = (pq_add x q, if length (pq_running q) < pq_concurrency q then [x] else [])"
| "pq_step (PDone x) q = (if x \<in> set (pq_running q)
                           then (pq_done x q, take 1 (pq_waiting q)) else (q, []))"

fun pq_run :: "'a pq_event list \<Rightarrow> 'a pqueue \<Rightarrow> 'a pqueue \<times> 'a list" where
  "pq_run [] q = (q, [])"
| "pq_run (e # es) q = (let (q1, s1) = pq_step e q; (q2, s2) = pq_run es q1 in (q2, s1 @ s2))"

fun added :: "'a pq_event list \<Rightarrow> 'a list" where
  "added [] = []"
| "added (PAdd x # es) = x # added es"
| "added (PDone _ # es) = added es"

text \<open>The queue's invariant: it runs at most \<open>concurrency\<close> tasks, and it leaves a task waiting only when all slots are taken.\<close>

definition pq_inv :: "'a pqueue \<Rightarrow> bool" where
  "pq_inv q = (length (pq_running q) \<le> pq_concurrency q
               \<and> (pq_waiting q \<noteq> [] \<longrightarrow> length (pq_running q) = pq_concurrency q))"

text \<open>
  The number of settlements in a run, and that every settlement of a run is of a task then
  running and the run's queue is the one the events act on.
\<close>

fun dones :: "'a pq_event list \<Rightarrow> nat" where
  "dones [] = 0"
| "dones (PAdd _ # es) = dones es"
| "dones (PDone _ # es) = Suc (dones es)"

fun settles :: "'a pq_event list \<Rightarrow> 'a pqueue \<Rightarrow> bool" where
  "settles [] q = True"
| "settles (PAdd x # es) q = settles es (pq_add x q)"
| "settles (PDone x # es) q = (x \<in> set (pq_running q) \<and> settles es (pq_done x q))"

section \<open>Lemmas\<close>

lemma pq_inv_empty: "pq_inv (pq_empty n)"
  by (simp add: pq_inv_def pq_empty_def)

lemma pq_step_concurrency: "pq_concurrency (fst (pq_step e q)) = pq_concurrency q"
  by (cases e) (auto simp: pq_add_def pq_done_def split: list.splits)

lemma length_remove1_in: "x \<in> set xs \<Longrightarrow> Suc (length (remove1 x xs)) = length xs"
  by (induction xs) auto

lemma pq_step_inv: "pq_inv q \<Longrightarrow> pq_inv (fst (pq_step e q))"
proof (cases e)
  case (PDone x)
  assume i: "pq_inv q"
  show ?thesis
  proof (cases "x \<in> set (pq_running q)")
    case True
    note l = length_remove1_in [OF True]
    show ?thesis using i l PDone True by (auto simp: pq_inv_def pq_done_def split: list.splits)
  qed (use i PDone in simp)
qed (auto simp: pq_inv_def pq_add_def)

text \<open>One event keeps the arrival order: what waited, followed by what arrived, is what started followed by what waits.\<close>

lemma pq_step_fifo:
  "pq_inv q \<Longrightarrow> pq_step e q = (q1, s1) \<Longrightarrow> pq_waiting q @ added [e] = s1 @ pq_waiting q1"
  by (cases e) (auto simp: pq_inv_def pq_add_def pq_done_def split: list.splits if_splits)

lemma added_Cons: "added (e # es) = added [e] @ added es"
  by (cases e) simp_all

lemma pq_run_inv:
  "pq_inv q \<Longrightarrow> pq_run es q = (q', st) \<Longrightarrow>
     pq_inv q' \<and> pq_concurrency q' = pq_concurrency q \<and> pq_waiting q @ added es = st @ pq_waiting q'"
proof (induction es arbitrary: q st q')
  case Nil
  then show ?case by simp
next
  case (Cons e es)
  obtain q1 s1 where s: "pq_step e q = (q1, s1)" by fastforce
  obtain q2 s2 where r: "pq_run es q1 = (q2, s2)" by fastforce
  have i1: "pq_inv q1" using pq_step_inv [OF Cons.prems(1), of e] s by simp
  have c1: "pq_concurrency q1 = pq_concurrency q" using pq_step_concurrency [of e q] s by simp
  have f1: "pq_waiting q @ added [e] = s1 @ pq_waiting q1" by (rule pq_step_fifo [OF Cons.prems(1) s])
  have ih: "pq_inv q2 \<and> pq_concurrency q2 = pq_concurrency q1 \<and> pq_waiting q1 @ added es = s2 @ pq_waiting q2"
    by (rule Cons.IH [OF i1 r])
  have "q' = q2" "st = s1 @ s2" using Cons.prems(2) s r by simp_all
  then show ?case using ih c1 f1 added_Cons [of e es] by (metis append.assoc)
qed

text \<open>Every settlement with a task waiting starts one: after \<open>k\<close> settlements the first \<open>k\<close> waiting tasks have started, in order.\<close>

lemma pq_run_starts:
  "pq_inv q \<Longrightarrow> settles es q \<Longrightarrow> min (dones es) (length (pq_waiting q)) \<le> length (snd (pq_run es q))"
proof (induction es arbitrary: q)
  case Nil
  then show ?case by simp
next
  case (Cons e es)
  obtain q1 s1 where s: "pq_step e q = (q1, s1)" by fastforce
  have i1: "pq_inv q1" using pq_step_inv [OF Cons.prems(1), of e] s by simp
  show ?case
  proof (cases e)
    case (PAdd x)
    have "q1 = pq_add x q" using s PAdd by simp
    then have "length (pq_waiting q) \<le> length (pq_waiting q1)" by (simp add: pq_add_def)
    moreover have "min (dones es) (length (pq_waiting q1)) \<le> length (snd (pq_run es q1))"
      using Cons.IH [OF i1] Cons.prems(2) PAdd s by simp
    ultimately show ?thesis using PAdd s by (auto simp: split_beta)
  next
    case (PDone x)
    have x: "x \<in> set (pq_running q)" and q1: "q1 = pq_done x q" and s1: "s1 = take 1 (pq_waiting q)"
      using Cons.prems(2) s PDone by auto
    have "min (dones es) (length (pq_waiting q1)) \<le> length (snd (pq_run es q1))"
      using Cons.IH [OF i1] Cons.prems(2) PDone q1 by simp
    moreover have "length (pq_waiting q1) = length (pq_waiting q) - 1"
      using q1 by (simp add: pq_done_def split: list.splits)
    ultimately show ?thesis using PDone s x s1 by (auto simp: split_beta)
  qed
qed

lemma take_prefix_common:
  assumes "st @ w' = w @ a" and "k \<le> length st" and "k \<le> length w"
  shows "take k st = take k w"
proof -
  have "take k st = take k (st @ w')" using assms(2) by simp
  also have "\<dots> = take k w" using assms(1,3) by simp
  finally show ?thesis .
qed

lemma pq_run_live:
  assumes "pq_inv q" and "settles es q" and "k \<le> dones es" and "k \<le> length (pq_waiting q)"
  shows "take k (snd (pq_run es q)) = take k (pq_waiting q)"
proof -
  obtain q' st where r: "pq_run es q = (q', st)" by fastforce
  have f: "st @ pq_waiting q' = pq_waiting q @ added es" using pq_run_inv [OF assms(1) r] by simp
  have "k \<le> length st" using pq_run_starts [OF assms(1,2)] assms(3,4) r by simp
  then show ?thesis using take_prefix_common [OF f _ assms(4)] r by simp
qed

text \<open>
  C15. From the empty queue, after any sequence of additions and settlements, at most
  \<open>concurrency\<close> tasks run, a task waits only while every slot is taken, and the tasks
  start in exactly the order they were added (FIFO admission): the started tasks followed
  by the waiting ones are the added ones.
\<close>

theorem pq_run_fifo_bounded:
  assumes "pq_run es (pq_empty n) = (q, st)"
  shows "length (pq_running q) \<le> n \<and> (pq_waiting q \<noteq> [] \<longrightarrow> length (pq_running q) = n)
         \<and> st @ pq_waiting q = added es"
  using pq_run_inv [OF pq_inv_empty assms] by (simp add: pq_inv_def pq_empty_def)

lemma pq_run_fifo_bounded_witness:
  "pq_run [PAdd (1::nat), PAdd 2, PAdd 3, PDone 1] (pq_empty 2) = (\<lparr>pq_waiting = [], pq_running = [2, 3], pq_concurrency = 2\<rparr>, [1, 2, 3])
   \<and> length [2::nat, 3] \<le> 2 \<and> [1::nat, 2, 3] @ [] = added [PAdd (1::nat), PAdd 2, PAdd 3, PDone 1]"
proof -
  have r: "pq_run [PAdd (1::nat), PAdd 2, PAdd 3, PDone 1] (pq_empty 2) = (\<lparr>pq_waiting = [], pq_running = [2, 3], pq_concurrency = 2\<rparr>, [1, 2, 3])"
    by (simp add: pq_empty_def pq_add_def pq_done_def)
  show ?thesis using r pq_run_fifo_bounded [OF r] by simp
qed

end
