(* ===== verification/Store_Repo.thy ===== *)
theory Store_Repo
  imports Prelude
begin

text \<open>
  The \<open>stores\<close> table and its repository: \<open>src/backend/src/db/repositories/storeRepository.ts\<close>
  over the schema of \<open>src/backend/src/db/migrate.ts\<close> (migration \<open>001_create_stores\<close>).
  A row is a \<^theory_text>\<open>record\<close> with the columns of the table; the CHECK constraints
  on \<open>status\<close> and \<open>plan\<close> are the datatypes \<open>store_status\<close> and \<open>store_plan\<close>;
  the table is the list of its rows in insertion order, and the PRIMARY KEY and
  UNIQUE constraints on \<open>id\<close>, \<open>slug\<close> and \<open>namespace\<close> are checked by the
  \<open>INSERT\<close>. Every repository function is a function on the table; an \<open>UPDATE\<close> or
  \<open>DELETE\<close> whose \<open>WHERE id = ?\<close> matches no row changes nothing, as in SQLite.
  \<open>datetime('now')\<close> is the clock value passed in.
\<close>

datatype store_status = Provisioning | Ready | Failed | Deleting

datatype store_plan = Woocommerce | Medusa

text \<open>The column names, prefixed \<open>st_\<close> so that they do not clash with HOL's constants.\<close>

record store =
  st_id :: uuid
  st_name :: string
  st_slug :: string
  st_namespace :: string
  st_status :: store_status
  st_plan :: store_plan
  st_url :: "string option"
  st_adminUrl :: "string option"
  st_adminEmail :: string
  st_adminPassword :: "string option"
  st_errorMessage :: "string option"
  st_createdAt :: ms
  st_provisionedAt :: "ms option"

type_synonym store_table = "store list"

section \<open>Reads\<close>

text \<open>\<open>SELECT * FROM stores WHERE id = ?\<close> and \<open>... WHERE slug = ?\<close>: \<open>null\<close> is \<open>None\<close>.\<close>

definition getStoreById :: "uuid \<Rightarrow> store_table \<Rightarrow> store option" where
  "getStoreById sid tbl = find (\<lambda>r. st_id r = sid) tbl"

definition getStoreBySlug :: "string \<Rightarrow> store_table \<Rightarrow> store option" where
  "getStoreBySlug slug tbl = find (\<lambda>r. st_slug r = slug) tbl"

text \<open>
  \<open>SELECT * FROM stores WHERE status != 'Deleting' ORDER BY created_at DESC\<close>.
  \<open>created_at\<close> grows with insertion order, so the newest row first is the reversed
  table; rows created within the same second come in reverse insertion order here, an
  order SQLite does not promise.
\<close>

definition getAllStores :: "store_table \<Rightarrow> store list" where
  "getAllStores tbl = rev (filter (\<lambda>r. st_status r \<noteq> Deleting) tbl)"

text \<open>\<open>SELECT COUNT(*) FROM stores WHERE status NOT IN ('Deleting')\<close>.\<close>

definition getStoreCount :: "store_table \<Rightarrow> nat" where
  "getStoreCount tbl = length (filter (\<lambda>r. st_status r \<noteq> Deleting) tbl)"

section \<open>Writes\<close>

text \<open>
  \<open>createStore\<close>: the \<open>INSERT\<close> with status \<open>'Provisioning'\<close> and the other columns
  at their defaults, then \<open>getStoreById(id)!\<close>. The id is the caller's fresh
  \<open>uuidv4()\<close>. A row with the same id, slug or namespace makes the \<open>INSERT\<close> throw.
\<close>

definition new_store_row ::
  "uuid \<Rightarrow> string \<Rightarrow> string \<Rightarrow> string \<Rightarrow> string \<Rightarrow> store_plan \<Rightarrow> ms \<Rightarrow> store" where
  "new_store_row sid name slug ns email plan now =
     \<lparr>st_id = sid, st_name = name, st_slug = slug, st_namespace = ns, st_status = Provisioning,
      st_plan = plan, st_url = None, st_adminUrl = None, st_adminEmail = email,
      st_adminPassword = None, st_errorMessage = None, st_createdAt = now, st_provisionedAt = None\<rparr>"

definition createStore ::
  "uuid \<Rightarrow> string \<Rightarrow> string \<Rightarrow> string \<Rightarrow> string \<Rightarrow> store_plan \<Rightarrow> ms \<Rightarrow> store_table
   \<Rightarrow> (error + store) \<times> store_table" where
  "createStore sid name slug ns email plan now tbl =
     (if list_ex (\<lambda>r. st_id r = sid) tbl then
        (Inl (SqliteError ''UNIQUE constraint failed: stores.id''), tbl)
      else if list_ex (\<lambda>r. st_slug r = slug) tbl then
        (Inl (SqliteError ''UNIQUE constraint failed: stores.slug''), tbl)
      else if list_ex (\<lambda>r. st_namespace r = ns) tbl then
        (Inl (SqliteError ''UNIQUE constraint failed: stores.namespace''), tbl)
      else (let r = new_store_row sid name slug ns email plan now in (Inr r, tbl @ [r])))"

text \<open>Every \<open>UPDATE ... WHERE id = ?\<close> changes the row with that id.\<close>

definition update_row :: "uuid \<Rightarrow> (store \<Rightarrow> store) \<Rightarrow> store_table \<Rightarrow> store_table" where
  "update_row sid f tbl = map (\<lambda>r. if st_id r = sid then f r else r) tbl"

text \<open>
  \<open>updateStoreStatus(id, status, errorMessage?)\<close>: the error message is written only when
  it is truthy, that is, given and not the empty string; otherwise the old message stays.
\<close>

definition updateStoreStatus :: "uuid \<Rightarrow> store_status \<Rightarrow> string option \<Rightarrow> store_table \<Rightarrow> store_table" where
  "updateStoreStatus sid status msg tbl =
     (case msg of
        Some m \<Rightarrow> if m \<noteq> [] then update_row sid (\<lambda>r. r\<lparr>st_status := status, st_errorMessage := Some m\<rparr>) tbl
                  else update_row sid (\<lambda>r. r\<lparr>st_status := status\<rparr>) tbl
      | None \<Rightarrow> update_row sid (\<lambda>r. r\<lparr>st_status := status\<rparr>) tbl)"

definition updateStoreReady :: "uuid \<Rightarrow> string \<Rightarrow> string \<Rightarrow> string \<Rightarrow> ms \<Rightarrow> store_table \<Rightarrow> store_table" where
  "updateStoreReady sid url adminUrl pw now tbl =
     update_row sid (\<lambda>r. r\<lparr>st_status := Ready, st_url := Some url, st_adminUrl := Some adminUrl,
                           st_adminPassword := Some pw, st_provisionedAt := Some now\<rparr>) tbl"

definition deleteStore :: "uuid \<Rightarrow> store_table \<Rightarrow> store_table" where
  "deleteStore sid tbl = filter (\<lambda>r. st_id r \<noteq> sid) tbl"

definition updateAdminPassword :: "uuid \<Rightarrow> string \<Rightarrow> store_table \<Rightarrow> store_table" where
  "updateAdminPassword sid pw tbl = update_row sid (\<lambda>r. r\<lparr>st_adminPassword := Some pw\<rparr>) tbl"

section \<open>The keys of the table\<close>

text \<open>
  The invariant the schema enforces: ids, slugs and namespaces are each distinct.
\<close>

definition table_wf :: "store_table \<Rightarrow> bool" where
  "table_wf tbl = (distinct (map st_id tbl) \<and> distinct (map st_slug tbl) \<and> distinct (map st_namespace tbl))"

text \<open>The writes of the repository as one datatype, so that a property of all of them is one lemma.\<close>

datatype repo_write =
    RCreate uuid string string string string store_plan ms
  | RUpdateStatus uuid store_status "string option"
  | RUpdateReady uuid string string string ms
  | RDelete uuid
  | RUpdatePassword uuid string

fun repo_apply :: "repo_write \<Rightarrow> store_table \<Rightarrow> store_table" where
  "repo_apply (RCreate sid name slug ns email plan now) tbl = snd (createStore sid name slug ns email plan now tbl)"
| "repo_apply (RUpdateStatus sid status msg) tbl = updateStoreStatus sid status msg tbl"
| "repo_apply (RUpdateReady sid url adminUrl pw now) tbl = updateStoreReady sid url adminUrl pw now tbl"
| "repo_apply (RDelete sid) tbl = deleteStore sid tbl"
| "repo_apply (RUpdatePassword sid pw) tbl = updateAdminPassword sid pw tbl"

section \<open>Lemmas\<close>

text \<open>The columns no update writes.\<close>

definition keeps_keys :: "(store \<Rightarrow> store) \<Rightarrow> bool" where
  "keeps_keys f = (\<forall>r. st_id (f r) = st_id r \<and> st_slug (f r) = st_slug r \<and> st_namespace (f r) = st_namespace r
      \<and> st_name (f r) = st_name r \<and> st_plan (f r) = st_plan r \<and> st_adminEmail (f r) = st_adminEmail r
      \<and> st_createdAt (f r) = st_createdAt r)"

lemma keeps_keys_upd [simp]:
  "keeps_keys (\<lambda>r. r\<lparr>st_status := a\<rparr>)"
  "keeps_keys (\<lambda>r. r\<lparr>st_status := a, st_errorMessage := m\<rparr>)"
  "keeps_keys (\<lambda>r. r\<lparr>st_status := a, st_url := u, st_adminUrl := au, st_adminPassword := p, st_provisionedAt := t\<rparr>)"
  "keeps_keys (\<lambda>r. r\<lparr>st_adminPassword := p\<rparr>)"
  by (simp_all add: keeps_keys_def)

lemma update_row_keys:
  assumes "keeps_keys f"
  shows "map st_id (update_row sid f tbl) = map st_id tbl"
    and "map st_slug (update_row sid f tbl) = map st_slug tbl"
    and "map st_namespace (update_row sid f tbl) = map st_namespace tbl"
  using assms by (induction tbl) (simp_all add: update_row_def keeps_keys_def)

lemma table_wf_update_row: "keeps_keys f \<Longrightarrow> table_wf (update_row sid f tbl) = table_wf tbl"
  by (simp add: table_wf_def update_row_keys)

lemma update_row_other:
  "sid' \<noteq> sid \<Longrightarrow> keeps_keys f \<Longrightarrow> getStoreById sid' (update_row sid f tbl) = getStoreById sid' tbl"
  by (induction tbl) (auto simp: getStoreById_def update_row_def keeps_keys_def)

lemma update_row_same:
  "keeps_keys f \<Longrightarrow> getStoreById sid (update_row sid f tbl) = map_option f (getStoreById sid tbl)"
  by (induction tbl) (auto simp: getStoreById_def update_row_def keeps_keys_def)

lemma getStoreById_SomeD: "getStoreById sid tbl = Some r \<Longrightarrow> r \<in> set tbl \<and> st_id r = sid"
  by (auto simp: getStoreById_def dest: find_Some_iff [THEN iffD1] simp: find_Some_iff)

lemma getStoreById_None_iff: "getStoreById sid tbl = None \<longleftrightarrow> \<not> list_ex (\<lambda>r. st_id r = sid) tbl"
  by (auto simp: getStoreById_def find_None_iff list_ex_iff)

lemma getStoreById_append_new:
  "\<not> list_ex (\<lambda>r. st_id r = sid) tbl \<Longrightarrow> st_id r = sid \<Longrightarrow> getStoreById sid (tbl @ [r]) = Some r"
  by (induction tbl) (auto simp: getStoreById_def)

lemma getStoreById_append_other:
  "st_id r \<noteq> sid \<Longrightarrow> getStoreById sid (tbl @ [r]) = getStoreById sid tbl"
  by (induction tbl) (auto simp: getStoreById_def)

lemma getStoreById_deleteStore [simp]: "getStoreById sid (deleteStore sid tbl) = None"
  by (simp add: getStoreById_def deleteStore_def find_None_iff)

lemma getStoreById_deleteStore_other:
  "sid' \<noteq> sid \<Longrightarrow> getStoreById sid' (deleteStore sid tbl) = getStoreById sid' tbl"
  by (induction tbl) (auto simp: getStoreById_def deleteStore_def)

lemma createStore_cases:
  "createStore sid name slug ns email plan now tbl = (Inr r, tbl') \<Longrightarrow>
     r = new_store_row sid name slug ns email plan now \<and> tbl' = tbl @ [r]
     \<and> \<not> list_ex (\<lambda>r. st_id r = sid) tbl \<and> \<not> list_ex (\<lambda>r. st_slug r = slug) tbl
     \<and> \<not> list_ex (\<lambda>r. st_namespace r = ns) tbl"
  by (auto simp: createStore_def Let_def split: if_splits)

lemma createStore_Inl_same: "createStore sid name slug ns email plan now tbl = (Inl e, tbl') \<Longrightarrow> tbl' = tbl"
  by (auto simp: createStore_def Let_def split: if_splits)

lemma distinct_map_filter: "distinct (map f xs) \<Longrightarrow> distinct (map f (filter P xs))"
  by (induction xs) auto

lemma table_wf_deleteStore: "table_wf tbl \<Longrightarrow> table_wf (deleteStore sid tbl)"
  by (simp add: table_wf_def deleteStore_def distinct_map_filter)

lemma table_wf_createStore:
  assumes "table_wf tbl"
  shows "table_wf (snd (createStore sid name slug ns email plan now tbl))"
  using assms
  by (auto simp: createStore_def Let_def table_wf_def new_store_row_def list_ex_iff)

lemmas repo_write_defs = updateStoreStatus_def updateStoreReady_def updateAdminPassword_def

text \<open>The row change of \<open>updateStoreStatus\<close>, as one function.\<close>

definition set_status :: "store_status \<Rightarrow> string option \<Rightarrow> store \<Rightarrow> store" where
  "set_status st msg r = (case msg of
       Some m \<Rightarrow> if m \<noteq> [] then r\<lparr>st_status := st, st_errorMessage := Some m\<rparr> else r\<lparr>st_status := st\<rparr>
     | None \<Rightarrow> r\<lparr>st_status := st\<rparr>)"

lemma updateStoreStatus_row: "updateStoreStatus sid st msg tbl = update_row sid (set_status st msg) tbl"
  by (auto simp: updateStoreStatus_def set_status_def update_row_def split: option.splits)

lemma keeps_keys_set_status [simp]: "keeps_keys (set_status st msg)"
  by (simp add: keeps_keys_def set_status_def split: option.splits)

lemma getStoreById_updateStoreStatus [simp]:
  "getStoreById sid (updateStoreStatus sid' st msg tbl)
     = (if sid' = sid then map_option (set_status st msg) (getStoreById sid tbl) else getStoreById sid tbl)"
  by (simp add: updateStoreStatus_row update_row_same update_row_other)

lemma getStoreById_updateStoreReady [simp]:
  "getStoreById sid (updateStoreReady sid' url au pw now tbl)
     = (if sid' = sid then map_option (\<lambda>r. r\<lparr>st_status := Ready, st_url := Some url, st_adminUrl := Some au,
                             st_adminPassword := Some pw, st_provisionedAt := Some now\<rparr>) (getStoreById sid tbl)
        else getStoreById sid tbl)"
  by (simp add: updateStoreReady_def update_row_same update_row_other)

lemma set_status_Some [simp]:
  "m \<noteq> [] \<Longrightarrow> set_status st (Some m) r = r\<lparr>st_status := st, st_errorMessage := Some m\<rparr>"
  by (simp add: set_status_def)

lemma st_status_set_status [simp]: "st_status (set_status st msg r) = st"
  by (simp add: set_status_def split: option.splits)

text \<open>
  C7. Every write of the repository keeps the keys of the table distinct: the
  \<open>INSERT\<close> refuses a duplicate id, slug or namespace, and no \<open>UPDATE\<close> writes a key.
\<close>

theorem repo_apply_table_wf: "table_wf tbl \<Longrightarrow> table_wf (repo_apply w tbl)"
proof (cases w)
  case (RCreate sid name slug ns email plan now)
  assume "table_wf tbl"
  then show ?thesis using RCreate by (simp add: table_wf_createStore)
next
  case (RUpdateStatus sid status msg)
  assume "table_wf tbl"
  then show ?thesis using RUpdateStatus
    by (simp add: updateStoreStatus_def table_wf_update_row split: option.splits)
next
  case (RUpdateReady sid url adminUrl pw now)
  assume "table_wf tbl"
  then show ?thesis using RUpdateReady by (simp add: updateStoreReady_def table_wf_update_row)
next
  case (RDelete sid)
  assume "table_wf tbl"
  then show ?thesis using RDelete by (simp add: table_wf_deleteStore)
next
  case (RUpdatePassword sid pw)
  assume "table_wf tbl"
  then show ?thesis using RUpdatePassword by (simp add: updateAdminPassword_def table_wf_update_row)
qed

lemma repo_apply_table_wf_witness:
  "table_wf ([] :: store_table) \<and> table_wf (repo_apply (RCreate 1 ''Shop'' ''shop'' ''store-shop'' ''a@b.c'' Woocommerce 0) [])"
proof -
  have h: "table_wf ([] :: store_table)" by (simp add: table_wf_def)
  show ?thesis
    using h repo_apply_table_wf [OF h, of "RCreate 1 ''Shop'' ''shop'' ''store-shop'' ''a@b.c'' Woocommerce 0"]
    by simp
qed

text \<open>
  C8. A row's identity columns never change while it exists: after any write, a store that
  is still there has the slug, namespace, name, plan, admin e-mail and creation time it
  had before (the spec: the slug/namespace pair is fixed for the store's lifetime; the
  plan is immutable after creation).
\<close>

theorem repo_apply_keeps_identity:
  assumes "getStoreById sid tbl = Some r" and "getStoreById sid (repo_apply w tbl) = Some r'"
  shows "st_slug r' = st_slug r \<and> st_namespace r' = st_namespace r \<and> st_name r' = st_name r
         \<and> st_plan r' = st_plan r \<and> st_adminEmail r' = st_adminEmail r \<and> st_createdAt r' = st_createdAt r"
proof -
  have upd: "\<And>f sid0. keeps_keys f \<Longrightarrow> getStoreById sid (update_row sid0 f tbl) = Some r' \<Longrightarrow>
      st_slug r' = st_slug r \<and> st_namespace r' = st_namespace r \<and> st_name r' = st_name r
      \<and> st_plan r' = st_plan r \<and> st_adminEmail r' = st_adminEmail r \<and> st_createdAt r' = st_createdAt r"
    using assms(1)
    by (metis keeps_keys_def update_row_other update_row_same option.inject option.simps(9))
  show ?thesis
  proof (cases w)
    case (RCreate sid0 name slug ns email plan now)
    obtain res tbl' where c: "createStore sid0 name slug ns email plan now tbl = (res, tbl')"
      by fastforce
    have "getStoreById sid tbl' = getStoreById sid tbl"
    proof (cases res)
      case (Inl e)
      with c have "tbl' = tbl" by (simp add: createStore_Inl_same)
      then show ?thesis by simp
    next
      case (Inr r0)
      with c have r0: "tbl' = tbl @ [r0]" "\<not> list_ex (\<lambda>r. st_id r = sid0) tbl" "st_id r0 = sid0"
        by (auto dest!: createStore_cases simp: new_store_row_def)
      have "sid0 \<noteq> sid"
        using r0(2) assms(1) getStoreById_None_iff [of sid tbl] by auto
      with r0 show ?thesis by (simp add: getStoreById_append_other)
    qed
    then show ?thesis using assms RCreate c by simp
  next
    case (RUpdateStatus sid0 status msg)
    show ?thesis
    proof (cases "\<exists>m. msg = Some m \<and> m \<noteq> []")
      case True
      then obtain m where "msg = Some m" "m \<noteq> []" by blast
      then have "repo_apply w tbl = update_row sid0 (\<lambda>r. r\<lparr>st_status := status, st_errorMessage := Some m\<rparr>) tbl"
        using RUpdateStatus by (simp add: updateStoreStatus_def)
      then show ?thesis using upd [OF keeps_keys_upd(2)] assms(2) by simp
    next
      case False
      then have "repo_apply w tbl = update_row sid0 (\<lambda>r. r\<lparr>st_status := status\<rparr>) tbl"
        using RUpdateStatus by (auto simp: updateStoreStatus_def split: option.splits)
      then show ?thesis using upd [OF keeps_keys_upd(1)] assms(2) by simp
    qed
  next
    case (RUpdateReady sid0 url adminUrl pw now)
    then show ?thesis using assms(2) upd [OF keeps_keys_upd(3)] by (simp add: updateStoreReady_def)
  next
    case (RDelete sid0)
    then show ?thesis using assms
      by (cases "sid0 = sid") (auto simp: getStoreById_deleteStore_other)
  next
    case (RUpdatePassword sid0 pw)
    then show ?thesis using assms(2) upd [OF keeps_keys_upd(4)] by (simp add: updateAdminPassword_def)
  qed
qed

lemma repo_apply_keeps_identity_witness:
  "getStoreById 1 [new_store_row 1 ''Shop'' ''shop'' ''store-shop'' ''a@b.c'' Woocommerce 0]
     = Some (new_store_row 1 ''Shop'' ''shop'' ''store-shop'' ''a@b.c'' Woocommerce 0)
   \<and> getStoreById 1 (repo_apply (RUpdateStatus 1 Failed (Some ''boom''))
       [new_store_row 1 ''Shop'' ''shop'' ''store-shop'' ''a@b.c'' Woocommerce 0])
     = Some ((new_store_row 1 ''Shop'' ''shop'' ''store-shop'' ''a@b.c'' Woocommerce 0)
              \<lparr>st_status := Failed, st_errorMessage := Some ''boom''\<rparr>)
   \<and> st_slug ((new_store_row 1 ''Shop'' ''shop'' ''store-shop'' ''a@b.c'' Woocommerce 0)
              \<lparr>st_status := Failed, st_errorMessage := Some ''boom''\<rparr>) = ''shop''"
proof -
  let ?r = "new_store_row 1 ''Shop'' ''shop'' ''store-shop'' ''a@b.c'' Woocommerce 0"
  let ?w = "RUpdateStatus 1 Failed (Some ''boom'')"
  let ?r' = "?r\<lparr>st_status := Failed, st_errorMessage := Some ''boom''\<rparr>"
  have h1: "getStoreById 1 [?r] = Some ?r" by (simp add: getStoreById_def new_store_row_def)
  have h2: "getStoreById 1 (repo_apply ?w [?r]) = Some ?r'"
    by (simp add: getStoreById_def new_store_row_def updateStoreStatus_def update_row_def)
  have "st_slug ?r' = st_slug ?r" using repo_apply_keeps_identity [OF h1 h2] by simp
  then show ?thesis using h1 h2 by (simp add: new_store_row_def)
qed

section \<open>The table as a finite map\<close>

text \<open>
  The abstract view of the stores table: the rows keyed by id. The schema's
  \<open>PRIMARY KEY\<close> makes this a function, and each write of the repository is the map
  operation below: an insert that adds a fresh key with no clash of slug or namespace, an
  update of the row at a key, a removal.
\<close>

definition tbl_abs :: "store_table \<Rightarrow> (uuid \<rightharpoonup> store)" where
  "tbl_abs tbl = map_of (map (\<lambda>r. (st_id r, r)) tbl)"

fun map_write :: "repo_write \<Rightarrow> (uuid \<rightharpoonup> store) \<Rightarrow> (uuid \<rightharpoonup> store)" where
  "map_write (RCreate sid name slug ns email plan now) m =
     (if sid \<in> dom m \<or> slug \<in> st_slug ` ran m \<or> ns \<in> st_namespace ` ran m then m
      else m(sid \<mapsto> new_store_row sid name slug ns email plan now))"
| "map_write (RUpdateStatus sid s msg) m = m(sid := map_option (set_status s msg) (m sid))"
| "map_write (RUpdateReady sid url adminUrl pw now) m =
     m(sid := map_option (\<lambda>r. r\<lparr>st_status := Ready, st_url := Some url, st_adminUrl := Some adminUrl,
                                 st_adminPassword := Some pw, st_provisionedAt := Some now\<rparr>) (m sid))"
| "map_write (RDelete sid) m = m(sid := None)"
| "map_write (RUpdatePassword sid pw) m = m(sid := map_option (\<lambda>r. r\<lparr>st_adminPassword := Some pw\<rparr>) (m sid))"

lemma tbl_abs_getStoreById: "tbl_abs tbl sid = getStoreById sid tbl"
  by (induction tbl) (auto simp: tbl_abs_def getStoreById_def)

lemma tbl_abs_update_row:
  "keeps_keys f \<Longrightarrow> tbl_abs (update_row sid f tbl) = (tbl_abs tbl)(sid := map_option f (tbl_abs tbl sid))"
  by (rule ext) (simp add: tbl_abs_getStoreById update_row_same update_row_other)

lemma ran_tbl_abs: "distinct (map st_id tbl) \<Longrightarrow> ran (tbl_abs tbl) = set tbl"
proof -
  assume d: "distinct (map st_id tbl)"
  have "distinct (map fst (map (\<lambda>r. (st_id r, r)) tbl))" using d by (simp add: comp_def)
  then show ?thesis by (simp add: tbl_abs_def ran_distinct image_image)
qed

lemma dom_tbl_abs: "dom (tbl_abs tbl) = st_id ` set tbl"
  by (simp add: tbl_abs_def dom_map_of_conv_image_fst image_image)

lemma getStoreCount_abs:
  assumes "distinct (map st_id tbl)"
  shows "getStoreCount tbl = card {r \<in> ran (tbl_abs tbl). st_status r \<noteq> Deleting}"
proof -
  have "distinct tbl" using assms by (simp add: distinct_map)
  then have "card (set (filter (\<lambda>r. st_status r \<noteq> Deleting) tbl)) = length (filter (\<lambda>r. st_status r \<noteq> Deleting) tbl)"
    by (intro distinct_card) simp
  then have c: "card {r \<in> set tbl. st_status r \<noteq> Deleting} = length (filter (\<lambda>r. st_status r \<noteq> Deleting) tbl)"
    by simp
  show ?thesis using assms c by (simp add: getStoreCount_def ran_tbl_abs)
qed

text \<open>
  C30. The stores table refines a finite map from ids to rows: as long as ids are distinct,
  every write of the repository acts on the map of the table as the map operation does,
  \<open>getStoreById\<close> is lookup in the map, and \<open>getStoreCount\<close> counts the rows of the
  map that are not being deleted.
\<close>

theorem repo_apply_refines_map:
  assumes "distinct (map st_id tbl)"
  shows "tbl_abs (repo_apply op tbl) = map_write op (tbl_abs tbl)
     \<and> getStoreById sid tbl = tbl_abs tbl sid
     \<and> getStoreCount tbl = card {r \<in> ran (tbl_abs tbl). st_status r \<noteq> Deleting}"
proof -
  have "tbl_abs (repo_apply op tbl) = map_write op (tbl_abs tbl)"
  proof (cases op)
    case (RCreate sid name slug ns email plan now)
    have g: "(sid \<in> dom (tbl_abs tbl) \<or> slug \<in> st_slug ` ran (tbl_abs tbl) \<or> ns \<in> st_namespace ` ran (tbl_abs tbl))
       = (list_ex (\<lambda>r. st_id r = sid) tbl \<or> list_ex (\<lambda>r. st_slug r = slug) tbl \<or> list_ex (\<lambda>r. st_namespace r = ns) tbl)"
      using assms by (auto simp: ran_tbl_abs dom_tbl_abs list_ex_iff)
    have a: "\<not> list_ex (\<lambda>r. st_id r = sid) tbl \<Longrightarrow>
        tbl_abs (tbl @ [new_store_row sid name slug ns email plan now])
          = (tbl_abs tbl)(sid \<mapsto> new_store_row sid name slug ns email plan now)"
      by (rule ext) (simp add: tbl_abs_getStoreById getStoreById_append_new getStoreById_append_other new_store_row_def)
    show ?thesis
      using RCreate g a by (auto simp: createStore_def Let_def)
  next
    case (RUpdateStatus sid s msg)
    then show ?thesis by (simp add: updateStoreStatus_row tbl_abs_update_row)
  next
    case (RUpdateReady sid url adminUrl pw now)
    then show ?thesis by (simp add: updateStoreReady_def tbl_abs_update_row)
  next
    case (RDelete sid)
    then show ?thesis
      by (auto intro!: ext simp: tbl_abs_getStoreById getStoreById_deleteStore_other)
  next
    case (RUpdatePassword sid pw)
    then show ?thesis by (simp add: updateAdminPassword_def tbl_abs_update_row)
  qed
  then show ?thesis using getStoreCount_abs [OF assms] tbl_abs_getStoreById by simp
qed

lemma repo_apply_refines_map_witness:
  "distinct (map st_id [new_store_row 7 ''Shop'' ''shop'' ''store-shop'' ''o@x.io'' Woocommerce 0])
   \<and> tbl_abs (repo_apply (RDelete 7) [new_store_row 7 ''Shop'' ''shop'' ''store-shop'' ''o@x.io'' Woocommerce 0])
       = map_write (RDelete 7) (tbl_abs [new_store_row 7 ''Shop'' ''shop'' ''store-shop'' ''o@x.io'' Woocommerce 0])"
proof -
  have d: "distinct (map st_id [new_store_row 7 ''Shop'' ''shop'' ''store-shop'' ''o@x.io'' Woocommerce 0])" by simp
  show ?thesis using repo_apply_refines_map [OF d, of "RDelete 7" 7] d by simp
qed

end
