(* ===== verification/Event_Log.thy ===== *)
theory Event_Log
  imports Prelude
begin

text \<open>
  The two append-only logs: \<open>provisioning_events\<close>
  (\<open>src/backend/src/db/repositories/eventRepository.ts\<close>, migration \<open>002_create_events\<close>)
  and \<open>audit_log\<close> (\<open>src/backend/src/db/repositories/auditRepository.ts\<close>, migration
  \<open>003_create_audit_log\<close>). Each table is the list of its rows in insertion order;
  \<open>created_at\<close> is the clock value passed in. Reading the events of a store
  (\<open>ORDER BY created_at ASC\<close>) is the store's rows in insertion order. This assumes
  that rows with equal \<open>created_at\<close> come back in insertion order: the column has
  one-second resolution (\<open>datetime('now')\<close>), and SQLite does not promise an order for
  ties. The same holds for the audit log read newest first.
  The foreign key of \<open>provisioning_events.store_id\<close> is not modelled as enforced:
  SQLite checks foreign keys only after \<open>PRAGMA foreign_keys = ON\<close>, and the
  connection module that would say so is not part of the repository.
\<close>

datatype event_status = Started | Completed | StepFailed

record prov_event =
  ev_id :: uuid
  ev_storeId :: uuid
  ev_step :: string
  ev_status :: event_status
  ev_message :: string
  ev_createdAt :: ms

type_synonym event_table = "prov_event list"

definition logEvent ::
  "uuid \<Rightarrow> uuid \<Rightarrow> string \<Rightarrow> event_status \<Rightarrow> string \<Rightarrow> ms \<Rightarrow> event_table \<Rightarrow> event_table" where
  "logEvent eid sid step status msg now tbl =
     tbl @ [\<lparr>ev_id = eid, ev_storeId = sid, ev_step = step, ev_status = status,
             ev_message = msg, ev_createdAt = now\<rparr>]"

definition getEventsByStoreId :: "uuid \<Rightarrow> event_table \<Rightarrow> prov_event list" where
  "getEventsByStoreId sid tbl = filter (\<lambda>e. ev_storeId e = sid) tbl"

definition deleteEventsByStoreId :: "uuid \<Rightarrow> event_table \<Rightarrow> event_table" where
  "deleteEventsByStoreId sid tbl = filter (\<lambda>e. ev_storeId e \<noteq> sid) tbl"

text \<open>
  What a store's event history says, as (step, status) pairs: the form in which the
  properties below state the order of a pipeline's steps.
\<close>

definition step_trace :: "uuid \<Rightarrow> event_table \<Rightarrow> (string \<times> event_status) list" where
  "step_trace sid tbl = map (\<lambda>e. (ev_step e, ev_status e)) (getEventsByStoreId sid tbl)"

section \<open>Audit log\<close>

record audit_entry =
  au_id :: uuid
  au_action :: string
  au_resourceType :: string
  au_resourceId :: "uuid option"
  au_resourceName :: "string option"
  au_details :: "string option"
  au_ipAddress :: "string option"
  au_createdAt :: ms

type_synonym audit_table = "audit_entry list"

definition logAudit ::
  "uuid \<Rightarrow> string \<Rightarrow> string \<Rightarrow> uuid option \<Rightarrow> string option \<Rightarrow> string option \<Rightarrow> string option
   \<Rightarrow> ms \<Rightarrow> audit_table \<Rightarrow> audit_table" where
  "logAudit aid action rtype rid rname details ip now tbl =
     tbl @ [\<lparr>au_id = aid, au_action = action, au_resourceType = rtype, au_resourceId = rid,
             au_resourceName = rname, au_details = details, au_ipAddress = ip, au_createdAt = now\<rparr>]"

text \<open>
  \<open>SELECT * FROM audit_log ORDER BY created_at DESC LIMIT ?\<close>: the newest entries first.
  SQLite reads a negative \<open>LIMIT\<close> as no limit.
\<close>

definition getAuditLog :: "int \<Rightarrow> audit_table \<Rightarrow> audit_entry list" where
  "getAuditLog limit tbl = (if limit < 0 then rev tbl else take (nat limit) (rev tbl))"

section \<open>Lemmas\<close>

lemma getEventsByStoreId_logEvent:
  "getEventsByStoreId sid (logEvent eid sid' step st msg now tbl) =
     getEventsByStoreId sid tbl @
       (if sid' = sid then [\<lparr>ev_id = eid, ev_storeId = sid', ev_step = step, ev_status = st,
                             ev_message = msg, ev_createdAt = now\<rparr>] else [])"
  by (simp add: getEventsByStoreId_def logEvent_def)

lemma step_trace_logEvent [simp]:
  "step_trace sid (logEvent eid sid' step st msg now tbl) =
     step_trace sid tbl @ (if sid' = sid then [(step, st)] else [])"
  by (simp add: step_trace_def getEventsByStoreId_logEvent)

lemma getEventsByStoreId_delete_same [simp]:
  "getEventsByStoreId sid (deleteEventsByStoreId sid tbl) = []"
  by (simp add: getEventsByStoreId_def deleteEventsByStoreId_def filter_filter)

lemma getEventsByStoreId_delete_other:
  "sid' \<noteq> sid \<Longrightarrow> getEventsByStoreId sid' (deleteEventsByStoreId sid tbl) = getEventsByStoreId sid' tbl"
  by (simp add: getEventsByStoreId_def deleteEventsByStoreId_def filter_filter) metis

text \<open>
  Appending is the only write besides the bulk delete: a log written only by
  \<open>logEvent\<close> keeps every earlier row as a prefix.
\<close>

lemma logEvent_prefix: "\<exists>e. logEvent eid sid step st msg now tbl = tbl @ [e]"
  by (simp add: logEvent_def)

lemma getAuditLog_length: "0 \<le> limit \<Longrightarrow> length (getAuditLog limit tbl) = min (nat limit) (length tbl)"
  by (simp add: getAuditLog_def)

end
