(* ===== verification/Cluster.thy ===== *)
theory Cluster
  imports Prelude
begin

text \<open>
  The cluster side of the system. The backend reaches Kubernetes only through the API
  clients of \<open>src/backend/src/k8s/client.ts\<close>; the cluster itself is not code of the
  repository, so it is modelled as an environment:
  \<^item> a state: the objects that exist (kind, namespace, name, labels, data) and the
    namespaces being deleted, with the time their finalisation ends;
  \<^item> oracles fixed in advance: a non-conflict API failure for a call at a time
    (\<open>fault\<close>), the status a deployment or job reports at a time, how long a
    namespace takes to finalise, and the latency of one API call.
  Creating an object that exists answers 409 (the conflict the pipelines treat as
  idempotent success); reading or deleting what does not exist answers 404.
  The manifests of \<open>src/backend/src/k8s/resourceBuilder.ts\<close> and
  \<open>src/backend/src/k8s/secretGenerator.ts\<close> are objects of this state: their kind,
  namespace, name, labels, and their remaining fields as (JSON path, value) pairs.
  The configuration of \<open>src/backend/src/config.ts\<close> is a record, with the defaults the
  code uses when no environment variable is set.
\<close>

section \<open>Configuration\<close>

record config =
  port :: nat
  nodeEnv :: string
  logLevel :: string
  dbPath :: string
  storeDomain :: string
  platformDomain :: string
  externalPort :: string
  ingressClass :: string
  provisioningConcurrency :: nat
  woocommerceInitTimeout :: nat
  maxStores :: nat
  mysqlImage :: string
  wordpressImage :: string
  imagePullPolicy :: string
  mysqlStorageSize :: string
  wordpressStorageSize :: string
  storageClass :: string

definition default_config :: config where
  "default_config =
     \<lparr>port = 3000, nodeEnv = ''development'', logLevel = ''debug'', dbPath = ''./data/platform.db'',
      storeDomain = ''store.127.0.0.1.nip.io'', platformDomain = ''platform.127.0.0.1.nip.io'',
      externalPort = [], ingressClass = ''nginx'',
      provisioningConcurrency = 3, woocommerceInitTimeout = 300, maxStores = 10,
      mysqlImage = ''mysql:8.0'', wordpressImage = ''wordpress-store:latest'', imagePullPolicy = ''IfNotPresent'',
      mysqlStorageSize = ''1Gi'', wordpressStorageSize = ''1Gi'', storageClass = []\<rparr>"

section \<open>Objects and the cluster state\<close>

datatype kind = Namespace | Secret | ResourceQuota | LimitRange | PersistentVolumeClaim
  | Deployment | Service | Job | Ingress | NetworkPolicy

record k8s_object =
  obj_kind :: kind
  obj_namespace :: string
  obj_name :: string
  obj_labels :: kv
  obj_data :: kv

datatype k8s_call =
    CreateObject kind string string
  | DeleteNamespace string
  | ReadNamespace string
  | ReadDeployment string string
  | ReadJob string string
  | PatchDeployment string string
  | ListPods string string
  | ExecInPod string string
  | ReadPodLog string string
  | ListPVCs string
  | ListQuotas string

record cluster =
  objects :: "k8s_object list"
  terminating :: "(string \<times> ms) list"
  fault :: "k8s_call \<Rightarrow> ms \<Rightarrow> (nat \<times> string) option"
  finalize_delay :: "string \<Rightarrow> ms"
  deploy_status :: "string \<Rightarrow> string \<Rightarrow> ms \<Rightarrow> nat option \<times> nat option"
  job_status :: "string \<Rightarrow> string \<Rightarrow> ms \<Rightarrow> nat option \<times> nat option"
  latency :: ms

definition http_failed :: string where
  "http_failed = ''HTTP request failed''"

definition has_object :: "cluster \<Rightarrow> kind \<Rightarrow> string \<Rightarrow> string \<Rightarrow> bool" where
  "has_object c k ns n = list_ex (\<lambda>ob. obj_kind ob = k \<and> obj_namespace ob = ns \<and> obj_name ob = n) (objects c)"

definition ns_exists :: "cluster \<Rightarrow> string \<Rightarrow> bool" where
  "ns_exists c ns = has_object c Namespace ns ns"

definition ns_terminating :: "cluster \<Rightarrow> string \<Rightarrow> ms \<Rightarrow> bool" where
  "ns_terminating c ns t = list_ex (\<lambda>(n, u). n = ns \<and> t < u) (terminating c)"

text \<open>A cluster that answers no call with an error and is not deleting namespace \<open>ns\<close>.\<close>

definition healthy_for :: "string \<Rightarrow> cluster \<Rightarrow> bool" where
  "healthy_for ns c = ((\<forall>call t. fault c call t = None) \<and> (\<forall>t. \<not> ns_terminating c ns t))"

section \<open>The API calls\<close>

text \<open>
  \<open>create*\<close>: a fault first; a namespace that exists or is still terminating conflicts;
  an object in a terminating namespace is forbidden (403), in a missing one not found
  (404), and conflicts when it exists.
\<close>

definition create_object :: "k8s_object \<Rightarrow> ms \<Rightarrow> cluster \<Rightarrow> (error + unit) \<times> cluster" where
  "create_object ob t c =
     (case fault c (CreateObject (obj_kind ob) (obj_namespace ob) (obj_name ob)) t of
        Some (code, msg) \<Rightarrow> (Inl (HttpError code msg), c)
      | None \<Rightarrow>
          if obj_kind ob = Namespace then
            (if ns_exists c (obj_name ob) \<or> ns_terminating c (obj_name ob) t
             then (Inl (HttpError 409 http_failed), c)
             else (Inr (), c\<lparr>objects := objects c @ [ob]\<rparr>))
          else if ns_terminating c (obj_namespace ob) t then (Inl (HttpError 403 http_failed), c)
          else if \<not> ns_exists c (obj_namespace ob) then (Inl (HttpError 404 http_failed), c)
          else if has_object c (obj_kind ob) (obj_namespace ob) (obj_name ob)
          then (Inl (HttpError 409 http_failed), c)
          else (Inr (), c\<lparr>objects := objects c @ [ob]\<rparr>))"

text \<open>
  \<open>deleteNamespace\<close>: the namespace and everything in it leave the object list at once
  and the namespace stays visible as terminating until its finalisers are done.
\<close>

definition delete_namespace :: "string \<Rightarrow> ms \<Rightarrow> cluster \<Rightarrow> (error + unit) \<times> cluster" where
  "delete_namespace ns t c =
     (case fault c (DeleteNamespace ns) t of
        Some (code, msg) \<Rightarrow> (Inl (HttpError code msg), c)
      | None \<Rightarrow>
          if ns_exists c ns then
            (Inr (), c\<lparr>objects := filter (\<lambda>ob. obj_namespace ob \<noteq> ns) (objects c),
                       terminating := terminating c @ [(ns, t + finalize_delay c ns)]\<rparr>)
          else if ns_terminating c ns t then (Inr (), c)
          else (Inl (HttpError 404 http_failed), c))"

definition read_namespace :: "string \<Rightarrow> ms \<Rightarrow> cluster \<Rightarrow> error + unit" where
  "read_namespace ns t c =
     (case fault c (ReadNamespace ns) t of
        Some (code, msg) \<Rightarrow> Inl (HttpError code msg)
      | None \<Rightarrow> if ns_exists c ns \<or> ns_terminating c ns t then Inr () else Inl (HttpError 404 http_failed))"

text \<open>A read returns \<open>status.readyReplicas\<close>/\<open>spec.replicas\<close>, or \<open>status.succeeded\<close>/\<open>status.failed\<close>.\<close>

definition read_deployment :: "string \<Rightarrow> string \<Rightarrow> ms \<Rightarrow> cluster \<Rightarrow> error + nat option \<times> nat option" where
  "read_deployment ns n t c =
     (case fault c (ReadDeployment ns n) t of
        Some (code, msg) \<Rightarrow> Inl (HttpError code msg)
      | None \<Rightarrow> if has_object c Deployment ns n then Inr (deploy_status c ns n t)
                else Inl (HttpError 404 http_failed))"

definition read_job :: "string \<Rightarrow> string \<Rightarrow> ms \<Rightarrow> cluster \<Rightarrow> error + nat option \<times> nat option" where
  "read_job ns n t c =
     (case fault c (ReadJob ns n) t of
        Some (code, msg) \<Rightarrow> Inl (HttpError code msg)
      | None \<Rightarrow> if has_object c Job ns n then Inr (job_status c ns n t)
                else Inl (HttpError 404 http_failed))"

section \<open>Manifests\<close>

text \<open>
  A manifest is its kind, \<open>metadata.namespace\<close>, \<open>metadata.name\<close>,
  \<open>metadata.labels\<close>, and every other field of the source's object literal as a
  (JSON path, value) pair, in the literal's order; list elements carry their index.
  The setup job's shell script is kept as the values it interpolates and the
  \<open>wp\<close> commands it runs.
\<close>

definition managed_by :: "string \<times> string" where
  "managed_by = (''app.kubernetes.io/managed-by'', ''store-platform'')"

definition mk_object :: "kind \<Rightarrow> string \<Rightarrow> string \<Rightarrow> kv \<Rightarrow> kv \<Rightarrow> k8s_object" where
  "mk_object k ns n labels d = \<lparr>obj_kind = k, obj_namespace = ns, obj_name = n, obj_labels = labels, obj_data = d\<rparr>"

definition buildNamespace :: "string \<Rightarrow> uuid \<Rightarrow> k8s_object" where
  "buildNamespace ns sid = mk_object Namespace ns ns [managed_by, (''store-platform/store-id'', show_nat sid)]
     [(''apiVersion'', ''v1'')]"

definition storage_class_field :: "config \<Rightarrow> kv" where
  "storage_class_field cfg = (if storageClass cfg \<noteq> [] then [(''spec.storageClassName'', storageClass cfg)] else [])"

definition pvc_spec :: "config \<Rightarrow> string \<Rightarrow> kv" where
  "pvc_spec cfg sz = [(''apiVersion'', ''v1''), (''spec.accessModes.0'', ''ReadWriteOnce''),
     (''spec.resources.requests.storage'', sz)] @ storage_class_field cfg"

definition buildMySQLPVC :: "config \<Rightarrow> string \<Rightarrow> k8s_object" where
  "buildMySQLPVC cfg ns = mk_object PersistentVolumeClaim ns ''mysql-data'' [(''app'', ''mysql''), managed_by]
     (pvc_spec cfg (mysqlStorageSize cfg))"

definition secret_env :: "nat \<Rightarrow> string \<Rightarrow> string \<Rightarrow> string \<Rightarrow> kv" where
  "secret_env i var secret key =
     (let p = ''spec.template.spec.containers.0.env.'' @ show_nat i in
      [(p @ ''.name'', var), (p @ ''.valueFrom.secretKeyRef.name'', secret), (p @ ''.valueFrom.secretKeyRef.key'', key)])"

definition value_env :: "nat \<Rightarrow> string \<Rightarrow> string \<Rightarrow> kv" where
  "value_env i var v = (let p = ''spec.template.spec.containers.0.env.'' @ show_nat i in
      [(p @ ''.name'', var), (p @ ''.value'', v)])"

definition wordpress_db_env :: kv where
  "wordpress_db_env = value_env 0 ''WORDPRESS_DB_HOST'' ''mysql'' @ value_env 1 ''WORDPRESS_DB_USER'' ''wordpress''
     @ secret_env 2 ''WORDPRESS_DB_PASSWORD'' ''mysql-credentials'' ''wordpress-password''
     @ value_env 3 ''WORDPRESS_DB_NAME'' ''wordpress''"

definition buildMySQLDeployment :: "config \<Rightarrow> string \<Rightarrow> k8s_object" where
  "buildMySQLDeployment cfg ns = mk_object Deployment ns ''mysql'' [(''app'', ''mysql''), managed_by]
     ([(''apiVersion'', ''apps/v1''), (''spec.replicas'', ''1''), (''spec.selector.matchLabels.app'', ''mysql''),
       (''spec.strategy.type'', ''Recreate''), (''spec.template.metadata.labels.app'', ''mysql''),
       (''spec.template.spec.containers.0.name'', ''mysql''),
       (''spec.template.spec.containers.0.image'', mysqlImage cfg),
       (''spec.template.spec.containers.0.imagePullPolicy'', imagePullPolicy cfg),
       (''spec.template.spec.containers.0.ports.0.containerPort'', ''3306'')]
      @ secret_env 0 ''MYSQL_ROOT_PASSWORD'' ''mysql-credentials'' ''root-password''
      @ value_env 1 ''MYSQL_DATABASE'' ''wordpress'' @ value_env 2 ''MYSQL_USER'' ''wordpress''
      @ secret_env 3 ''MYSQL_PASSWORD'' ''mysql-credentials'' ''wordpress-password''
      @ [(''spec.template.spec.containers.0.volumeMounts.0.name'', ''mysql-data''),
         (''spec.template.spec.containers.0.volumeMounts.0.mountPath'', ''/var/lib/mysql''),
         (''spec.template.spec.containers.0.readinessProbe.exec.command'', ''mysqladmin ping -h localhost''),
         (''spec.template.spec.containers.0.readinessProbe.initialDelaySeconds'', ''10''),
         (''spec.template.spec.containers.0.readinessProbe.periodSeconds'', ''5''),
         (''spec.template.spec.containers.0.readinessProbe.timeoutSeconds'', ''3''),
         (''spec.template.spec.containers.0.livenessProbe.exec.command'', ''mysqladmin ping -h localhost''),
         (''spec.template.spec.containers.0.livenessProbe.initialDelaySeconds'', ''30''),
         (''spec.template.spec.containers.0.livenessProbe.periodSeconds'', ''10''),
         (''spec.template.spec.containers.0.livenessProbe.timeoutSeconds'', ''3''),
         (''spec.template.spec.containers.0.resources.requests.cpu'', ''100m''),
         (''spec.template.spec.containers.0.resources.requests.memory'', ''256Mi''),
         (''spec.template.spec.containers.0.resources.limits.cpu'', ''500m''),
         (''spec.template.spec.containers.0.resources.limits.memory'', ''512Mi''),
         (''spec.template.spec.volumes.0.name'', ''mysql-data''),
         (''spec.template.spec.volumes.0.persistentVolumeClaim.claimName'', ''mysql-data'')])"

definition service_spec :: "string \<Rightarrow> string \<Rightarrow> kv" where
  "service_spec app p = [(''apiVersion'', ''v1''), (''spec.type'', ''ClusterIP''), (''spec.ports.0.port'', p),
     (''spec.ports.0.targetPort'', p), (''spec.selector.app'', app)]"

definition buildMySQLService :: "string \<Rightarrow> k8s_object" where
  "buildMySQLService ns = mk_object Service ns ''mysql'' [(''app'', ''mysql''), managed_by] (service_spec ''mysql'' ''3306'')"

definition buildWordPressPVC :: "config \<Rightarrow> string \<Rightarrow> k8s_object" where
  "buildWordPressPVC cfg ns = mk_object PersistentVolumeClaim ns ''wordpress-data'' [(''app'', ''wordpress''), managed_by]
     (pvc_spec cfg (wordpressStorageSize cfg))"

record store_resource_config =
  rc_namespace :: string
  rc_slug :: string
  rc_storeName :: string
  rc_adminEmail :: string
  rc_storeUrl :: string
  rc_adminPassword :: string

text \<open>The WordPress deployment ignores its \<open>_rc\<close> argument: it carries no store data.\<close>

definition buildWordPressDeployment :: "config \<Rightarrow> string \<Rightarrow> store_resource_config \<Rightarrow> k8s_object" where
  "buildWordPressDeployment cfg ns rc = mk_object Deployment ns ''wordpress'' [(''app'', ''wordpress''), managed_by]
     ([(''apiVersion'', ''apps/v1''), (''spec.replicas'', ''1''), (''spec.selector.matchLabels.app'', ''wordpress''),
       (''spec.strategy.type'', ''Recreate''), (''spec.template.metadata.labels.app'', ''wordpress''),
       (''spec.template.spec.containers.0.name'', ''wordpress''),
       (''spec.template.spec.containers.0.image'', wordpressImage cfg),
       (''spec.template.spec.containers.0.imagePullPolicy'', imagePullPolicy cfg),
       (''spec.template.spec.containers.0.ports.0.containerPort'', ''80'')]
      @ wordpress_db_env
      @ [(''spec.template.spec.containers.0.volumeMounts.0.name'', ''wordpress-data''),
         (''spec.template.spec.containers.0.volumeMounts.0.mountPath'', ''/var/www/html''),
         (''spec.template.spec.containers.0.readinessProbe.httpGet.path'', ''/wp-login.php''),
         (''spec.template.spec.containers.0.readinessProbe.httpGet.port'', ''80''),
         (''spec.template.spec.containers.0.readinessProbe.initialDelaySeconds'', ''15''),
         (''spec.template.spec.containers.0.readinessProbe.periodSeconds'', ''10''),
         (''spec.template.spec.containers.0.readinessProbe.timeoutSeconds'', ''5''),
         (''spec.template.spec.containers.0.livenessProbe.httpGet.path'', ''/wp-login.php''),
         (''spec.template.spec.containers.0.livenessProbe.httpGet.port'', ''80''),
         (''spec.template.spec.containers.0.livenessProbe.initialDelaySeconds'', ''60''),
         (''spec.template.spec.containers.0.livenessProbe.periodSeconds'', ''15''),
         (''spec.template.spec.containers.0.livenessProbe.timeoutSeconds'', ''5''),
         (''spec.template.spec.containers.0.resources.requests.cpu'', ''100m''),
         (''spec.template.spec.containers.0.resources.requests.memory'', ''256Mi''),
         (''spec.template.spec.containers.0.resources.limits.cpu'', ''1000m''),
         (''spec.template.spec.containers.0.resources.limits.memory'', ''512Mi''),
         (''spec.template.spec.volumes.0.name'', ''wordpress-data''),
         (''spec.template.spec.volumes.0.persistentVolumeClaim.claimName'', ''wordpress-data'')])"

definition buildWordPressService :: "string \<Rightarrow> k8s_object" where
  "buildWordPressService ns = mk_object Service ns ''wordpress'' [(''app'', ''wordpress''), managed_by]
     (service_spec ''wordpress'' ''80'')"

text \<open>
  The setup job. Its script waits for \<open>http://wordpress/wp-login.php\<close>, fetches
  WP-CLI, and runs the \<open>wp\<close> commands below, each with \<open>|| true\<close>; the values it
  interpolates are the store URL, name, admin password and admin email of \<open>rc\<close>.
\<close>

definition setup_script :: "store_resource_config \<Rightarrow> kv" where
  "setup_script rc =
     [(''script.wait_for'', ''http://wordpress/wp-login.php''),
      (''script.core_install.url'', rc_storeUrl rc), (''script.core_install.title'', rc_storeName rc),
      (''script.core_install.admin_user'', ''admin''), (''script.core_install.admin_password'', rc_adminPassword rc),
      (''script.core_install.admin_email'', rc_adminEmail rc),
      (''script.plugin_install'', ''woocommerce --activate''),
      (''script.rewrite_structure'', ''/%postname%/''),
      (''script.product_create.name'', ''Sample Product''), (''script.product_create.regular_price'', ''19.99''),
      (''script.option_update'', ''woocommerce_cod_settings enabled''),
      (''script.tool_run'', ''install_pages'')]"

definition buildWooCommerceSetupJob :: "config \<Rightarrow> string \<Rightarrow> store_resource_config \<Rightarrow> k8s_object" where
  "buildWooCommerceSetupJob cfg ns rc = mk_object Job ns ''woocommerce-setup'' [managed_by]
     ([(''apiVersion'', ''batch/v1''), (''spec.backoffLimit'', ''3''), (''spec.ttlSecondsAfterFinished'', ''300''),
       (''spec.template.spec.restartPolicy'', ''OnFailure''),
       (''spec.template.spec.containers.0.name'', ''wc-setup''),
       (''spec.template.spec.containers.0.image'', wordpressImage cfg),
       (''spec.template.spec.containers.0.imagePullPolicy'', imagePullPolicy cfg)]
      @ setup_script rc @ wordpress_db_env
      @ [(''spec.template.spec.containers.0.volumeMounts.0.name'', ''wordpress-data''),
         (''spec.template.spec.containers.0.volumeMounts.0.mountPath'', ''/var/www/html''),
         (''spec.template.spec.containers.0.resources.requests.cpu'', ''100m''),
         (''spec.template.spec.containers.0.resources.requests.memory'', ''256Mi''),
         (''spec.template.spec.containers.0.resources.limits.cpu'', ''500m''),
         (''spec.template.spec.containers.0.resources.limits.memory'', ''512Mi''),
         (''spec.template.spec.volumes.0.name'', ''wordpress-data''),
         (''spec.template.spec.volumes.0.persistentVolumeClaim.claimName'', ''wordpress-data'')])"

definition buildStoreIngress :: "config \<Rightarrow> string \<Rightarrow> string \<Rightarrow> k8s_object" where
  "buildStoreIngress cfg ns host = mk_object Ingress ns ''wordpress-ingress'' [managed_by]
     [(''apiVersion'', ''networking.k8s.io/v1''),
      (''metadata.annotations.nginx.ingress.kubernetes.io/proxy-body-size'', ''50m''),
      (''spec.ingressClassName'', ingressClass cfg), (''spec.rules.0.host'', host),
      (''spec.rules.0.http.paths.0.path'', ''/''), (''spec.rules.0.http.paths.0.pathType'', ''Prefix''),
      (''spec.rules.0.http.paths.0.backend.service.name'', ''wordpress''),
      (''spec.rules.0.http.paths.0.backend.service.port.number'', ''80'')]"

text \<open>
  The network policy selects every pod of the namespace and admits ingress from pods of
  the namespace labelled \<open>kubernetes.io/metadata.name: ingress-nginx\<close> and from every pod
  of its own namespace.
\<close>

definition buildNetworkPolicy :: "string \<Rightarrow> k8s_object" where
  "buildNetworkPolicy ns = mk_object NetworkPolicy ns ''store-isolation'' [managed_by]
     [(''apiVersion'', ''networking.k8s.io/v1''), (''spec.podSelector'', []), (''spec.policyTypes.0'', ''Ingress''),
      (''spec.ingress.0.from.0.namespaceSelector.matchLabels.kubernetes.io/metadata.name'', ''ingress-nginx''),
      (''spec.ingress.1.from.0.podSelector'', [])]"

definition buildResourceQuota :: "string \<Rightarrow> k8s_object" where
  "buildResourceQuota ns = mk_object ResourceQuota ns ''store-quota'' [managed_by]
     [(''apiVersion'', ''v1''), (''spec.hard.requests.cpu'', ''2''), (''spec.hard.requests.memory'', ''2Gi''),
      (''spec.hard.limits.cpu'', ''4''), (''spec.hard.limits.memory'', ''4Gi''),
      (''spec.hard.persistentvolumeclaims'', ''4''), (''spec.hard.pods'', ''10'')]"

definition buildLimitRange :: "string \<Rightarrow> k8s_object" where
  "buildLimitRange ns = mk_object LimitRange ns ''store-limits'' [managed_by]
     [(''apiVersion'', ''v1''), (''spec.limits.0.type'', ''Container''),
      (''spec.limits.0._default.cpu'', ''500m''), (''spec.limits.0._default.memory'', ''512Mi''),
      (''spec.limits.0.defaultRequest.cpu'', ''100m''), (''spec.limits.0.defaultRequest.memory'', ''256Mi''),
      (''spec.limits.0.max.cpu'', ''2''), (''spec.limits.0.max.memory'', ''1Gi''),
      (''spec.limits.0.min.cpu'', ''50m''), (''spec.limits.0.min.memory'', ''64Mi''),
      (''spec.limits.1.type'', ''PersistentVolumeClaim''),
      (''spec.limits.1.max.storage'', ''5Gi''), (''spec.limits.1.min.storage'', ''256Mi'')]"

section \<open>Secrets\<close>

text \<open>
  \<open>generateStoreSecrets()\<close> draws random passwords; the model takes the draw as a value
  of this record. \<open>stringData\<close> is kept as the secret's data.
\<close>

record store_secrets =
  mysqlRootPassword :: string
  mysqlPassword :: string
  wpAdminPassword :: string
  wpKeys :: kv

definition buildMySQLSecret :: "string \<Rightarrow> store_secrets \<Rightarrow> k8s_object" where
  "buildMySQLSecret ns sec = mk_object Secret ns ''mysql-credentials'' [managed_by]
     [(''apiVersion'', ''v1''), (''type'', ''Opaque''),
      (''stringData.root-password'', mysqlRootPassword sec), (''stringData.wordpress-password'', mysqlPassword sec)]"

definition buildWordPressSecret :: "string \<Rightarrow> store_secrets \<Rightarrow> k8s_object" where
  "buildWordPressSecret ns sec = mk_object Secret ns ''wordpress-secrets'' [managed_by]
     ([(''apiVersion'', ''v1''), (''type'', ''Opaque''), (''stringData.admin-password'', wpAdminPassword sec)]
      @ map (\<lambda>(k, v). (''stringData.'' @ k, v)) (wpKeys sec))"

section \<open>Which object each builder makes\<close>

lemma builder_keys [simp]:
  "obj_kind (buildNamespace ns sid) = Namespace" "obj_namespace (buildNamespace ns sid) = ns"
  "obj_name (buildNamespace ns sid) = ns"
  "obj_kind (buildMySQLSecret ns sec) = Secret" "obj_namespace (buildMySQLSecret ns sec) = ns"
  "obj_name (buildMySQLSecret ns sec) = ''mysql-credentials''"
  "obj_kind (buildWordPressSecret ns sec) = Secret" "obj_namespace (buildWordPressSecret ns sec) = ns"
  "obj_name (buildWordPressSecret ns sec) = ''wordpress-secrets''"
  "obj_kind (buildResourceQuota ns) = ResourceQuota" "obj_namespace (buildResourceQuota ns) = ns"
  "obj_name (buildResourceQuota ns) = ''store-quota''"
  "obj_kind (buildLimitRange ns) = LimitRange" "obj_namespace (buildLimitRange ns) = ns"
  "obj_name (buildLimitRange ns) = ''store-limits''"
  "obj_kind (buildMySQLPVC cfg ns) = PersistentVolumeClaim" "obj_namespace (buildMySQLPVC cfg ns) = ns"
  "obj_name (buildMySQLPVC cfg ns) = ''mysql-data''"
  "obj_kind (buildMySQLDeployment cfg ns) = Deployment" "obj_namespace (buildMySQLDeployment cfg ns) = ns"
  "obj_name (buildMySQLDeployment cfg ns) = ''mysql''"
  "obj_kind (buildMySQLService ns) = Service" "obj_namespace (buildMySQLService ns) = ns"
  "obj_name (buildMySQLService ns) = ''mysql''"
  "obj_kind (buildWordPressPVC cfg ns) = PersistentVolumeClaim" "obj_namespace (buildWordPressPVC cfg ns) = ns"
  "obj_name (buildWordPressPVC cfg ns) = ''wordpress-data''"
  "obj_kind (buildWordPressDeployment cfg ns rc) = Deployment"
  "obj_namespace (buildWordPressDeployment cfg ns rc) = ns"
  "obj_name (buildWordPressDeployment cfg ns rc) = ''wordpress''"
  "obj_kind (buildWordPressService ns) = Service" "obj_namespace (buildWordPressService ns) = ns"
  "obj_name (buildWordPressService ns) = ''wordpress''"
  "obj_kind (buildWooCommerceSetupJob cfg ns rc) = Job"
  "obj_namespace (buildWooCommerceSetupJob cfg ns rc) = ns"
  "obj_name (buildWooCommerceSetupJob cfg ns rc) = ''woocommerce-setup''"
  "obj_kind (buildStoreIngress cfg ns h) = Ingress" "obj_namespace (buildStoreIngress cfg ns h) = ns"
  "obj_name (buildStoreIngress cfg ns h) = ''wordpress-ingress''"
  "obj_kind (buildNetworkPolicy ns) = NetworkPolicy" "obj_namespace (buildNetworkPolicy ns) = ns"
  "obj_name (buildNetworkPolicy ns) = ''store-isolation''"
  by (simp_all add: buildNamespace_def buildMySQLSecret_def buildWordPressSecret_def buildResourceQuota_def
      buildLimitRange_def buildMySQLPVC_def buildMySQLDeployment_def buildMySQLService_def
      buildWordPressPVC_def buildWordPressDeployment_def buildWordPressService_def
      buildWooCommerceSetupJob_def buildStoreIngress_def buildNetworkPolicy_def mk_object_def)

end
