(* ===== verification/World.thy ===== *)
theory World
  imports Store_Repo Event_Log Cluster
begin

text \<open>
  The state the backend's services act on: the three tables of the SQLite database,
  the cluster, the wall clock that \<open>Date.now()\<close> reads, and the supply of fresh
  \<open>uuidv4()\<close> values. Each repository function and each cluster call of the services is
  lifted here to an action on this state. A database call takes no time; a cluster call
  answers from the cluster as it is when the call is made, and the clock then moves on
  by the call's latency; \<open>sleep(ms)\<close> moves the clock by \<open>ms\<close>.
\<close>

record world =
  stores :: store_table
  events :: event_table
  audit :: audit_table
  k8s :: cluster
  clock :: ms
  next_uuid :: uuid

type_synonym 'a wact = "(error, world, 'a) act"

section \<open>Database calls\<close>

definition log_event :: "uuid \<Rightarrow> string \<Rightarrow> event_status \<Rightarrow> string \<Rightarrow> unit wact" where
  "log_event sid step st msg = modify_act (\<lambda>w.
     w\<lparr>events := logEvent (next_uuid w) sid step st msg (clock w) (events w), next_uuid := Suc (next_uuid w)\<rparr>)"

definition update_status :: "uuid \<Rightarrow> store_status \<Rightarrow> string option \<Rightarrow> unit wact" where
  "update_status sid st msg = modify_act (\<lambda>w. w\<lparr>stores := updateStoreStatus sid st msg (stores w)\<rparr>)"

definition update_ready :: "uuid \<Rightarrow> string \<Rightarrow> string \<Rightarrow> string \<Rightarrow> unit wact" where
  "update_ready sid url adminUrl pw = modify_act (\<lambda>w. w\<lparr>stores := updateStoreReady sid url adminUrl pw (clock w) (stores w)\<rparr>)"

definition delete_store :: "uuid \<Rightarrow> unit wact" where
  "delete_store sid = modify_act (\<lambda>w. w\<lparr>stores := deleteStore sid (stores w)\<rparr>)"

definition delete_events :: "uuid \<Rightarrow> unit wact" where
  "delete_events sid = modify_act (\<lambda>w. w\<lparr>events := deleteEventsByStoreId sid (events w)\<rparr>)"

definition log_audit :: "string \<Rightarrow> string \<Rightarrow> uuid option \<Rightarrow> string option \<Rightarrow> string option \<Rightarrow> string option \<Rightarrow> unit wact" where
  "log_audit action rtype rid rname details ip = modify_act (\<lambda>w.
     w\<lparr>audit := logAudit (next_uuid w) action rtype rid rname details ip (clock w) (audit w),
       next_uuid := Suc (next_uuid w)\<rparr>)"

section \<open>Cluster calls and sleeping\<close>

definition tick :: "world \<Rightarrow> world" where
  "tick w = w\<lparr>clock := clock w + latency (k8s w)\<rparr>"

definition k8s_create :: "k8s_object \<Rightarrow> unit wact" where
  "k8s_create ob w = (case create_object ob (clock w) (k8s w) of (r, c') \<Rightarrow> (r, tick (w\<lparr>k8s := c'\<rparr>)))"

definition k8s_delete_namespace :: "string \<Rightarrow> unit wact" where
  "k8s_delete_namespace ns w = (case delete_namespace ns (clock w) (k8s w) of (r, c') \<Rightarrow> (r, tick (w\<lparr>k8s := c'\<rparr>)))"

definition k8s_read_namespace :: "string \<Rightarrow> unit wact" where
  "k8s_read_namespace ns w = (read_namespace ns (clock w) (k8s w), tick w)"

definition k8s_read_deployment :: "string \<Rightarrow> string \<Rightarrow> (nat option \<times> nat option) wact" where
  "k8s_read_deployment ns n w = (read_deployment ns n (clock w) (k8s w), tick w)"

definition k8s_read_job :: "string \<Rightarrow> string \<Rightarrow> (nat option \<times> nat option) wact" where
  "k8s_read_job ns n w = (read_job ns n (clock w) (k8s w), tick w)"

definition sleep_ms :: "ms \<Rightarrow> unit wact" where
  "sleep_ms d = modify_act (\<lambda>w. w\<lparr>clock := clock w + d\<rparr>)"

section \<open>Frame lemmas\<close>

text \<open>
  Which part of the state each call writes. A property of the stores table, of the event
  log or of the cluster then follows for a whole block by \<open>act_keeps_seq\<close>.
\<close>

named_theorems world_defs "definitions of the lifted calls"
declare log_event_def [world_defs] update_status_def [world_defs] update_ready_def [world_defs]
  delete_store_def [world_defs] delete_events_def [world_defs] log_audit_def [world_defs]
  sleep_ms_def [world_defs]

lemma tick_simps [simp]:
  "stores (tick w) = stores w" "events (tick w) = events w" "audit (tick w) = audit w"
  "k8s (tick w) = k8s w" "clock (tick w) = clock w + latency (k8s w)" "next_uuid (tick w) = next_uuid w"
  by (simp_all add: tick_def)

lemma k8s_call_cases:
  "k8s_create ob w = (r, w') \<Longrightarrow> w' = tick (w\<lparr>k8s := snd (create_object ob (clock w) (k8s w))\<rparr>)
     \<and> r = fst (create_object ob (clock w) (k8s w))"
  "k8s_delete_namespace ns w = (r, w') \<Longrightarrow> w' = tick (w\<lparr>k8s := snd (delete_namespace ns (clock w) (k8s w))\<rparr>)
     \<and> r = fst (delete_namespace ns (clock w) (k8s w))"
  by (auto simp: k8s_create_def k8s_delete_namespace_def split: prod.splits)

definition stores_is :: "store_table \<Rightarrow> world \<Rightarrow> bool" where
  "stores_is T w = (stores w = T)"

lemma keeps_stores_prims [keeps_intros]:
  "act_keeps (stores_is T) (log_event sid step st msg)"
  "act_keeps (stores_is T) (delete_events sid)"
  "act_keeps (stores_is T) (log_audit a rt rid rn dt ip)"
  "act_keeps (stores_is T) (sleep_ms d)"
  "act_keeps (stores_is T) (k8s_create ob)"
  "act_keeps (stores_is T) (k8s_delete_namespace ns)"
  "act_keeps (stores_is T) (k8s_read_namespace ns)"
  "act_keeps (stores_is T) (k8s_read_deployment ns n)"
  "act_keeps (stores_is T) (k8s_read_job ns n)"
  by (auto simp: act_keeps_def stores_is_def world_defs k8s_create_def k8s_delete_namespace_def
      k8s_read_namespace_def k8s_read_deployment_def k8s_read_job_def split: prod.splits)

text \<open>The clock never runs backwards.\<close>

definition clock_from :: "ms \<Rightarrow> world \<Rightarrow> bool" where
  "clock_from t w = (t \<le> clock w)"

lemma keeps_clock_prims [keeps_intros]:
  "act_keeps (clock_from t) (log_event sid step st msg)"
  "act_keeps (clock_from t) (update_status sid s m)"
  "act_keeps (clock_from t) (update_ready sid u a p)"
  "act_keeps (clock_from t) (delete_store sid)"
  "act_keeps (clock_from t) (delete_events sid)"
  "act_keeps (clock_from t) (log_audit a rt rid rn dt ip)"
  "act_keeps (clock_from t) (sleep_ms d)"
  "act_keeps (clock_from t) (k8s_create ob)"
  "act_keeps (clock_from t) (k8s_delete_namespace ns)"
  "act_keeps (clock_from t) (k8s_read_namespace ns)"
  "act_keeps (clock_from t) (k8s_read_deployment ns n)"
  "act_keeps (clock_from t) (k8s_read_job ns n)"
  by (auto simp: act_keeps_def clock_from_def world_defs k8s_create_def k8s_delete_namespace_def
      k8s_read_namespace_def k8s_read_deployment_def k8s_read_job_def split: prod.splits)

end
