(* ===== verification/Waits.thy ===== *)
theory Waits
  imports World
begin

text \<open>
  The three readiness waits of the services, each a \<open>while (Date.now() < deadline)\<close>
  loop that polls the cluster and sleeps:
  \<^item> \<open>waitForDeploymentReady\<close> and \<open>waitForJobComplete\<close> of
    \<open>src/backend/src/services/provisioners/woocommerceProvisioner.ts\<close>;
  \<^item> \<open>waitForNamespaceDeletion\<close> of \<open>src/backend/src/services/cleanupService.ts\<close>.
  Each loop is a \<^theory_text>\<open>function\<close> whose argument is the world; it terminates because
  every iteration that loops again sleeps (5, 10 or 3 seconds), so \<open>deadline - clock\<close>
  shrinks. The loop body's \<open>try ... catch\<close> is modelled as written: a failed read of a
  deployment is swallowed; a failed read of a job is swallowed unless its message
  contains \<open>failed after\<close>; a failed read of a namespace returns when it is a 404 and is
  thrown otherwise.
\<close>

section \<open>Deployment readiness\<close>

text \<open>\<open>(status.readyReplicas || 0) >= (spec.replicas || 1)\<close>: a missing or zero replica count reads as one.\<close>

definition deploy_ready :: "nat option \<times> nat option \<Rightarrow> bool" where
  "deploy_ready st = (case st of (ready, desired) \<Rightarrow>
     (let r = (case ready of None \<Rightarrow> 0 | Some k \<Rightarrow> k);
          d = (case desired of None \<Rightarrow> 1 | Some k \<Rightarrow> if k = 0 then 1 else k)
      in d \<le> r))"

definition deploy_timeout_msg :: "string \<Rightarrow> string \<Rightarrow> nat \<Rightarrow> string" where
  "deploy_timeout_msg ns n secs = ''Deployment '' @ n @ '' in '' @ ns @ '' not ready after '' @ show_nat secs @ ''s''"

lemma read_deployment_clock: "k8s_read_deployment ns n w = (r, w') \<Longrightarrow> w' = tick w"
  by (simp add: k8s_read_deployment_def)

function wait_deploy_loop :: "string \<Rightarrow> string \<Rightarrow> nat \<Rightarrow> ms \<Rightarrow> world \<Rightarrow> (error + unit) \<times> world" where
  "wait_deploy_loop ns n secs deadline w =
     (if clock w < deadline then
        (case k8s_read_deployment ns n w of
           (Inr st, w1) \<Rightarrow> if deploy_ready st then (Inr (), w1)
                           else wait_deploy_loop ns n secs deadline (snd (sleep_ms 5000 w1))
         | (Inl _, w1) \<Rightarrow> wait_deploy_loop ns n secs deadline (snd (sleep_ms 5000 w1)))
      else (Inl (Error (deploy_timeout_msg ns n secs)), w))"
  by pat_completeness auto
termination
  by (relation "measure (\<lambda>(ns, n, secs, deadline, w). deadline - clock w)")
     (auto simp: k8s_read_deployment_def sleep_ms_def)

declare wait_deploy_loop.simps [simp del]

definition waitForDeploymentReady :: "string \<Rightarrow> string \<Rightarrow> nat \<Rightarrow> unit wact" where
  "waitForDeploymentReady ns n secs w = wait_deploy_loop ns n secs (clock w + secs * 1000) w"

text \<open>
  The same loop with a bound on its rounds: \<open>None\<close> when the bound is used up before the
  loop returns. A bound under which it gives the loop's result bounds the number of polls.
\<close>

fun wait_deploy_fuel :: "nat \<Rightarrow> string \<Rightarrow> string \<Rightarrow> nat \<Rightarrow> ms \<Rightarrow> world \<Rightarrow> ((error + unit) \<times> world) option" where
  "wait_deploy_fuel 0 ns n secs deadline w = None"
| "wait_deploy_fuel (Suc k) ns n secs deadline w =
     (if clock w < deadline then
        (case k8s_read_deployment ns n w of
           (Inr st, w1) \<Rightarrow> if deploy_ready st then Some (Inr (), w1)
                           else wait_deploy_fuel k ns n secs deadline (snd (sleep_ms 5000 w1))
         | (Inl _, w1) \<Rightarrow> wait_deploy_fuel k ns n secs deadline (snd (sleep_ms 5000 w1)))
      else Some (Inl (Error (deploy_timeout_msg ns n secs)), w))"

section \<open>Job completion\<close>

definition job_timeout_msg :: "string \<Rightarrow> string \<Rightarrow> nat \<Rightarrow> string" where
  "job_timeout_msg ns n secs = ''Job '' @ n @ '' in '' @ ns @ '' not completed after '' @ show_nat secs @ ''s''"

definition job_failed_msg :: "string \<Rightarrow> string" where
  "job_failed_msg n = ''Job '' @ n @ '' failed after 3 attempts''"

text \<open>
  One poll of the job, the \<open>try\<close> block and its \<open>catch\<close>: \<open>True\<close> when the job
  succeeded, \<open>False\<close> to keep polling. \<open>job.status?.succeeded && ... >= 1\<close> is false
  for a missing or zero count.
\<close>

definition job_succeeded :: "nat option \<Rightarrow> bool" where
  "job_succeeded sc = (case sc of Some k \<Rightarrow> 1 \<le> k | None \<Rightarrow> False)"

definition job_gave_up :: "nat option \<Rightarrow> bool" where
  "job_gave_up fl = (case fl of Some k \<Rightarrow> 3 \<le> k | None \<Rightarrow> False)"

definition job_poll :: "string \<Rightarrow> string \<Rightarrow> bool wact" where
  "job_poll ns n =
     try_catch
       (bind_act (k8s_read_job ns n) (\<lambda>(succeeded, failed).
          if job_succeeded succeeded then ok_act True
          else if job_gave_up failed then raise_act (Error (job_failed_msg n))
          else ok_act False))
       (\<lambda>e. if str_includes (err_message e) ''failed after'' then raise_act e else ok_act False)"

lemma job_failed_msg_includes [simp]: "str_includes (job_failed_msg n) ''failed after''"
proof -
  have "job_failed_msg n = (''Job '' @ n @ '' '') @ ''failed after'' @ '' 3 attempts''"
    by (simp add: job_failed_msg_def)
  then show ?thesis by (simp only: str_includes_append_middle)
qed

lemma job_poll_clock: "job_poll ns n w = (r, w') \<Longrightarrow> w' = tick w"
  by (auto simp: job_poll_def k8s_read_job_def bind_act_def try_catch_def
           split: prod.splits sum.splits if_splits)

function wait_job_loop :: "string \<Rightarrow> string \<Rightarrow> nat \<Rightarrow> ms \<Rightarrow> world \<Rightarrow> (error + unit) \<times> world" where
  "wait_job_loop ns n secs deadline w =
     (if clock w < deadline then
        (case job_poll ns n w of
           (Inr True, w1) \<Rightarrow> (Inr (), w1)
         | (Inr False, w1) \<Rightarrow> wait_job_loop ns n secs deadline (snd (sleep_ms 10000 w1))
         | (Inl e, w1) \<Rightarrow> (Inl e, w1))
      else (Inl (Error (job_timeout_msg ns n secs)), w))"
  by pat_completeness auto
termination
  by (relation "measure (\<lambda>(ns, n, secs, deadline, w). deadline - clock w)")
     (auto simp: sleep_ms_def dest!: job_poll_clock [OF sym])

declare wait_job_loop.simps [simp del]

definition waitForJobComplete :: "string \<Rightarrow> string \<Rightarrow> nat \<Rightarrow> unit wact" where
  "waitForJobComplete ns n secs w = wait_job_loop ns n secs (clock w + secs * 1000) w"

section \<open>Namespace deletion\<close>

definition ns_deletion_timeout_msg :: "string \<Rightarrow> nat \<Rightarrow> string" where
  "ns_deletion_timeout_msg ns secs = ''Namespace '' @ ns @ '' deletion timed out after '' @ show_nat secs @ ''s''"

text \<open>One poll: \<open>True\<close> when the namespace is gone (the read answered 404).\<close>

definition ns_poll :: "string \<Rightarrow> bool wact" where
  "ns_poll ns =
     try_catch
       (bind_act (k8s_read_namespace ns) (\<lambda>_. bind_act (sleep_ms 3000) (\<lambda>_. ok_act False)))
       (\<lambda>e. if status_code e = Some 404 then ok_act True else raise_act e)"

lemma ns_poll_False_clock: "ns_poll ns w = (Inr False, w') \<Longrightarrow> clock w + 3000 \<le> clock w'"
  by (auto simp: ns_poll_def k8s_read_namespace_def sleep_ms_def bind_act_def try_catch_def
           split: prod.splits sum.splits if_splits)

function wait_ns_loop :: "string \<Rightarrow> nat \<Rightarrow> ms \<Rightarrow> world \<Rightarrow> (error + unit) \<times> world" where
  "wait_ns_loop ns secs deadline w =
     (if clock w < deadline then
        (case ns_poll ns w of
           (Inr True, w1) \<Rightarrow> (Inr (), w1)
         | (Inr False, w1) \<Rightarrow> wait_ns_loop ns secs deadline w1
         | (Inl e, w1) \<Rightarrow> (Inl e, w1))
      else (Inl (Error (ns_deletion_timeout_msg ns secs)), w))"
  by pat_completeness auto
termination
  by (relation "measure (\<lambda>(ns, secs, deadline, w). deadline - clock w)")
     (auto dest!: ns_poll_False_clock [OF sym])

declare wait_ns_loop.simps [simp del]

definition waitForNamespaceDeletion :: "string \<Rightarrow> nat \<Rightarrow> unit wact" where
  "waitForNamespaceDeletion ns secs w = wait_ns_loop ns secs (clock w + secs * 1000) w"

section \<open>Lemmas: what a wait changes\<close>

text \<open>A wait only reads the cluster and sleeps: it moves the clock and nothing else.\<close>

definition clock_only :: "world \<Rightarrow> world \<Rightarrow> bool" where
  "clock_only w w' = (stores w' = stores w \<and> events w' = events w \<and> audit w' = audit w
     \<and> k8s w' = k8s w \<and> next_uuid w' = next_uuid w \<and> clock w \<le> clock w')"

lemma clock_only_refl [simp]: "clock_only w w"
  by (simp add: clock_only_def)

lemma clock_only_tick [simp]: "clock_only w (tick w)"
  by (simp add: clock_only_def)

lemma clock_only_trans: "clock_only w w1 \<Longrightarrow> clock_only w1 w2 \<Longrightarrow> clock_only w w2"
  by (auto simp: clock_only_def)

lemma clock_only_sleep: "clock_only w w1 \<Longrightarrow> clock_only w (snd (sleep_ms d w1))"
  by (auto simp: clock_only_def sleep_ms_def)

lemma job_poll_clock_only: "job_poll ns n w = (r, w') \<Longrightarrow> clock_only w w'"
  by (auto dest: job_poll_clock)

lemma ns_poll_clock_only: "ns_poll ns w = (r, w') \<Longrightarrow> clock_only w w'"
  by (auto simp: ns_poll_def k8s_read_namespace_def sleep_ms_def bind_act_def try_catch_def
                 clock_only_def split: prod.splits sum.splits if_splits)

lemma sleep_tick_clock_only: "clock_only w (snd (sleep_ms d (tick w)))"
  by (intro clock_only_sleep clock_only_tick)

lemma clock_sleep_tick [simp]: "clock (snd (sleep_ms d (tick w))) = clock w + latency (k8s w) + d"
  by (simp add: sleep_ms_def)

lemma k8s_sleep_tick [simp]: "k8s (snd (sleep_ms d (tick w))) = k8s w"
  by (simp add: sleep_ms_def)

text \<open>
  Everything a deployment wait can do, in one induction: it moves only the clock; started
  before the deadline it ends less than one latency and one poll interval after the
  deadline; and the only error it raises is the timeout, raised at or after the deadline.
\<close>

definition deploy_wait_post :: "string \<Rightarrow> string \<Rightarrow> nat \<Rightarrow> ms \<Rightarrow> world \<Rightarrow> (error + unit) \<times> world \<Rightarrow> bool" where
  "deploy_wait_post ns n secs dl w res = (case res of (r, w') \<Rightarrow>
     clock_only w w'
     \<and> clock w' < max (clock w + 1) (dl + latency (k8s w) + 5000)
     \<and> (r \<noteq> Inr () \<longrightarrow> r = Inl (Error (deploy_timeout_msg ns n secs)) \<and> dl \<le> clock w'))"

lemma deploy_wait_post_step:
  "clock w < dl \<Longrightarrow> deploy_wait_post ns n secs dl (snd (sleep_ms 5000 (tick w))) res
   \<Longrightarrow> deploy_wait_post ns n secs dl w res"
  by (auto simp: deploy_wait_post_def split: prod.splits
           intro: clock_only_trans [OF sleep_tick_clock_only])

lemma wait_deploy_loop_post: "deploy_wait_post ns n secs dl w (wait_deploy_loop ns n secs dl w)"
proof (induction ns n secs dl w rule: wait_deploy_loop.induct)
  case (1 ns n secs dl w)
  note rd = k8s_read_deployment_def [of ns n w]
  show ?case
  proof (cases "clock w < dl")
    case False
    then show ?thesis by (simp add: wait_deploy_loop.simps deploy_wait_post_def)
  next
    case True
    show ?thesis
    proof (cases "read_deployment ns n (clock w) (k8s w)")
      case (Inl e)
      with "1.IH"(1) [OF True rd [symmetric, unfolded Inl] refl] True show ?thesis
        by (simp add: wait_deploy_loop.simps rd deploy_wait_post_step)
    next
      case (Inr st)
      show ?thesis
      proof (cases "deploy_ready st")
        case True
        with \<open>clock w < dl\<close> Inr show ?thesis
          by (simp add: wait_deploy_loop.simps rd deploy_wait_post_def)
      next
        case False
        with "1.IH"(2) [OF \<open>clock w < dl\<close> rd [symmetric, unfolded Inr] refl False] \<open>clock w < dl\<close> Inr
        show ?thesis by (simp add: wait_deploy_loop.simps rd deploy_wait_post_step)
      qed
    qed
  qed
qed

lemma sleep_clock_only: "clock_only w (snd (sleep_ms d w))"
  by (intro clock_only_sleep clock_only_refl)

definition job_wait_post :: "string \<Rightarrow> string \<Rightarrow> nat \<Rightarrow> ms \<Rightarrow> world \<Rightarrow> (error + unit) \<times> world \<Rightarrow> bool" where
  "job_wait_post ns n secs dl w res = (case res of (r, w') \<Rightarrow>
     clock_only w w'
     \<and> clock w' < max (clock w + 1) (dl + latency (k8s w) + 10000)
     \<and> (r \<noteq> Inr () \<longrightarrow> (r = Inl (Error (job_timeout_msg ns n secs)) \<and> dl \<le> clock w')
          \<or> (\<exists>e. r = Inl e \<and> str_includes (err_message e) ''failed after'')))"

lemma job_poll_cases:
  "job_poll ns n w = (r, w') \<Longrightarrow> w' = tick w \<and>
     (r = Inr True \<or> r = Inr False \<or> (\<exists>e. r = Inl e \<and> str_includes (err_message e) ''failed after''))"
  by (auto simp: job_poll_def k8s_read_job_def bind_act_def try_catch_def
           split: prod.splits sum.splits if_splits)

lemma job_wait_post_step:
  "clock w < dl \<Longrightarrow> job_wait_post ns n secs dl (snd (sleep_ms 10000 (tick w))) res
   \<Longrightarrow> job_wait_post ns n secs dl w res"
  by (auto simp: job_wait_post_def split: prod.splits
           intro: clock_only_trans [OF sleep_tick_clock_only])

lemma wait_job_loop_post: "job_wait_post ns n secs dl w (wait_job_loop ns n secs dl w)"
proof (induction ns n secs dl w rule: wait_job_loop.induct)
  case (1 ns n secs dl w)
  show ?case
  proof (cases "clock w < dl")
    case False
    then show ?thesis by (simp add: wait_job_loop.simps job_wait_post_def)
  next
    case True
    obtain r w1 where p: "job_poll ns n w = (r, w1)" by fastforce
    then have w1: "w1 = tick w" and rc: "r = Inr True \<or> r = Inr False
        \<or> (\<exists>e. r = Inl e \<and> str_includes (err_message e) ''failed after'')"
      by (auto dest: job_poll_cases)
    consider "r = Inr True" | "r = Inr False" | e where "r = Inl e" "str_includes (err_message e) ''failed after''"
      using rc by blast
    then show ?thesis
    proof cases
      case 1
      with True p w1 show ?thesis by (simp add: wait_job_loop.simps job_wait_post_def)
    next
      case 2
      have eq: "wait_job_loop ns n secs dl w = wait_job_loop ns n secs dl (snd (sleep_ms 10000 (tick w)))"
        using True p w1 2 by (subst wait_job_loop.simps) simp
      have "job_wait_post ns n secs dl (snd (sleep_ms 10000 (tick w)))
              (wait_job_loop ns n secs dl (snd (sleep_ms 10000 (tick w))))"
        using "1.IH" [OF True p [symmetric]] 2 w1 by auto
      then show ?thesis by (simp add: eq job_wait_post_step True)
    next
      case 3
      with True p w1 show ?thesis by (auto simp: wait_job_loop.simps job_wait_post_def)
    qed
  qed
qed

definition ns_wait_post :: "string \<Rightarrow> nat \<Rightarrow> ms \<Rightarrow> world \<Rightarrow> (error + unit) \<times> world \<Rightarrow> bool" where
  "ns_wait_post ns secs dl w res = (case res of (r, w') \<Rightarrow>
     clock_only w w'
     \<and> clock w' < max (clock w + 1) (dl + latency (k8s w) + 3000)
     \<and> (r \<noteq> Inr () \<longrightarrow> (r = Inl (Error (ns_deletion_timeout_msg ns secs)) \<and> dl \<le> clock w')
          \<or> (\<exists>e. r = Inl e \<and> status_code e \<noteq> Some 404)))"

lemma ns_poll_cases:
  "ns_poll ns w = (r, w') \<Longrightarrow>
     (r = Inr True \<and> w' = tick w) \<or> (r = Inr False \<and> w' = snd (sleep_ms 3000 (tick w)))
     \<or> (\<exists>e. r = Inl e \<and> status_code e \<noteq> Some 404 \<and> w' = tick w)"
  by (auto simp: ns_poll_def k8s_read_namespace_def bind_act_def try_catch_def sleep_ms_def
           split: prod.splits sum.splits if_splits)

lemma wait_ns_loop_post: "ns_wait_post ns secs dl w (wait_ns_loop ns secs dl w)"
proof (induction ns secs dl w rule: wait_ns_loop.induct)
  case (1 ns secs dl w)
  show ?case
  proof (cases "clock w < dl")
    case False
    then show ?thesis by (simp add: wait_ns_loop.simps ns_wait_post_def)
  next
    case True
    obtain r w1 where p: "ns_poll ns w = (r, w1)" by fastforce
    then consider "r = Inr True" "w1 = tick w" | "r = Inr False" "w1 = snd (sleep_ms 3000 (tick w))"
      | e where "r = Inl e" "status_code e \<noteq> Some 404" "w1 = tick w"
      by (blast dest: ns_poll_cases)
    then show ?thesis
    proof cases
      case 1
      with True p show ?thesis by (simp add: wait_ns_loop.simps ns_wait_post_def)
    next
      case 2
      have eq: "wait_ns_loop ns secs dl w = wait_ns_loop ns secs dl w1"
        using True p 2 by (subst wait_ns_loop.simps) simp
      have "ns_wait_post ns secs dl w1 (wait_ns_loop ns secs dl w1)"
        using "1.IH" [OF True p [symmetric]] 2 by auto
      then show ?thesis using 2 True
        by (auto simp: eq ns_wait_post_def split: prod.splits
                 intro: clock_only_trans [OF sleep_tick_clock_only])
    next
      case 3
      with True p show ?thesis by (auto simp: wait_ns_loop.simps ns_wait_post_def)
    qed
  qed
qed


section \<open>Lemmas: how a wait ends\<close>

lemma wait_deploy_first_poll:
  "clock w < dl \<Longrightarrow> read_deployment ns n (clock w) (k8s w) = Inr st \<Longrightarrow> deploy_ready st
   \<Longrightarrow> wait_deploy_loop ns n secs dl w = (Inr (), tick w)"
  by (subst wait_deploy_loop.simps) (simp add: k8s_read_deployment_def)

lemma wait_deploy_never_ready:
  assumes "\<forall>t st. read_deployment ns n t (k8s w) = Inr st \<longrightarrow> \<not> deploy_ready st"
  shows "fst (wait_deploy_loop ns n secs dl w) = Inl (Error (deploy_timeout_msg ns n secs))"
  using assms
proof (induction ns n secs dl w rule: wait_deploy_loop.induct)
  case (1 ns n secs dl w)
  let ?w1 = "snd (sleep_ms 5000 (tick w))"
  have pre: "\<forall>t st. read_deployment ns n t (k8s ?w1) = Inr st \<longrightarrow> \<not> deploy_ready st"
    using "1.prems" by simp
  show ?case
  proof (cases "clock w < dl")
    case False
    then show ?thesis by (simp add: wait_deploy_loop.simps)
  next
    case True
    note rd = k8s_read_deployment_def [of ns n w]
    show ?thesis
    proof (cases "read_deployment ns n (clock w) (k8s w)")
      case (Inl e)
      with "1.IH"(1) [OF True rd [symmetric, unfolded Inl] refl pre] True show ?thesis
        by (subst wait_deploy_loop.simps) (simp add: rd)
    next
      case (Inr st)
      with "1.prems" have "\<not> deploy_ready st" by blast
      with "1.IH"(2) [OF True rd [symmetric, unfolded Inr] refl _ pre] True Inr show ?thesis
        by (subst wait_deploy_loop.simps) (simp add: rd)
    qed
  qed
qed

lemma wait_job_first_poll:
  "clock w < dl \<Longrightarrow> read_job ns n (clock w) (k8s w) = Inr (sc, fl) \<Longrightarrow> job_succeeded sc
   \<Longrightarrow> wait_job_loop ns n secs dl w = (Inr (), tick w)"
  by (subst wait_job_loop.simps) (simp add: job_poll_def k8s_read_job_def)

text \<open>
  A job that never succeeds and has given up (three failures) from time \<open>t0\<close> on ends the
  wait with the "failed after 3 attempts" error, not with the timeout, provided a poll
  falls between \<open>t0\<close> and the deadline.
\<close>

lemma wait_job_gives_up:
  assumes "\<forall>t. \<exists>sc fl. read_job ns n t (k8s w) = Inr (sc, fl) \<and> \<not> job_succeeded sc \<and> (t0 \<le> t \<longrightarrow> job_gave_up fl)"
    and "t0 + latency (k8s w) + 10000 \<le> dl" and "clock w < dl"
  shows "fst (wait_job_loop ns n secs dl w) = Inl (Error (job_failed_msg n))"
  using assms
proof (induction ns n secs dl w rule: wait_job_loop.induct)
  case (1 ns n secs dl w)
  obtain sc fl where rj: "read_job ns n (clock w) (k8s w) = Inr (sc, fl)" "\<not> job_succeeded sc"
    "t0 \<le> clock w \<longrightarrow> job_gave_up fl"
    using "1.prems"(1) by blast
  show ?case
  proof (cases "job_gave_up fl")
    case True
    with rj "1.prems"(3) show ?thesis
      by (subst wait_job_loop.simps) (simp add: job_poll_def k8s_read_job_def)
  next
    case False
    let ?w1 = "snd (sleep_ms 10000 (tick w))"
    have p: "job_poll ns n w = (Inr False, tick w)"
      using rj False by (simp add: job_poll_def k8s_read_job_def)
    have "clock w < t0" using rj(3) False by linarith
    then have "clock ?w1 < dl" using "1.prems"(2) by simp
    then have "fst (wait_job_loop ns n secs dl ?w1) = Inl (Error (job_failed_msg n))"
      using "1.IH" [OF "1.prems"(3) p [symmetric] refl] "1.prems"(1,2) by simp
    with p "1.prems"(3) show ?thesis by (subst wait_job_loop.simps) simp
  qed
qed

text \<open>
  A namespace whose reads answer 404 from time \<open>t0\<close> on, and before that answer either
  that it exists or 404, ends the wait successfully if a poll falls before the deadline.
\<close>

lemma wait_ns_gone:
  assumes "\<forall>t. read_namespace ns t (k8s w) = Inr () \<or> read_namespace ns t (k8s w) = Inl (HttpError 404 http_failed)"
    and "\<forall>t. t0 \<le> t \<longrightarrow> read_namespace ns t (k8s w) = Inl (HttpError 404 http_failed)"
    and "t0 + latency (k8s w) + 3000 \<le> dl" and "clock w < dl"
  shows "fst (wait_ns_loop ns secs dl w) = Inr ()"
  using assms
proof (induction ns secs dl w rule: wait_ns_loop.induct)
  case (1 ns secs dl w)
  show ?case
  proof (cases "read_namespace ns (clock w) (k8s w) = Inr ()")
    case False
    with "1.prems"(1) have "read_namespace ns (clock w) (k8s w) = Inl (HttpError 404 http_failed)" by blast
    with "1.prems"(4) show ?thesis
      by (subst wait_ns_loop.simps) (simp add: ns_poll_def k8s_read_namespace_def)
  next
    case True
    let ?w1 = "snd (sleep_ms 3000 (tick w))"
    have p: "ns_poll ns w = (Inr False, ?w1)"
      using True by (simp add: ns_poll_def k8s_read_namespace_def sleep_ms_def)
    have "clock w < t0" using True "1.prems"(2) by (metis leI sum.distinct(2))
    then have "clock ?w1 < dl" using "1.prems"(3) by simp
    then have "fst (wait_ns_loop ns secs dl ?w1) = Inr ()"
      using "1.IH" [OF "1.prems"(4) p [symmetric] refl] "1.prems"(1,2,3) by simp
    with p "1.prems"(4) show ?thesis by (subst wait_ns_loop.simps) simp
  qed
qed


text \<open>A namespace that reads as present at every poll before the deadline ends the wait with the timeout.\<close>

lemma wait_ns_never_gone:
  assumes "\<forall>t < dl. read_namespace ns t (k8s w) = Inr ()"
  shows "fst (wait_ns_loop ns secs dl w) = Inl (Error (ns_deletion_timeout_msg ns secs))"
  using assms
proof (induction ns secs dl w rule: wait_ns_loop.induct)
  case (1 ns secs dl w)
  show ?case
  proof (cases "clock w < dl")
    case False
    then show ?thesis by (simp add: wait_ns_loop.simps)
  next
    case True
    let ?w1 = "snd (sleep_ms 3000 (tick w))"
    have p: "ns_poll ns w = (Inr False, ?w1)"
      using True "1.prems" by (simp add: ns_poll_def k8s_read_namespace_def sleep_ms_def)
    have "fst (wait_ns_loop ns secs dl ?w1) = Inl (Error (ns_deletion_timeout_msg ns secs))"
      using "1.IH" [OF True p [symmetric] refl] "1.prems" by simp
    with p True show ?thesis by (subst wait_ns_loop.simps) simp
  qed
qed

section \<open>The waits as actions\<close>

lemma clock_only_keeps_stores: "clock_only w w' \<Longrightarrow> stores w' = stores w"
  by (simp add: clock_only_def)

lemma waits_clock_only:
  "clock_only w (snd (waitForDeploymentReady ns n secs w))"
  "clock_only w (snd (waitForJobComplete ns n secs w))"
  "clock_only w (snd (waitForNamespaceDeletion ns secs w))"
  using wait_deploy_loop_post [of ns n secs "clock w + secs * 1000" w]
        wait_job_loop_post [of ns n secs "clock w + secs * 1000" w]
        wait_ns_loop_post [of ns secs "clock w + secs * 1000" w]
  by (auto simp: waitForDeploymentReady_def waitForJobComplete_def waitForNamespaceDeletion_def
                 deploy_wait_post_def job_wait_post_def ns_wait_post_def split: prod.splits)

lemma keeps_waits [keeps_intros]:
  "act_keeps (stores_is T) (waitForDeploymentReady ns n secs)"
  "act_keeps (stores_is T) (waitForJobComplete ns n secs)"
  "act_keeps (stores_is T) (waitForNamespaceDeletion ns secs)"
  "act_keeps (clock_from t) (waitForDeploymentReady ns n secs)"
  "act_keeps (clock_from t) (waitForJobComplete ns n secs)"
  "act_keeps (clock_from t) (waitForNamespaceDeletion ns secs)"
  using waits_clock_only
  by (auto simp: act_keeps_def stores_is_def clock_from_def clock_only_def intro: order_trans)

section \<open>How many polls a wait makes\<close>

lemma poll_rounds_decrease:
  fixes a b :: nat
  assumes "0 < a" and "b = 0 \<or> b + 5000 \<le> a"
  shows "(b + 4999) div 5000 < (a + 4999) div 5000"
  using assms(2)
proof
  assume "b = 0"
  moreover have "1 \<le> (a + 4999) div 5000" using assms(1) by simp
  ultimately show ?thesis by simp
next
  assume b: "b + 5000 \<le> a"
  have "(b + 4999) div 5000 + 1 = (b + 4999 + 5000) div 5000" by simp
  also have "\<dots> \<le> (a + 4999) div 5000" using b by (intro div_le_mono) simp
  finally show ?thesis by simp
qed

lemma wait_deploy_enough_fuel:
  "(deadline - clock w + 4999) div 5000 < k \<Longrightarrow>
   wait_deploy_fuel k ns n secs deadline w = Some (wait_deploy_loop ns n secs deadline w)"
proof (induction k arbitrary: w)
  case 0
  then show ?case by simp
next
  case (Suc k)
  let ?w1 = "snd (sleep_ms 5000 (tick w))"
  show ?case
  proof (cases "clock w < deadline")
    case False
    then show ?thesis by (simp add: wait_deploy_loop.simps)
  next
    case True
    have "(deadline - clock ?w1 + 4999) div 5000 < (deadline - clock w + 4999) div 5000"
      using True by (intro poll_rounds_decrease) auto
    then have "(deadline - clock ?w1 + 4999) div 5000 < k" using Suc.prems by simp
    note ih = Suc.IH [OF this]
    show ?thesis
      using True ih by (simp add: wait_deploy_loop.simps [of ns n secs deadline w] k8s_read_deployment_def
          split: sum.splits)
  qed
qed

text \<open>
  C4. \<open>waitForDeploymentReady(ns, name, secs)\<close> returns after at most
  \<open>\<lceil>secs / 5\<rceil>\<close> polls of the deployment, whatever the cluster answers and
  however slow it is: within that many rounds the loop has returned, ready or timed out.
  For the 120 s waits of the pipeline that is 24 polls.
\<close>

theorem waitForDeploymentReady_rounds:
  assumes "(secs * 1000 + 4999) div 5000 < k"
  shows "wait_deploy_fuel k ns n secs (clock w + secs * 1000) w = Some (waitForDeploymentReady ns n secs w)"
  using wait_deploy_enough_fuel [of "clock w + secs * 1000" w k] assms by (simp add: waitForDeploymentReady_def)

lemma waitForDeploymentReady_rounds_witness:
  "(120 * 1000 + 4999) div 5000 < (25::nat)
   \<and> wait_deploy_fuel 25 ''store-shop'' ''mysql'' 120
        (clock \<lparr>stores = [], events = [], audit = [],
                k8s = \<lparr>objects = [], terminating = [], fault = (\<lambda>_ _. None), finalize_delay = (\<lambda>_. 0),
                       deploy_status = (\<lambda>_ _ _. (None, None)), job_status = (\<lambda>_ _ _. (None, None)), latency = 0\<rparr>,
                clock = 0, next_uuid = 0\<rparr> + 120 * 1000)
        \<lparr>stores = [], events = [], audit = [],
         k8s = \<lparr>objects = [], terminating = [], fault = (\<lambda>_ _. None), finalize_delay = (\<lambda>_. 0),
                deploy_status = (\<lambda>_ _ _. (None, None)), job_status = (\<lambda>_ _ _. (None, None)), latency = 0\<rparr>,
         clock = 0, next_uuid = 0\<rparr>
      = Some (waitForDeploymentReady ''store-shop'' ''mysql'' 120
        \<lparr>stores = [], events = [], audit = [],
         k8s = \<lparr>objects = [], terminating = [], fault = (\<lambda>_ _. None), finalize_delay = (\<lambda>_. 0),
                deploy_status = (\<lambda>_ _ _. (None, None)), job_status = (\<lambda>_ _ _. (None, None)), latency = 0\<rparr>,
         clock = 0, next_uuid = 0\<rparr>)"
proof -
  have b: "(120 * 1000 + 4999) div 5000 < (25::nat)" by simp
  show ?thesis using waitForDeploymentReady_rounds [OF b] b by blast
qed

end
