(* ===== verification/Woo_Pipeline.thy ===== *)
theory Woo_Pipeline
  imports Waits Names
begin

text \<open>
  The WooCommerce provisioning pipeline,
  \<open>WooCommerceProvisioner.provision\<close> of
  \<open>src/backend/src/services/provisioners/woocommerceProvisioner.ts\<close>. Each numbered
  block of the source (the comments \<open>// Step 1\<close> to \<open>// Step 11\<close>) is one definition, a
  statement block (\<^const>\<open>seq_act\<close>) of the source's calls in the source's order,
  with its \<open>try ... catch\<close> written with \<^const>\<open>try_catch\<close>. The pipeline is the block
  of the eleven steps: the first error any step lets escape ends it and is the
  pipeline's error. \<open>generateStoreSecrets()\<close> draws fresh random material; the model
  takes that draw as the argument \<open>sec\<close>.
\<close>

section \<open>URLs and the idempotency test\<close>

definition port_suffix :: "config \<Rightarrow> string" where
  "port_suffix cfg = (if externalPort cfg \<noteq> [] then '':'' @ externalPort cfg else [])"

definition store_url :: "config \<Rightarrow> store \<Rightarrow> string" where
  "store_url cfg s = ''http://'' @ st_slug s @ ''.'' @ storeDomain cfg @ port_suffix cfg"

definition admin_url :: "config \<Rightarrow> store \<Rightarrow> string" where
  "admin_url cfg s = store_url cfg s @ ''/wp-admin''"

definition store_host :: "config \<Rightarrow> store \<Rightarrow> string" where
  "store_host cfg s = st_slug s @ ''.'' @ storeDomain cfg"

text \<open>\<open>err?.response?.statusCode === 409\<close>.\<close>

definition is_conflict :: "error \<Rightarrow> bool" where
  "is_conflict e = (status_code e = Some 409)"

text \<open>\<open>try { await create(...) } catch (err) { if (err?.response?.statusCode !== 409) throw err; }\<close>\<close>

definition create_ignoring_conflict :: "k8s_object \<Rightarrow> unit wact" where
  "create_ignoring_conflict ob = try_catch (k8s_create ob) (\<lambda>e. if is_conflict e then ok_act () else raise_act e)"

definition resource_config :: "config \<Rightarrow> store \<Rightarrow> store_secrets \<Rightarrow> store_resource_config" where
  "resource_config cfg s sec =
     \<lparr>rc_namespace = st_namespace s, rc_slug = st_slug s, rc_storeName = st_name s,
      rc_adminEmail = st_adminEmail s, rc_storeUrl = store_url cfg s, rc_adminPassword = wpAdminPassword sec\<rparr>"

section \<open>The steps\<close>

definition step_create_namespace :: "store \<Rightarrow> unit wact" where
  "step_create_namespace s = (let sid = st_id s; ns = st_namespace s in seq_act
     [log_event sid ''create_namespace'' Started (''Creating namespace '' @ ns),
      try_catch
        (seq_act [k8s_create (buildNamespace ns sid),
                  log_event sid ''create_namespace'' Completed (''Namespace '' @ ns @ '' created'')])
        (\<lambda>e. if is_conflict e
             then log_event sid ''create_namespace'' Completed (''Namespace '' @ ns @ '' already exists (idempotent)'')
             else raise_act e)])"

definition step_create_secrets :: "store \<Rightarrow> store_secrets \<Rightarrow> unit wact" where
  "step_create_secrets s sec = (let sid = st_id s; ns = st_namespace s in seq_act
     [log_event sid ''create_secrets'' Started ''Generating and creating secrets'',
      try_catch
        (seq_act [k8s_create (buildMySQLSecret ns sec), k8s_create (buildWordPressSecret ns sec),
                  log_event sid ''create_secrets'' Completed ''Secrets created''])
        (\<lambda>e. if \<not> is_conflict e then raise_act e
             else log_event sid ''create_secrets'' Completed ''Secrets already exist (idempotent)'')])"

definition step_create_quota :: "store \<Rightarrow> unit wact" where
  "step_create_quota s = (let sid = st_id s; ns = st_namespace s in seq_act
     [log_event sid ''create_quota'' Started ''Creating resource quota and limit range'',
      create_ignoring_conflict (buildResourceQuota ns),
      create_ignoring_conflict (buildLimitRange ns),
      log_event sid ''create_quota'' Completed ''Resource quota and limit range created''])"

definition step_deploy_mysql :: "config \<Rightarrow> store \<Rightarrow> unit wact" where
  "step_deploy_mysql cfg s = (let sid = st_id s; ns = st_namespace s in seq_act
     [log_event sid ''deploy_mysql'' Started ''Deploying MySQL'',
      create_ignoring_conflict (buildMySQLPVC cfg ns),
      create_ignoring_conflict (buildMySQLDeployment cfg ns),
      create_ignoring_conflict (buildMySQLService ns),
      log_event sid ''deploy_mysql'' Completed ''MySQL resources created''])"

definition mysql_wait_secs :: nat where
  "mysql_wait_secs = 120"

definition step_wait_mysql :: "store \<Rightarrow> unit wact" where
  "step_wait_mysql s = (let sid = st_id s; ns = st_namespace s in seq_act
     [log_event sid ''wait_mysql'' Started ''Waiting for MySQL to be ready'',
      waitForDeploymentReady ns ''mysql'' mysql_wait_secs,
      log_event sid ''wait_mysql'' Completed ''MySQL is ready''])"

definition step_deploy_wordpress :: "config \<Rightarrow> store \<Rightarrow> store_secrets \<Rightarrow> unit wact" where
  "step_deploy_wordpress cfg s sec = (let sid = st_id s; ns = st_namespace s in seq_act
     [log_event sid ''deploy_wordpress'' Started ''Deploying WordPress + WooCommerce'',
      create_ignoring_conflict (buildWordPressPVC cfg ns),
      create_ignoring_conflict (buildWordPressDeployment cfg ns (resource_config cfg s sec)),
      create_ignoring_conflict (buildWordPressService ns),
      log_event sid ''deploy_wordpress'' Completed ''WordPress resources created''])"

definition step_wait_wordpress :: "config \<Rightarrow> store \<Rightarrow> unit wact" where
  "step_wait_wordpress cfg s = (let sid = st_id s; ns = st_namespace s in seq_act
     [log_event sid ''wait_wordpress'' Started ''Waiting for WordPress to be ready'',
      waitForDeploymentReady ns ''wordpress'' (woocommerceInitTimeout cfg),
      log_event sid ''wait_wordpress'' Completed ''WordPress is ready''])"

definition step_setup_woocommerce :: "config \<Rightarrow> store \<Rightarrow> store_secrets \<Rightarrow> unit wact" where
  "step_setup_woocommerce cfg s sec = (let sid = st_id s; ns = st_namespace s in seq_act
     [log_event sid ''setup_woocommerce'' Started ''Installing WooCommerce and creating sample data'',
      create_ignoring_conflict (buildWooCommerceSetupJob cfg ns (resource_config cfg s sec)),
      waitForJobComplete ns ''woocommerce-setup'' (woocommerceInitTimeout cfg),
      log_event sid ''setup_woocommerce'' Completed ''WooCommerce installed and configured''])"

definition step_create_ingress :: "config \<Rightarrow> store \<Rightarrow> unit wact" where
  "step_create_ingress cfg s = (let sid = st_id s; ns = st_namespace s; host = store_host cfg s in seq_act
     [log_event sid ''create_ingress'' Started ''Creating store ingress'',
      try_catch
        (seq_act [k8s_create (buildStoreIngress cfg ns host),
                  log_event sid ''create_ingress'' Completed (''Ingress created: '' @ host)])
        (\<lambda>e. if \<not> is_conflict e then raise_act e
             else log_event sid ''create_ingress'' Completed ''Ingress already exists (idempotent)'')])"

definition step_create_networkpolicy :: "store \<Rightarrow> unit wact" where
  "step_create_networkpolicy s = (let sid = st_id s; ns = st_namespace s in seq_act
     [log_event sid ''create_networkpolicy'' Started ''Creating network policy'',
      try_catch
        (seq_act [k8s_create (buildNetworkPolicy ns),
                  log_event sid ''create_networkpolicy'' Completed ''Network policy created''])
        (\<lambda>e. if \<not> is_conflict e then raise_act e else ok_act ())])"

definition step_mark_ready :: "config \<Rightarrow> store \<Rightarrow> store_secrets \<Rightarrow> unit wact" where
  "step_mark_ready cfg s sec = (let sid = st_id s in seq_act
     [update_ready sid (store_url cfg s) (admin_url cfg s) (wpAdminPassword sec),
      log_event sid ''ready'' Completed (''Store ready at '' @ store_url cfg s)])"

section \<open>The pipeline\<close>

definition woo_steps_before_ready :: "config \<Rightarrow> store \<Rightarrow> store_secrets \<Rightarrow> unit wact list" where
  "woo_steps_before_ready cfg s sec =
     [step_create_namespace s, step_create_secrets s sec, step_create_quota s,
      step_deploy_mysql cfg s, step_wait_mysql s, step_deploy_wordpress cfg s sec,
      step_wait_wordpress cfg s, step_setup_woocommerce cfg s sec,
      step_create_ingress cfg s, step_create_networkpolicy s]"

definition provision_woo :: "config \<Rightarrow> store \<Rightarrow> store_secrets \<Rightarrow> unit wact" where
  "provision_woo cfg s sec = seq_act (woo_steps_before_ready cfg s sec @ [step_mark_ready cfg s sec])"


section \<open>Where the pipeline writes the stores table\<close>

lemmas woo_step_defs = step_create_namespace_def step_create_secrets_def step_create_quota_def
  step_deploy_mysql_def step_wait_mysql_def step_deploy_wordpress_def step_wait_wordpress_def
  step_setup_woocommerce_def step_create_ingress_def step_create_networkpolicy_def
  create_ignoring_conflict_def

lemma woo_before_ready_keeps_stores:
  "act_keeps (stores_is T) (seq_act (woo_steps_before_ready cfg s sec))"
  by (auto simp: woo_steps_before_ready_def woo_step_defs Let_def intro!: keeps_intros)

lemma step_mark_ready_apply:
  "step_mark_ready cfg s sec w = (Inr (), w') \<Longrightarrow>
     stores w' = updateStoreReady (st_id s) (store_url cfg s) (admin_url cfg s) (wpAdminPassword sec) (clock w) (stores w)"
  "\<exists>w'. step_mark_ready cfg s sec w = (Inr (), w')"
  by (auto simp: step_mark_ready_def world_defs Let_def)

lemma provision_woo_store_writes_eq:
  assumes "provision_woo cfg s sec w = (r, w')"
  shows "(r = Inr () \<and> (\<exists>t. stores w' = updateStoreReady (st_id s) (store_url cfg s) (admin_url cfg s)
                                            (wpAdminPassword sec) t (stores w)))
         \<or> (\<exists>e. r = Inl e \<and> stores w' = stores w)"
proof -
  obtain r1 w1 where pre: "seq_act (woo_steps_before_ready cfg s sec) w = (r1, w1)" by fastforce
  have same: "stores w1 = stores w"
    using act_keepsD [OF woo_before_ready_keeps_stores [of "stores w"] _ pre] by (simp add: stores_is_def)
  show ?thesis
  proof (cases r1)
    case (Inl e)
    then have "provision_woo cfg s sec w = (Inl e, w1)"
      using pre by (simp add: provision_woo_def seq_act_append)
    then show ?thesis using assms same by simp
  next
    case (Inr u)
    obtain w2 where m: "step_mark_ready cfg s sec w1 = (Inr (), w2)"
      using step_mark_ready_apply(2) by blast
    have "provision_woo cfg s sec w = (Inr (), w2)"
      using pre Inr m by (simp add: provision_woo_def seq_act_append)
    then show ?thesis using assms step_mark_ready_apply(1) [OF m] same by auto
  qed
qed

text \<open>
  C9. The pipeline writes the stores table once, at its very end: when it returns, the
  only change to the table is \<open>updateStoreReady\<close> with the store's URL, admin URL and
  the admin password of this run; when it throws, the table is as it was (marking the
  store Failed is the queue's business).
\<close>

theorem provision_woo_store_writes:
  "(fst (provision_woo cfg s sec w) = Inr ()
      \<and> (\<exists>t. stores (snd (provision_woo cfg s sec w))
              = updateStoreReady (st_id s) (store_url cfg s) (admin_url cfg s) (wpAdminPassword sec) t (stores w)))
   \<or> (\<exists>e. fst (provision_woo cfg s sec w) = Inl e \<and> stores (snd (provision_woo cfg s sec w)) = stores w)"
  using provision_woo_store_writes_eq [of cfg s sec w "fst (provision_woo cfg s sec w)" "snd (provision_woo cfg s sec w)"]
  by simp

end
