(* ===== verification/Woo_Healthy.thy ===== *)
theory Woo_Healthy
  imports Woo_Runs
begin

text \<open>
  Whole runs of \<open>WooCommerceProvisioner.provision\<close> against a cluster that answers
  no call with an error and whose store namespace is not being deleted, starting from any
  set of objects already there. The run is followed with total-correctness triples
  (\<^const>\<open>triple\<close> of the prelude) over one invariant, \<open>run_state\<close>: the
  cluster's answers are those of the start cluster \<open>c\<close>, the objects are those of
  \<open>c\<close> and those created so far, and the stores table, clock and the store's
  (step, status) history are known exactly. One lemma per step of the source says what the
  step does from such a state; the run lemmas chain them in the source's order. Three
  outcomes are derived: all ready (the store is marked Ready and the history is the eleven
  steps), MySQL never ready (the 120 s timeout), and a setup job that gives up.
\<close>

section \<open>Runs against a healthy cluster\<close>

definition obj_matches :: "kind \<Rightarrow> string \<Rightarrow> string \<Rightarrow> k8s_object \<Rightarrow> bool" where
  "obj_matches k ns n ob = (obj_kind ob = k \<and> obj_namespace ob = ns \<and> obj_name ob = n)"

definition present :: "cluster \<Rightarrow> k8s_object list \<Rightarrow> k8s_object \<Rightarrow> bool" where
  "present c obs ob = (has_object c (obj_kind ob) (obj_namespace ob) (obj_name ob)
                       \<or> list_ex (obj_matches (obj_kind ob) (obj_namespace ob) (obj_name ob)) obs)"

definition run_state :: "store \<Rightarrow> cluster \<Rightarrow> store_table \<Rightarrow> k8s_object list \<Rightarrow> ms \<Rightarrow> (string \<times> event_status) list
    \<Rightarrow> world \<Rightarrow> bool" where
  "run_state s c T obs t tr w =
     (fault (k8s w) = fault c \<and> terminating (k8s w) = terminating c \<and> deploy_status (k8s w) = deploy_status c
      \<and> job_status (k8s w) = job_status c \<and> latency (k8s w) = latency c
      \<and> (\<forall>k ns n. has_object (k8s w) k ns n = (has_object c k ns n \<or> list_ex (obj_matches k ns n) obs))
      \<and> stores w = T \<and> clock w = t \<and> step_trace (st_id s) (events w) = tr)"

definition creatable :: "store \<Rightarrow> cluster \<Rightarrow> k8s_object list \<Rightarrow> k8s_object \<Rightarrow> bool" where
  "creatable s c obs ob =
     (healthy_for (st_namespace s) c \<and> obj_namespace ob = st_namespace s
      \<and> (if obj_kind ob = Namespace then obj_name ob = st_namespace s
         else present c obs (buildNamespace (st_namespace s) (st_id s))))"

lemma present_Nil [simp]: "present c [] ob = has_object c (obj_kind ob) (obj_namespace ob) (obj_name ob)"
  by (simp add: present_def)

lemma present_Cons [simp]:
  "present c (x # obs) ob = (obj_matches (obj_kind ob) (obj_namespace ob) (obj_name ob) x \<or> present c obs ob)"
  by (auto simp: present_def)

lemma obj_matches_builder [simp]:
  "obj_matches k ns n ob = (obj_kind ob = k \<and> obj_namespace ob = ns \<and> obj_name ob = n)"
  by (simp add: obj_matches_def)

lemma has_object_append [simp]:
  "has_object (c\<lparr>objects := objects c @ [ob]\<rparr>) k ns n = (has_object c k ns n \<or> obj_matches k ns n ob)"
  by (auto simp: has_object_def obj_matches_def)

lemma triple_guard: "(b \<Longrightarrow> triple P a Q E) \<Longrightarrow> triple (\<lambda>s. b \<and> P s) a Q E"
  by (auto simp: triple_def)

lemma triple_seq_last: "triple P a Q E \<Longrightarrow> triple P (seq_act [a]) Q E"
  by (auto simp: triple_def bind_act_def split: prod.splits sum.splits)

lemma triple_handler:
  "(b \<Longrightarrow> triple P a Q E) \<Longrightarrow> triple (\<lambda>w. b \<and> P w) (if b then a else raise_act e) Q E"
  "(b \<Longrightarrow> triple P a Q E) \<Longrightarrow> triple (\<lambda>w. b \<and> P w) (if \<not> b then raise_act e else a) Q E"
  "(\<And>w. b \<Longrightarrow> P w \<Longrightarrow> Q () w) \<Longrightarrow> triple (\<lambda>w. b \<and> P w) (if \<not> b then raise_act e else ok_act ()) Q E"
  by (auto simp: triple_def)

lemma triple_False [simp]: "triple (\<lambda>_. False) a Q E"
  by (simp add: triple_def)

lemma log_event_run:
  "triple (run_state s c T obs t tr) (log_event (st_id s) step st msg)
     (\<lambda>_. run_state s c T obs t (tr @ [(step, st)])) E"
  by (simp add: triple_def run_state_def log_event_def)

lemma log_event_run_post:
  "(\<And>w. run_state s c T obs t (tr @ [(step, st)]) w \<Longrightarrow> Q () w) \<Longrightarrow>
   triple (run_state s c T obs t tr) (log_event (st_id s) step st msg) Q E"
  by (simp add: triple_def run_state_def log_event_def)

lemma k8s_create_run:
  assumes "creatable s c obs ob"
  shows "triple (run_state s c T obs t tr) (k8s_create ob)
     (\<lambda>_ w. \<not> present c obs ob \<and> run_state s c T (ob # obs) (t + latency c) tr w)
     (\<lambda>e w. is_conflict e \<and> present c obs ob \<and> run_state s c T (ob # obs) (t + latency c) tr w)"
  using assms
  apply (clarsimp simp: triple_def k8s_create_def create_object_def healthy_for_def run_state_def creatable_def
      ns_exists_def ns_terminating_def present_def is_conflict_def split: if_splits)
  apply (auto simp: obj_matches_def)
  done

lemma k8s_create_new:
  "\<not> present c obs ob \<Longrightarrow> creatable s c obs ob \<Longrightarrow>
   triple (run_state s c T obs t tr) (k8s_create ob) (\<lambda>_. run_state s c T (ob # obs) (t + latency c) tr) E"
  by (rule triple_post [OF k8s_create_run]) auto

lemma k8s_create_conflict:
  "present c obs ob \<Longrightarrow> creatable s c obs ob \<Longrightarrow>
   triple (run_state s c T obs t tr) (k8s_create ob) Q
     (\<lambda>e w. is_conflict e \<and> run_state s c T (ob # obs) (t + latency c) tr w)"
  by (rule triple_post [OF k8s_create_run]) auto

lemma create_ignoring_conflict_run:
  assumes "creatable s c obs ob"
  shows "triple (run_state s c T obs t tr) (create_ignoring_conflict ob)
     (\<lambda>_. run_state s c T (ob # obs) (t + latency c) tr) E"
  using k8s_create_run [OF assms, of T t tr]
  unfolding create_ignoring_conflict_def triple_def try_catch_def
  by (fastforce split: prod.splits sum.splits)

lemmas run_rules = triple_seq_Cons log_event_run create_ignoring_conflict_run triple_seq_Nil

lemma step_create_namespace_run:
  assumes "healthy_for (st_namespace s) c"
  shows "triple (run_state s c T obs t tr) (step_create_namespace s)
     (\<lambda>_. run_state s c T (buildNamespace (st_namespace s) (st_id s) # obs) (t + latency c)
            (tr @ [(''create_namespace'', Started), (''create_namespace'', Completed)])) E"
  unfolding step_create_namespace_def Let_def
  apply (rule triple_seq_Cons [OF log_event_run])
  apply (rule triple_seq_last)
  apply (rule triple_try)
   apply (rule triple_seq_Cons [OF k8s_create_run])
    apply (simp add: creatable_def assms)
   apply (rule triple_seq_Cons [OF triple_guard [OF log_event_run]])
   apply (rule triple_seq_Nil)
   apply simp
  apply (rule triple_handler)
  apply (rule triple_guard)
  apply (rule log_event_run_post)
  apply simp
  done

lemma step_create_quota_run:
  assumes "healthy_for (st_namespace s) c" "present c obs (buildNamespace (st_namespace s) (st_id s))"
  shows "triple (run_state s c T obs t tr) (step_create_quota s)
     (\<lambda>_. run_state s c T (buildLimitRange (st_namespace s) # buildResourceQuota (st_namespace s) # obs)
            (t + latency c + latency c)
            (tr @ [(''create_quota'', Started), (''create_quota'', Completed)])) E"
  unfolding step_create_quota_def Let_def
  using assms
  by - (rule run_rules | simp add: creatable_def present_def obj_matches_def)+

lemma step_create_secrets_run:
  assumes "healthy_for (st_namespace s) c" "present c obs (buildNamespace (st_namespace s) (st_id s))"
  shows "triple (run_state s c T obs t tr) (step_create_secrets s sec)
     (\<lambda>_. run_state s c T
            (if present c obs (buildMySQLSecret (st_namespace s) sec)
             then buildMySQLSecret (st_namespace s) sec # obs
             else buildWordPressSecret (st_namespace s) sec # buildMySQLSecret (st_namespace s) sec # obs)
            (if present c obs (buildMySQLSecret (st_namespace s) sec) then t + latency c else t + latency c + latency c)
            (tr @ [(''create_secrets'', Started), (''create_secrets'', Completed)])) E"
proof (cases "present c obs (buildMySQLSecret (st_namespace s) sec)")
  case True
  show ?thesis
    unfolding step_create_secrets_def Let_def
    apply (rule triple_seq_Cons [OF log_event_run])
    apply (rule triple_seq_last)
    apply (rule triple_try)
     apply (rule triple_seq_Cons [OF k8s_create_conflict [OF True]])
      apply (simp add: creatable_def assms)
     apply (rule triple_False)
    apply (rule triple_handler)
    apply (rule log_event_run_post)
    apply (simp add: True)
    done
next
  case False
  let ?ob = "buildWordPressSecret (st_namespace s) sec"
  let ?obs = "buildMySQLSecret (st_namespace s) sec # obs"
  have ns: "present c ?obs (buildNamespace (st_namespace s) (st_id s))"
    using assms(2) by simp
  show ?thesis
  proof (cases "present c ?obs ?ob")
    case True
    show ?thesis
      unfolding step_create_secrets_def Let_def
      apply (rule triple_seq_Cons [OF log_event_run])
      apply (rule triple_seq_last)
      apply (rule triple_try)
       apply (rule triple_seq_Cons [OF k8s_create_new [OF False]])
        apply (simp add: creatable_def assms)
       apply (rule triple_seq_Cons [OF k8s_create_conflict [OF True]])
        apply (simp add: creatable_def assms ns)
       apply (rule triple_False)
      apply (rule triple_handler)
      apply (rule log_event_run_post)
      apply (simp add: False add.assoc)
      done
  next
    case c2: False
    show ?thesis
      unfolding step_create_secrets_def Let_def
      apply (rule triple_seq_Cons [OF log_event_run])
      apply (rule triple_seq_last)
      apply (rule triple_try)
       apply (rule triple_seq_Cons [OF k8s_create_new [OF False]])
        apply (simp add: creatable_def assms)
       apply (rule triple_seq_Cons [OF k8s_create_new [OF c2]])
        apply (simp add: creatable_def assms ns)
       apply (rule triple_seq_Cons [OF log_event_run])
       apply (rule triple_seq_Nil)
       apply (simp add: False add.assoc)
      apply (rule triple_False)
      done
  qed
qed

section \<open>The waits in a run\<close>

lemma run_state_tick: "run_state s c T obs t tr w \<Longrightarrow> run_state s c T obs (t + latency c) tr (tick w)"
  by (simp add: run_state_def)

lemma run_state_clock_only:
  "run_state s c T obs t tr w \<Longrightarrow> clock_only w w' \<Longrightarrow> run_state s c T obs (clock w') tr w'"
  by (simp add: run_state_def clock_only_def)

lemma run_state_reads:
  assumes "run_state s c T obs t tr w" "healthy_for ns' c" "present c obs d"
  shows "obj_kind d = Deployment \<Longrightarrow>
           read_deployment (obj_namespace d) (obj_name d) t' (k8s w) = Inr (deploy_status c (obj_namespace d) (obj_name d) t')"
    and "obj_kind d = Job \<Longrightarrow>
           read_job (obj_namespace d) (obj_name d) t' (k8s w) = Inr (job_status c (obj_namespace d) (obj_name d) t')"
  using assms by (auto simp: run_state_def healthy_for_def present_def read_deployment_def read_job_def)

lemma wait_deploy_ready_run:
  assumes "healthy_for (st_namespace s) c" "present c obs d" "obj_kind d = Deployment"
    "obj_namespace d = st_namespace s" "\<forall>t. deploy_ready (deploy_status c (st_namespace s) (obj_name d) t)" "0 < secs"
  shows "triple (run_state s c T obs t tr) (waitForDeploymentReady (st_namespace s) (obj_name d) secs)
           (\<lambda>_. run_state s c T obs (t + latency c) tr) E"
  unfolding triple_def
proof (intro allI impI)
  fix w assume r: "run_state s c T obs t tr w"
  have "wait_deploy_loop (st_namespace s) (obj_name d) secs (clock w + secs * 1000) w = (Inr (), tick w)"
    using wait_deploy_first_poll run_state_reads(1) [OF r assms(1,2,3)] assms(4-6) by auto
  then show "case waitForDeploymentReady (st_namespace s) (obj_name d) secs w of
               (Inr x, s') \<Rightarrow> run_state s c T obs (t + latency c) tr s' | (Inl e, s') \<Rightarrow> E e s'"
    using run_state_tick [OF r] by (simp add: waitForDeploymentReady_def)
qed

lemma wait_deploy_timeout_run:
  assumes "\<forall>t. \<not> deploy_ready (deploy_status c ns n t)"
  shows "triple (run_state s c T obs t tr) (waitForDeploymentReady ns n secs) (\<lambda>_ _. False)
           (\<lambda>e w. e = Error (deploy_timeout_msg ns n secs)
              \<and> (\<exists>t'. run_state s c T obs t' tr w \<and> t + secs * 1000 \<le> t'
                     \<and> t' < max (t + 1) (t + secs * 1000 + latency c + 5000)))"
  unfolding triple_def
proof (intro allI impI)
  fix w assume r: "run_state s c T obs t tr w"
  have k: "deploy_status (k8s w) = deploy_status c" "latency (k8s w) = latency c" "clock w = t"
    using r by (simp_all add: run_state_def)
  have "\<forall>t' st. read_deployment ns n t' (k8s w) = Inr st \<longrightarrow> \<not> deploy_ready st"
  proof (intro allI impI)
    fix t' st assume "read_deployment ns n t' (k8s w) = Inr st"
    then have "st = deploy_status c ns n t'"
      using k by (auto simp: read_deployment_def split: option.splits if_splits)
    then show "\<not> deploy_ready st" using assms by simp
  qed
  then have e: "fst (wait_deploy_loop ns n secs (clock w + secs * 1000) w) = Inl (Error (deploy_timeout_msg ns n secs))"
    by (rule wait_deploy_never_ready)
  obtain r' w' where run: "wait_deploy_loop ns n secs (clock w + secs * 1000) w = (r', w')" by fastforce
  have post: "deploy_wait_post ns n secs (clock w + secs * 1000) w (r', w')"
    using wait_deploy_loop_post run by metis
  have r': "r' = Inl (Error (deploy_timeout_msg ns n secs))" using e run by simp
  have co: "clock_only w w'" using post by (simp add: deploy_wait_post_def)
  have lo: "clock w + secs * 1000 \<le> clock w'" using post r' by (simp add: deploy_wait_post_def)
  have hi: "clock w' < max (t + 1) (t + secs * 1000 + latency c + 5000)"
    using post k by (simp add: deploy_wait_post_def)
  have "run_state s c T obs (clock w') tr w'" by (rule run_state_clock_only [OF r co])
  then show "case waitForDeploymentReady ns n secs w of (Inr x, s') \<Rightarrow> False
         | (Inl e, s') \<Rightarrow> e = Error (deploy_timeout_msg ns n secs)
             \<and> (\<exists>t'. run_state s c T obs t' tr s' \<and> t + secs * 1000 \<le> t'
                     \<and> t' < max (t + 1) (t + secs * 1000 + latency c + 5000))"
    using run r' lo hi k by (auto simp: waitForDeploymentReady_def)
qed

lemma wait_job_done_run:
  assumes "healthy_for (st_namespace s) c" "present c obs d" "obj_kind d = Job"
    "obj_namespace d = st_namespace s" "\<forall>t. job_succeeded (fst (job_status c (st_namespace s) (obj_name d) t))" "0 < secs"
  shows "triple (run_state s c T obs t tr) (waitForJobComplete (st_namespace s) (obj_name d) secs)
           (\<lambda>_. run_state s c T obs (t + latency c) tr) E"
  unfolding triple_def
proof (intro allI impI)
  fix w assume r: "run_state s c T obs t tr w"
  obtain sc fl where j: "job_status c (st_namespace s) (obj_name d) (clock w) = (sc, fl)" by fastforce
  have "wait_job_loop (st_namespace s) (obj_name d) secs (clock w + secs * 1000) w = (Inr (), tick w)"
    using wait_job_first_poll [of w _ "st_namespace s" "obj_name d" sc fl] run_state_reads(2) [OF r assms(1,2,3)]
      assms(4-6) j by (metis fst_conv less_add_same_cancel1 nat_0_less_mult_iff zero_less_numeral)
  then show "case waitForJobComplete (st_namespace s) (obj_name d) secs w of
               (Inr x, s') \<Rightarrow> run_state s c T obs (t + latency c) tr s' | (Inl e, s') \<Rightarrow> E e s'"
    using run_state_tick [OF r] by (simp add: waitForJobComplete_def)
qed

lemma wait_job_gave_up_run:
  assumes "healthy_for (st_namespace s) c" "present c obs d" "obj_kind d = Job" "obj_namespace d = st_namespace s"
    "\<forall>t. \<not> job_succeeded (fst (job_status c (st_namespace s) (obj_name d) t))
         \<and> (t0 \<le> t \<longrightarrow> job_gave_up (snd (job_status c (st_namespace s) (obj_name d) t)))"
    "t0 + latency c + 10000 \<le> t + secs * 1000" "0 < secs"
  shows "triple (run_state s c T obs t tr) (waitForJobComplete (st_namespace s) (obj_name d) secs) (\<lambda>_ _. False)
           (\<lambda>e w. e = Error (job_failed_msg (obj_name d)) \<and> (\<exists>t'. run_state s c T obs t' tr w))"
  unfolding triple_def
proof (intro allI impI)
  fix w assume r: "run_state s c T obs t tr w"
  have k: "latency (k8s w) = latency c" "clock w = t"
    using r by (simp_all add: run_state_def)
  have rd: "\<forall>t. \<exists>sc fl. read_job (st_namespace s) (obj_name d) t (k8s w) = Inr (sc, fl) \<and> \<not> job_succeeded sc
              \<and> (t0 \<le> t \<longrightarrow> job_gave_up fl)"
    using run_state_reads(2) [OF r assms(1,2,3)] assms(4,5) by (metis prod.collapse)
  have e: "fst (wait_job_loop (st_namespace s) (obj_name d) secs (clock w + secs * 1000) w)
      = Inl (Error (job_failed_msg (obj_name d)))"
    by (rule wait_job_gives_up [OF rd]) (use assms(6,7) k in auto)
  obtain r' w' where run: "wait_job_loop (st_namespace s) (obj_name d) secs (clock w + secs * 1000) w = (r', w')"
    by fastforce
  have "clock_only w w'"
    using wait_job_loop_post [of "st_namespace s" "obj_name d" secs "clock w + secs * 1000" w] run
    by (simp add: job_wait_post_def)
  then show "case waitForJobComplete (st_namespace s) (obj_name d) secs w of (Inr x, s') \<Rightarrow> False
      | (Inl e, s') \<Rightarrow> e = Error (job_failed_msg (obj_name d)) \<and> (\<exists>t'. run_state s c T obs t' tr s')"
    using e run run_state_clock_only [OF r] by (auto simp: waitForJobComplete_def)
qed

section \<open>The remaining steps\<close>

lemma step_deploy_mysql_run:
  assumes "healthy_for (st_namespace s) c" "present c obs (buildNamespace (st_namespace s) (st_id s))"
  shows "triple (run_state s c T obs t tr) (step_deploy_mysql cfg s)
     (\<lambda>_. run_state s c T (buildMySQLService (st_namespace s) # buildMySQLDeployment cfg (st_namespace s)
                             # buildMySQLPVC cfg (st_namespace s) # obs)
            (t + latency c + latency c + latency c)
            (tr @ [(''deploy_mysql'', Started), (''deploy_mysql'', Completed)])) E"
  unfolding step_deploy_mysql_def Let_def
  using assms
  by - (rule run_rules | simp add: creatable_def)+

lemma step_deploy_wordpress_run:
  assumes "healthy_for (st_namespace s) c" "present c obs (buildNamespace (st_namespace s) (st_id s))"
  shows "triple (run_state s c T obs t tr) (step_deploy_wordpress cfg s sec)
     (\<lambda>_. run_state s c T (buildWordPressService (st_namespace s)
                             # buildWordPressDeployment cfg (st_namespace s) (resource_config cfg s sec)
                             # buildWordPressPVC cfg (st_namespace s) # obs)
            (t + latency c + latency c + latency c)
            (tr @ [(''deploy_wordpress'', Started), (''deploy_wordpress'', Completed)])) E"
  unfolding step_deploy_wordpress_def Let_def
  using assms
  by - (rule run_rules | simp add: creatable_def)+

lemma step_wait_mysql_run:
  assumes "healthy_for (st_namespace s) c" "present c obs (buildMySQLDeployment cfg (st_namespace s))"
    "\<forall>t. deploy_ready (deploy_status c (st_namespace s) ''mysql'' t)"
  shows "triple (run_state s c T obs t tr) (step_wait_mysql s)
     (\<lambda>_. run_state s c T obs (t + latency c) (tr @ [(''wait_mysql'', Started), (''wait_mysql'', Completed)])) E"
proof -
  have w: "triple (run_state s c T obs t (tr @ [(''wait_mysql'', Started)]))
             (waitForDeploymentReady (st_namespace s) ''mysql'' mysql_wait_secs)
             (\<lambda>_. run_state s c T obs (t + latency c) (tr @ [(''wait_mysql'', Started)])) E"
    using wait_deploy_ready_run [of s c obs "buildMySQLDeployment cfg (st_namespace s)" mysql_wait_secs]
      assms by (simp add: mysql_wait_secs_def)
  show ?thesis
    unfolding step_wait_mysql_def Let_def
    by (rule triple_seq_Cons [OF log_event_run] triple_seq_Cons [OF w] triple_seq_Nil | simp)+
qed

lemma step_wait_wordpress_run:
  assumes "healthy_for (st_namespace s) c"
    "present c obs (buildWordPressDeployment cfg (st_namespace s) (resource_config cfg s sec))"
    "\<forall>t. deploy_ready (deploy_status c (st_namespace s) ''wordpress'' t)" "0 < woocommerceInitTimeout cfg"
  shows "triple (run_state s c T obs t tr) (step_wait_wordpress cfg s)
     (\<lambda>_. run_state s c T obs (t + latency c)
            (tr @ [(''wait_wordpress'', Started), (''wait_wordpress'', Completed)])) E"
proof -
  have w: "triple (run_state s c T obs t (tr @ [(''wait_wordpress'', Started)]))
             (waitForDeploymentReady (st_namespace s) ''wordpress'' (woocommerceInitTimeout cfg))
             (\<lambda>_. run_state s c T obs (t + latency c) (tr @ [(''wait_wordpress'', Started)])) E"
    using wait_deploy_ready_run [of s c obs "buildWordPressDeployment cfg (st_namespace s) (resource_config cfg s sec)"]
      assms by simp
  show ?thesis
    unfolding step_wait_wordpress_def Let_def
    by (rule triple_seq_Cons [OF log_event_run] triple_seq_Cons [OF w] triple_seq_Nil | simp)+
qed

lemma step_setup_woocommerce_run:
  assumes "healthy_for (st_namespace s) c" "present c obs (buildNamespace (st_namespace s) (st_id s))"
    "\<forall>t. job_succeeded (fst (job_status c (st_namespace s) ''woocommerce-setup'' t))" "0 < woocommerceInitTimeout cfg"
  shows "triple (run_state s c T obs t tr) (step_setup_woocommerce cfg s sec)
     (\<lambda>_. run_state s c T (buildWooCommerceSetupJob cfg (st_namespace s) (resource_config cfg s sec) # obs)
            (t + latency c + latency c)
            (tr @ [(''setup_woocommerce'', Started), (''setup_woocommerce'', Completed)])) E"
proof -
  let ?j = "buildWooCommerceSetupJob cfg (st_namespace s) (resource_config cfg s sec)"
  have w: "triple (run_state s c T (?j # obs) (t + latency c) (tr @ [(''setup_woocommerce'', Started)]))
             (waitForJobComplete (st_namespace s) ''woocommerce-setup'' (woocommerceInitTimeout cfg))
             (\<lambda>_. run_state s c T (?j # obs) (t + latency c + latency c) (tr @ [(''setup_woocommerce'', Started)])) E"
    using wait_job_done_run [of s c "?j # obs" ?j] assms by simp
  show ?thesis
    unfolding step_setup_woocommerce_def Let_def
    using assms
    by - (rule triple_seq_Cons [OF log_event_run] triple_seq_Cons [OF create_ignoring_conflict_run]
              triple_seq_Cons [OF w] triple_seq_Nil | simp add: creatable_def)+
qed

lemma step_create_ingress_run:
  assumes "healthy_for (st_namespace s) c" "present c obs (buildNamespace (st_namespace s) (st_id s))"
  shows "triple (run_state s c T obs t tr) (step_create_ingress cfg s)
     (\<lambda>_. run_state s c T (buildStoreIngress cfg (st_namespace s) (store_host cfg s) # obs) (t + latency c)
            (tr @ [(''create_ingress'', Started), (''create_ingress'', Completed)])) E"
  unfolding step_create_ingress_def Let_def
  apply (rule triple_seq_Cons [OF log_event_run])
  apply (rule triple_seq_last)
  apply (rule triple_try)
   apply (rule triple_seq_Cons [OF k8s_create_run])
    apply (simp add: creatable_def assms)
   apply (rule triple_seq_Cons [OF triple_guard [OF log_event_run]])
   apply (rule triple_seq_Nil)
   apply simp
  apply (rule triple_handler)
  apply (rule triple_guard)
  apply (rule log_event_run_post)
  apply simp
  done

lemma step_create_networkpolicy_run:
  assumes "healthy_for (st_namespace s) c" "present c obs (buildNamespace (st_namespace s) (st_id s))"
  shows "triple (run_state s c T obs t tr) (step_create_networkpolicy s)
     (\<lambda>_. run_state s c T (buildNetworkPolicy (st_namespace s) # obs) (t + latency c)
            (tr @ [(''create_networkpolicy'', Started)]
                @ (if present c obs (buildNetworkPolicy (st_namespace s)) then []
                   else [(''create_networkpolicy'', Completed)]))) E"
proof (cases "present c obs (buildNetworkPolicy (st_namespace s))")
  case True
  show ?thesis
    unfolding step_create_networkpolicy_def Let_def
    apply (rule triple_seq_Cons [OF log_event_run])
    apply (rule triple_seq_last)
    apply (rule triple_try)
     apply (rule triple_seq_Cons [OF k8s_create_conflict [OF True]])
      apply (simp add: creatable_def assms)
     apply (rule triple_False)
    apply (rule triple_handler(3))
    apply (simp add: True)
    done
next
  case False
  show ?thesis
    unfolding step_create_networkpolicy_def Let_def
    apply (rule triple_seq_Cons [OF log_event_run])
    apply (rule triple_seq_last)
    apply (rule triple_try)
     apply (rule triple_seq_Cons [OF k8s_create_new [OF False]])
      apply (simp add: creatable_def assms)
     apply (rule triple_seq_Cons [OF log_event_run])
     apply (rule triple_seq_Nil)
     apply (simp add: False)
    apply (rule triple_False)
    done
qed

lemma step_mark_ready_run:
  "triple (run_state s c T obs t tr) (step_mark_ready cfg s sec)
     (\<lambda>_. run_state s c (updateStoreReady (st_id s) (store_url cfg s) (admin_url cfg s) (wpAdminPassword sec) t T)
            obs t (tr @ [(''ready'', Completed)])) E"
  by (simp add: step_mark_ready_def triple_def run_state_def world_defs Let_def)

section \<open>Steps that fail\<close>

lemma triple_seq_throw: "triple P a (\<lambda>_ _. False) E \<Longrightarrow> triple P (seq_act (a # as)) Q E"
  by (rule triple_seq_Cons [OF _ triple_False])

lemma step_wait_mysql_timeout:
  assumes "\<forall>t. \<not> deploy_ready (deploy_status c (st_namespace s) ''mysql'' t)"
  shows "triple (run_state s c T obs t tr) (step_wait_mysql s) (\<lambda>_ _. False)
     (\<lambda>e w. e = Error (deploy_timeout_msg (st_namespace s) ''mysql'' 120)
        \<and> (\<exists>t'. run_state s c T obs t' (tr @ [(''wait_mysql'', Started)]) w
               \<and> t + 120000 \<le> t' \<and> t' < t + 125000 + latency c))"
proof -
  have w: "triple (run_state s c T obs t (tr @ [(''wait_mysql'', Started)]))
      (waitForDeploymentReady (st_namespace s) ''mysql'' mysql_wait_secs) (\<lambda>_ _. False)
      (\<lambda>e w. e = Error (deploy_timeout_msg (st_namespace s) ''mysql'' 120)
        \<and> (\<exists>t'. run_state s c T obs t' (tr @ [(''wait_mysql'', Started)]) w
               \<and> t + 120000 \<le> t' \<and> t' < t + 125000 + latency c))"
    by (rule triple_post [OF wait_deploy_timeout_run [OF assms]]) (auto simp: mysql_wait_secs_def)
  show ?thesis
    unfolding step_wait_mysql_def Let_def
    by (rule triple_seq_Cons [OF log_event_run] triple_seq_throw [OF w])+
qed

lemma step_setup_woocommerce_gave_up:
  assumes "healthy_for (st_namespace s) c" "present c obs (buildNamespace (st_namespace s) (st_id s))"
    "\<forall>t. \<not> job_succeeded (fst (job_status c (st_namespace s) ''woocommerce-setup'' t))
         \<and> (t0 \<le> t \<longrightarrow> job_gave_up (snd (job_status c (st_namespace s) ''woocommerce-setup'' t)))"
    "t0 + 10000 \<le> t + woocommerceInitTimeout cfg * 1000" "0 < woocommerceInitTimeout cfg"
  shows "triple (run_state s c T obs t tr) (step_setup_woocommerce cfg s sec) (\<lambda>_ _. False)
     (\<lambda>e w. e = Error (job_failed_msg ''woocommerce-setup'')
        \<and> (\<exists>t'. run_state s c T (buildWooCommerceSetupJob cfg (st_namespace s) (resource_config cfg s sec) # obs) t'
                 (tr @ [(''setup_woocommerce'', Started)]) w))"
proof -
  let ?j = "buildWooCommerceSetupJob cfg (st_namespace s) (resource_config cfg s sec)"
  have w: "triple (run_state s c T (?j # obs) (t + latency c) (tr @ [(''setup_woocommerce'', Started)]))
      (waitForJobComplete (st_namespace s) ''woocommerce-setup'' (woocommerceInitTimeout cfg)) (\<lambda>_ _. False)
      (\<lambda>e w. e = Error (job_failed_msg ''woocommerce-setup'')
        \<and> (\<exists>t'. run_state s c T (?j # obs) t' (tr @ [(''setup_woocommerce'', Started)]) w))"
    using wait_job_gave_up_run [of s c "?j # obs" ?j t0 "t + latency c"] assms by simp
  show ?thesis
    unfolding step_setup_woocommerce_def Let_def
    using assms(1,2)
    by - (rule triple_seq_Cons [OF log_event_run] triple_seq_Cons [OF create_ignoring_conflict_run]
              triple_seq_throw [OF w] | simp add: creatable_def)+
qed

section \<open>Whole runs\<close>

text \<open>
  The (step, status) history a run writes, and the objects it leaves. A network policy
  that already exists makes its step log no completed event; a MySQL secret that already
  exists makes the secrets step skip the WordPress secret.
\<close>

definition woo_trace :: "bool \<Rightarrow> (string \<times> event_status) list" where
  "woo_trace np_existed =
     [(''create_namespace'', Started), (''create_namespace'', Completed),
      (''create_secrets'', Started), (''create_secrets'', Completed),
      (''create_quota'', Started), (''create_quota'', Completed),
      (''deploy_mysql'', Started), (''deploy_mysql'', Completed),
      (''wait_mysql'', Started), (''wait_mysql'', Completed),
      (''deploy_wordpress'', Started), (''deploy_wordpress'', Completed),
      (''wait_wordpress'', Started), (''wait_wordpress'', Completed),
      (''setup_woocommerce'', Started), (''setup_woocommerce'', Completed),
      (''create_ingress'', Started), (''create_ingress'', Completed),
      (''create_networkpolicy'', Started)]
     @ (if np_existed then [] else [(''create_networkpolicy'', Completed)]) @ [(''ready'', Completed)]"

definition woo_created :: "config \<Rightarrow> store \<Rightarrow> store_secrets \<Rightarrow> cluster \<Rightarrow> k8s_object list" where
  "woo_created cfg s sec c = (let ns = st_namespace s; rc = resource_config cfg s sec in
     [buildNamespace ns (st_id s), buildMySQLSecret ns sec]
     @ (if has_object c Secret ns ''mysql-credentials'' then [] else [buildWordPressSecret ns sec])
     @ [buildResourceQuota ns, buildLimitRange ns, buildMySQLPVC cfg ns, buildMySQLDeployment cfg ns,
        buildMySQLService ns, buildWordPressPVC cfg ns, buildWordPressDeployment cfg ns rc,
        buildWordPressService ns, buildWooCommerceSetupJob cfg ns rc,
        buildStoreIngress cfg ns (store_host cfg s), buildNetworkPolicy ns])"

definition healthy_run :: "config \<Rightarrow> store \<Rightarrow> cluster \<Rightarrow> bool" where
  "healthy_run cfg s c = (healthy_for (st_namespace s) c
     \<and> (\<forall>t. deploy_ready (deploy_status c (st_namespace s) ''mysql'' t))
     \<and> (\<forall>t. deploy_ready (deploy_status c (st_namespace s) ''wordpress'' t))
     \<and> (\<forall>t. job_succeeded (fst (job_status c (st_namespace s) ''woocommerce-setup'' t)))
     \<and> 0 < woocommerceInitTimeout cfg)"

lemmas woo_step_runs = step_create_namespace_run step_create_secrets_run step_create_quota_run
  step_deploy_mysql_run step_wait_mysql_run step_deploy_wordpress_run step_wait_wordpress_run
  step_setup_woocommerce_run step_create_ingress_run step_create_networkpolicy_run step_mark_ready_run

lemma run_state_trace: "run_state s c T obs t tr w \<Longrightarrow> tr = tr' \<Longrightarrow> run_state s c T obs t tr' w"
  by simp

lemma provision_woo_list:
  "provision_woo cfg s sec = seq_act
     [step_create_namespace s, step_create_secrets s sec, step_create_quota s,
      step_deploy_mysql cfg s, step_wait_mysql s, step_deploy_wordpress cfg s sec,
      step_wait_wordpress cfg s, step_setup_woocommerce cfg s sec,
      step_create_ingress cfg s, step_create_networkpolicy s, step_mark_ready cfg s sec]"
  by (simp add: provision_woo_def woo_steps_before_ready_def)

lemma provision_woo_healthy_triple:
  assumes "healthy_run cfg s c"
  shows "triple (run_state s c T [] t tr) (provision_woo cfg s sec)
     (\<lambda>_ w. \<exists>tR tF obs. run_state s c (updateStoreReady (st_id s) (store_url cfg s) (admin_url cfg s)
                                         (wpAdminPassword sec) tR T) obs tF
                         (tr @ woo_trace (has_object c NetworkPolicy (st_namespace s) ''store-isolation'')) w
                       \<and> (\<forall>k ns n. list_ex (obj_matches k ns n) obs = list_ex (obj_matches k ns n) (woo_created cfg s sec c)))
     (\<lambda>_ _. False)"
  using assms unfolding provision_woo_list healthy_run_def
  apply -
  apply (rule triple_seq_Cons [OF woo_step_runs(1)] triple_seq_Cons [OF woo_step_runs(2)]
      triple_seq_Cons [OF woo_step_runs(3)] triple_seq_Cons [OF woo_step_runs(4)]
      triple_seq_Cons [OF woo_step_runs(5)] triple_seq_Cons [OF woo_step_runs(6)]
      triple_seq_Cons [OF woo_step_runs(7)] triple_seq_Cons [OF woo_step_runs(8)]
      triple_seq_Cons [OF woo_step_runs(9)] triple_seq_Cons [OF woo_step_runs(10)]
      triple_seq_Cons [OF woo_step_runs(11)] triple_seq_Nil | simp)+
  apply (elim conjE)
  apply (intro exI conjI)
   apply (erule run_state_trace)
   apply (simp add: woo_trace_def)
  apply (auto simp: woo_created_def Let_def)
  done

lemma run_state_start: "run_state s (k8s w) (stores w) [] (clock w) (step_trace (st_id s) (events w)) w"
  by (simp add: run_state_def)

text \<open>
  C11. A run against a healthy cluster (no call fails, the namespace is not being
  deleted, both deployments report ready, the setup job reports success) returns
  normally and marks the store Ready; its event history is the eleven steps in the
  source's order, each started and then completed, except that an already existing network
  policy logs no completed event; and the cluster afterwards holds exactly the objects it
  held before and those the pipeline creates.
\<close>

theorem provision_woo_healthy:
  assumes "healthy_run cfg s (k8s w)"
  shows "\<exists>w'. provision_woo cfg s sec w = (Inr (), w')
     \<and> (\<exists>t. stores w' = updateStoreReady (st_id s) (store_url cfg s) (admin_url cfg s) (wpAdminPassword sec) t (stores w))
     \<and> step_trace (st_id s) (events w') = step_trace (st_id s) (events w)
          @ woo_trace (has_object (k8s w) NetworkPolicy (st_namespace s) ''store-isolation'')
     \<and> (\<forall>k ns n. has_object (k8s w') k ns n
          = (has_object (k8s w) k ns n \<or> list_ex (obj_matches k ns n) (woo_created cfg s sec (k8s w))))"
proof -
  obtain w' where r: "provision_woo cfg s sec w = (Inr (), w')"
    and post: "\<exists>tR tF obs. run_state s (k8s w) (updateStoreReady (st_id s) (store_url cfg s) (admin_url cfg s)
                 (wpAdminPassword sec) tR (stores w)) obs tF
               (step_trace (st_id s) (events w) @ woo_trace (has_object (k8s w) NetworkPolicy (st_namespace s) ''store-isolation'')) w'
             \<and> (\<forall>k ns n. list_ex (obj_matches k ns n) obs = list_ex (obj_matches k ns n) (woo_created cfg s sec (k8s w)))"
    using triple_returns [OF provision_woo_healthy_triple [OF assms] run_state_start] by blast
  then show ?thesis by (auto simp: run_state_def)
qed

lemma provision_woo_mysql_timeout_triple:
  assumes "healthy_for (st_namespace s) c" "\<forall>t. \<not> deploy_ready (deploy_status c (st_namespace s) ''mysql'' t)"
  shows "triple (run_state s c T [] t tr) (provision_woo cfg s sec) (\<lambda>_ _. False)
     (\<lambda>e w. e = Error (deploy_timeout_msg (st_namespace s) ''mysql'' 120) \<and> stores w = T
        \<and> step_trace (st_id s) (events w) = tr @ take 9 (woo_trace False)
        \<and> t + 120000 \<le> clock w \<and> clock w < t + 9 * latency c + 125000)"
  using assms unfolding provision_woo_list
  apply -
  apply (rule triple_seq_Cons [OF woo_step_runs(1)] triple_seq_Cons [OF woo_step_runs(2)]
      triple_seq_Cons [OF woo_step_runs(3)] triple_seq_Cons [OF woo_step_runs(4)]
      triple_seq_throw [OF triple_post [OF step_wait_mysql_timeout]] | simp)+
  apply (auto simp: run_state_def woo_trace_def split: if_split_asm)
  done

lemma provision_woo_job_gave_up_triple:
  assumes "healthy_for (st_namespace s) c"
    "\<forall>t. deploy_ready (deploy_status c (st_namespace s) ''mysql'' t)"
    "\<forall>t. deploy_ready (deploy_status c (st_namespace s) ''wordpress'' t)"
    "\<forall>t. \<not> job_succeeded (fst (job_status c (st_namespace s) ''woocommerce-setup'' t))
         \<and> (t0 \<le> t \<longrightarrow> job_gave_up (snd (job_status c (st_namespace s) ''woocommerce-setup'' t)))"
    "t0 + 10000 \<le> t + woocommerceInitTimeout cfg * 1000" "0 < woocommerceInitTimeout cfg"
  shows "triple (run_state s c T [] t tr) (provision_woo cfg s sec) (\<lambda>_ _. False)
     (\<lambda>e w. e = Error (job_failed_msg ''woocommerce-setup'') \<and> stores w = T
        \<and> step_trace (st_id s) (events w) = tr @ take 15 (woo_trace False))"
  using assms unfolding provision_woo_list
  apply -
  apply (rule triple_seq_Cons [OF woo_step_runs(1)] triple_seq_Cons [OF woo_step_runs(2)]
      triple_seq_Cons [OF woo_step_runs(3)] triple_seq_Cons [OF woo_step_runs(4)]
      triple_seq_Cons [OF woo_step_runs(5)] triple_seq_Cons [OF woo_step_runs(6)]
      triple_seq_Cons [OF woo_step_runs(7)]
      triple_seq_throw [OF triple_post [OF step_setup_woocommerce_gave_up]] | simp)+
  apply (auto simp: run_state_def woo_trace_def)
  done

text \<open>
  C12. A MySQL deployment that never becomes ready ends the run with the
  "not ready after 120s" error of the MySQL wait: the stores table is untouched, the
  history ends with the wait's started event (no step logs a failed event), and the run
  ends between 120 s and 125 s plus nine cluster round trips after it started.
\<close>

theorem provision_woo_mysql_timeout:
  assumes "healthy_for (st_namespace s) (k8s w)"
    and "\<forall>t. \<not> deploy_ready (deploy_status (k8s w) (st_namespace s) ''mysql'' t)"
  shows "\<exists>w'. provision_woo cfg s sec w = (Inl (Error (deploy_timeout_msg (st_namespace s) ''mysql'' 120)), w')
     \<and> stores w' = stores w
     \<and> step_trace (st_id s) (events w') = step_trace (st_id s) (events w) @ take 9 (woo_trace False)
     \<and> clock w + 120000 \<le> clock w' \<and> clock w' < clock w + 9 * latency (k8s w) + 125000"
  using triple_throws [OF provision_woo_mysql_timeout_triple [OF assms] run_state_start] by blast

text \<open>
  C13. A setup job that never succeeds and has failed three times from time \<open>t0\<close> on,
  with a poll due before the deadline, ends the run with the job's "failed after 3
  attempts" error, not with the timeout; the stores table is untouched and the history ends
  with the setup step's started event.
\<close>

theorem provision_woo_job_gave_up:
  assumes "healthy_for (st_namespace s) (k8s w)"
    and "\<forall>t. deploy_ready (deploy_status (k8s w) (st_namespace s) ''mysql'' t)"
    and "\<forall>t. deploy_ready (deploy_status (k8s w) (st_namespace s) ''wordpress'' t)"
    and "\<forall>t. \<not> job_succeeded (fst (job_status (k8s w) (st_namespace s) ''woocommerce-setup'' t))
             \<and> (t0 \<le> t \<longrightarrow> job_gave_up (snd (job_status (k8s w) (st_namespace s) ''woocommerce-setup'' t)))"
    and "t0 + 10000 \<le> clock w + woocommerceInitTimeout cfg * 1000" and "0 < woocommerceInitTimeout cfg"
  shows "\<exists>w'. provision_woo cfg s sec w = (Inl (Error (job_failed_msg ''woocommerce-setup'')), w')
     \<and> stores w' = stores w
     \<and> step_trace (st_id s) (events w') = step_trace (st_id s) (events w) @ take 15 (woo_trace False)"
  using triple_throws [OF provision_woo_job_gave_up_triple [OF assms] run_state_start] by blast

text \<open>
  C14. A MySQL secret left in the namespace by an earlier run makes the secrets step take
  the 409 of its first create as "secrets already exist" and skip the WordPress secret: the
  run still returns normally and marks the store Ready, and the namespace then has no
  \<open>wordpress-secrets\<close> Secret.
\<close>

theorem provision_woo_skips_wordpress_secret:
  assumes "healthy_run cfg s (k8s w)"
    and "has_object (k8s w) Secret (st_namespace s) ''mysql-credentials''"
    and "\<not> has_object (k8s w) Secret (st_namespace s) ''wordpress-secrets''"
  shows "\<exists>w'. provision_woo cfg s sec w = (Inr (), w')
     \<and> (\<exists>t. stores w' = updateStoreReady (st_id s) (store_url cfg s) (admin_url cfg s) (wpAdminPassword sec) t (stores w))
     \<and> \<not> has_object (k8s w') Secret (st_namespace s) ''wordpress-secrets''"
proof -
  obtain w' tR tF obs where r: "provision_woo cfg s sec w = (Inr (), w')"
    and rs: "run_state s (k8s w) (updateStoreReady (st_id s) (store_url cfg s) (admin_url cfg s)
                 (wpAdminPassword sec) tR (stores w)) obs tF
               (step_trace (st_id s) (events w) @ woo_trace (has_object (k8s w) NetworkPolicy (st_namespace s) ''store-isolation'')) w'"
    and objs: "\<forall>k ns n. list_ex (obj_matches k ns n) obs = list_ex (obj_matches k ns n) (woo_created cfg s sec (k8s w))"
    using triple_returns [OF provision_woo_healthy_triple [OF assms(1)] run_state_start] by blast
  have "\<not> list_ex (obj_matches Secret (st_namespace s) ''wordpress-secrets'') (woo_created cfg s sec (k8s w))"
    using assms(2) by (simp add: woo_created_def Let_def)
  then show ?thesis
    using r rs objs assms(3) by (auto simp: run_state_def)
qed

section \<open>Witnesses\<close>

lemma demo_healthy: "healthy_for (st_namespace demo_store) (demo_cluster obs ds js)"
  by (simp add: healthy_for_def demo_cluster_def ns_terminating_def)

lemma provision_woo_healthy_witness:
  "healthy_run default_config demo_store (k8s (demo_world (demo_cluster [] (\<lambda>_ _ _. (Some 1, Some 1)) (\<lambda>_ _ _. (Some 1, None)))))
   \<and> (\<exists>w'. provision_woo default_config demo_store demo_secrets
             (demo_world (demo_cluster [] (\<lambda>_ _ _. (Some 1, Some 1)) (\<lambda>_ _ _. (Some 1, None)))) = (Inr (), w')
           \<and> step_trace 7 (events w') = woo_trace False
           \<and> has_object (k8s w') NetworkPolicy ''store-shop'' ''store-isolation'')"
proof -
  have h: "healthy_run default_config demo_store (k8s (demo_world (demo_cluster [] (\<lambda>_ _ _. (Some 1, Some 1)) (\<lambda>_ _ _. (Some 1, None)))))"
    using demo_healthy by (simp add: healthy_run_def demo_world_def demo_cluster_def deploy_ready_def job_succeeded_def default_config_def)
  obtain w' where r: "provision_woo default_config demo_store demo_secrets
      (demo_world (demo_cluster [] (\<lambda>_ _ _. (Some 1, Some 1)) (\<lambda>_ _ _. (Some 1, None)))) = (Inr (), w')"
    and tr: "step_trace (st_id demo_store) (events w') = step_trace (st_id demo_store)
      (events (demo_world (demo_cluster [] (\<lambda>_ _ _. (Some 1, Some 1)) (\<lambda>_ _ _. (Some 1, None)))))
      @ woo_trace (has_object (k8s (demo_world (demo_cluster [] (\<lambda>_ _ _. (Some 1, Some 1)) (\<lambda>_ _ _. (Some 1, None)))))
                     NetworkPolicy (st_namespace demo_store) ''store-isolation'')"
    and ob: "\<forall>k ns n. has_object (k8s w') k ns n = (has_object (k8s (demo_world (demo_cluster [] (\<lambda>_ _ _. (Some 1, Some 1)) (\<lambda>_ _ _. (Some 1, None))))) k ns n
       \<or> list_ex (obj_matches k ns n) (woo_created default_config demo_store demo_secrets
             (k8s (demo_world (demo_cluster [] (\<lambda>_ _ _. (Some 1, Some 1)) (\<lambda>_ _ _. (Some 1, None)))))))"
    using provision_woo_healthy [OF h, of demo_secrets] by blast
  have "step_trace 7 (events w') = woo_trace False"
    using tr by (simp add: demo_world_def demo_cluster_def demo_store_def new_store_row_def has_object_def
        step_trace_def getEventsByStoreId_def)
  moreover have "has_object (k8s w') NetworkPolicy ''store-shop'' ''store-isolation''"
    using ob by (simp add: woo_created_def demo_store_def new_store_row_def Let_def)
  ultimately show ?thesis using h r by blast
qed

lemma provision_woo_mysql_timeout_witness:
  "healthy_for (st_namespace demo_store) (k8s (demo_world (demo_cluster [] (\<lambda>_ _ _. (Some 0, Some 1)) (\<lambda>_ _ _. (None, None)))))
   \<and> (\<forall>t. \<not> deploy_ready (deploy_status (k8s (demo_world (demo_cluster [] (\<lambda>_ _ _. (Some 0, Some 1)) (\<lambda>_ _ _. (None, None)))))
            ''store-shop'' ''mysql'' t))
   \<and> (\<exists>w'. provision_woo default_config demo_store demo_secrets
             (demo_world (demo_cluster [] (\<lambda>_ _ _. (Some 0, Some 1)) (\<lambda>_ _ _. (None, None))))
             = (Inl (Error (deploy_timeout_msg ''store-shop'' ''mysql'' 120)), w')
           \<and> 120000 \<le> clock w' \<and> clock w' < 125000)"
proof -
  let ?w = "demo_world (demo_cluster [] (\<lambda>_ _ _. (Some 0, Some 1)) (\<lambda>_ _ _. (None, None)))"
  have h1: "healthy_for (st_namespace demo_store) (k8s ?w)" using demo_healthy by (simp add: demo_world_def)
  have h2: "\<forall>t. \<not> deploy_ready (deploy_status (k8s ?w) (st_namespace demo_store) ''mysql'' t)"
    by (simp add: demo_world_def demo_cluster_def deploy_ready_def)
  obtain w' where "provision_woo default_config demo_store demo_secrets ?w
      = (Inl (Error (deploy_timeout_msg (st_namespace demo_store) ''mysql'' 120)), w')"
    "clock ?w + 120000 \<le> clock w'" "clock w' < clock ?w + 9 * latency (k8s ?w) + 125000"
    using provision_woo_mysql_timeout [OF h1 h2, of default_config demo_secrets] by blast
  then show ?thesis
    using h1 h2 by (simp add: demo_world_def demo_cluster_def demo_store_def new_store_row_def)
qed

lemma provision_woo_job_gave_up_witness:
  "healthy_for (st_namespace demo_store) (k8s (demo_world (demo_cluster [] (\<lambda>_ _ _. (Some 1, Some 1)) (\<lambda>_ _ _. (None, Some 3)))))
   \<and> (\<exists>w'. provision_woo default_config demo_store demo_secrets
             (demo_world (demo_cluster [] (\<lambda>_ _ _. (Some 1, Some 1)) (\<lambda>_ _ _. (None, Some 3))))
             = (Inl (Error (job_failed_msg ''woocommerce-setup'')), w'))"
proof -
  let ?w = "demo_world (demo_cluster [] (\<lambda>_ _ _. (Some 1, Some 1)) (\<lambda>_ _ _. (None, Some 3)))"
  have h1: "healthy_for (st_namespace demo_store) (k8s ?w)" using demo_healthy by (simp add: demo_world_def)
  have h2: "\<forall>t. deploy_ready (deploy_status (k8s ?w) (st_namespace demo_store) ''mysql'' t)"
    "\<forall>t. deploy_ready (deploy_status (k8s ?w) (st_namespace demo_store) ''wordpress'' t)"
    by (simp_all add: demo_world_def demo_cluster_def deploy_ready_def)
  have h3: "\<forall>t. \<not> job_succeeded (fst (job_status (k8s ?w) (st_namespace demo_store) ''woocommerce-setup'' t))
             \<and> (0 \<le> t \<longrightarrow> job_gave_up (snd (job_status (k8s ?w) (st_namespace demo_store) ''woocommerce-setup'' t)))"
    by (simp add: demo_world_def demo_cluster_def job_succeeded_def job_gave_up_def)
  have h4: "0 + 10000 \<le> clock ?w + woocommerceInitTimeout default_config * 1000" "0 < woocommerceInitTimeout default_config"
    by (simp_all add: demo_world_def default_config_def)
  show ?thesis
    using h1 provision_woo_job_gave_up [OF h1 h2 h3 h4, of demo_secrets] by blast
qed

lemma provision_woo_skips_wordpress_secret_witness:
  "healthy_run default_config demo_store
     (k8s (demo_world (demo_cluster [buildMySQLSecret ''store-shop'' demo_secrets] (\<lambda>_ _ _. (Some 1, Some 1)) (\<lambda>_ _ _. (Some 1, None)))))
   \<and> (\<exists>w'. provision_woo default_config demo_store demo_secrets
             (demo_world (demo_cluster [buildMySQLSecret ''store-shop'' demo_secrets] (\<lambda>_ _ _. (Some 1, Some 1)) (\<lambda>_ _ _. (Some 1, None))))
             = (Inr (), w')
           \<and> \<not> has_object (k8s w') Secret (st_namespace demo_store) ''wordpress-secrets'')"
proof -
  let ?w = "demo_world (demo_cluster [buildMySQLSecret ''store-shop'' demo_secrets] (\<lambda>_ _ _. (Some 1, Some 1)) (\<lambda>_ _ _. (Some 1, None)))"
  have h1: "healthy_run default_config demo_store (k8s ?w)"
    using demo_healthy by (simp add: healthy_run_def demo_world_def demo_cluster_def deploy_ready_def job_succeeded_def default_config_def)
  have h2: "has_object (k8s ?w) Secret (st_namespace demo_store) ''mysql-credentials''"
    "\<not> has_object (k8s ?w) Secret (st_namespace demo_store) ''wordpress-secrets''"
    by (simp_all add: demo_world_def demo_cluster_def has_object_def demo_store_def new_store_row_def)
  show ?thesis
    using h1 provision_woo_skips_wordpress_secret [OF h1 h2, of demo_secrets] by blast
qed

end
