(* ===== verification/Provisioning.thy ===== *)
theory Provisioning
  imports Queue Woo_Healthy
begin

text \<open>
  Strategy selection and the queue's task
  (\<open>src/backend/src/services/provisioners/index.ts\<close>,
  \<open>src/backend/src/services/provisioners/medusaProvisioner.ts\<close>,
  \<open>src/backend/src/services/provisioningService.ts\<close>). The registry is the object
  literal \<open>provisioners\<close> as an association list in its key order; \<open>getProvisioner\<close>
  looks the plan up in it. The task \<open>enqueueProvisioning\<close> hands to the queue resolves
  the provisioner, runs it, and catches every error: it logs a \<open>provisioning\<close> failed
  event and marks the store Failed with the error's message.
\<close>

datatype provisioner = WooCommerceProvisioner | MedusaProvisioner

primrec engineName :: "provisioner \<Rightarrow> string" where
  "engineName WooCommerceProvisioner = ''WooCommerce''"
| "engineName MedusaProvisioner = ''MedusaJS''"

text \<open>The plan as the string stored in the \<open>plan\<close> column.\<close>

primrec plan_name :: "store_plan \<Rightarrow> string" where
  "plan_name Woocommerce = ''woocommerce''"
| "plan_name Medusa = ''medusa''"

definition provisioners :: "(string \<times> provisioner) list" where
  "provisioners = [(''woocommerce'', WooCommerceProvisioner), (''medusa'', MedusaProvisioner)]"

fun join_with :: "string \<Rightarrow> string list \<Rightarrow> string" where
  "join_with sep [] = []"
| "join_with sep [x] = x"
| "join_with sep (x # y # ys) = x @ sep @ join_with sep (y # ys)"

definition unknown_plan_msg :: "string \<Rightarrow> string" where
  "unknown_plan_msg plan = ''Unknown store plan: '' @ plan @ ''. Available: '' @ join_with '', '' (map fst provisioners)"

definition getProvisioner :: "string \<Rightarrow> error + provisioner" where
  "getProvisioner plan = (case map_of provisioners plan of
       None \<Rightarrow> Inl (Error (unknown_plan_msg plan))
     | Some p \<Rightarrow> Inr p)"

section \<open>The Medusa stub\<close>

definition medusa_event_msg :: string where
  "medusa_event_msg = ''MedusaJS provisioning is not yet implemented. Architecture is ready - requires PostgreSQL, Redis, MedusaJS Backend, and Storefront resource builders.''"

definition medusa_status_msg :: string where
  "medusa_status_msg = ''MedusaJS engine coming soon. Select WooCommerce for a fully functional store.''"

definition medusa_error_msg :: string where
  "medusa_error_msg = ''MedusaJS provisioning is not yet implemented.''"

definition provision_medusa :: "store \<Rightarrow> unit wact" where
  "provision_medusa s = seq_act
     [log_event (st_id s) ''provisioning'' StepFailed medusa_event_msg,
      update_status (st_id s) Failed (Some medusa_status_msg),
      raise_act (Error medusa_error_msg)]"

section \<open>Dispatch and the queue's task\<close>

primrec provision :: "provisioner \<Rightarrow> config \<Rightarrow> store \<Rightarrow> store_secrets \<Rightarrow> unit wact" where
  "provision WooCommerceProvisioner cfg s sec = provision_woo cfg s sec"
| "provision MedusaProvisioner cfg s sec = provision_medusa s"

definition lift_result :: "error + 'a \<Rightarrow> 'a wact" where
  "lift_result r w = (r, w)"

text \<open>The closure \<open>enqueueProvisioning\<close> adds to the queue, with its \<open>catch\<close>.\<close>

definition provisioning_catch :: "store \<Rightarrow> error \<Rightarrow> unit wact" where
  "provisioning_catch s e = seq_act
     [log_event (st_id s) ''provisioning'' StepFailed (err_message e),
      update_status (st_id s) Failed (Some (err_message e))]"

definition provisioning_task :: "config \<Rightarrow> store \<Rightarrow> store_secrets \<Rightarrow> unit wact" where
  "provisioning_task cfg s sec =
     try_catch
       (bind_act (lift_result (getProvisioner (plan_name (st_plan s)))) (\<lambda>p. provision p cfg s sec))
       (provisioning_catch s)"

text \<open>\<open>enqueueProvisioning(store)\<close>: \<open>queue.add\<close> of the store's task.\<close>

definition enqueueProvisioning :: "store \<Rightarrow> store pqueue \<Rightarrow> store pqueue" where
  "enqueueProvisioning s q = pq_add s q"

section \<open>Lemmas\<close>

primrec registered :: "store_plan \<Rightarrow> provisioner" where
  "registered Woocommerce = WooCommerceProvisioner"
| "registered Medusa = MedusaProvisioner"

lemma getProvisioner_plan [simp]: "getProvisioner (plan_name p) = Inr (registered p)"
  by (cases p) (simp_all add: getProvisioner_def provisioners_def)

lemma provisioning_catch_apply:
  "provisioning_catch s e w = (Inr (), w\<lparr>events := logEvent (next_uuid w) (st_id s) ''provisioning'' StepFailed
        (err_message e) (clock w) (events w), next_uuid := Suc (next_uuid w),
      stores := updateStoreStatus (st_id s) Failed (Some (err_message e)) (stores w)\<rparr>)"
  by (simp add: provisioning_catch_def world_defs)

lemma provisioning_task_apply:
  "provisioning_task cfg s sec w = (case provision (registered (st_plan s)) cfg s sec w of
       (Inr u, w1) \<Rightarrow> (Inr (), w1)
     | (Inl e, w1) \<Rightarrow> provisioning_catch s e w1)"
  by (simp add: provisioning_task_def try_catch_def bind_act_def lift_result_def split: prod.splits sum.splits)

lemma provision_medusa_apply:
  "provision_medusa s w = (Inl (Error medusa_error_msg),
     w\<lparr>events := logEvent (next_uuid w) (st_id s) ''provisioning'' StepFailed medusa_event_msg (clock w) (events w),
       next_uuid := Suc (next_uuid w),
       stores := updateStoreStatus (st_id s) Failed (Some medusa_status_msg) (stores w)\<rparr>)"
  by (simp add: provision_medusa_def world_defs)

text \<open>
  C16. The queue's task never lets an error escape, and a store whose row exists ends the
  task Ready or Failed: the pipeline's last write marks it Ready, and every error it
  throws is turned into Failed by the task's \<open>catch\<close>.
\<close>

theorem provisioning_task_settles:
  assumes "getStoreById (st_id s) (stores w) \<noteq> None"
  shows "fst (provisioning_task cfg s sec w) = Inr ()
     \<and> (\<exists>r. getStoreById (st_id s) (stores (snd (provisioning_task cfg s sec w))) = Some r
            \<and> (st_status r = Ready \<or> st_status r = Failed))"
proof (cases "st_plan s")
  case Woocommerce
  obtain r w1 where run: "provision_woo cfg s sec w = (r, w1)" by fastforce
  have "(r = Inr () \<and> (\<exists>t. stores w1 = updateStoreReady (st_id s) (store_url cfg s) (admin_url cfg s)
                               (wpAdminPassword sec) t (stores w)))
        \<or> (\<exists>e. r = Inl e \<and> stores w1 = stores w)"
    by (rule provision_woo_store_writes_eq [OF run])
  then show ?thesis
    using assms run Woocommerce by (auto simp: provisioning_task_apply provisioning_catch_apply)
next
  case Medusa
  then show ?thesis
    using assms by (auto simp: provisioning_task_apply provisioning_catch_apply provision_medusa_apply)
qed

text \<open>
  C17. A Medusa store ends Failed with the message of the error the stub throws, not with
  the explanatory message the stub writes: the stub marks the store Failed with "MedusaJS
  engine coming soon...", then throws, and the queue's catch marks it Failed again with
  the thrown error's message. The store's history gains two failed \<open>provisioning\<close>
  events.
\<close>

theorem provisioning_task_medusa:
  assumes "st_plan s = Medusa" and "getStoreById (st_id s) (stores w) = Some r"
  shows "\<exists>w'. provisioning_task cfg s sec w = (Inr (), w')
     \<and> getStoreById (st_id s) (stores w') = Some (r\<lparr>st_status := Failed, st_errorMessage := Some medusa_error_msg\<rparr>)
     \<and> step_trace (st_id s) (events w') = step_trace (st_id s) (events w)
          @ [(''provisioning'', StepFailed), (''provisioning'', StepFailed)]"
  using assms
  by (simp add: provisioning_task_apply provisioning_catch_apply provision_medusa_apply
      medusa_error_msg_def medusa_status_msg_def)

lemma run_state_row:
  "run_state s c T obs t tr w \<Longrightarrow> stores w = T \<and> step_trace (st_id s) (events w) = tr \<and> clock w = t"
  by (simp add: run_state_def)

lemma deploy_timeout_msg_nonempty [simp]: "deploy_timeout_msg ns n secs \<noteq> []"
  by (simp add: deploy_timeout_msg_def)

lemma job_failed_msg_nonempty [simp]: "job_failed_msg n \<noteq> []"
  by (simp add: job_failed_msg_def)

text \<open>
  A WooCommerce store whose MySQL deployment never becomes ready ends Failed with the
  wait's timeout message; its history is the first four steps, the started event of the
  MySQL wait, and the queue's failed \<open>provisioning\<close> event; the task ends within 125 s
  plus nine cluster round trips of its start.
\<close>

theorem provisioning_task_mysql_timeout:
  assumes "st_plan s = Woocommerce" and "getStoreById (st_id s) (stores w) = Some r"
    and "healthy_for (st_namespace s) (k8s w)"
    and "\<forall>t. \<not> deploy_ready (deploy_status (k8s w) (st_namespace s) ''mysql'' t)"
  shows "\<exists>w'. provisioning_task cfg s sec w = (Inr (), w')
     \<and> getStoreById (st_id s) (stores w') = Some (r\<lparr>st_status := Failed,
          st_errorMessage := Some (deploy_timeout_msg (st_namespace s) ''mysql'' 120)\<rparr>)
     \<and> step_trace (st_id s) (events w') = step_trace (st_id s) (events w)
          @ take 9 (woo_trace False) @ [(''provisioning'', StepFailed)]
     \<and> clock w + 120000 \<le> clock w' \<and> clock w' < clock w + 9 * latency (k8s w) + 125000"
proof -
  obtain e w1 where run: "provision_woo cfg s sec w = (Inl e, w1)"
    and post: "e = Error (deploy_timeout_msg (st_namespace s) ''mysql'' 120) \<and> stores w1 = stores w
        \<and> step_trace (st_id s) (events w1) = step_trace (st_id s) (events w) @ take 9 (woo_trace False)
        \<and> clock w + 120000 \<le> clock w1 \<and> clock w1 < clock w + 9 * latency (k8s w) + 125000"
    using triple_throws [OF provision_woo_mysql_timeout_triple [OF assms(3,4)] run_state_start] by blast
  show ?thesis
    using run post assms(1,2) by (simp add: provisioning_task_apply provisioning_catch_apply)
qed

text \<open>
  A WooCommerce store whose setup job gives up ends Failed with the job's "failed
  after 3 attempts" message, not with a timeout.
\<close>

theorem provisioning_task_job_gave_up:
  assumes "st_plan s = Woocommerce" and "getStoreById (st_id s) (stores w) = Some r"
    and "healthy_for (st_namespace s) (k8s w)"
    and "\<forall>t. deploy_ready (deploy_status (k8s w) (st_namespace s) ''mysql'' t)"
    and "\<forall>t. deploy_ready (deploy_status (k8s w) (st_namespace s) ''wordpress'' t)"
    and "\<forall>t. \<not> job_succeeded (fst (job_status (k8s w) (st_namespace s) ''woocommerce-setup'' t))
             \<and> (t0 \<le> t \<longrightarrow> job_gave_up (snd (job_status (k8s w) (st_namespace s) ''woocommerce-setup'' t)))"
    and "t0 + 10000 \<le> clock w + woocommerceInitTimeout cfg * 1000" and "0 < woocommerceInitTimeout cfg"
  shows "\<exists>w'. provisioning_task cfg s sec w = (Inr (), w')
     \<and> getStoreById (st_id s) (stores w') = Some (r\<lparr>st_status := Failed,
          st_errorMessage := Some (job_failed_msg ''woocommerce-setup'')\<rparr>)"
proof -
  obtain e w1 where run: "provision_woo cfg s sec w = (Inl e, w1)"
    and post: "e = Error (job_failed_msg ''woocommerce-setup'') \<and> stores w1 = stores w"
    using triple_throws [OF provision_woo_job_gave_up_triple [OF assms(3-8)] run_state_start] by blast
  show ?thesis
    using run post assms(1,2) by (simp add: provisioning_task_apply provisioning_catch_apply)
qed

text \<open>
  C40. A store enqueued for provisioning either starts at once or waits behind the stores
  already waiting; if the running tasks go on settling, then by the time there have been
  one more settlements than stores ahead of it, those stores have started, in order, and it has started next.
\<close>

theorem enqueueProvisioning_starts:
  assumes "pq_inv q" and "settles es (enqueueProvisioning s q)" and "length (pq_waiting q) < dones es"
  shows "s \<in> set (pq_running (enqueueProvisioning s q))
     \<or> take (Suc (length (pq_waiting q))) (snd (pq_run es (enqueueProvisioning s q))) = pq_waiting q @ [s]"
proof (cases "length (pq_running q) < pq_concurrency q")
  case True
  then show ?thesis by (simp add: enqueueProvisioning_def pq_add_def)
next
  case False
  have w: "pq_waiting (enqueueProvisioning s q) = pq_waiting q @ [s]"
    using False by (simp add: enqueueProvisioning_def pq_add_def)
  have i: "pq_inv (enqueueProvisioning s q)"
    using pq_step_inv [OF assms(1), of "PAdd s"] by (simp add: enqueueProvisioning_def)
  have "take (Suc (length (pq_waiting q))) (snd (pq_run es (enqueueProvisioning s q))) = pq_waiting q @ [s]"
    using pq_run_live [OF i assms(2), of "Suc (length (pq_waiting q))"] assms(3) w by simp
  then show ?thesis by blast
qed

section \<open>Witnesses\<close>

lemma demo_store_row: "getStoreById 7 [demo_store] = Some demo_store"
  by (simp add: getStoreById_def demo_store_def new_store_row_def)

lemma provisioning_task_settles_witness:
  "getStoreById (st_id demo_store) (stores (demo_world (demo_cluster [] (\<lambda>_ _ _. (None, None)) (\<lambda>_ _ _. (None, None))))) \<noteq> None
   \<and> fst (provisioning_task default_config demo_store demo_secrets
          (demo_world (demo_cluster [] (\<lambda>_ _ _. (None, None)) (\<lambda>_ _ _. (None, None))))) = Inr ()"
proof -
  have h: "getStoreById (st_id demo_store) (stores (demo_world (demo_cluster [] (\<lambda>_ _ _. (None, None)) (\<lambda>_ _ _. (None, None))))) \<noteq> None"
    using demo_store_row by (simp add: demo_world_def demo_store_def new_store_row_def)
  show ?thesis using h provisioning_task_settles [OF h, of default_config demo_secrets] by blast
qed

lemma provisioning_task_medusa_witness:
  "st_plan (demo_store\<lparr>st_plan := Medusa\<rparr>) = Medusa
   \<and> getStoreById 7 [demo_store\<lparr>st_plan := Medusa\<rparr>] = Some (demo_store\<lparr>st_plan := Medusa\<rparr>)
   \<and> (\<exists>w'. provisioning_task default_config (demo_store\<lparr>st_plan := Medusa\<rparr>) demo_secrets
             (demo_world (demo_cluster [] (\<lambda>_ _ _. (None, None)) (\<lambda>_ _ _. (None, None)))\<lparr>stores := [demo_store\<lparr>st_plan := Medusa\<rparr>]\<rparr>)
           = (Inr (), w')
         \<and> getStoreById 7 (stores w') = Some (demo_store\<lparr>st_plan := Medusa, st_status := Failed,
              st_errorMessage := Some ''MedusaJS provisioning is not yet implemented.''\<rparr>))"
proof -
  let ?s = "demo_store\<lparr>st_plan := Medusa\<rparr>"
  let ?w = "demo_world (demo_cluster [] (\<lambda>_ _ _. (None, None)) (\<lambda>_ _ _. (None, None)))\<lparr>stores := [?s]\<rparr>"
  have h1: "st_plan ?s = Medusa" by simp
  have h2: "getStoreById (st_id ?s) (stores ?w) = Some ?s"
    by (simp add: getStoreById_def demo_store_def new_store_row_def)
  have id: "st_id ?s = 7" by (simp add: demo_store_def new_store_row_def)
  show ?thesis
    using provisioning_task_medusa [OF h1 h2, of default_config demo_secrets] h2 id
    by (simp add: medusa_error_msg_def) blast
qed

lemma provisioning_task_mysql_timeout_witness:
  "\<exists>w'. provisioning_task default_config demo_store demo_secrets
          (demo_world (demo_cluster [] (\<lambda>_ _ _. (Some 0, Some 1)) (\<lambda>_ _ _. (None, None)))) = (Inr (), w')
     \<and> getStoreById 7 (stores w') = Some (demo_store\<lparr>st_status := Failed,
          st_errorMessage := Some (deploy_timeout_msg ''store-shop'' ''mysql'' 120)\<rparr>)"
proof -
  let ?w = "demo_world (demo_cluster [] (\<lambda>_ _ _. (Some 0, Some 1)) (\<lambda>_ _ _. (None, None)))"
  have h1: "st_plan demo_store = Woocommerce" by (simp add: demo_store_def new_store_row_def)
  have h2: "getStoreById (st_id demo_store) (stores ?w) = Some demo_store"
    using demo_store_row by (simp add: demo_world_def demo_store_def new_store_row_def)
  have h3: "healthy_for (st_namespace demo_store) (k8s ?w)" using demo_healthy by (simp add: demo_world_def)
  have h4: "\<forall>t. \<not> deploy_ready (deploy_status (k8s ?w) (st_namespace demo_store) ''mysql'' t)"
    by (simp add: demo_world_def demo_cluster_def deploy_ready_def)
  have ids: "st_id demo_store = 7" "st_namespace demo_store = ''store-shop''"
    by (simp_all add: demo_store_def new_store_row_def)
  show ?thesis
    using provisioning_task_mysql_timeout [OF h1 h2 h3 h4, of default_config demo_secrets] ids by auto
qed

lemma provisioning_task_job_gave_up_witness:
  "\<exists>w'. provisioning_task default_config demo_store demo_secrets
          (demo_world (demo_cluster [] (\<lambda>_ _ _. (Some 1, Some 1)) (\<lambda>_ _ _. (None, Some 3)))) = (Inr (), w')
     \<and> getStoreById 7 (stores w') = Some (demo_store\<lparr>st_status := Failed,
          st_errorMessage := Some (job_failed_msg ''woocommerce-setup'')\<rparr>)"
proof -
  let ?w = "demo_world (demo_cluster [] (\<lambda>_ _ _. (Some 1, Some 1)) (\<lambda>_ _ _. (None, Some 3)))"
  have h1: "st_plan demo_store = Woocommerce" by (simp add: demo_store_def new_store_row_def)
  have h2: "getStoreById (st_id demo_store) (stores ?w) = Some demo_store"
    using demo_store_row by (simp add: demo_world_def demo_store_def new_store_row_def)
  have h3: "healthy_for (st_namespace demo_store) (k8s ?w)" using demo_healthy by (simp add: demo_world_def)
  have h4: "\<forall>t. deploy_ready (deploy_status (k8s ?w) (st_namespace demo_store) ''mysql'' t)"
    "\<forall>t. deploy_ready (deploy_status (k8s ?w) (st_namespace demo_store) ''wordpress'' t)"
    by (simp_all add: demo_world_def demo_cluster_def deploy_ready_def)
  have h5: "\<forall>t. \<not> job_succeeded (fst (job_status (k8s ?w) (st_namespace demo_store) ''woocommerce-setup'' t))
             \<and> (0 \<le> t \<longrightarrow> job_gave_up (snd (job_status (k8s ?w) (st_namespace demo_store) ''woocommerce-setup'' t)))"
    by (simp add: demo_world_def demo_cluster_def job_succeeded_def job_gave_up_def)
  have h6: "0 + 10000 \<le> clock ?w + woocommerceInitTimeout default_config * 1000" "0 < woocommerceInitTimeout default_config"
    by (simp_all add: demo_world_def default_config_def)
  have ids: "st_id demo_store = 7" by (simp add: demo_store_def new_store_row_def)
  show ?thesis
    using provisioning_task_job_gave_up [OF h1 h2 h3 h4 h5 h6, of demo_secrets] ids by auto
qed

lemma enqueueProvisioning_starts_witness:
  "pq_inv \<lparr>pq_waiting = [demo_store\<lparr>st_id := 8\<rparr>], pq_running = [demo_store], pq_concurrency = 1\<rparr>
   \<and> settles [PDone demo_store, PDone (demo_store\<lparr>st_id := 8\<rparr>)]
       (enqueueProvisioning (demo_store\<lparr>st_id := 9\<rparr>) \<lparr>pq_waiting = [demo_store\<lparr>st_id := 8\<rparr>], pq_running = [demo_store], pq_concurrency = 1\<rparr>)
   \<and> length [demo_store\<lparr>st_id := 8\<rparr>] < dones [PDone demo_store, PDone (demo_store\<lparr>st_id := 8\<rparr>)]
   \<and> take 2 (snd (pq_run [PDone demo_store, PDone (demo_store\<lparr>st_id := 8\<rparr>)]
       (enqueueProvisioning (demo_store\<lparr>st_id := 9\<rparr>) \<lparr>pq_waiting = [demo_store\<lparr>st_id := 8\<rparr>], pq_running = [demo_store], pq_concurrency = 1\<rparr>)))
       = [demo_store\<lparr>st_id := 8\<rparr>, demo_store\<lparr>st_id := 9\<rparr>]"
proof -
  let ?q = "\<lparr>pq_waiting = [demo_store\<lparr>st_id := 8\<rparr>], pq_running = [demo_store], pq_concurrency = 1\<rparr>"
  let ?es = "[PDone demo_store, PDone (demo_store\<lparr>st_id := 8\<rparr>)]"
  have i: "pq_inv ?q" by (simp add: pq_inv_def)
  have s: "settles ?es (enqueueProvisioning (demo_store\<lparr>st_id := 9\<rparr>) ?q)"
    by (simp add: enqueueProvisioning_def pq_add_def pq_done_def)
  have d: "length (pq_waiting ?q) < dones ?es" by simp
  have n: "demo_store\<lparr>st_id := 9\<rparr> \<notin> set (pq_running (enqueueProvisioning (demo_store\<lparr>st_id := 9\<rparr>) ?q))"
    by (simp add: enqueueProvisioning_def pq_add_def demo_store_def new_store_row_def)
  show ?thesis
    using enqueueProvisioning_starts [OF i s d] n i s by simp
qed

end
