(* ===== verification/Cleanup.thy ===== *)
theory Cleanup
  imports Woo_Runs
begin

text \<open>
  The teardown pipeline, \<open>cleanupStore\<close> of \<open>src/backend/src/services/cleanupService.ts\<close>:
  look the store up (an unknown id throws before any write), mark it Deleting, log the
  start, then in one \<open>try\<close>: delete the namespace (404 counts as already deleted), wait
  up to 120 s for it to disappear, log completion, and purge the store's events and its
  row. Every error of that block marks the store Failed with \<open>Cleanup failed: <message>\<close>
  and is thrown again.
\<close>

definition not_found_msg :: "uuid \<Rightarrow> string" where
  "not_found_msg sid = ''Store '' @ show_nat sid @ '' not found''"

definition cleanup_wait_secs :: nat where
  "cleanup_wait_secs = 120"

definition cleanup_delete :: "uuid \<Rightarrow> string \<Rightarrow> unit wact" where
  "cleanup_delete sid ns =
     try_catch (k8s_delete_namespace ns)
       (\<lambda>e. if status_code e = Some 404 then log_event sid ''cleanup'' Completed ''Namespace already deleted''
            else raise_act e)"

definition cleanup_body :: "uuid \<Rightarrow> string \<Rightarrow> unit wact" where
  "cleanup_body sid ns = seq_act
     [cleanup_delete sid ns,
      waitForNamespaceDeletion ns cleanup_wait_secs,
      log_event sid ''cleanup'' Completed (''Namespace '' @ ns @ '' deleted''),
      delete_events sid,
      delete_store sid]"

definition cleanup_catch :: "uuid \<Rightarrow> error \<Rightarrow> unit wact" where
  "cleanup_catch sid e = seq_act
     [log_event sid ''cleanup'' StepFailed (err_message e),
      update_status sid Failed (Some (''Cleanup failed: '' @ err_message e)),
      raise_act e]"

definition cleanupStore :: "uuid \<Rightarrow> unit wact" where
  "cleanupStore sid w = (case getStoreById sid (stores w) of
       None \<Rightarrow> (Inl (Error (not_found_msg sid)), w)
     | Some st \<Rightarrow> seq_act
         [update_status sid Deleting None,
          log_event sid ''cleanup'' Started (''Deleting namespace '' @ st_namespace st),
          try_catch (cleanup_body sid (st_namespace st)) (cleanup_catch sid)] w)"

section \<open>Lemmas\<close>

definition events_from :: "event_table \<Rightarrow> world \<Rightarrow> bool" where
  "events_from E w = (\<exists>m. events w = E @ m)"

lemma keeps_events_from [keeps_intros]:
  "act_keeps (events_from E) (log_event sid step st msg)"
  "act_keeps (events_from E) (k8s_delete_namespace ns)"
  "act_keeps (events_from E) (waitForNamespaceDeletion ns secs)"
  using waits_clock_only(3)
  by (auto simp: act_keeps_def events_from_def world_defs logEvent_def k8s_delete_namespace_def clock_only_def
           split: prod.splits)

lemma cleanup_delete_keeps:
  "act_keeps (stores_is T) (cleanup_delete sid ns)" "act_keeps (events_from E) (cleanup_delete sid ns)"
  by (auto simp: cleanup_delete_def intro!: keeps_intros)

text \<open>The block can only fail before its two purges: a failed block leaves the table and the earlier events.\<close>

lemma cleanup_body_Inl:
  assumes "cleanup_body sid ns w = (Inl e, w')"
  shows "stores w' = stores w \<and> events_from (events w) w'"
proof -
  obtain r1 w1 where d: "cleanup_delete sid ns w = (r1, w1)" by fastforce
  have k1: "stores w1 = stores w" "events_from (events w) w1"
    using act_keepsD [OF cleanup_delete_keeps(1) _ d, of "stores w"]
          act_keepsD [OF cleanup_delete_keeps(2) _ d, of "events w"]
    by (simp_all add: stores_is_def events_from_def)
  show ?thesis
  proof (cases r1)
    case (Inl e1)
    then show ?thesis using assms d k1 by (simp add: cleanup_body_def)
  next
    case (Inr u)
    obtain r2 w2 where wt: "waitForNamespaceDeletion ns cleanup_wait_secs w1 = (r2, w2)" by fastforce
    have k2: "clock_only w1 w2" using waits_clock_only(3) [of w1 ns cleanup_wait_secs] wt by simp
    show ?thesis
    proof (cases r2)
      case (Inl e2)
      then show ?thesis using assms d Inr wt k1 k2 by (simp add: cleanup_body_def clock_only_def events_from_def)
    next
      case (Inr u2)
      then show ?thesis using assms d \<open>r1 = Inr u\<close> wt by (simp add: cleanup_body_def world_defs)
    qed
  qed
qed

lemma cleanupStore_not_found:
  "getStoreById sid (stores w) = None \<Longrightarrow> cleanupStore sid w = (Inl (Error (not_found_msg sid)), w)"
  by (simp add: cleanupStore_def)

lemma cleanupStore_found:
  "getStoreById sid (stores w) = Some st \<Longrightarrow>
   cleanupStore sid w = (case cleanup_body sid (st_namespace st)
          (w\<lparr>stores := updateStoreStatus sid Deleting None (stores w),
             events := logEvent (next_uuid w) sid ''cleanup'' Started (''Deleting namespace '' @ st_namespace st)
                         (clock w) (events w),
             next_uuid := Suc (next_uuid w)\<rparr>) of
       (Inr u, w2) \<Rightarrow> (Inr (), w2)
     | (Inl e, w2) \<Rightarrow> cleanup_catch sid e w2)"
  by (simp add: cleanupStore_def world_defs try_catch_def bind_act_def split: prod.splits sum.splits)

lemma cleanup_catch_apply:
  "cleanup_catch sid e w = (Inl e, w\<lparr>events := logEvent (next_uuid w) sid ''cleanup'' StepFailed (err_message e) (clock w) (events w),
      next_uuid := Suc (next_uuid w),
      stores := updateStoreStatus sid Failed (Some (''Cleanup failed: '' @ err_message e)) (stores w)\<rparr>)"
  by (simp add: cleanup_catch_def world_defs)

lemma cleanupStore_Inl:
  assumes "getStoreById sid (stores w) = Some st" and "cleanupStore sid w = (Inl e, w')"
  shows "getStoreById sid (stores w') = Some (st\<lparr>st_status := Failed, st_errorMessage := Some (''Cleanup failed: '' @ err_message e)\<rparr>)
     \<and> events_from (events w) w' \<and> last (step_trace sid (events w')) = (''cleanup'', StepFailed)"
proof -
  let ?w1 = "w\<lparr>stores := updateStoreStatus sid Deleting None (stores w),
             events := logEvent (next_uuid w) sid ''cleanup'' Started (''Deleting namespace '' @ st_namespace st)
                         (clock w) (events w),
             next_uuid := Suc (next_uuid w)\<rparr>"
  obtain r w2 where b: "cleanup_body sid (st_namespace st) ?w1 = (r, w2)" by fastforce
  have run: "cleanupStore sid w = (case (r, w2) of (Inr u, w2) \<Rightarrow> (Inr (), w2) | (Inl e, w2) \<Rightarrow> cleanup_catch sid e w2)"
    using cleanupStore_found [OF assms(1)] b by simp
  obtain e0 where r: "r = Inl e0" using run assms(2) by (cases r) auto
  have k: "stores w2 = stores ?w1 \<and> events_from (events ?w1) w2"
    using cleanup_body_Inl b r by blast
  have e: "e = e0" "w' = snd (cleanup_catch sid e0 w2)"
    using run assms(2) r by (simp_all add: cleanup_catch_apply)
  have w': "w' = w2\<lparr>events := logEvent (next_uuid w2) sid ''cleanup'' StepFailed (err_message e) (clock w2) (events w2),
      next_uuid := Suc (next_uuid w2),
      stores := updateStoreStatus sid Failed (Some (''Cleanup failed: '' @ err_message e)) (stores w2)\<rparr>"
    using e by (simp add: cleanup_catch_apply)
  have row: "getStoreById sid (stores w') = Some (st\<lparr>st_status := Failed, st_errorMessage := Some (''Cleanup failed: '' @ err_message e)\<rparr>)"
    using k assms(1) w' by (simp add: set_status_def)
  have ev: "events_from (events w) w'"
    using k w' by (auto simp: events_from_def logEvent_def)
  have tr: "last (step_trace sid (events w')) = (''cleanup'', StepFailed)"
    using w' by simp
  show ?thesis using row ev tr by blast
qed

text \<open>
  C20. A teardown that fails leaves the store's row, now Failed with
  \<open>Cleanup failed: <message>\<close> (it went Deleting and then Failed, an edge the spec's
  forward-only status order does not have); it keeps every earlier event, and its last
  event is the cleanup's failed event.
\<close>

theorem cleanupStore_failure:
  assumes "getStoreById sid (stores w) = Some st" and "cleanupStore sid w = (Inl e, w')"
  shows "getStoreById sid (stores w') = Some (st\<lparr>st_status := Failed, st_errorMessage := Some (''Cleanup failed: '' @ err_message e)\<rparr>)
     \<and> events_from (events w) w' \<and> last (step_trace sid (events w')) = (''cleanup'', StepFailed)"
  by (rule cleanupStore_Inl [OF assms])

section \<open>Deleting a namespace that exists\<close>

definition deleted_cluster :: "string \<Rightarrow> ms \<Rightarrow> cluster \<Rightarrow> cluster" where
  "deleted_cluster ns t c = c\<lparr>objects := filter (\<lambda>ob. obj_namespace ob \<noteq> ns) (objects c),
                             terminating := terminating c @ [(ns, t + finalize_delay c ns)]\<rparr>"

lemma deleted_cluster_simps [simp]:
  "latency (deleted_cluster ns t c) = latency c" "fault (deleted_cluster ns t c) = fault c"
  "finalize_delay (deleted_cluster ns t c) = finalize_delay c"
  by (simp_all add: deleted_cluster_def)

lemma cleanup_delete_exists:
  assumes "healthy_for ns (k8s w)" "ns_exists (k8s w) ns"
  shows "cleanup_delete sid ns w = (Inr (), tick (w\<lparr>k8s := deleted_cluster ns (clock w) (k8s w)\<rparr>))"
  using assms by (simp add: cleanup_delete_def k8s_delete_namespace_def delete_namespace_def healthy_for_def
      deleted_cluster_def)

lemma read_after_delete:
  assumes "healthy_for ns c"
  shows "read_namespace ns t (deleted_cluster ns t0 c)
           = (if t < t0 + finalize_delay c ns then Inr () else Inl (HttpError 404 http_failed))"
proof -
  have "\<not> ns_exists (deleted_cluster ns t0 c) ns"
    by (auto simp: ns_exists_def has_object_def deleted_cluster_def list_ex_iff)
  moreover have "ns_terminating (deleted_cluster ns t0 c) ns t = (t < t0 + finalize_delay c ns)"
    using assms by (auto simp: ns_terminating_def healthy_for_def deleted_cluster_def)
  moreover have "fault (deleted_cluster ns t0 c) = fault c" by (simp add: deleted_cluster_def)
  ultimately show ?thesis using assms by (simp add: read_namespace_def healthy_for_def)
qed

definition cleanup_start :: "uuid \<Rightarrow> store \<Rightarrow> world \<Rightarrow> world" where
  "cleanup_start sid st w = w\<lparr>stores := updateStoreStatus sid Deleting None (stores w),
     events := logEvent (next_uuid w) sid ''cleanup'' Started (''Deleting namespace '' @ st_namespace st) (clock w) (events w),
     next_uuid := Suc (next_uuid w)\<rparr>"

lemma cleanup_start_simps [simp]:
  "k8s (cleanup_start sid st w) = k8s w" "clock (cleanup_start sid st w) = clock w"
  "stores (cleanup_start sid st w) = updateStoreStatus sid Deleting None (stores w)"
  by (simp_all add: cleanup_start_def)

lemma cleanup_wait_run:
  assumes "healthy_for ns (k8s w)" "ns_exists (k8s w) ns"
  defines "w2 \<equiv> tick (w\<lparr>k8s := deleted_cluster ns (clock w) (k8s w)\<rparr>)"
  shows "waitForNamespaceDeletion ns cleanup_wait_secs w2
           = (fst (wait_ns_loop ns cleanup_wait_secs (clock w2 + 120000) w2),
              snd (wait_ns_loop ns cleanup_wait_secs (clock w2 + 120000) w2))"
    and "clock_only w2 (snd (waitForNamespaceDeletion ns cleanup_wait_secs w2))"
    and "\<forall>t. read_namespace ns t (k8s w2)
           = (if t < clock w + finalize_delay (k8s w) ns then Inr () else Inl (HttpError 404 http_failed))"
  using assms waits_clock_only(3) [of w2 ns cleanup_wait_secs]
  by (simp_all add: waitForNamespaceDeletion_def cleanup_wait_secs_def read_after_delete deleted_cluster_def [symmetric])

lemma cleanup_async_success:
  assumes "healthy_for ns (k8s w1)" and "ns_exists (k8s w1) ns"
    and "finalize_delay (k8s w1) ns + 3000 \<le> 120000"
  shows "\<exists>w'. try_catch (cleanup_body sid ns) (cleanup_catch sid) w1 = (Inr (), w')
     \<and> stores w' = deleteStore sid (stores w1)
     \<and> events w' = deleteEventsByStoreId sid (logEvent (next_uuid w1) sid ''cleanup'' Completed
                      (''Namespace '' @ ns @ '' deleted'') (clock w') (events w1))"
proof -
  let ?w2 = "tick (w1\<lparr>k8s := deleted_cluster ns (clock w1) (k8s w1)\<rparr>)"
  have d: "cleanup_delete sid ns w1 = (Inr (), ?w2)" by (rule cleanup_delete_exists [OF assms(1,2)])
  note wr = cleanup_wait_run [OF assms(1,2)]
  obtain r3 w3 where wt: "waitForNamespaceDeletion ns cleanup_wait_secs ?w2 = (r3, w3)" by fastforce
  have "fst (wait_ns_loop ns cleanup_wait_secs (clock ?w2 + 120000) ?w2) = Inr ()"
  proof (rule wait_ns_gone)
    show "\<forall>t. read_namespace ns t (k8s ?w2) = Inr () \<or> read_namespace ns t (k8s ?w2) = Inl (HttpError 404 http_failed)"
      using wr(3) by simp
    show "\<forall>t. clock w1 + finalize_delay (k8s w1) ns \<le> t \<longrightarrow> read_namespace ns t (k8s ?w2) = Inl (HttpError 404 http_failed)"
      using wr(3) by simp
    show "clock w1 + finalize_delay (k8s w1) ns + latency (k8s ?w2) + 3000 \<le> clock ?w2 + 120000"
      using assms(3) by simp
    show "clock ?w2 < clock ?w2 + 120000" by simp
  qed
  then have r3: "r3 = Inr ()" using wr(1) wt by simp
  have co: "clock_only ?w2 w3" using wr(2) wt by simp
  have "try_catch (cleanup_body sid ns) (cleanup_catch sid) w1
          = (Inr (), snd (seq_act [log_event sid ''cleanup'' Completed (''Namespace '' @ ns @ '' deleted''),
                                   delete_events sid, delete_store sid] w3))"
    using d wt r3 by (simp add: cleanup_body_def world_defs try_catch_def)
  then show ?thesis using co by (simp add: world_defs clock_only_def)
qed

lemma cleanup_purged:
  assumes "stores w' = deleteStore sid tbl" "events w' = deleteEventsByStoreId sid (logEvent u sid step stt msg t evs)"
  shows "getStoreById sid (stores w') = None \<and> getEventsByStoreId sid (events w') = []
     \<and> (\<forall>sid'. sid' \<noteq> sid \<longrightarrow> getEventsByStoreId sid' (events w') = getEventsByStoreId sid' evs
                          \<and> getStoreById sid' (stores w') = getStoreById sid' tbl)"
  using assms by (auto simp: getEventsByStoreId_delete_other getEventsByStoreId_logEvent getStoreById_deleteStore_other)

text \<open>
  C21. Deleting a store whose namespace exists, on a cluster that answers no call with an
  error and finishes deleting the namespace within 117 s: the teardown returns, the store's
  row and all its events are gone, and every other store's row and events are as before.
\<close>

theorem cleanupStore_success:
  assumes "getStoreById sid (stores w) = Some st"
    and "healthy_for (st_namespace st) (k8s w)" and "ns_exists (k8s w) (st_namespace st)"
    and "finalize_delay (k8s w) (st_namespace st) + 3000 \<le> 120000"
  shows "\<exists>w'. cleanupStore sid w = (Inr (), w') \<and> getStoreById sid (stores w') = None
     \<and> getEventsByStoreId sid (events w') = []
     \<and> (\<forall>sid'. sid' \<noteq> sid \<longrightarrow> getEventsByStoreId sid' (events w') = getEventsByStoreId sid' (events w)
                          \<and> getStoreById sid' (stores w') = getStoreById sid' (stores w))"
proof -
  let ?w1 = "cleanup_start sid st w"
  have h: "healthy_for (st_namespace st) (k8s ?w1)" "ns_exists (k8s ?w1) (st_namespace st)"
    "finalize_delay (k8s ?w1) (st_namespace st) + 3000 \<le> 120000" using assms(2-4) by simp_all
  obtain w' where a: "try_catch (cleanup_body sid (st_namespace st)) (cleanup_catch sid) ?w1 = (Inr (), w')"
    and st: "stores w' = deleteStore sid (stores ?w1)"
    and ev: "events w' = deleteEventsByStoreId sid (logEvent (next_uuid ?w1) sid ''cleanup'' Completed
                      (''Namespace '' @ st_namespace st @ '' deleted'') (clock w') (events ?w1))"
    using cleanup_async_success [OF h] by blast
  have run: "cleanupStore sid w = (Inr (), w')"
    using cleanupStore_found [OF assms(1)] a by (simp add: cleanup_start_def try_catch_def split: prod.splits sum.splits)
  have p: "getStoreById sid (stores w') = None \<and> getEventsByStoreId sid (events w') = []
     \<and> (\<forall>sid'. sid' \<noteq> sid \<longrightarrow> getEventsByStoreId sid' (events w') = getEventsByStoreId sid' (events ?w1)
                          \<and> getStoreById sid' (stores w') = getStoreById sid' (stores ?w1))"
    by (rule cleanup_purged [OF st ev])
  show ?thesis
    using run p by (auto simp: cleanup_start_def getEventsByStoreId_logEvent)
qed

text \<open>
  C22. A namespace that is still terminating at the teardown's 120 s deadline fails the
  teardown with the deletion timeout: the store, first marked Deleting, ends Failed with
  \<open>Cleanup failed: Namespace <ns> deletion timed out after 120s\<close>, and it and its events
  stay in the database.
\<close>

theorem cleanupStore_timeout:
  assumes "getStoreById sid (stores w) = Some st"
    and "healthy_for (st_namespace st) (k8s w)" and "ns_exists (k8s w) (st_namespace st)"
    and "120000 + latency (k8s w) \<le> finalize_delay (k8s w) (st_namespace st)"
  shows "\<exists>w'. cleanupStore sid w = (Inl (Error (ns_deletion_timeout_msg (st_namespace st) 120)), w')
     \<and> getStoreById sid (stores w') = Some (st\<lparr>st_status := Failed,
          st_errorMessage := Some (''Cleanup failed: '' @ ns_deletion_timeout_msg (st_namespace st) 120)\<rparr>)
     \<and> events_from (events w) w'"
proof -
  let ?ns = "st_namespace st"
  let ?w1 = "cleanup_start sid st w"
  let ?w2 = "tick (?w1\<lparr>k8s := deleted_cluster ?ns (clock ?w1) (k8s ?w1)\<rparr>)"
  have h1: "healthy_for ?ns (k8s ?w1)" "ns_exists (k8s ?w1) ?ns" using assms(2,3) by simp_all
  have d: "cleanup_delete sid ?ns ?w1 = (Inr (), ?w2)" by (rule cleanup_delete_exists [OF h1])
  note wr = cleanup_wait_run [OF h1]
  obtain r3 w3 where wt: "waitForNamespaceDeletion ?ns cleanup_wait_secs ?w2 = (r3, w3)" by fastforce
  have "fst (wait_ns_loop ?ns cleanup_wait_secs (clock ?w2 + 120000) ?w2) = Inl (Error (ns_deletion_timeout_msg ?ns cleanup_wait_secs))"
    by (rule wait_ns_never_gone) (use wr(3) assms(4) in auto)
  then have r3: "r3 = Inl (Error (ns_deletion_timeout_msg ?ns 120))" using wr(1) wt by (simp add: cleanup_wait_secs_def)
  have run: "cleanupStore sid w = cleanup_catch sid (Error (ns_deletion_timeout_msg ?ns 120)) w3"
    using cleanupStore_found [OF assms(1)] d wt r3 by (simp add: cleanup_body_def cleanup_start_def)
  obtain w' where w': "cleanupStore sid w = (Inl (Error (ns_deletion_timeout_msg ?ns 120)), w')"
    using run by (simp add: cleanup_catch_apply)
  show ?thesis using cleanupStore_Inl [OF assms(1) w'] w' by auto
qed

section \<open>Witnesses\<close>

definition demo_ns_cluster :: "ms \<Rightarrow> cluster" where
  "demo_ns_cluster d = (demo_cluster [buildNamespace ''store-shop'' 7] (\<lambda>_ _ _. (None, None)) (\<lambda>_ _ _. (None, None)))
                         \<lparr>finalize_delay := \<lambda>_. d\<rparr>"

lemma demo_ns_cluster_facts:
  "healthy_for ''store-shop'' (demo_ns_cluster d)" "ns_exists (demo_ns_cluster d) ''store-shop''"
  "latency (demo_ns_cluster d) = 0" "finalize_delay (demo_ns_cluster d) ns = d"
  by (simp_all add: demo_ns_cluster_def demo_cluster_def healthy_for_def ns_terminating_def ns_exists_def
      has_object_def buildNamespace_def mk_object_def)

lemma demo_store_facts: "st_id demo_store = 7" "st_namespace demo_store = ''store-shop''"
  "getStoreById 7 [demo_store] = Some demo_store"
  by (simp_all add: demo_store_def new_store_row_def getStoreById_def)

lemma cleanupStore_success_witness:
  "\<exists>w'. cleanupStore 7 (demo_world (demo_ns_cluster 0)) = (Inr (), w') \<and> getStoreById 7 (stores w') = None"
proof -
  have h: "getStoreById 7 (stores (demo_world (demo_ns_cluster 0))) = Some demo_store"
    "healthy_for (st_namespace demo_store) (k8s (demo_world (demo_ns_cluster 0)))"
    "ns_exists (k8s (demo_world (demo_ns_cluster 0))) (st_namespace demo_store)"
    "finalize_delay (k8s (demo_world (demo_ns_cluster 0))) (st_namespace demo_store) + 3000 \<le> 120000"
    by (simp_all add: demo_world_def demo_store_facts demo_ns_cluster_facts)
  show ?thesis using cleanupStore_success [OF h] by blast
qed

lemma cleanupStore_timeout_witness:
  "\<exists>w'. cleanupStore 7 (demo_world (demo_ns_cluster 200000))
          = (Inl (Error (ns_deletion_timeout_msg ''store-shop'' 120)), w')
     \<and> getStoreById 7 (stores w') = Some (demo_store\<lparr>st_status := Failed,
          st_errorMessage := Some (''Cleanup failed: '' @ ns_deletion_timeout_msg ''store-shop'' 120)\<rparr>)"
proof -
  have h: "getStoreById 7 (stores (demo_world (demo_ns_cluster 200000))) = Some demo_store"
    "healthy_for (st_namespace demo_store) (k8s (demo_world (demo_ns_cluster 200000)))"
    "ns_exists (k8s (demo_world (demo_ns_cluster 200000))) (st_namespace demo_store)"
    "120000 + latency (k8s (demo_world (demo_ns_cluster 200000))) \<le> finalize_delay (k8s (demo_world (demo_ns_cluster 200000))) (st_namespace demo_store)"
    by (simp_all add: demo_world_def demo_store_facts demo_ns_cluster_facts)
  show ?thesis using cleanupStore_timeout [OF h] demo_store_facts by (simp only:) blast
qed

lemma cleanupStore_failure_witness:
  "getStoreById 7 (stores (demo_world ((demo_ns_cluster 0)\<lparr>fault := \<lambda>_ _. Some (500, ''boom'')\<rparr>))) = Some demo_store
   \<and> fst (cleanupStore 7 (demo_world ((demo_ns_cluster 0)\<lparr>fault := \<lambda>_ _. Some (500, ''boom'')\<rparr>))) = Inl (HttpError 500 ''boom'')
   \<and> getStoreById 7 (stores (snd (cleanupStore 7 (demo_world ((demo_ns_cluster 0)\<lparr>fault := \<lambda>_ _. Some (500, ''boom'')\<rparr>)))))
       = Some (demo_store\<lparr>st_status := Failed, st_errorMessage := Some ''Cleanup failed: boom''\<rparr>)"
proof -
  let ?w = "demo_world ((demo_ns_cluster 0)\<lparr>fault := \<lambda>_ _. Some (500, ''boom'')\<rparr>)"
  have h1: "getStoreById 7 (stores ?w) = Some demo_store" by (simp add: demo_world_def demo_store_facts)
  have r: "fst (cleanupStore 7 ?w) = Inl (HttpError 500 ''boom'')"
    using h1 demo_store_facts
    by (simp add: cleanupStore_found cleanup_body_def cleanup_delete_def k8s_delete_namespace_def
        delete_namespace_def cleanup_catch_apply demo_world_def)
  have h2: "cleanupStore 7 ?w = (Inl (HttpError 500 ''boom''), snd (cleanupStore 7 ?w))"
    using r by (metis prod.collapse)
  show ?thesis using cleanupStore_failure [OF h1 h2] h1 r by simp
qed

end
