(* ===== verification/Routes.thy ===== *)
theory Routes
  imports Provisioning Cleanup
begin

text \<open>
  The store routes of \<open>src/backend/src/routes/stores.ts\<close>. A handler is a function from
  the request and the state (the world and the provisioning queue) to the response and the
  new state. A handler of the source has no \<open>await\<close> before its last write, so it runs
  without interleaving and is one function here; what it starts in the background is part
  of its result: the queued pipeline is the store added to the queue, and the teardown after
  its first \<open>await\<close> is returned as an action on the world. The body schema is zod's: the e-mail check is zod's \<open>email()\<close>,
  a library function, and is a parameter \<open>email_ok\<close>; the rate limiters are not
  modelled.
\<close>

text \<open>
  The JSON shapes of the health route: a pod and a persistent volume claim as the route
  reports them (\<open>startTime\<close> in milliseconds, \<open>uptime\<close> in seconds).
\<close>

record pod_view =
  pv_name :: "string option"
  pv_app :: string
  pv_phase :: "string option"
  pv_ready :: bool
  pv_restartCount :: nat
  pv_startTime :: "ms option"
  pv_uptime :: int
  pv_cpuRequest :: string
  pv_cpuLimit :: string
  pv_memRequest :: string
  pv_memLimit :: string
  pv_image :: string

record pvc_view =
  vv_name :: "string option"
  vv_status :: "string option"
  vv_capacity :: string
  vv_storageClass :: string

datatype body =
    BStores "store list" nat
  | BStore store
  | BError string
  | BValidation
  | BDeletion uuid
  | BEvents "prov_event list"
  | BRestarted "string list"
  | BPassword string
  | BLogs string string string
  | BHealth "pod_view list" "pvc_view list" "(kv \<times> kv) option" string
  | BAudit "audit_entry list"
  | BStatus string "string option"

datatype response = Resp nat body

primrec resp_status :: "response \<Rightarrow> nat" where
  "resp_status (Resp n b) = n"

record create_req =
  rq_name :: "string option"
  rq_adminEmail :: "string option"
  rq_plan :: "string option"

record server =
  sv_world :: world
  sv_queue :: "store pqueue"

section \<open>Validation\<close>

text \<open>\<open>z.enum(['woocommerce', 'medusa']).default('woocommerce')\<close>.\<close>

definition parse_plan :: "string option \<Rightarrow> store_plan option" where
  "parse_plan p = (case p of None \<Rightarrow> Some Woocommerce
     | Some x \<Rightarrow> if x = ''woocommerce'' then Some Woocommerce else if x = ''medusa'' then Some Medusa else None)"

text \<open>\<open>createStoreSchema.safeParse(req.body)\<close>: the parsed name, e-mail and plan, or failure.\<close>

definition parse_create :: "(string \<Rightarrow> bool) \<Rightarrow> create_req \<Rightarrow> (string \<times> string \<times> store_plan) option" where
  "parse_create email_ok rq = (case (rq_name rq, rq_adminEmail rq, parse_plan (rq_plan rq)) of
       (Some n, Some e, Some p) \<Rightarrow> if valid_store_name n \<and> email_ok e then Some (n, e, p) else None
     | _ \<Rightarrow> None)"

section \<open>Handlers\<close>

definition dq :: string where
  "dq = [CHR 0x22]"

definition max_stores_msg :: "config \<Rightarrow> string" where
  "max_stores_msg cfg = ''Maximum number of stores ('' @ show_nat (maxStores cfg) @ '') reached. Delete a store first.''"

definition slug_exists_msg :: "string \<Rightarrow> string" where
  "slug_exists_msg slug = ''A store with slug '' @ dq @ slug @ dq @ '' already exists.''"

primrec plan_str :: "store_plan \<Rightarrow> string" where
  "plan_str Woocommerce = ''woocommerce''"
| "plan_str Medusa = ''medusa''"

text \<open>
  \<open>POST /api/stores\<close>. The new row's id is the next fresh id (\<open>uuidv4()\<close>), its
  \<open>created_at\<close> the clock. A database error of \<open>createStore\<close> is caught by the
  handler's \<open>catch\<close> and answered with 500.
\<close>

definition createStoreHandler :: "config \<Rightarrow> (string \<Rightarrow> bool) \<Rightarrow> create_req \<Rightarrow> string option \<Rightarrow> server \<Rightarrow> response \<times> server" where
  "createStoreHandler cfg email_ok rq ip sv = (let w = sv_world sv in
     case parse_create email_ok rq of
       None \<Rightarrow> (Resp 400 BValidation, sv)
     | Some (name, email, plan) \<Rightarrow>
         if maxStores cfg \<le> getStoreCount (stores w) then (Resp 429 (BError (max_stores_msg cfg)), sv)
         else (let slug = generateSlug name; ns = generateNamespace slug in
           if getStoreBySlug slug (stores w) \<noteq> None then (Resp 409 (BError (slug_exists_msg slug)), sv)
           else (let sid = next_uuid w in
             case createStore sid name slug ns email plan (clock w) (stores w) of
               (Inl e, _) \<Rightarrow> (Resp 500 (BError ''Failed to create store''), sv\<lparr>sv_world := w\<lparr>next_uuid := Suc sid\<rparr>\<rparr>)
             | (Inr st, tbl) \<Rightarrow>
                 (Resp 201 (BStore st),
                  \<lparr>sv_world = w\<lparr>stores := tbl,
                      audit := logAudit (Suc sid) ''create'' ''store'' (Some sid) (Some name)
                                 (Some (''plan='' @ plan_str plan @ '', email='' @ email)) ip (clock w) (audit w),
                      next_uuid := Suc (Suc sid)\<rparr>,
                   sv_queue = enqueueProvisioning st (sv_queue sv)\<rparr>))))"

text \<open>
  \<open>DELETE /api/stores/:id\<close>. The accepted request logs the audit entry and calls
  \<open>cleanupStore\<close>, which runs up to its first \<open>await\<close> before the handler answers 202:
  the store is marked Deleting and the cleanup's started event is logged. The handler
  returns the rest of the teardown, the \<open>try\<close> block and its \<open>catch\<close>, to run in the
  background.
\<close>

definition deleteStoreHandler :: "uuid \<Rightarrow> string option \<Rightarrow> server \<Rightarrow> response \<times> server \<times> unit wact option" where
  "deleteStoreHandler sid ip sv = (let w = sv_world sv in
     case getStoreById sid (stores w) of
       None \<Rightarrow> (Resp 404 (BError ''Store not found''), sv, None)
     | Some st \<Rightarrow>
         if st_status st = Deleting then (Resp 409 (BError ''Store is already being deleted''), sv, None)
         else (let w1 = w\<lparr>audit := logAudit (next_uuid w) ''delete'' ''store'' (Some sid) (Some (st_name st)) None ip
                                     (clock w) (audit w),
                          next_uuid := Suc (next_uuid w)\<rparr> in
               (Resp 202 (BDeletion sid), sv\<lparr>sv_world := cleanup_start sid st w1\<rparr>,
                Some (try_catch (cleanup_body sid (st_namespace st)) (cleanup_catch sid)))))"

text \<open>\<open>GET /api/stores\<close>, \<open>GET /api/stores/:id\<close>, \<open>GET /api/stores/:id/events\<close>.\<close>

definition listStoresHandler :: "server \<Rightarrow> response" where
  "listStoresHandler sv = Resp 200 (BStores (getAllStores (stores (sv_world sv))) (getQueueSize (sv_queue sv)))"

definition getStoreHandler :: "uuid \<Rightarrow> server \<Rightarrow> response" where
  "getStoreHandler sid sv = (case getStoreById sid (stores (sv_world sv)) of
     None \<Rightarrow> Resp 404 (BError ''Store not found'') | Some st \<Rightarrow> Resp 200 (BStore st))"

definition getEventsHandler :: "uuid \<Rightarrow> server \<Rightarrow> response" where
  "getEventsHandler sid sv = (case getStoreById sid (stores (sv_world sv)) of
     None \<Rightarrow> Resp 404 (BError ''Store not found'')
   | Some st \<Rightarrow> Resp 200 (BEvents (getEventsByStoreId sid (events (sv_world sv)))))"

section \<open>The server invariant\<close>

text \<open>
  What the handlers rely on and keep: the table's keys are distinct, every row's namespace
  is \<open>store-<slug>\<close> and its id was drawn before the next fresh id, and the queue is in
  its invariant with the configured concurrency.
\<close>

definition server_inv :: "config \<Rightarrow> server \<Rightarrow> bool" where
  "server_inv cfg sv = (let w = sv_world sv in
     table_wf (stores w)
     \<and> list_all (\<lambda>r. st_namespace r = generateNamespace (st_slug r) \<and> st_id r < next_uuid w) (stores w)
     \<and> pq_inv (sv_queue sv) \<and> pq_concurrency (sv_queue sv) = provisioningConcurrency cfg)"

text \<open>A server over the demonstration world, with the default queue concurrency.\<close>

definition demo_server :: server where
  "demo_server = \<lparr>sv_world = demo_world (demo_cluster [] (\<lambda>_ _ _. (None, None)) (\<lambda>_ _ _. (None, None))),
                   sv_queue = pq_empty 3\<rparr>"

definition demo_req :: "string \<Rightarrow> create_req" where
  "demo_req n = \<lparr>rq_name = Some n, rq_adminEmail = Some ''owner@shop.example'', rq_plan = None\<rparr>"

lemma getStoreBySlug_None_iff: "getStoreBySlug slug tbl = None \<longleftrightarrow> \<not> list_ex (\<lambda>r. st_slug r = slug) tbl"
  by (auto simp: getStoreBySlug_def find_None_iff list_ex_iff)

lemma fresh_namespace:
  assumes "list_all (\<lambda>r. st_namespace r = generateNamespace (st_slug r)) tbl"
    and "\<not> list_ex (\<lambda>r. st_slug r = slug) tbl"
  shows "\<not> list_ex (\<lambda>r. st_namespace r = generateNamespace slug) tbl"
  using assms by (auto simp: list_all_iff list_ex_iff generateNamespace_def)

lemma fresh_id: "list_all (\<lambda>r. st_id r < n) tbl \<Longrightarrow> \<not> list_ex (\<lambda>r. st_id r = n) tbl"
  by (auto simp: list_all_iff list_ex_iff)

lemma createStore_fresh:
  assumes "server_inv cfg sv" "\<not> list_ex (\<lambda>r. st_slug r = slug) (stores (sv_world sv))"
  shows "createStore (next_uuid (sv_world sv)) name slug (generateNamespace slug) email plan now (stores (sv_world sv))
       = (Inr (new_store_row (next_uuid (sv_world sv)) name slug (generateNamespace slug) email plan now),
          stores (sv_world sv) @ [new_store_row (next_uuid (sv_world sv)) name slug (generateNamespace slug) email plan now])"
proof -
  have "\<not> list_ex (\<lambda>r. st_id r = next_uuid (sv_world sv)) (stores (sv_world sv))"
    using assms(1) by (intro fresh_id) (auto simp: server_inv_def Let_def list_all_iff)
  moreover have "\<not> list_ex (\<lambda>r. st_namespace r = generateNamespace slug) (stores (sv_world sv))"
    using assms by (intro fresh_namespace) (auto simp: server_inv_def Let_def list_all_iff)
  ultimately show ?thesis using assms(2) by (simp add: createStore_def Let_def)
qed

text \<open>
  C23. A valid create request when the non-Deleting stores already number
  \<open>maxStores\<close> is answered 429 and changes nothing: no row, no audit entry, no queued
  pipeline, no cluster call.
\<close>

theorem createStoreHandler_limit:
  assumes "parse_create email_ok rq = Some (name, email, plan)"
    and "maxStores cfg \<le> getStoreCount (stores (sv_world sv))"
  shows "createStoreHandler cfg email_ok rq ip sv = (Resp 429 (BError (max_stores_msg cfg)), sv)"
  using assms by (simp add: createStoreHandler_def)

lemma pq_inv_add: "pq_inv q \<Longrightarrow> pq_inv (pq_add x q)"
  using pq_step_inv [of q "PAdd x"] by simp

lemma pq_add_concurrency [simp]: "pq_concurrency (pq_add x q) = pq_concurrency q"
  by (simp add: pq_add_def)

lemma getQueueSize_add [simp]: "getQueueSize (pq_add x q) = Suc (getQueueSize q)"
  by (simp add: pq_add_def getQueueSize_def)

lemma getStoreCount_append [simp]:
  "getStoreCount (tbl @ [r]) = getStoreCount tbl + (if st_status r = Deleting then 0 else 1)"
  by (simp add: getStoreCount_def)

lemma new_store_row_fields [simp]:
  "st_id (new_store_row sid name slug ns email plan now) = sid"
  "st_slug (new_store_row sid name slug ns email plan now) = slug"
  "st_namespace (new_store_row sid name slug ns email plan now) = ns"
  "st_status (new_store_row sid name slug ns email plan now) = Provisioning"
  by (simp_all add: new_store_row_def)

lemma server_inv_created:
  fixes name email :: string and plan :: store_plan and now :: ms
  assumes "server_inv cfg sv" "\<not> list_ex (\<lambda>r. st_slug r = slug) (stores (sv_world sv))"
  defines "r \<equiv> new_store_row (next_uuid (sv_world sv)) name slug (generateNamespace slug) email plan now"
  shows "server_inv cfg \<lparr>sv_world = (sv_world sv)\<lparr>stores := stores (sv_world sv) @ [r], audit := a,
                                         next_uuid := Suc (Suc (next_uuid (sv_world sv)))\<rparr>,
                          sv_queue = pq_add r (sv_queue sv)\<rparr>"
proof -
  let ?w = "sv_world sv"
  have wf: "table_wf (stores ?w @ [r])"
    using table_wf_createStore [of "stores ?w" "next_uuid ?w" name slug "generateNamespace slug" email plan now]
          createStore_fresh [OF assms(1,2), of name email plan now] assms(1)
    by (simp add: server_inv_def Let_def r_def)
  have "list_all (\<lambda>r. st_namespace r = generateNamespace (st_slug r) \<and> st_id r < Suc (Suc (next_uuid ?w))) (stores ?w @ [r])"
    using assms(1) by (auto simp: server_inv_def Let_def list_all_iff r_def)
  moreover have "pq_inv (pq_add r (sv_queue sv))"
    using assms(1) by (intro pq_inv_add) (simp add: server_inv_def Let_def)
  ultimately show ?thesis using wf assms(1) by (simp add: server_inv_def Let_def)
qed

lemma createStoreHandler_fresh:
  assumes "server_inv cfg sv" and "parse_create email_ok rq = Some (name, email, plan)"
    and "getStoreCount (stores (sv_world sv)) < maxStores cfg"
    and "getStoreBySlug (generateSlug name) (stores (sv_world sv)) = None"
  defines "r \<equiv> new_store_row (next_uuid (sv_world sv)) name (generateSlug name)
                 (generateNamespace (generateSlug name)) email plan (clock (sv_world sv))"
  shows "createStoreHandler cfg email_ok rq ip sv = (Resp 201 (BStore r),
     \<lparr>sv_world = (sv_world sv)\<lparr>stores := stores (sv_world sv) @ [r],
        audit := logAudit (Suc (next_uuid (sv_world sv))) ''create'' ''store'' (Some (next_uuid (sv_world sv))) (Some name)
                   (Some (''plan='' @ plan_str plan @ '', email='' @ email)) ip (clock (sv_world sv)) (audit (sv_world sv)),
        next_uuid := Suc (Suc (next_uuid (sv_world sv)))\<rparr>,
      sv_queue = pq_add r (sv_queue sv)\<rparr>)"
proof -
  have fresh: "\<not> list_ex (\<lambda>r. st_slug r = generateSlug name) (stores (sv_world sv))"
    using assms(4) getStoreBySlug_None_iff by blast
  show ?thesis
    using assms(2,3,4) createStore_fresh [OF assms(1) fresh, of name email plan "clock (sv_world sv)"]
    by (simp add: createStoreHandler_def enqueueProvisioning_def Let_def r_def)
qed

text \<open>
  C24. Under the server invariant, a valid create request below the limit whose slug is
  new is answered 201 with the new row: status Provisioning, slug \<open>generateSlug name\<close>,
  namespace \<open>store-<slug>\<close>. The row is appended to the table and to the queue, the
  backlog grows by one, the non-Deleting count stays within \<open>maxStores\<close>, and the server
  invariant holds afterwards. The handler never answers 500 here: the fresh id and the
  \<open>store-<slug>\<close> namespace cannot collide with a row.
\<close>

theorem createStoreHandler_created:
  assumes "server_inv cfg sv" and "parse_create email_ok rq = Some (name, email, plan)"
    and "getStoreCount (stores (sv_world sv)) < maxStores cfg"
    and "getStoreBySlug (generateSlug name) (stores (sv_world sv)) = None"
  shows "\<exists>sv'. createStoreHandler cfg email_ok rq ip sv
           = (Resp 201 (BStore (new_store_row (next_uuid (sv_world sv)) name (generateSlug name)
                 (generateNamespace (generateSlug name)) email plan (clock (sv_world sv)))), sv')
     \<and> stores (sv_world sv') = stores (sv_world sv) @ [new_store_row (next_uuid (sv_world sv)) name (generateSlug name)
                 (generateNamespace (generateSlug name)) email plan (clock (sv_world sv))]
     \<and> getQueueSize (sv_queue sv') = Suc (getQueueSize (sv_queue sv))
     \<and> getStoreCount (stores (sv_world sv')) \<le> maxStores cfg
     \<and> server_inv cfg sv'"
proof -
  let ?w = "sv_world sv"
  let ?r = "new_store_row (next_uuid ?w) name (generateSlug name) (generateNamespace (generateSlug name)) email plan (clock ?w)"
  have fresh: "\<not> list_ex (\<lambda>r. st_slug r = generateSlug name) (stores ?w)"
    using assms(4) getStoreBySlug_None_iff by blast
  show ?thesis
    using createStoreHandler_fresh [OF assms, of ip] server_inv_created [OF assms(1) fresh] assms(3)
    by simp
qed

text \<open>
  C25. Two valid create requests whose names give the same slug, handled one after the
  other (a handler runs to its response without interleaving), when the slug is new and
  the limit leaves room: the first is answered 201; the second is rejected without any
  change, with 409 "slug exists" when the first left room under \<open>maxStores\<close>, and with
  429 "maximum reached" when the first filled the last slot.
\<close>

theorem createStoreHandler_same_slug:
  assumes "server_inv cfg sv"
    and "parse_create email_ok rq1 = Some (n1, e1, p1)" and "parse_create email_ok rq2 = Some (n2, e2, p2)"
    and "generateSlug n2 = generateSlug n1"
    and "getStoreCount (stores (sv_world sv)) < maxStores cfg"
    and "getStoreBySlug (generateSlug n1) (stores (sv_world sv)) = None"
  shows "\<exists>r sv1. createStoreHandler cfg email_ok rq1 ip1 sv = (Resp 201 (BStore r), sv1)
     \<and> createStoreHandler cfg email_ok rq2 ip2 sv1
        = (if Suc (getStoreCount (stores (sv_world sv))) < maxStores cfg
           then Resp 409 (BError (slug_exists_msg (generateSlug n1))) else Resp 429 (BError (max_stores_msg cfg)), sv1)"
proof -
  let ?w = "sv_world sv"
  let ?r = "new_store_row (next_uuid ?w) n1 (generateSlug n1) (generateNamespace (generateSlug n1)) e1 p1 (clock ?w)"
  note first = createStoreHandler_fresh [OF assms(1,2,5,6), of ip1]
  have "getStoreBySlug (generateSlug n1) (stores ?w @ [?r]) \<noteq> None"
    by (simp add: getStoreBySlug_None_iff)
  then show ?thesis
    using first assms(3,4) by (simp add: createStoreHandler_def Let_def)
qed

section \<open>Witnesses\<close>

lemma demo_server_inv: "server_inv default_config demo_server"
  by (simp add: server_inv_def demo_server_def demo_world_def demo_store_def new_store_row_def
      table_wf_def generateNamespace_def pq_inv_def default_config_def pq_empty_def)

lemma demo_server_count: "getStoreCount (stores (sv_world demo_server)) = 1"
  by (simp add: getStoreCount_def demo_server_def demo_world_def demo_store_def new_store_row_def)

lemma demo_names_valid: "valid_store_name ''My Shop''" "valid_store_name ''my shop''"
  by code_simp+

lemma demo_req_parse:
  "parse_create (\<lambda>_. True) (demo_req ''My Shop'') = Some (''My Shop'', ''owner@shop.example'', Woocommerce)"
  "parse_create (\<lambda>_. True) (demo_req ''my shop'') = Some (''my shop'', ''owner@shop.example'', Woocommerce)"
  by (simp_all add: demo_names_valid demo_req_def parse_create_def parse_plan_def)

lemma demo_slugs: "generateSlug ''My Shop'' = ''my-shop''" "generateSlug ''my shop'' = ''my-shop''"
  by code_simp+

lemma demo_slug_new: "getStoreBySlug ''my-shop'' (stores (sv_world demo_server)) = None"
  by (simp add: getStoreBySlug_def demo_server_def demo_world_def demo_store_def new_store_row_def)

lemma createStoreHandler_limit_witness:
  "parse_create (\<lambda>_. True) (demo_req ''My Shop'') = Some (''My Shop'', ''owner@shop.example'', Woocommerce)
   \<and> maxStores (default_config\<lparr>maxStores := 1\<rparr>) \<le> getStoreCount (stores (sv_world demo_server))
   \<and> createStoreHandler (default_config\<lparr>maxStores := 1\<rparr>) (\<lambda>_. True) (demo_req ''My Shop'') None demo_server
       = (Resp 429 (BError (max_stores_msg (default_config\<lparr>maxStores := 1\<rparr>))), demo_server)"
  using createStoreHandler_limit [OF demo_req_parse(1), of "default_config\<lparr>maxStores := 1\<rparr>" demo_server None]
    demo_req_parse(1) demo_server_count by simp

lemma createStoreHandler_created_witness:
  "server_inv default_config demo_server
   \<and> parse_create (\<lambda>_. True) (demo_req ''My Shop'') = Some (''My Shop'', ''owner@shop.example'', Woocommerce)
   \<and> getStoreCount (stores (sv_world demo_server)) < maxStores default_config
   \<and> getStoreBySlug (generateSlug ''My Shop'') (stores (sv_world demo_server)) = None
   \<and> (\<exists>sv'. createStoreHandler default_config (\<lambda>_. True) (demo_req ''My Shop'') None demo_server
           = (Resp 201 (BStore (new_store_row 100 ''My Shop'' ''my-shop'' ''store-my-shop'' ''owner@shop.example''
                 Woocommerce 0)), sv')
     \<and> getQueueSize (sv_queue sv') = 1 \<and> getStoreCount (stores (sv_world sv')) = 2
     \<and> server_inv default_config sv')"
proof -
  have h: "server_inv default_config demo_server"
    "parse_create (\<lambda>_. True) (demo_req ''My Shop'') = Some (''My Shop'', ''owner@shop.example'', Woocommerce)"
    "getStoreCount (stores (sv_world demo_server)) < maxStores default_config"
    "getStoreBySlug (generateSlug ''My Shop'') (stores (sv_world demo_server)) = None"
    using demo_server_inv demo_req_parse(1) demo_slugs demo_slug_new
    by (simp_all add: demo_server_count default_config_def)
  have w: "next_uuid (sv_world demo_server) = 100" "clock (sv_world demo_server) = 0"
    "getQueueSize (sv_queue demo_server) = 0"
    by (simp_all add: demo_server_def demo_world_def getQueueSize_def pq_empty_def)
  obtain sv' where sv': "createStoreHandler default_config (\<lambda>_. True) (demo_req ''My Shop'') None demo_server
      = (Resp 201 (BStore (new_store_row 100 ''My Shop'' ''my-shop'' ''store-my-shop'' ''owner@shop.example''
            Woocommerce 0)), sv')"
    "stores (sv_world sv') = stores (sv_world demo_server) @ [new_store_row 100 ''My Shop'' ''my-shop''
            ''store-my-shop'' ''owner@shop.example'' Woocommerce 0]"
    "getQueueSize (sv_queue sv') = 1" "server_inv default_config sv'"
    using createStoreHandler_created [OF h, of None] w demo_slugs by (auto simp: generateNamespace_def)
  show ?thesis
    using h sv' demo_server_count by (intro conjI exI [of _ sv']) simp_all
qed

lemma createStoreHandler_same_slug_witness:
  "server_inv default_config demo_server
   \<and> parse_create (\<lambda>_. True) (demo_req ''My Shop'') = Some (''My Shop'', ''owner@shop.example'', Woocommerce)
   \<and> parse_create (\<lambda>_. True) (demo_req ''my shop'') = Some (''my shop'', ''owner@shop.example'', Woocommerce)
   \<and> generateSlug ''my shop'' = generateSlug ''My Shop''
   \<and> getStoreCount (stores (sv_world demo_server)) < maxStores default_config
   \<and> getStoreBySlug (generateSlug ''My Shop'') (stores (sv_world demo_server)) = None
   \<and> (\<exists>r sv1. createStoreHandler default_config (\<lambda>_. True) (demo_req ''My Shop'') None demo_server = (Resp 201 (BStore r), sv1)
       \<and> createStoreHandler default_config (\<lambda>_. True) (demo_req ''my shop'') None sv1
          = (Resp 409 (BError (slug_exists_msg ''my-shop'')), sv1))"
proof -
  have h: "server_inv default_config demo_server"
    "parse_create (\<lambda>_. True) (demo_req ''My Shop'') = Some (''My Shop'', ''owner@shop.example'', Woocommerce)"
    "parse_create (\<lambda>_. True) (demo_req ''my shop'') = Some (''my shop'', ''owner@shop.example'', Woocommerce)"
    "generateSlug ''my shop'' = generateSlug ''My Shop''"
    "getStoreCount (stores (sv_world demo_server)) < maxStores default_config"
    "getStoreBySlug (generateSlug ''My Shop'') (stores (sv_world demo_server)) = None"
    using demo_server_inv demo_req_parse demo_slugs demo_slug_new
    by (simp_all add: demo_server_count default_config_def)
  show ?thesis
    using h createStoreHandler_same_slug [OF h, of None None] demo_server_count demo_slugs
    by (simp add: default_config_def)
qed

section \<open>Deleting a store\<close>

lemma set_status_None [simp]: "set_status st None r = r\<lparr>st_status := st\<rparr>"
  by (simp add: set_status_def)

text \<open>
  C26. A DELETE of a store that exists and is not being deleted is answered 202; when the
  handler returns the row is marked Deleting and the queue is untouched. On a cluster that
  answers no call with an error and finishes deleting the namespace within 117 s, the
  background teardown the handler started returns, and the row and all the store's events
  are gone.
\<close>

theorem deleteStoreHandler_accepted:
  assumes "getStoreById sid (stores (sv_world sv)) = Some st" and "st_status st \<noteq> Deleting"
    and "healthy_for (st_namespace st) (k8s (sv_world sv))" and "ns_exists (k8s (sv_world sv)) (st_namespace st)"
    and "finalize_delay (k8s (sv_world sv)) (st_namespace st) + 3000 \<le> 120000"
  shows "\<exists>sv1 bg. deleteStoreHandler sid ip sv = (Resp 202 (BDeletion sid), sv1, Some bg)
     \<and> getStoreById sid (stores (sv_world sv1)) = Some (st\<lparr>st_status := Deleting\<rparr>)
     \<and> sv_queue sv1 = sv_queue sv
     \<and> (\<exists>w'. bg (sv_world sv1) = (Inr (), w') \<and> getStoreById sid (stores w') = None
              \<and> getEventsByStoreId sid (events w') = [])"
proof -
  let ?w = "sv_world sv"
  let ?w1 = "?w\<lparr>audit := logAudit (next_uuid ?w) ''delete'' ''store'' (Some sid) (Some (st_name st)) None ip
                 (clock ?w) (audit ?w), next_uuid := Suc (next_uuid ?w)\<rparr>"
  let ?bg = "try_catch (cleanup_body sid (st_namespace st)) (cleanup_catch sid)"
  have h: "healthy_for (st_namespace st) (k8s (cleanup_start sid st ?w1))"
    "ns_exists (k8s (cleanup_start sid st ?w1)) (st_namespace st)"
    "finalize_delay (k8s (cleanup_start sid st ?w1)) (st_namespace st) + 3000 \<le> 120000"
    using assms(3-5) by simp_all
  obtain w' where run: "?bg (cleanup_start sid st ?w1) = (Inr (), w')"
    and st: "stores w' = deleteStore sid (stores (cleanup_start sid st ?w1))"
    and ev: "events w' = deleteEventsByStoreId sid (logEvent (next_uuid (cleanup_start sid st ?w1)) sid ''cleanup''
               Completed (''Namespace '' @ st_namespace st @ '' deleted'') (clock w') (events (cleanup_start sid st ?w1)))"
    using cleanup_async_success [OF h] by blast
  have gone: "getStoreById sid (stores w') = None \<and> getEventsByStoreId sid (events w') = []"
    using cleanup_purged [OF st ev] by blast
  have resp: "deleteStoreHandler sid ip sv = (Resp 202 (BDeletion sid), sv\<lparr>sv_world := cleanup_start sid st ?w1\<rparr>, Some ?bg)"
    using assms(1,2) by (simp add: deleteStoreHandler_def Let_def)
  show ?thesis
    using resp run gone assms(1)
    by (intro exI [of _ "sv\<lparr>sv_world := cleanup_start sid st ?w1\<rparr>"] exI [of _ ?bg] conjI) auto
qed

text \<open>
  C27. DELETE is accepted (202) exactly when the store exists and is not already being
  deleted; every other answer (404 for an unknown id, 409 for a store in Deleting) leaves
  the server as it was and starts no background work.
\<close>

theorem deleteStoreHandler_rejects:
  "(resp_status (fst (deleteStoreHandler sid ip sv)) = 202
      \<longleftrightarrow> (\<exists>st. getStoreById sid (stores (sv_world sv)) = Some st \<and> st_status st \<noteq> Deleting))
   \<and> (resp_status (fst (deleteStoreHandler sid ip sv)) \<noteq> 202 \<longrightarrow> snd (deleteStoreHandler sid ip sv) = (sv, None))"
  by (auto simp: deleteStoreHandler_def Let_def split: option.splits)

lemma deleteStoreHandler_accepted_witness:
  "getStoreById 7 (stores (sv_world (demo_server\<lparr>sv_world := demo_world (demo_ns_cluster 0)\<rparr>))) = Some demo_store
   \<and> st_status demo_store \<noteq> Deleting
   \<and> healthy_for (st_namespace demo_store) (k8s (sv_world (demo_server\<lparr>sv_world := demo_world (demo_ns_cluster 0)\<rparr>)))
   \<and> ns_exists (k8s (sv_world (demo_server\<lparr>sv_world := demo_world (demo_ns_cluster 0)\<rparr>))) (st_namespace demo_store)
   \<and> finalize_delay (k8s (sv_world (demo_server\<lparr>sv_world := demo_world (demo_ns_cluster 0)\<rparr>))) (st_namespace demo_store) + 3000 \<le> 120000
   \<and> (\<exists>sv1 bg. deleteStoreHandler 7 None (demo_server\<lparr>sv_world := demo_world (demo_ns_cluster 0)\<rparr>)
            = (Resp 202 (BDeletion 7), sv1, Some bg)
       \<and> getStoreById 7 (stores (sv_world sv1)) = Some (demo_store\<lparr>st_status := Deleting\<rparr>)
       \<and> (\<exists>w'. bg (sv_world sv1) = (Inr (), w') \<and> getStoreById 7 (stores w') = None))"
proof -
  let ?sv = "demo_server\<lparr>sv_world := demo_world (demo_ns_cluster 0)\<rparr>"
  have h: "getStoreById 7 (stores (sv_world ?sv)) = Some demo_store" "st_status demo_store \<noteq> Deleting"
    "healthy_for (st_namespace demo_store) (k8s (sv_world ?sv))"
    "ns_exists (k8s (sv_world ?sv)) (st_namespace demo_store)"
    "finalize_delay (k8s (sv_world ?sv)) (st_namespace demo_store) + 3000 \<le> 120000"
    using demo_store_facts demo_ns_cluster_facts
    by (simp_all add: demo_world_def demo_store_def new_store_row_def)
  show ?thesis using h deleteStoreHandler_accepted [OF h, of None] by blast
qed

lemma deleteStoreHandler_rejects_witness:
  "resp_status (fst (deleteStoreHandler 8 None demo_server)) = 404
   \<and> snd (deleteStoreHandler 8 None demo_server) = (demo_server, None)"
proof -
  have n: "getStoreById 8 (stores (sv_world demo_server)) = None"
    by (simp add: getStoreById_def demo_server_def demo_world_def demo_store_def new_store_row_def)
  have "resp_status (fst (deleteStoreHandler 8 None demo_server)) = 404"
    using n by (simp add: deleteStoreHandler_def)
  then show ?thesis using deleteStoreHandler_rejects [of 8 None demo_server] by simp
qed

end
