(* ===== verification/Migrations.thy ===== *)
theory Migrations
  imports Store_Repo Event_Log
begin

text \<open>
  The migration runner of \<open>src/backend/src/db/migrate.ts\<close>. The database schema is a
  list of tables with their columns and a list of indexes; the \<open>_migrations\<close> table is
  the list of its rows. Every statement of the migrations is a \<open>CREATE ... IF NOT
  EXISTS\<close>, executed by \<open>db.exec\<close>, which runs the statements of a script in order and
  stops at the first error, keeping what the earlier ones did: a script is a \<open>seq_act\<close>
  of its statements. The rows of the other tables are the repositories' state and are not
  touched by a migration.
\<close>

section \<open>The schema\<close>

record column =
  col_name :: string
  col_notnull :: bool
  col_pk :: bool
  col_unique :: bool
  col_default :: "string option"
  col_check :: "string list"
  col_ref :: "(string \<times> string) option"

text \<open>A \<open>TEXT\<close> column without constraints; the constraints are record updates.\<close>

definition text_col :: "string \<Rightarrow> column" where
  "text_col n = \<lparr>col_name = n, col_notnull = False, col_pk = False, col_unique = False,
                 col_default = None, col_check = [], col_ref = None\<rparr>"

definition pk_col :: "string \<Rightarrow> column" where
  "pk_col n = (text_col n)\<lparr>col_pk := True\<rparr>"

definition nn_col :: "string \<Rightarrow> column" where
  "nn_col n = (text_col n)\<lparr>col_notnull := True\<rparr>"

definition now_default :: "string option" where
  "now_default = Some ''datetime('now')''"

datatype ddl = CreateTable string "column list" | CreateIndex string string string

record migration =
  mg_name :: string
  mg_sql :: "ddl list"

text \<open>The values the TypeScript types allow, as the repositories write them.\<close>

primrec store_status_text :: "store_status \<Rightarrow> string" where
  "store_status_text Provisioning = ''Provisioning''"
| "store_status_text Ready = ''Ready''"
| "store_status_text Failed = ''Failed''"
| "store_status_text Deleting = ''Deleting''"

primrec store_plan_text :: "store_plan \<Rightarrow> string" where
  "store_plan_text Woocommerce = ''woocommerce''"
| "store_plan_text Medusa = ''medusa''"

primrec event_status_text :: "event_status \<Rightarrow> string" where
  "event_status_text Started = ''started''"
| "event_status_text Completed = ''completed''"
| "event_status_text StepFailed = ''failed''"

definition stores_columns :: "column list" where
  "stores_columns =
     [pk_col ''id'', nn_col ''name'', (nn_col ''slug'')\<lparr>col_unique := True\<rparr>,
      (nn_col ''namespace'')\<lparr>col_unique := True\<rparr>,
      (nn_col ''status'')\<lparr>col_default := Some ''Provisioning'',
         col_check := [''Provisioning'', ''Ready'', ''Failed'', ''Deleting'']\<rparr>,
      (nn_col ''plan'')\<lparr>col_default := Some ''woocommerce'', col_check := [''woocommerce'', ''medusa'']\<rparr>,
      text_col ''url'', text_col ''admin_url'', nn_col ''admin_email'', text_col ''admin_password'',
      text_col ''error_message'', (nn_col ''created_at'')\<lparr>col_default := now_default\<rparr>,
      text_col ''provisioned_at'']"

definition events_columns :: "column list" where
  "events_columns =
     [pk_col ''id'', (nn_col ''store_id'')\<lparr>col_ref := Some (''stores'', ''id'')\<rparr>, nn_col ''step'',
      (nn_col ''status'')\<lparr>col_check := [''started'', ''completed'', ''failed'']\<rparr>, text_col ''message'',
      (nn_col ''created_at'')\<lparr>col_default := now_default\<rparr>]"

definition audit_columns :: "column list" where
  "audit_columns =
     [pk_col ''id'', nn_col ''action'', nn_col ''resource_type'', text_col ''resource_id'',
      text_col ''resource_name'', text_col ''details'', text_col ''ip_address'',
      (nn_col ''created_at'')\<lparr>col_default := now_default\<rparr>]"

definition migrations :: "migration list" where
  "migrations =
     [\<lparr>mg_name = ''001_create_stores'',
       mg_sql = [CreateTable ''stores'' stores_columns,
                 CreateIndex ''idx_stores_status'' ''stores'' ''status'',
                 CreateIndex ''idx_stores_slug'' ''stores'' ''slug'']\<rparr>,
      \<lparr>mg_name = ''002_create_events'',
       mg_sql = [CreateTable ''provisioning_events'' events_columns,
                 CreateIndex ''idx_events_store_id'' ''provisioning_events'' ''store_id'',
                 CreateIndex ''idx_events_created_at'' ''provisioning_events'' ''created_at'']\<rparr>,
      \<lparr>mg_name = ''003_create_audit_log'',
       mg_sql = [CreateTable ''audit_log'' audit_columns,
                 CreateIndex ''idx_audit_action'' ''audit_log'' ''action'',
                 CreateIndex ''idx_audit_created_at'' ''audit_log'' ''created_at'']\<rparr>]"

definition migrations_table :: ddl where
  "migrations_table = CreateTable ''_migrations'' [pk_col ''name'', (nn_col ''applied_at'')\<lparr>col_default := now_default\<rparr>]"

section \<open>Executing statements\<close>

record sqlite_db =
  db_tables :: "(string \<times> column list) list"
  db_indexes :: "(string \<times> string \<times> string) list"
  db_migration_rows :: "(string \<times> ms) list"

definition table_cols :: "sqlite_db \<Rightarrow> string \<Rightarrow> column list option" where
  "table_cols db t = map_of (db_tables db) t"

type_synonym 'a sql = "(error, sqlite_db, 'a) act"

text \<open>One statement; \<open>IF NOT EXISTS\<close> makes an existing table or index a no-op, whatever its definition.\<close>

fun exec_stmt :: "ddl \<Rightarrow> unit sql" where
  "exec_stmt (CreateTable t cols) db =
     (if table_cols db t \<noteq> None then (Inr (), db) else (Inr (), db\<lparr>db_tables := db_tables db @ [(t, cols)]\<rparr>))"
| "exec_stmt (CreateIndex i t c) db =
     (if i \<in> set (map fst (db_indexes db)) then (Inr (), db)
      else (case table_cols db t of
              None \<Rightarrow> (Inl (SqliteError (''no such table: main.'' @ t)), db)
            | Some cols \<Rightarrow> if c \<in> set (map col_name cols) then (Inr (), db\<lparr>db_indexes := db_indexes db @ [(i, t, c)]\<rparr>)
                           else (Inl (SqliteError (''no such column: '' @ c)), db)))"

definition db_exec :: "ddl list \<Rightarrow> unit sql" where
  "db_exec stmts = seq_act (map exec_stmt stmts)"

text \<open>\<open>INSERT INTO _migrations (name) VALUES (?)\<close>: \<open>name\<close> is the primary key.\<close>

definition insert_migration :: "string \<Rightarrow> ms \<Rightarrow> unit sql" where
  "insert_migration n now db =
     (if n \<in> set (map fst (db_migration_rows db))
      then (Inl (SqliteError ''UNIQUE constraint failed: _migrations.name''), db)
      else (Inr (), db\<lparr>db_migration_rows := db_migration_rows db @ [(n, now)]\<rparr>))"

text \<open>The loop over \<open>migrations\<close>, against the set \<open>applied\<close> read once before it.\<close>

primrec run_pending :: "string list \<Rightarrow> migration list \<Rightarrow> ms \<Rightarrow> unit sql" where
  "run_pending applied [] now = ok_act ()"
| "run_pending applied (m # ms) now =
     (if mg_name m \<in> set applied then run_pending applied ms now
      else seq_act [db_exec (mg_sql m), insert_migration (mg_name m) now, run_pending applied ms now])"

definition runMigrations :: "ms \<Rightarrow> unit sql" where
  "runMigrations now = bind_act (db_exec [migrations_table])
     (\<lambda>_ db. run_pending (map fst (db_migration_rows db)) migrations now db)"

text \<open>The tables a migration creates, and what a database must already have for it.\<close>

fun ddl_table :: "ddl \<Rightarrow> string list" where
  "ddl_table (CreateTable t cols) = [t]"
| "ddl_table (CreateIndex i t c) = []"

definition mg_tables :: "migration \<Rightarrow> string list" where
  "mg_tables m = concat (map ddl_table (mg_sql m))"

text \<open>A table of that name, if there is one, has at least the migration's columns.\<close>

definition covers :: "sqlite_db \<Rightarrow> string \<Rightarrow> column list \<Rightarrow> bool" where
  "covers db t cols = (case table_cols db t of None \<Rightarrow> True | Some cs \<Rightarrow> set (map col_name cols) \<subseteq> set (map col_name cs))"

definition schema_compatible :: "sqlite_db \<Rightarrow> bool" where
  "schema_compatible db = (covers db ''stores'' stores_columns \<and> covers db ''provisioning_events'' events_columns
                           \<and> covers db ''audit_log'' audit_columns)"

definition empty_db :: sqlite_db where
  "empty_db = \<lparr>db_tables = [], db_indexes = [], db_migration_rows = []\<rparr>"

section \<open>The statements of the repositories\<close>

text \<open>
  The columns each write of the repositories names (\<open>INSERT INTO t (cols)\<close>,
  \<open>UPDATE t SET cols\<close>) and the columns each row mapper reads.
\<close>

datatype sql_write = Insert string "string list" | Update string "string list"

definition store_writes :: "(string \<times> sql_write) list" where
  "store_writes =
     [(''createStore'', Insert ''stores'' [''id'', ''name'', ''slug'', ''namespace'', ''admin_email'', ''plan'', ''status'']),
      (''updateStoreStatus'', Update ''stores'' [''status'', ''error_message'']),
      (''updateStoreStatus'', Update ''stores'' [''status'']),
      (''updateStoreReady'', Update ''stores'' [''status'', ''url'', ''admin_url'', ''admin_password'', ''provisioned_at'']),
      (''updateAdminPassword'', Update ''stores'' [''admin_password''])]"

definition event_writes :: "(string \<times> sql_write) list" where
  "event_writes = [(''logEvent'', Insert ''provisioning_events'' [''id'', ''store_id'', ''step'', ''status'', ''message''])]"

definition audit_writes :: "(string \<times> sql_write) list" where
  "audit_writes = [(''logAudit'', Insert ''audit_log'' [''id'', ''action'', ''resource_type'', ''resource_id'',
     ''resource_name'', ''details'', ''ip_address''])]"

definition repo_writes :: "(string \<times> sql_write) list" where
  "repo_writes = store_writes @ event_writes @ audit_writes"

text \<open>The columns \<open>rowToStore\<close>, \<open>rowToEvent\<close> and \<open>getAuditLog\<close> read.\<close>

definition store_row_columns :: "string list" where
  "store_row_columns = [''id'', ''name'', ''slug'', ''namespace'', ''status'', ''plan'', ''url'', ''admin_url'',
     ''admin_email'', ''admin_password'', ''error_message'', ''created_at'', ''provisioned_at'']"

definition event_row_columns :: "string list" where
  "event_row_columns = [''id'', ''store_id'', ''step'', ''status'', ''message'', ''created_at'']"

definition audit_row_columns :: "string list" where
  "audit_row_columns = [''id'', ''action'', ''resource_type'', ''resource_id'', ''resource_name'', ''details'',
     ''ip_address'', ''created_at'']"

definition repo_reads :: "(string \<times> string list) list" where
  "repo_reads = [(''stores'', store_row_columns), (''provisioning_events'', event_row_columns),
                 (''audit_log'', audit_row_columns)]"

text \<open>A write names only columns of its table, and an insert gives every \<open>NOT NULL\<close> column without a default.\<close>

fun write_ok :: "sqlite_db \<Rightarrow> sql_write \<Rightarrow> bool" where
  "write_ok db (Insert t cols) = (case table_cols db t of None \<Rightarrow> False
     | Some tc \<Rightarrow> set cols \<subseteq> set (map col_name tc)
                 \<and> set (map col_name (filter (\<lambda>c. col_notnull c \<and> col_default c = None) tc)) \<subseteq> set cols)"
| "write_ok db (Update t cols) = (case table_cols db t of None \<Rightarrow> False | Some tc \<Rightarrow> set cols \<subseteq> set (map col_name tc))"

definition check_of :: "column list \<Rightarrow> string \<Rightarrow> string list" where
  "check_of cols c = concat (map col_check (filter (\<lambda>x. col_name x = c) cols))"

text \<open>Databases left by an older schema: a \<open>stores\<close> table without \<open>plan\<close>, or without \<open>slug\<close>.\<close>

definition legacy_db :: "string \<Rightarrow> sqlite_db" where
  "legacy_db c = \<lparr>db_tables = [(''stores'', filter (\<lambda>x. col_name x \<noteq> c) stores_columns)], db_indexes = [],
                  db_migration_rows = []\<rparr>"

text \<open>No statement drops a table or changes its columns, and no statement removes a recorded migration.\<close>

definition grows :: "sqlite_db \<Rightarrow> sqlite_db \<Rightarrow> bool" where
  "grows db0 db = ((\<forall>t cs. table_cols db0 t = Some cs \<longrightarrow> table_cols db t = Some cs)
                   \<and> set (db_migration_rows db0) \<subseteq> set (db_migration_rows db))"

text \<open>The tables the migrations create, with their columns.\<close>

definition schema_tables :: "(string \<times> column list) list" where
  "schema_tables = [(''stores'', stores_columns), (''provisioning_events'', events_columns), (''audit_log'', audit_columns)]"

text \<open>A statement the runner executes: a table it creates is one of the migrations' tables.\<close>

fun ddl_ok :: "ddl \<Rightarrow> bool" where
  "ddl_ok (CreateTable t cols) =
     ((t, cols) \<in> set ((''_migrations'', [pk_col ''name'', (nn_col ''applied_at'')\<lparr>col_default := now_default\<rparr>]) # schema_tables))"
| "ddl_ok (CreateIndex i t c) = True"

text \<open>Every table of \<open>db\<close> was in \<open>db0\<close> as it is, or was created by one of the runner's statements.\<close>

definition made_by :: "sqlite_db \<Rightarrow> sqlite_db \<Rightarrow> bool" where
  "made_by db0 db = (\<forall>t cs. table_cols db t = Some cs \<longrightarrow> table_cols db0 t = Some cs \<or> ddl_ok (CreateTable t cs))"

section \<open>Lemmas\<close>

lemma table_cols_add [simp]:
  "table_cols (db\<lparr>db_tables := db_tables db @ [(t, cols)]\<rparr>) = (table_cols db)(t := Some (case table_cols db t of None \<Rightarrow> cols | Some cs \<Rightarrow> cs))"
  by (auto simp: table_cols_def fun_eq_iff map_add_def split: option.splits)

lemma table_cols_indexes [simp]: "table_cols (db\<lparr>db_indexes := x\<rparr>) = table_cols db"
  by (simp add: table_cols_def fun_eq_iff)

lemma db_exec_Cons: "db_exec (s # ss) db = (case exec_stmt s db of (Inl e, db') \<Rightarrow> (Inl e, db') | (Inr _, db') \<Rightarrow> db_exec ss db')"
  unfolding db_exec_def by (simp add: bind_act_def)

lemma db_exec_Nil [simp]: "db_exec [] db = (Inr (), db)"
  by (simp add: db_exec_def)

lemma exec_index_ok:
  "table_cols db t = Some cs \<Longrightarrow> c \<in> set (map col_name cs)
   \<Longrightarrow> \<exists>ixs. exec_stmt (CreateIndex i t c) db = (Inr (), db\<lparr>db_indexes := ixs\<rparr>)"
proof (cases "i \<in> set (map fst (db_indexes db))")
  case True
  then show ?thesis by (intro exI [of _ "db_indexes db"]) simp
next
  case False
  assume "table_cols db t = Some cs" "c \<in> set (map col_name cs)"
  with False show ?thesis by (intro exI [of _ "db_indexes db @ [(i, t, c)]"]) simp
qed

text \<open>Indexes on columns a table already has: every statement is a no-op or adds an index.\<close>

lemma exec_indexes:
  assumes "table_cols db t = Some cs" "set (map snd idx) \<subseteq> set (map col_name cs)"
  shows "\<exists>ixs. db_exec (map (\<lambda>(i, c). CreateIndex i t c) idx) db = (Inr (), db\<lparr>db_indexes := ixs\<rparr>)"
  using assms
proof (induction idx arbitrary: db)
  case Nil
  then show ?case by (intro exI [of _ "db_indexes db"]) simp
next
  case (Cons ic idx)
  obtain i c where ic: "ic = (i, c)" by fastforce
  have c: "c \<in> set (map col_name cs)" using Cons.prems(2) ic by simp
  obtain ixs1 where s: "exec_stmt (CreateIndex i t c) db = (Inr (), db\<lparr>db_indexes := ixs1\<rparr>)"
    using exec_index_ok [OF Cons.prems(1) c] by blast
  have t1: "table_cols (db\<lparr>db_indexes := ixs1\<rparr>) t = Some cs" using Cons.prems(1) by simp
  have sub: "set (map snd idx) \<subseteq> set (map col_name cs)" using Cons.prems(2) by simp
  obtain ixs2 where r: "db_exec (map (\<lambda>(i, c). CreateIndex i t c) idx) (db\<lparr>db_indexes := ixs1\<rparr>)
      = (Inr (), db\<lparr>db_indexes := ixs1, db_indexes := ixs2\<rparr>)"
    using Cons.IH [OF t1 sub] by blast
  show ?case using s r ic by (intro exI [of _ ixs2]) (simp add: db_exec_Cons)
qed

text \<open>A script that creates one table and indexes on its columns never fails.\<close>

lemma exec_table_script:
  assumes "covers db t cols" "set (map snd idx) \<subseteq> set (map col_name cols)"
  shows "\<exists>db'. db_exec (CreateTable t cols # map (\<lambda>(i, c). CreateIndex i t c) idx) db = (Inr (), db')
     \<and> db_migration_rows db' = db_migration_rows db
     \<and> table_cols db' = (table_cols db)(t := Some (case table_cols db t of None \<Rightarrow> cols | Some cs \<Rightarrow> cs))"
proof (cases "table_cols db t")
  case None
  let ?db1 = "db\<lparr>db_tables := db_tables db @ [(t, cols)]\<rparr>"
  have "table_cols ?db1 t = Some cols" using None by simp
  then obtain ixs where "db_exec (map (\<lambda>(i, c). CreateIndex i t c) idx) ?db1 = (Inr (), ?db1\<lparr>db_indexes := ixs\<rparr>)"
    using exec_indexes assms(2) by blast
  then show ?thesis using None by (simp add: db_exec_Cons)
next
  case (Some cs)
  have "set (map snd idx) \<subseteq> set (map col_name cs)" using assms Some by (auto simp: covers_def)
  then obtain ixs where "db_exec (map (\<lambda>(i, c). CreateIndex i t c) idx) db = (Inr (), db\<lparr>db_indexes := ixs\<rparr>)"
    using exec_indexes Some by blast
  then show ?thesis using Some by (simp add: db_exec_Cons fun_eq_iff)
qed

lemma migrations_scripts:
  "map mg_sql migrations = map (\<lambda>(t, cols, idx). CreateTable t cols # map (\<lambda>(i, c). CreateIndex i t c) idx)
     [(''stores'', stores_columns, [(''idx_stores_status'', ''status''), (''idx_stores_slug'', ''slug'')]),
      (''provisioning_events'', events_columns, [(''idx_events_store_id'', ''store_id''), (''idx_events_created_at'', ''created_at'')]),
      (''audit_log'', audit_columns, [(''idx_audit_action'', ''action''), (''idx_audit_created_at'', ''created_at'')])]"
  by (simp add: migrations_def)

lemma col_names [simp]:
  "map col_name stores_columns = [''id'', ''name'', ''slug'', ''namespace'', ''status'', ''plan'', ''url'', ''admin_url'',
     ''admin_email'', ''admin_password'', ''error_message'', ''created_at'', ''provisioned_at'']"
  "map col_name events_columns = [''id'', ''store_id'', ''step'', ''status'', ''message'', ''created_at'']"
  "map col_name audit_columns = [''id'', ''action'', ''resource_type'', ''resource_id'', ''resource_name'', ''details'',
     ''ip_address'', ''created_at'']"
  by (simp_all add: stores_columns_def events_columns_def audit_columns_def text_col_def nn_col_def pk_col_def)

lemma covers_upd:
  "table_cols db' = (table_cols db)(t := Some (case table_cols db t of None \<Rightarrow> cols | Some cs \<Rightarrow> cs))
   \<Longrightarrow> covers db t' cols' \<Longrightarrow> (t = t' \<Longrightarrow> cols = cols') \<Longrightarrow> covers db' t' cols'"
  by (auto simp: covers_def split: option.splits)


lemma migration_shape:
  assumes "m \<in> set migrations"
  obtains t cols idx where "mg_sql m = CreateTable t cols # map (\<lambda>(i, c). CreateIndex i t c) idx"
    "set (map snd idx) \<subseteq> set (map col_name cols)"
    "(t, cols) \<in> set [(''stores'', stores_columns), (''provisioning_events'', events_columns), (''audit_log'', audit_columns)]"
proof -
  have "mg_sql m \<in> {[CreateTable ''stores'' stores_columns,
                 CreateIndex ''idx_stores_status'' ''stores'' ''status'', CreateIndex ''idx_stores_slug'' ''stores'' ''slug''],
       [CreateTable ''provisioning_events'' events_columns,
                 CreateIndex ''idx_events_store_id'' ''provisioning_events'' ''store_id'',
                 CreateIndex ''idx_events_created_at'' ''provisioning_events'' ''created_at''],
       [CreateTable ''audit_log'' audit_columns,
                 CreateIndex ''idx_audit_action'' ''audit_log'' ''action'',
                 CreateIndex ''idx_audit_created_at'' ''audit_log'' ''created_at'']}"
    using assms by (auto simp: migrations_def)
  then consider
      (s) "mg_sql m = [CreateTable ''stores'' stores_columns,
                 CreateIndex ''idx_stores_status'' ''stores'' ''status'', CreateIndex ''idx_stores_slug'' ''stores'' ''slug'']"
    | (e) "mg_sql m = [CreateTable ''provisioning_events'' events_columns,
                 CreateIndex ''idx_events_store_id'' ''provisioning_events'' ''store_id'',
                 CreateIndex ''idx_events_created_at'' ''provisioning_events'' ''created_at'']"
    | (a) "mg_sql m = [CreateTable ''audit_log'' audit_columns,
                 CreateIndex ''idx_audit_action'' ''audit_log'' ''action'',
                 CreateIndex ''idx_audit_created_at'' ''audit_log'' ''created_at'']"
    by blast
  then show ?thesis
  proof cases
    case s then show ?thesis
      by (intro that [of "''stores''" stores_columns "[(''idx_stores_status'', ''status''), (''idx_stores_slug'', ''slug'')]"]) simp_all
  next
    case e then show ?thesis
      by (intro that [of "''provisioning_events''" events_columns
            "[(''idx_events_store_id'', ''store_id''), (''idx_events_created_at'', ''created_at'')]"]) simp_all
  next
    case a then show ?thesis
      by (intro that [of "''audit_log''" audit_columns "[(''idx_audit_action'', ''action''), (''idx_audit_created_at'', ''created_at'')]"]) simp_all
  qed
qed

text \<open>Each migration's script, run on a compatible database, returns and keeps it compatible.\<close>

lemma exec_migration:
  assumes "m \<in> set migrations" "schema_compatible db"
  shows "\<exists>db'. db_exec (mg_sql m) db = (Inr (), db') \<and> schema_compatible db'
     \<and> db_migration_rows db' = db_migration_rows db \<and> (\<forall>t \<in> set (mg_tables m). table_cols db' t \<noteq> None)
     \<and> (\<forall>t cs. table_cols db t = Some cs \<longrightarrow> table_cols db' t = Some cs)"
proof -
  obtain t cols idx where sql: "mg_sql m = CreateTable t cols # map (\<lambda>(i, c). CreateIndex i t c) idx"
    and sub: "set (map snd idx) \<subseteq> set (map col_name cols)"
    and tc: "(t, cols) \<in> set [(''stores'', stores_columns), (''provisioning_events'', events_columns), (''audit_log'', audit_columns)]"
    using migration_shape [OF assms(1)] by blast
  have tabs: "mg_tables m = [t]" using sql by (auto simp: mg_tables_def split: prod.splits)
  have cov: "covers db t cols" using tc assms(2) by (auto simp: schema_compatible_def)
  obtain db' where r: "db_exec (mg_sql m) db = (Inr (), db')" "db_migration_rows db' = db_migration_rows db"
    and upd: "table_cols db' = (table_cols db)(t := Some (case table_cols db t of None \<Rightarrow> cols | Some cs \<Rightarrow> cs))"
    using exec_table_script [OF cov sub] sql by auto
  have "schema_compatible db'"
    unfolding schema_compatible_def
  proof (intro conjI)
    show "covers db' ''stores'' stores_columns" using assms(2) tc by (intro covers_upd [OF upd]) (auto simp: schema_compatible_def)
    show "covers db' ''provisioning_events'' events_columns" using assms(2) tc by (intro covers_upd [OF upd]) (auto simp: schema_compatible_def)
    show "covers db' ''audit_log'' audit_columns" using assms(2) tc by (intro covers_upd [OF upd]) (auto simp: schema_compatible_def)
  qed
  moreover have "\<forall>t \<in> set (mg_tables m). table_cols db' t \<noteq> None" using upd tabs by simp
  moreover have "\<forall>t' cs. table_cols db t' = Some cs \<longrightarrow> table_cols db' t' = Some cs" using upd by simp
  ultimately show ?thesis using r by blast
qed

lemma table_cols_rows [simp]: "table_cols (db\<lparr>db_migration_rows := x\<rparr>) = table_cols db"
  by (simp add: table_cols_def fun_eq_iff)

lemma schema_compatible_rows [simp]: "schema_compatible (db\<lparr>db_migration_rows := x\<rparr>) = schema_compatible db"
  by (simp add: schema_compatible_def covers_def)

lemma exec_stmt_grows [keeps_intros]: "act_keeps (grows db0) (exec_stmt s)"
  by (cases s) (auto simp: act_keeps_def grows_def split: option.splits)

lemma db_exec_grows [keeps_intros]: "act_keeps (grows db0) (db_exec ss)"
  unfolding db_exec_def by (rule act_keeps_seq) (auto intro: exec_stmt_grows)

lemma insert_migration_grows [keeps_intros]: "act_keeps (grows db0) (insert_migration n now)"
  by (auto simp: act_keeps_def grows_def insert_migration_def)

lemma run_pending_grows [keeps_intros]: "act_keeps (grows db0) (run_pending applied ms now)"
proof (induction ms)
  case Nil
  show ?case by (simp add: act_keeps_def)
next
  case (Cons m ms)
  then show ?case by (auto intro!: keeps_intros)
qed

lemma grows_refl [simp]: "grows db db"
  by (simp add: grows_def)

lemma run_pending_applied: "set (map mg_name ms) \<subseteq> set applied \<Longrightarrow> run_pending applied ms now = ok_act ()"
  by (induction ms) auto

text \<open>A run that returns has recorded every migration that was not applied before.\<close>

lemma run_pending_recorded:
  "run_pending applied ms now db = (Inr (), db')
   \<Longrightarrow> set (map mg_name ms) \<subseteq> set applied \<union> set (map fst (db_migration_rows db'))"
proof (induction ms arbitrary: db)
  case Nil
  then show ?case by simp
next
  case (Cons m ms)
  show ?case
  proof (cases "mg_name m \<in> set applied")
    case True
    then show ?thesis using Cons by simp
  next
    case False
    then obtain db1 db2 where r1: "db_exec (mg_sql m) db = (Inr (), db1)"
      and r2: "insert_migration (mg_name m) now db1 = (Inr (), db2)"
      and r3: "run_pending applied ms now db2 = (Inr (), db')"
      using Cons.prems by (auto simp: bind_act_def split: prod.splits sum.splits)
    have "mg_name m \<in> set (map fst (db_migration_rows db2))"
      using r2 by (auto simp: insert_migration_def split: if_splits)
    moreover have "grows db2 db'" using act_keepsD [OF run_pending_grows grows_refl r3] .
    ultimately show ?thesis using Cons.IH [OF r3] by (auto simp: grows_def)
  qed
qed

lemma insert_migration_new:
  "n \<notin> set (map fst (db_migration_rows db))
   \<Longrightarrow> insert_migration n now db = (Inr (), db\<lparr>db_migration_rows := db_migration_rows db @ [(n, now)]\<rparr>)"
  by (simp add: insert_migration_def)

text \<open>On a compatible database the loop runs every pending migration, in order, and records it.\<close>

lemma run_pending_ok:
  assumes "schema_compatible db" "set ms \<subseteq> set migrations" "distinct (map mg_name ms)"
    and "\<forall>m \<in> set ms. mg_name m \<notin> set applied \<longrightarrow> mg_name m \<notin> set (map fst (db_migration_rows db))"
  shows "\<exists>db'. run_pending applied ms now db = (Inr (), db') \<and> schema_compatible db'
     \<and> db_migration_rows db' = db_migration_rows db @ map (\<lambda>m. (mg_name m, now)) (filter (\<lambda>m. mg_name m \<notin> set applied) ms)
     \<and> (\<forall>m \<in> set ms. mg_name m \<notin> set applied \<longrightarrow> (\<forall>t \<in> set (mg_tables m). table_cols db' t \<noteq> None))
     \<and> (\<forall>t cs. table_cols db t = Some cs \<longrightarrow> table_cols db' t = Some cs)"
  using assms
proof (induction ms arbitrary: db)
  case Nil
  then show ?case by simp
next
  case (Cons m ms)
  show ?case
  proof (cases "mg_name m \<in> set applied")
    case True
    then show ?thesis using Cons.IH [of db] Cons.prems by auto
  next
    case False
    obtain db1 where r1: "db_exec (mg_sql m) db = (Inr (), db1)" and c1: "schema_compatible db1"
      and rows1: "db_migration_rows db1 = db_migration_rows db" and t1: "\<forall>t \<in> set (mg_tables m). table_cols db1 t \<noteq> None"
      and k1: "\<forall>t cs. table_cols db t = Some cs \<longrightarrow> table_cols db1 t = Some cs"
      using exec_migration [of m db] Cons.prems by auto
    let ?db2 = "db1\<lparr>db_migration_rows := db_migration_rows db1 @ [(mg_name m, now)]\<rparr>"
    have r2: "insert_migration (mg_name m) now db1 = (Inr (), ?db2)"
      using False Cons.prems(4) rows1 by (intro insert_migration_new) simp
    have "\<forall>m' \<in> set ms. mg_name m' \<notin> set applied \<longrightarrow> mg_name m' \<notin> set (map fst (db_migration_rows ?db2))"
      using Cons.prems(3,4) rows1 by (fastforce simp: image_iff)
    then obtain db' where r3: "run_pending applied ms now ?db2 = (Inr (), db')" and c': "schema_compatible db'"
      and rows': "db_migration_rows db' = db_migration_rows ?db2 @ map (\<lambda>m. (mg_name m, now)) (filter (\<lambda>m. mg_name m \<notin> set applied) ms)"
      and t': "\<forall>m \<in> set ms. mg_name m \<notin> set applied \<longrightarrow> (\<forall>t \<in> set (mg_tables m). table_cols db' t \<noteq> None)"
      and k': "\<forall>t cs. table_cols ?db2 t = Some cs \<longrightarrow> table_cols db' t = Some cs"
      using Cons.IH [of ?db2] Cons.prems(2,3) c1 by auto
    have "run_pending applied (m # ms) now db = (Inr (), db')" using False r1 r2 r3 by simp
    moreover have "\<forall>t \<in> set (mg_tables m). table_cols db' t \<noteq> None" using t1 k' by fastforce
    ultimately show ?thesis using False c' rows' rows1 t' k' k1 by auto
  qed
qed

lemma migrations_names: "map mg_name migrations = [''001_create_stores'', ''002_create_events'', ''003_create_audit_log'']"
  by (simp add: migrations_def)

lemma exec_create_table:
  "\<exists>db'. db_exec [CreateTable t cols] db = (Inr (), db') \<and> db_migration_rows db' = db_migration_rows db
     \<and> table_cols db' = (table_cols db)(t := Some (case table_cols db t of None \<Rightarrow> cols | Some cs \<Rightarrow> cs))"
  by (cases "table_cols db t") (simp_all add: db_exec_Cons fun_eq_iff)

lemma exec_migrations_table:
  assumes "schema_compatible db"
  shows "\<exists>db0. db_exec [migrations_table] db = (Inr (), db0) \<and> schema_compatible db0
     \<and> db_migration_rows db0 = db_migration_rows db \<and> table_cols db0 ''_migrations'' \<noteq> None
     \<and> (\<forall>t cs. table_cols db t = Some cs \<longrightarrow> table_cols db0 t = Some cs)"
proof -
  obtain db0 where r: "db_exec [migrations_table] db = (Inr (), db0)" "db_migration_rows db0 = db_migration_rows db"
    and upd: "table_cols db0 = (table_cols db)(''_migrations'' := Some (case table_cols db ''_migrations'' of
                None \<Rightarrow> [pk_col ''name'', (nn_col ''applied_at'')\<lparr>col_default := now_default\<rparr>] | Some cs \<Rightarrow> cs))"
    using exec_create_table [of "''_migrations''" _ db] unfolding migrations_table_def by blast
  have "schema_compatible db0"
    using assms unfolding schema_compatible_def by (auto intro: covers_upd [OF upd])
  then show ?thesis using r upd by auto
qed

text \<open>
  C28. On a database whose existing tables have at least the columns the migrations
  create, \<open>runMigrations\<close> returns; it records exactly the migrations that were not yet
  recorded, in the order of the list, each with the run's time, creates the tables of
  each of them and the \<open>_migrations\<close> table, and keeps every table that was there.
\<close>

theorem runMigrations_applies_pending:
  assumes "schema_compatible db"
  shows "\<exists>db'. runMigrations now db = (Inr (), db')
     \<and> db_migration_rows db' = db_migration_rows db
          @ map (\<lambda>m. (mg_name m, now)) (filter (\<lambda>m. mg_name m \<notin> set (map fst (db_migration_rows db))) migrations)
     \<and> table_cols db' ''_migrations'' \<noteq> None
     \<and> (\<forall>m \<in> set migrations. mg_name m \<notin> set (map fst (db_migration_rows db))
          \<longrightarrow> (\<forall>t \<in> set (mg_tables m). table_cols db' t \<noteq> None))
     \<and> (\<forall>t cs. table_cols db t = Some cs \<longrightarrow> table_cols db' t = Some cs)"
proof -
  obtain db0 where r0: "db_exec [migrations_table] db = (Inr (), db0)" and c0: "schema_compatible db0"
    and rows0: "db_migration_rows db0 = db_migration_rows db" and m0: "table_cols db0 ''_migrations'' \<noteq> None"
    and k0: "\<forall>t cs. table_cols db t = Some cs \<longrightarrow> table_cols db0 t = Some cs"
    using exec_migrations_table [OF assms] by blast
  obtain db' where r: "run_pending (map fst (db_migration_rows db0)) migrations now db0 = (Inr (), db')"
    and rows: "db_migration_rows db' = db_migration_rows db0
          @ map (\<lambda>m. (mg_name m, now)) (filter (\<lambda>m. mg_name m \<notin> set (map fst (db_migration_rows db0))) migrations)"
    and t: "\<forall>m \<in> set migrations. mg_name m \<notin> set (map fst (db_migration_rows db0))
          \<longrightarrow> (\<forall>t \<in> set (mg_tables m). table_cols db' t \<noteq> None)"
    and k: "\<forall>t cs. table_cols db0 t = Some cs \<longrightarrow> table_cols db' t = Some cs"
    using run_pending_ok [OF c0, of migrations "map fst (db_migration_rows db0)" now] migrations_names by auto
  have "runMigrations now db = (Inr (), db')" using r0 r by (simp add: runMigrations_def)
  moreover have "table_cols db' ''_migrations'' \<noteq> None" using m0 k by fastforce
  ultimately show ?thesis using rows t k k0 rows0 by auto
qed

lemma exec_existing_table: "table_cols db t \<noteq> None \<Longrightarrow> db_exec [CreateTable t cols] db = (Inr (), db)"
  by (simp add: db_exec_Cons)

text \<open>
  C29. Running the migrations again after a run that returned changes nothing and
  returns: the \<open>_migrations\<close> table exists and records every migration, so the second run
  executes no script, whatever its time.
\<close>

theorem runMigrations_idempotent:
  assumes "runMigrations now db = (Inr (), db')"
  shows "runMigrations now' db' = (Inr (), db')"
proof -
  obtain db0 where r0: "db_exec [migrations_table] db = (Inr (), db0)"
    and u0: "table_cols db0 = (table_cols db)(''_migrations'' := Some (case table_cols db ''_migrations'' of
               None \<Rightarrow> [pk_col ''name'', (nn_col ''applied_at'')\<lparr>col_default := now_default\<rparr>] | Some cs \<Rightarrow> cs))"
    using exec_create_table [of "''_migrations''" _ db] unfolding migrations_table_def by blast
  have m0: "table_cols db0 ''_migrations'' \<noteq> None" using u0 by simp
  have "runMigrations now db = run_pending (map fst (db_migration_rows db0)) migrations now db0"
    using r0 by (simp add: runMigrations_def)
  then have r: "run_pending (map fst (db_migration_rows db0)) migrations now db0 = (Inr (), db')"
    using assms by simp
  have g: "grows db0 db'" using act_keepsD [OF run_pending_grows grows_refl r] .
  have "set (db_migration_rows db0) \<subseteq> set (db_migration_rows db')" using g by (simp add: grows_def)
  then have "set (map fst (db_migration_rows db0)) \<subseteq> set (map fst (db_migration_rows db'))" by auto
  then have all: "set (map mg_name migrations) \<subseteq> set (map fst (db_migration_rows db'))"
    using run_pending_recorded [OF r] by blast
  have "table_cols db' ''_migrations'' \<noteq> None" using m0 g by (auto simp: grows_def)
  then have "db_exec [migrations_table] db' = (Inr (), db')"
    unfolding migrations_table_def by (rule exec_existing_table)
  then show ?thesis using run_pending_applied [OF all] by (simp add: runMigrations_def)
qed


text \<open>
  On an empty database the runner creates \<open>_migrations\<close> and then the three tables
  with their six indexes, in the order of the source, and records the three migrations in
  order.
\<close>

theorem runMigrations_fresh:
  "runMigrations now empty_db =
     (Inr (), \<lparr>db_tables = [(''_migrations'', [pk_col ''name'', (nn_col ''applied_at'')\<lparr>col_default := now_default\<rparr>]),
                            (''stores'', stores_columns), (''provisioning_events'', events_columns), (''audit_log'', audit_columns)],
               db_indexes = [(''idx_stores_status'', ''stores'', ''status''), (''idx_stores_slug'', ''stores'', ''slug''),
                             (''idx_events_store_id'', ''provisioning_events'', ''store_id''),
                             (''idx_events_created_at'', ''provisioning_events'', ''created_at''),
                             (''idx_audit_action'', ''audit_log'', ''action''), (''idx_audit_created_at'', ''audit_log'', ''created_at'')],
               db_migration_rows = [(''001_create_stores'', now), (''002_create_events'', now), (''003_create_audit_log'', now)]\<rparr>)"
  by code_simp

lemma exec_stmt_made_by: "ddl_ok s \<Longrightarrow> act_keeps (made_by db0) (exec_stmt s)"
  by (cases s) (auto simp: act_keeps_def made_by_def split: option.splits)

lemma db_exec_made_by: "list_all ddl_ok ss \<Longrightarrow> act_keeps (made_by db0) (db_exec ss)"
  unfolding db_exec_def by (rule act_keeps_seq) (auto simp: list_all_iff intro: exec_stmt_made_by)

lemma insert_migration_made_by: "act_keeps (made_by db0) (insert_migration n now)"
  by (auto simp: act_keeps_def made_by_def insert_migration_def)

lemma migrations_ddl_ok: "m \<in> set migrations \<Longrightarrow> list_all ddl_ok (mg_sql m)"
  by (auto simp: migrations_def schema_tables_def)

lemma run_pending_made_by: "set ms \<subseteq> set migrations \<Longrightarrow> act_keeps (made_by db0) (run_pending applied ms now)"
proof (induction ms)
  case Nil
  show ?case by (simp add: act_keeps_def)
next
  case (Cons m ms)
  then show ?case
    by (auto intro!: keeps_intros db_exec_made_by insert_migration_made_by migrations_ddl_ok)
qed

lemma made_by_refl: "made_by db db"
  by (simp add: made_by_def)

text \<open>An invariant of the create-table statement and of every loop over the migrations holds of the runner.\<close>

lemma runMigrations_keeps:
  "act_keeps I (db_exec [migrations_table]) \<Longrightarrow> (\<And>applied. act_keeps I (run_pending applied migrations now))
   \<Longrightarrow> act_keeps I (runMigrations now)"
  by (auto simp: act_keeps_def runMigrations_def bind_act_def split: prod.splits sum.splits)

lemma runMigrations_grows: "act_keeps (grows db0) (runMigrations now)"
  by (intro runMigrations_keeps db_exec_grows run_pending_grows)

lemma runMigrations_made_by: "act_keeps (made_by db0) (runMigrations now)"
  by (intro runMigrations_keeps db_exec_made_by run_pending_made_by) (simp_all add: migrations_table_def)

lemma schema_tables_migration: "(t, cols) \<in> set schema_tables \<Longrightarrow> \<exists>m \<in> set migrations. t \<in> set (mg_tables m)"
  by (auto simp: schema_tables_def migrations_def mg_tables_def)

lemma ddl_ok_schema: "(t, cols) \<in> set schema_tables \<Longrightarrow> ddl_ok (CreateTable t cs) \<Longrightarrow> cs = cols"
  by (auto simp: schema_tables_def)

lemma schema_tables_compatible:
  "\<forall>(t, cols) \<in> set schema_tables. table_cols db t = None \<or> table_cols db t = Some cols \<Longrightarrow> schema_compatible db"
  by (auto simp: schema_compatible_def covers_def schema_tables_def)

text \<open>The repositories' statements depend only on the columns of the three tables.\<close>

lemma schema_tables_fit:
  assumes "\<And>t cols. (t, cols) \<in> set schema_tables \<Longrightarrow> table_cols db t = Some cols"
  shows "list_all (\<lambda>(n, w). write_ok db w) repo_writes
     \<and> list_all (\<lambda>(t, cols). map_option (\<lambda>tc. set (map col_name tc)) (table_cols db t) = Some (set cols)) repo_reads"
proof -
  have t: "table_cols db ''stores'' = Some stores_columns" "table_cols db ''provisioning_events'' = Some events_columns"
    "table_cols db ''audit_log'' = Some audit_columns"
    by (simp_all add: assms schema_tables_def)
  show ?thesis
    by (simp add: t repo_writes_def store_writes_def event_writes_def audit_writes_def repo_reads_def
        store_row_columns_def event_row_columns_def audit_row_columns_def stores_columns_def events_columns_def
        audit_columns_def text_col_def nn_col_def pk_col_def now_default_def)
qed

lemma status_checks:
  "(\<forall>s. store_status_text s \<in> set (check_of stores_columns ''status''))
   \<and> (\<forall>p. store_plan_text p \<in> set (check_of stores_columns ''plan''))
   \<and> (\<forall>e. event_status_text e \<in> set (check_of events_columns ''status''))"
proof (intro conjI allI)
  show "store_status_text s \<in> set (check_of stores_columns ''status'')" for s
    by (cases s) (simp_all add: check_of_def stores_columns_def text_col_def nn_col_def pk_col_def)
  show "store_plan_text p \<in> set (check_of stores_columns ''plan'')" for p
    by (cases p) (simp_all add: check_of_def stores_columns_def text_col_def nn_col_def pk_col_def)
  show "event_status_text e \<in> set (check_of events_columns ''status'')" for e
    by (cases e) (simp_all add: check_of_def events_columns_def text_col_def nn_col_def pk_col_def)
qed

text \<open>
  C31. The migrated schema is the one the repositories use, from every database whose
  stores, events and audit tables are absent or exactly as the migrations define them, and
  in which a recorded migration's tables exist: the runner returns, every insert and update
  names only columns of its table, every insert gives each \<open>NOT NULL\<close> column that has
  no default, each row mapper reads exactly its table's columns, and every status and plan
  the code writes passes the table's \<open>CHECK\<close>.
\<close>

theorem migrated_schema_fits_repositories:
  assumes "\<forall>(t, cols) \<in> set schema_tables. table_cols db t = None \<or> table_cols db t = Some cols"
    and "\<forall>m \<in> set migrations. mg_name m \<in> set (map fst (db_migration_rows db)) \<longrightarrow> (\<forall>t \<in> set (mg_tables m). table_cols db t \<noteq> None)"
  shows "\<exists>db'. runMigrations now db = (Inr (), db')
     \<and> list_all (\<lambda>(n, w). write_ok db' w) repo_writes
     \<and> list_all (\<lambda>(t, cols). map_option (\<lambda>tc. set (map col_name tc)) (table_cols db' t) = Some (set cols)) repo_reads
     \<and> (\<forall>s. store_status_text s \<in> set (check_of stores_columns ''status''))
     \<and> (\<forall>p. store_plan_text p \<in> set (check_of stores_columns ''plan''))
     \<and> (\<forall>e. event_status_text e \<in> set (check_of events_columns ''status''))"
proof -
  have c: "schema_compatible db" using assms(1) by (rule schema_tables_compatible)
  obtain db0 where r0: "db_exec [migrations_table] db = (Inr (), db0)" and c0: "schema_compatible db0"
    and rows0: "db_migration_rows db0 = db_migration_rows db"
    and k0: "\<forall>t cs. table_cols db t = Some cs \<longrightarrow> table_cols db0 t = Some cs"
    using exec_migrations_table [OF c] by blast
  obtain db' where r: "run_pending (map fst (db_migration_rows db0)) migrations now db0 = (Inr (), db')"
    and t: "\<forall>m \<in> set migrations. mg_name m \<notin> set (map fst (db_migration_rows db0))
          \<longrightarrow> (\<forall>t \<in> set (mg_tables m). table_cols db' t \<noteq> None)"
    and k: "\<forall>t cs. table_cols db0 t = Some cs \<longrightarrow> table_cols db' t = Some cs"
    using run_pending_ok [OF c0, of migrations "map fst (db_migration_rows db0)" now] migrations_names by auto
  have run: "runMigrations now db = (Inr (), db')" using r0 r by (simp add: runMigrations_def)
  have mb: "made_by db db'" using act_keepsD [OF runMigrations_made_by made_by_refl run] .
  have tabs: "table_cols db' t = Some cols" if tc: "(t, cols) \<in> set schema_tables" for t cols
  proof (cases "table_cols db t")
    case (Some cs)
    then have "cs = cols" using assms(1) tc by fastforce
    then show ?thesis using Some k0 k by simp
  next
    case None
    obtain m where m: "m \<in> set migrations" "t \<in> set (mg_tables m)" using schema_tables_migration [OF tc] by blast
    have "mg_name m \<notin> set (map fst (db_migration_rows db))"
    proof
      assume "mg_name m \<in> set (map fst (db_migration_rows db))"
      then have "table_cols db t \<noteq> None" using assms(2) m by blast
      then show False using None by simp
    qed
    then have "mg_name m \<notin> set (map fst (db_migration_rows db0))" using rows0 by simp
    then obtain cs where cs: "table_cols db' t = Some cs" using t m by blast
    then have "table_cols db t = Some cs \<or> ddl_ok (CreateTable t cs)" using mb unfolding made_by_def by blast
    then have "ddl_ok (CreateTable t cs)" using None by (auto simp del: ddl_ok.simps)
    then show ?thesis using cs ddl_ok_schema [OF tc] by simp
  qed
  show ?thesis using run schema_tables_fit [OF tabs] status_checks by blast
qed

text \<open>
  C32. \<open>CREATE TABLE IF NOT EXISTS\<close> keeps a table of an older schema as it is. On every
  database whose \<open>stores\<close> table lacks a column the insert of \<open>createStore\<close> names,
  that insert fails after the migrations whatever they do, and a run that returns has
  recorded \<open>001_create_stores\<close> as applied, so no later start revisits the table.
\<close>

theorem runMigrations_schema_drift:
  assumes "table_cols db ''stores'' = Some cs"
    and "c \<in> set [''id'', ''name'', ''slug'', ''namespace'', ''admin_email'', ''plan'', ''status'']"
    and "c \<notin> set (map col_name cs)"
  shows "\<not> write_ok (snd (runMigrations now db))
            (Insert ''stores'' [''id'', ''name'', ''slug'', ''namespace'', ''admin_email'', ''plan'', ''status''])
     \<and> (isl (fst (runMigrations now db))
        \<or> ''001_create_stores'' \<in> set (map fst (db_migration_rows (snd (runMigrations now db)))))"
proof -
  let ?db' = "snd (runMigrations now db)"
  have g: "grows db ?db'" using runMigrations_grows [of db now] by (simp add: act_keeps_def)
  then have "table_cols ?db' ''stores'' = Some cs" using assms(1) by (simp add: grows_def)
  then have w: "\<not> write_ok ?db' (Insert ''stores'' [''id'', ''name'', ''slug'', ''namespace'', ''admin_email'', ''plan'', ''status''])"
    using assms(2,3) by auto
  have "''001_create_stores'' \<in> set (map fst (db_migration_rows ?db'))" if ok: "\<not> isl (fst (runMigrations now db))"
  proof -
    obtain db0 where r0: "db_exec [migrations_table] db = (Inr (), db0)"
      using exec_create_table [of "''_migrations''" _ db] unfolding migrations_table_def by blast
    have e: "fst (runMigrations now db) = Inr ()" using ok by (cases "fst (runMigrations now db)") auto
    have eq: "runMigrations now db = run_pending (map fst (db_migration_rows db0)) migrations now db0"
      using r0 by (simp add: runMigrations_def)
    have r: "run_pending (map fst (db_migration_rows db0)) migrations now db0 = (Inr (), ?db')"
      using e eq by (metis prod.collapse)
    have "grows db0 ?db'" using act_keepsD [OF run_pending_grows grows_refl r] .
    then show ?thesis using run_pending_recorded [OF r] migrations_names by (auto simp: grows_def)
  qed
  then show ?thesis using w by blast
qed

text \<open>
  A \<open>stores\<close> table without \<open>slug\<close> makes the index statement throw; nothing is
  recorded, so every later start throws the same error.
\<close>

lemma runMigrations_slug_drift:
  "fst (runMigrations now (legacy_db ''slug'')) = Inl (SqliteError ''no such column: slug'')
   \<and> db_migration_rows (snd (runMigrations now (legacy_db ''slug''))) = []
   \<and> runMigrations now' (snd (runMigrations now (legacy_db ''slug'')))
       = (Inl (SqliteError ''no such column: slug''), snd (runMigrations now (legacy_db ''slug'')))"
  by code_simp

section \<open>Witnesses\<close>

lemma empty_db_compatible: "schema_compatible empty_db"
  by (simp add: schema_compatible_def covers_def table_cols_def empty_db_def)

lemma runMigrations_applies_pending_witness:
  "schema_compatible empty_db
   \<and> (\<exists>db'. runMigrations 0 empty_db = (Inr (), db')
        \<and> map fst (db_migration_rows db') = [''001_create_stores'', ''002_create_events'', ''003_create_audit_log'']
        \<and> table_cols db' ''stores'' \<noteq> None)"
proof -
  obtain db' where r: "runMigrations 0 empty_db = (Inr (), db')"
    and rows: "db_migration_rows db' = db_migration_rows empty_db
          @ map (\<lambda>m. (mg_name m, 0)) (filter (\<lambda>m. mg_name m \<notin> set (map fst (db_migration_rows empty_db))) migrations)"
    and t: "\<forall>m \<in> set migrations. mg_name m \<notin> set (map fst (db_migration_rows empty_db))
          \<longrightarrow> (\<forall>t \<in> set (mg_tables m). table_cols db' t \<noteq> None)"
    using runMigrations_applies_pending [OF empty_db_compatible, of 0] by blast
  have names: "map fst (db_migration_rows db') = [''001_create_stores'', ''002_create_events'', ''003_create_audit_log'']"
  proof -
    have "map fst (db_migration_rows db') = map mg_name migrations" using rows by (simp add: empty_db_def comp_def)
    then show ?thesis by (simp only: migrations_names)
  qed
  have "migrations \<noteq> []" by (simp add: migrations_def)
  then have "hd migrations \<in> set migrations" by (rule hd_in_set)
  moreover have "mg_name (hd migrations) \<notin> set (map fst (db_migration_rows empty_db))" by (simp add: empty_db_def)
  moreover have "''stores'' \<in> set (mg_tables (hd migrations))" by (simp add: migrations_def mg_tables_def)
  ultimately have tc: "table_cols db' ''stores'' \<noteq> None" using t by blast
  show ?thesis
  proof (intro conjI exI)
    show "schema_compatible empty_db" by (rule empty_db_compatible)
    show "runMigrations 0 empty_db = (Inr (), db')" by (rule r)
    show "map fst (db_migration_rows db') = [''001_create_stores'', ''002_create_events'', ''003_create_audit_log'']"
      by (rule names)
    show "table_cols db' ''stores'' \<noteq> None" by (rule tc)
  qed
qed

lemma runMigrations_idempotent_witness:
  "runMigrations 0 empty_db = (Inr (), snd (runMigrations 0 empty_db))
   \<and> runMigrations 5 (snd (runMigrations 0 empty_db)) = (Inr (), snd (runMigrations 0 empty_db))"
proof -
  have h: "runMigrations 0 empty_db = (Inr (), snd (runMigrations 0 empty_db))" by code_simp
  show ?thesis using h runMigrations_idempotent [OF h, of 5] by blast
qed


lemma migrated_schema_fits_repositories_witness:
  "\<exists>db'. runMigrations 0 empty_db = (Inr (), db') \<and> list_all (\<lambda>(n, w). write_ok db' w) repo_writes
     \<and> list_all (\<lambda>(t, cols). map_option (\<lambda>tc. set (map col_name tc)) (table_cols db' t) = Some (set cols)) repo_reads"
proof -
  have h1: "\<forall>(t, cols) \<in> set schema_tables. table_cols empty_db t = None \<or> table_cols empty_db t = Some cols"
    by (simp add: schema_tables_def table_cols_def empty_db_def)
  have h2: "\<forall>m \<in> set migrations. mg_name m \<in> set (map fst (db_migration_rows empty_db))
        \<longrightarrow> (\<forall>t \<in> set (mg_tables m). table_cols empty_db t \<noteq> None)"
    by (simp add: empty_db_def)
  show ?thesis using migrated_schema_fits_repositories [OF h1 h2, of 0] by blast
qed

lemma runMigrations_schema_drift_witness:
  "table_cols (legacy_db ''plan'') ''stores'' = Some (filter (\<lambda>x. col_name x \<noteq> ''plan'') stores_columns)
   \<and> ''plan'' \<in> set [''id'', ''name'', ''slug'', ''namespace'', ''admin_email'', ''plan'', ''status'']
   \<and> ''plan'' \<notin> set (map col_name (filter (\<lambda>x. col_name x \<noteq> ''plan'') stores_columns))
   \<and> fst (runMigrations 0 (legacy_db ''plan'')) = Inr ()
   \<and> \<not> write_ok (snd (runMigrations 0 (legacy_db ''plan'')))
            (Insert ''stores'' [''id'', ''name'', ''slug'', ''namespace'', ''admin_email'', ''plan'', ''status''])
   \<and> ''001_create_stores'' \<in> set (map fst (db_migration_rows (snd (runMigrations 0 (legacy_db ''plan'')))))"
proof -
  have h1: "table_cols (legacy_db ''plan'') ''stores'' = Some (filter (\<lambda>x. col_name x \<noteq> ''plan'') stores_columns)"
    by (simp add: table_cols_def legacy_db_def)
  have h2: "''plan'' \<in> set [''id'', ''name'', ''slug'', ''namespace'', ''admin_email'', ''plan'', ''status'']" by simp
  have h3: "''plan'' \<notin> set (map col_name (filter (\<lambda>x. col_name x \<noteq> ''plan'') stores_columns))" by auto
  have ok: "fst (runMigrations 0 (legacy_db ''plan'')) = Inr ()" by code_simp
  show ?thesis using h1 h2 h3 ok runMigrations_schema_drift [OF h1 h2 h3, of 0] by simp
qed

end
