(* ===== verification/Frontend.thy ===== *)
theory Frontend
  imports Store_Repo Event_Log
begin

text \<open>
  The dashboard of \<open>src/frontend/src/App.tsx\<close>, as far as it computes: the status badge
  and step labels, the duration and uptime texts, the timeline's deduplication of a
  store's events, the state of the \<open>App\<close> component with its handlers, and the action
  buttons of a store card. Rendering (JSX, styles, animations) is not modelled. A
  handler's awaited API call is an argument of the handler: its result, a response body or
  an error whose \<open>response.data.error\<close> is the server's message. Dates reach the
  functions as milliseconds (\<open>new Date(s).getTime()\<close>).
\<close>

section \<open>Badges, labels and texts\<close>

record status_style =
  sc_color :: string
  sc_icon :: nat
  sc_glow :: string

text \<open>\<open>STATUS_CONFIG\<close>; the icon is its code point.\<close>

primrec status_config :: "store_status \<Rightarrow> status_style" where
  "status_config Provisioning = \<lparr>sc_color = ''#f59e0b'', sc_icon = 0x29D7, sc_glow = ''rgba(245,158,11,0.2)''\<rparr>"
| "status_config Ready = \<lparr>sc_color = ''#10b981'', sc_icon = 0x2713, sc_glow = ''rgba(16,185,129,0.2)''\<rparr>"
| "status_config Failed = \<lparr>sc_color = ''#ef4444'', sc_icon = 0x2717, sc_glow = ''rgba(239,68,68,0.2)''\<rparr>"
| "status_config Deleting = \<lparr>sc_color = ''#8b5cf6'', sc_icon = 0x29D7, sc_glow = ''rgba(139,92,246,0.2)''\<rparr>"

definition step_labels :: "(string \<times> string) list" where
  "step_labels =
     [(''create_namespace'', ''Namespace''), (''create_secrets'', ''Secrets''), (''create_quota'', ''Quota''),
      (''deploy_mysql'', ''MySQL''), (''wait_mysql'', ''MySQL Ready''), (''deploy_wordpress'', ''WordPress''),
      (''wait_wordpress'', ''WordPress Ready''), (''setup_woocommerce'', ''WooCommerce''),
      (''create_ingress'', ''Ingress''), (''create_networkpolicy'', ''Network Policy''), (''ready'', ''Complete'')]"

text \<open>\<open>STEP_LABELS[evt.step] || evt.step\<close>.\<close>

definition step_label :: "string \<Rightarrow> string" where
  "step_label s = (case map_of step_labels s of Some l \<Rightarrow> l | None \<Rightarrow> s)"

definition show_int :: "int \<Rightarrow> string" where
  "show_int i = (if i < 0 then ''-'' @ show_nat (nat (- i)) else show_nat (nat i))"

text \<open>\<open>formatDuration(start, end)\<close> on the two dates in milliseconds.\<close>

definition formatDuration :: "int \<Rightarrow> int option \<Rightarrow> string" where
  "formatDuration start end = (case end of None \<Rightarrow> ''In progress...''
     | Some e \<Rightarrow> (let secs = (e - start) div 1000 in
         if secs < 60 then show_int secs @ ''s'' else show_int (secs div 60) @ ''m '' @ show_int (secs mod 60) @ ''s''))"

definition formatUptime :: "int \<Rightarrow> string" where
  "formatUptime seconds =
     (if seconds < 60 then show_int seconds @ ''s''
      else if seconds < 3600 then show_int (seconds div 60) @ ''m '' @ show_int (seconds mod 60) @ ''s''
      else (let h = seconds div 3600; m = (seconds mod 3600) div 60 in show_int h @ ''h '' @ show_int m @ ''m''))"

section \<open>The timeline\<close>

text \<open>
  A JavaScript \<open>Map\<close> keeps its keys in the order of their first \<open>set\<close>; setting an
  existing key replaces the value in place.
\<close>

fun map_set :: "'k \<Rightarrow> 'v \<Rightarrow> ('k \<times> 'v) list \<Rightarrow> ('k \<times> 'v) list" where
  "map_set k v [] = [(k, v)]"
| "map_set k v ((k', v') # m) = (if k = k' then (k, v) # m else (k', v') # map_set k v m)"

definition is_final :: "prov_event \<Rightarrow> bool" where
  "is_final e = (ev_status e = Completed \<or> ev_status e = StepFailed)"

definition dedup_step :: "(string \<times> prov_event) list \<Rightarrow> prov_event \<Rightarrow> (string \<times> prov_event) list" where
  "dedup_step m evt = (if map_of m (ev_step evt) = None \<or> is_final evt then map_set (ev_step evt) evt m else m)"

definition deduplicateEvents :: "prov_event list \<Rightarrow> prov_event list" where
  "deduplicateEvents events = map snd (foldl dedup_step [] events)"

datatype timeline_mark = MarkDone | MarkFailed | MarkPending

definition event_mark :: "event_status \<Rightarrow> timeline_mark" where
  "event_mark s = (if s = Completed then MarkDone else if s = StepFailed then MarkFailed else MarkPending)"

text \<open>\<open>TimelineTab\<close>: "No events yet", or one row per deduplicated event.\<close>

definition timeline_view :: "prov_event list \<Rightarrow> (string \<times> timeline_mark \<times> string) list option" where
  "timeline_view events = (if events = [] then None
     else Some (map (\<lambda>e. (step_label (ev_step e), event_mark (ev_status e), ev_message e)) (deduplicateEvents events)))"

text \<open>
  What the timeline should show: for each step, in the order the steps first appear, the
  last completed or failed event of the step, or the step's first event when it has none.
\<close>

definition pick_event :: "prov_event list \<Rightarrow> string \<Rightarrow> prov_event" where
  "pick_event events s = (let es = filter (\<lambda>e. ev_step e = s) events; fin = filter is_final es in
                            if fin = [] then hd es else last fin)"

definition first_steps :: "prov_event list \<Rightarrow> string list" where
  "first_steps events = rev (remdups (rev (map ev_step events)))"

definition dedup_spec :: "prov_event list \<Rightarrow> prov_event list" where
  "dedup_spec events = map (pick_event events) (first_steps events)"

text \<open>Reading a printed uptime back: the digits before \<open>s\<close>, \<open>m \<close> and \<open>h \<close>.\<close>

definition is_digit :: "char \<Rightarrow> bool" where
  "is_digit c = ((48::nat) \<le> of_char c \<and> of_char c \<le> (57::nat))"

definition digits_val :: "string \<Rightarrow> nat" where
  "digits_val s = foldl (\<lambda>n c. 10 * n + (of_char c - 48)) 0 s"

definition read_nat :: "string \<Rightarrow> nat option" where
  "read_nat s = (if s \<noteq> [] \<and> list_all is_digit s then Some (digits_val s) else None)"

definition read_uptime :: "string \<Rightarrow> nat option" where
  "read_uptime str = (let a = takeWhile is_digit str; r = dropWhile is_digit str in
     if r = ''s'' then read_nat a
     else if take 2 r = ''m '' \<or> take 2 r = ''h '' then
       (let b = takeWhile is_digit (drop 2 r); u = if take 2 r = ''m '' then 60 else 3600 in
        if dropWhile is_digit (drop 2 r) = (if u = 60 then ''s'' else ''m'')
        then (case (read_nat a, read_nat b) of (Some x, Some y) \<Rightarrow> Some (u * x + (u div 60) * y) | _ \<Rightarrow> None)
        else None)
     else None)"

text \<open>What the timeline shows of an event depends only on its step and status.\<close>

definition ev_proj :: "prov_event \<Rightarrow> string \<times> event_status" where
  "ev_proj e = (ev_step e, ev_status e)"

definition pick_pair :: "(string \<times> event_status) list \<Rightarrow> string \<Rightarrow> string \<times> event_status" where
  "pick_pair ps s = (let qs = filter (\<lambda>p. fst p = s) ps; fin = filter (\<lambda>p. snd p \<noteq> Started) qs in
                       if fin = [] then hd qs else last fin)"

section \<open>The App component\<close>

text \<open>
  An awaited API call either resolves with its data or rejects with an error carrying the
  server's \<open>response.data.error\<close>, if any, and the error's own \<open>message\<close>.
\<close>

datatype 'a api_result = ApiOk 'a | ApiErr "string option" string

datatype theme_name = Light | Dark

record app_state =
  app_stores :: "store list"
  app_queueSize :: nat
  app_showCreate :: bool
  app_selected :: "uuid option"
  app_events :: "prov_event list"
  app_loading :: bool
  app_error :: "string option"
  app_showAuditLog :: bool
  app_theme :: theme_name

text \<open>The state after mount: the \<open>useState\<close> defaults, the dark theme when none is stored.\<close>

definition app_init :: app_state where
  "app_init = \<lparr>app_stores = [], app_queueSize = 0, app_showCreate = False, app_selected = None, app_events = [],
                app_loading = False, app_error = None, app_showAuditLog = False, app_theme = Dark\<rparr>"

text \<open>\<open>a || b\<close> on an optional string: the empty string is falsy.\<close>

definition js_or :: "string option \<Rightarrow> string \<Rightarrow> string" where
  "js_or m d = (case m of Some s \<Rightarrow> if s \<noteq> [] then s else d | None \<Rightarrow> d)"

definition toggleTheme :: "app_state \<Rightarrow> app_state" where
  "toggleTheme st = st\<lparr>app_theme := (if app_theme st = Dark then Light else Dark)\<rparr>"

text \<open>\<open>fetchStores\<close>: a failed poll keeps the list (silent retry).\<close>

definition fetchStores :: "(store list \<times> nat) api_result \<Rightarrow> app_state \<Rightarrow> app_state" where
  "fetchStores r st = (case r of ApiOk (ss, q) \<Rightarrow> st\<lparr>app_stores := ss, app_queueSize := q\<rparr> | ApiErr _ _ \<Rightarrow> st)"

definition fetchEvents :: "prov_event list api_result \<Rightarrow> app_state \<Rightarrow> app_state" where
  "fetchEvents r st = (case r of ApiOk evs \<Rightarrow> st\<lparr>app_events := evs\<rparr> | ApiErr _ _ \<Rightarrow> st\<lparr>app_events := []\<rparr>)"

text \<open>\<open>handleCreate\<close>, given the results of its two awaited calls.\<close>

definition handleCreate :: "'a api_result \<Rightarrow> (store list \<times> nat) api_result \<Rightarrow> app_state \<Rightarrow> app_state" where
  "handleCreate cr fr st =
     (let st1 = st\<lparr>app_loading := True, app_error := None\<rparr>;
          st2 = (case cr of ApiOk _ \<Rightarrow> fetchStores fr (st1\<lparr>app_showCreate := False\<rparr>)
                 | ApiErr m _ \<Rightarrow> st1\<lparr>app_error := Some (js_or m ''Failed to create store'')\<rparr>)
      in st2\<lparr>app_loading := False\<rparr>)"

text \<open>\<open>handleDelete\<close>: the state and the text of the \<open>alert\<close>, if one is shown.\<close>

definition handleDelete :: "bool \<Rightarrow> unit api_result \<Rightarrow> (store list \<times> nat) api_result \<Rightarrow> app_state
    \<Rightarrow> app_state \<times> string option" where
  "handleDelete confirmed dr fr st =
     (if \<not> confirmed then (st, None)
      else (case dr of ApiOk _ \<Rightarrow> (fetchStores fr (st\<lparr>app_selected := None\<rparr>), None)
            | ApiErr m _ \<Rightarrow> (st, Some (js_or m ''Failed to delete store''))))"

definition select_store :: "uuid \<Rightarrow> app_state \<Rightarrow> app_state" where
  "select_store sid st = st\<lparr>app_selected := (if app_selected st = Some sid then None else Some sid)\<rparr>"

definition close_create :: "app_state \<Rightarrow> app_state" where
  "close_create st = st\<lparr>app_showCreate := False, app_error := None\<rparr>"

definition readyCount :: "app_state \<Rightarrow> nat" where
  "readyCount st = length (filter (\<lambda>s. st_status s = Ready) (app_stores st))"

definition provisioningCount :: "app_state \<Rightarrow> nat" where
  "provisioningCount st = length (filter (\<lambda>s. st_status s = Provisioning) (app_stores st))"

text \<open>The events a card is given: the loaded events for the selected store, none for the others.\<close>

definition card_events :: "app_state \<Rightarrow> store \<Rightarrow> prov_event list" where
  "card_events st s = (if app_selected st = Some (st_id s) then app_events st else [])"

section \<open>The actions of a store card\<close>

datatype card_action = RestartAll | RestartWordpress | RestartMysql | ResetPassword

datatype action_result = ActionSuccess string | ActionError string

record actions_state =
  ac_result :: "action_result option"
  ac_loading :: "card_action option"

definition action_disabled :: "store \<Rightarrow> card_action \<Rightarrow> bool" where
  "action_disabled s a = (st_status s \<noteq> Ready)"

fun join_comma :: "string list \<Rightarrow> string" where
  "join_comma [] = []"
| "join_comma [x] = x"
| "join_comma (x # xs) = x @ '', '' @ join_comma xs"

text \<open>The message of a succeeded action, from the body of its response.\<close>

fun action_message :: "card_action \<Rightarrow> string list \<times> string \<Rightarrow> string" where
  "action_message ResetPassword (_, pw) = ''New password: '' @ pw"
| "action_message a (restarted, _) = ''Restarted: '' @ join_comma restarted"

text \<open>
  A click on an action: nothing while it is disabled or another action runs; otherwise
  \<open>runAction\<close> with the result of its call. The result is whether \<open>onRefresh\<close> ran.
\<close>

definition click_action :: "store \<Rightarrow> card_action \<Rightarrow> (string list \<times> string) api_result \<Rightarrow> actions_state
    \<Rightarrow> actions_state \<times> bool" where
  "click_action s a r st =
     (if action_disabled s a \<or> ac_loading st \<noteq> None then (st, False)
      else (case r of
              ApiOk body \<Rightarrow> (\<lparr>ac_result = Some (ActionSuccess (action_message a body)), ac_loading = None\<rparr>, True)
            | ApiErr m msg \<Rightarrow> (\<lparr>ac_result = Some (ActionError (js_or m (if msg \<noteq> [] then msg else ''Action failed''))),
                               ac_loading = None\<rparr>, False)))"

section \<open>Lemmas\<close>

lemma map_set_notin: "k \<notin> set (map fst m) \<Longrightarrow> map_set k v m = m @ [(k, v)]"
  by (induction m) auto

lemma map_set_in:
  "distinct ks \<Longrightarrow> k \<in> set ks \<Longrightarrow> map_set k v (map (\<lambda>s. (s, f s)) ks) = map (\<lambda>s. (s, if s = k then v else f s)) ks"
  by (induction ks) auto

lemma map_of_keys: "map_of (map (\<lambda>s. (s, f s)) ks) k = (if k \<in> set ks then Some (f k) else None)"
  by (induction ks) auto

lemma first_steps_snoc:
  "first_steps (xs @ [e]) = (if ev_step e \<in> set (first_steps xs) then first_steps xs else first_steps xs @ [ev_step e])"
  by (simp add: first_steps_def)

lemma distinct_first_steps: "distinct (first_steps xs)"
  by (simp add: first_steps_def)

lemma pick_event_snoc:
  "pick_event (xs @ [e]) s =
     (if s \<noteq> ev_step e then pick_event xs s
      else if is_final e \<or> s \<notin> set (first_steps xs) then e else pick_event xs s)"
proof -
  have ne: "s \<in> set (first_steps xs) \<Longrightarrow> filter (\<lambda>e. ev_step e = s) xs \<noteq> []"
    by (auto simp: first_steps_def filter_empty_conv)
  have none: "s \<notin> set (first_steps xs) \<Longrightarrow> filter (\<lambda>e. ev_step e = s) xs = []"
    by (auto simp: first_steps_def filter_empty_conv)
  show ?thesis
    using ne none by (auto simp: pick_event_def Let_def filter_empty_conv)
qed

text \<open>The loop's map after a prefix of the events holds the specified choice for each step seen.\<close>

lemma dedup_fold:
  "foldl dedup_step [] xs = map (\<lambda>s. (s, pick_event xs s)) (first_steps xs)"
proof (induction xs rule: rev_induct)
  case Nil
  then show ?case by (simp add: first_steps_def)
next
  case (snoc e xs)
  let ?K = "first_steps xs"
  show ?case
  proof (cases "ev_step e \<in> set ?K")
    case True
    then show ?thesis using snoc distinct_first_steps [of xs]
      by (auto simp: dedup_step_def map_of_keys map_set_in first_steps_snoc pick_event_snoc intro!: map_cong)
  next
    case False
    have "ev_step e \<notin> set (map fst (map (\<lambda>s. (s, pick_event xs s)) ?K))" using False by simp
    then show ?thesis using snoc False
      by (simp add: dedup_step_def map_of_keys map_set_notin first_steps_snoc pick_event_snoc)
  qed
qed

text \<open>
  C33. \<open>deduplicateEvents\<close> computes its specification: one event per step, the steps
  in the order of their first event, and for each step its last completed or failed event,
  or its first event when the step has neither.
\<close>

theorem deduplicateEvents_spec: "deduplicateEvents events = dedup_spec events"
  by (simp add: deduplicateEvents_def dedup_fold dedup_spec_def comp_def)

lemma is_final_eq: "is_final = (\<lambda>e. ev_status e \<noteq> Started)"
proof
  fix e show "is_final e = (ev_status e \<noteq> Started)" by (cases "ev_status e") (simp_all add: is_final_def)
qed

lemma pick_event_proj:
  assumes "s \<in> set (first_steps xs)"
  shows "ev_proj (pick_event xs s) = pick_pair (map ev_proj xs) s"
proof -
  have ne: "filter (\<lambda>e. ev_step e = s) xs \<noteq> []" using assms by (auto simp: first_steps_def filter_empty_conv)
  have f: "filter (\<lambda>p. fst p = s) (map ev_proj xs) = map ev_proj (filter (\<lambda>e. ev_step e = s) xs)"
    by (simp add: filter_map comp_def ev_proj_def)
  have g: "\<And>ys. filter (\<lambda>p. snd p \<noteq> Started) (map ev_proj ys) = map ev_proj (filter is_final ys)"
    by (simp add: filter_map comp_def ev_proj_def is_final_eq)
  show ?thesis
    using ne by (simp add: pick_event_def pick_pair_def Let_def f g hd_map last_map)
qed

lemma dedup_proj:
  "map ev_proj (deduplicateEvents xs) = map (pick_pair (map ev_proj xs)) (rev (remdups (rev (map fst (map ev_proj xs)))))"
proof -
  have k: "map fst (map ev_proj xs) = map ev_step xs" by (simp add: ev_proj_def comp_def)
  show ?thesis
    unfolding deduplicateEvents_spec dedup_spec_def k
    by (simp add: pick_event_proj first_steps_def)
qed

lemma timeline_view_marks:
  "xs \<noteq> [] \<Longrightarrow> map (\<lambda>(l, m, _). (l, m)) (the (timeline_view xs))
     = map (\<lambda>p. (step_label (fst p), event_mark (snd p))) (map ev_proj (deduplicateEvents xs))"
  by (simp add: timeline_view_def ev_proj_def comp_def)

lemma ev_proj_trace: "map ev_proj (getEventsByStoreId sid evs) = step_trace sid evs"
  unfolding step_trace_def by (intro map_cong) (simp_all add: ev_proj_def)

lemma is_digit_show_nat: "list_all is_digit (show_nat n)"
proof (induction n rule: show_nat.induct)
  case (1 n)
  have d: "\<And>k::nat. k < 10 \<Longrightarrow> is_digit (char_of (48 + k))" by (simp add: is_digit_def)
  show ?case
    using 1 d [of n] d [of "n mod 10"] by (subst show_nat.simps) simp
qed

lemma digits_val_show_nat: "digits_val (show_nat n) = n"
proof (induction n rule: show_nat.induct)
  case (1 n)
  have v: "\<And>k::nat. k < 10 \<Longrightarrow> of_char (char_of (48 + k) :: char) - 48 = k" by simp
  show ?case
    using 1 v [of n] v [of "n mod 10"] by (subst show_nat.simps) (simp add: digits_val_def)
qed

lemma digits_split:
  "list_all is_digit xs \<Longrightarrow> (r = [] \<or> \<not> is_digit (hd r)) \<Longrightarrow> takeWhile is_digit (xs @ r) = xs \<and> dropWhile is_digit (xs @ r) = r"
proof (induction xs)
  case Nil
  then show ?case by (cases r) auto
qed auto

lemma read_nat_show_nat [simp]: "read_nat (show_nat n) = Some n"
  using is_digit_show_nat [of n] show_nat_nonempty [of n] digits_val_show_nat [of n] by (simp add: read_nat_def)

lemma show_int_nonneg [simp]: "0 \<le> i \<Longrightarrow> show_int i = show_nat (nat i)"
  by (simp add: show_int_def)

lemma split_show_nat:
  "\<not> is_digit c \<Longrightarrow> takeWhile is_digit (show_nat n @ c # r) = show_nat n \<and> dropWhile is_digit (show_nat n @ c # r) = c # r"
  using digits_split [OF is_digit_show_nat, of "c # r"] by simp

lemma not_digit_letters [simp]: "\<not> is_digit (CHR ''s'')" "\<not> is_digit (CHR ''m'')" "\<not> is_digit (CHR ''h'')"
  by (simp_all add: is_digit_def)

lemma read_uptime_secs: "read_uptime (show_nat a @ ''s'') = Some a"
  using split_show_nat [of "CHR ''s''" a "[]"] by (simp add: read_uptime_def)

lemma read_uptime_min: "read_uptime (show_nat a @ ''m '' @ show_nat b @ ''s'') = Some (60 * a + b)"
proof -
  have s1: "takeWhile is_digit (show_nat a @ ''m '' @ show_nat b @ ''s'') = show_nat a"
    "dropWhile is_digit (show_nat a @ ''m '' @ show_nat b @ ''s'') = ''m '' @ show_nat b @ ''s''"
    using split_show_nat [of "CHR ''m''" a "'' '' @ show_nat b @ ''s''"] by simp_all
  have s2: "takeWhile is_digit (show_nat b @ ''s'') = show_nat b" "dropWhile is_digit (show_nat b @ ''s'') = ''s''"
    using split_show_nat [of "CHR ''s''" b "[]"] by simp_all
  show ?thesis using s1 s2 by (simp add: read_uptime_def Let_def)
qed

lemma read_uptime_hours: "read_uptime (show_nat a @ ''h '' @ show_nat b @ ''m'') = Some (3600 * a + 60 * b)"
proof -
  have s1: "takeWhile is_digit (show_nat a @ ''h '' @ show_nat b @ ''m'') = show_nat a"
    "dropWhile is_digit (show_nat a @ ''h '' @ show_nat b @ ''m'') = ''h '' @ show_nat b @ ''m''"
    using split_show_nat [of "CHR ''h''" a "'' '' @ show_nat b @ ''m''"] by simp_all
  have s2: "takeWhile is_digit (show_nat b @ ''m'') = show_nat b" "dropWhile is_digit (show_nat b @ ''m'') = ''m''"
    using split_show_nat [of "CHR ''m''" b "[]"] by simp_all
  show ?thesis using s1 s2 by (simp add: read_uptime_def Let_def)
qed

lemma uptime_hours_arith:
  assumes "0 \<le> (s::int)"
  shows "3600 * nat (s div 3600) + 60 * nat ((s mod 3600) div 60) = nat (s - s mod 60)"
proof -
  have a: "s = 3600 * (s div 3600) + s mod 3600" by simp
  have b: "s mod 3600 = 60 * ((s mod 3600) div 60) + (s mod 3600) mod 60" by simp
  have c: "(s mod 3600) mod 60 = s mod 60" by (simp add: mod_mod_cancel)
  have n: "0 \<le> s div 3600" "0 \<le> (s mod 3600) div 60" using assms by simp_all
  have "int (3600 * nat (s div 3600) + 60 * nat ((s mod 3600) div 60)) = 3600 * (s div 3600) + 60 * ((s mod 3600) div 60)"
    using n by simp
  also have "\<dots> = s - s mod 60" using a b c by linarith
  also have "\<dots> = int (nat (s - s mod 60))" using assms by simp
  finally show ?thesis by (simp only: of_nat_eq_iff)
qed

text \<open>
  C35. The uptime text of a pod determines its uptime: read back, the text of a
  non-negative number of seconds gives the number itself below one hour, and the number
  rounded down to the minute from one hour on, where the seconds are not shown.
\<close>

theorem formatUptime_roundtrip:
  assumes "0 \<le> s"
  shows "read_uptime (formatUptime s) = Some (nat (if s < 3600 then s else s - s mod 60))"
proof -
  consider (a) "s < 60" | (b) "60 \<le> s" "s < 3600" | (c) "3600 \<le> s" by linarith
  then show ?thesis
  proof cases
    case a
    then show ?thesis using assms read_uptime_secs [of "nat s"] by (simp add: formatUptime_def)
  next
    case b
    have "0 \<le> s div 60" using assms by simp
    then have "int (60 * nat (s div 60) + nat (s mod 60)) = int (nat s)" using assms by simp
    then have "60 * nat (s div 60) + nat (s mod 60) = nat s" by (simp only: of_nat_eq_iff)
    then show ?thesis using b read_uptime_min [of "nat (s div 60)" "nat (s mod 60)"] by (simp add: formatUptime_def)
  next
    case c
    then show ?thesis using uptime_hours_arith [OF assms] read_uptime_hours [of "nat (s div 3600)" "nat ((s mod 3600) div 60)"]
      by (simp add: formatUptime_def Let_def)
  qed
qed

section \<open>Witnesses\<close>

lemma formatUptime_roundtrip_witness:
  "0 \<le> (3725::int) \<and> read_uptime (formatUptime 3725) = Some 3720"
  using formatUptime_roundtrip [of 3725] by simp

end
