(* ===== verification/Api.thy ===== *)
theory Api
  imports Routes Frontend
begin

text \<open>
  Where the dashboard meets the backend. The client side is \<open>src/frontend/src/api/stores.ts\<close>:
  each function builds a method and a URL under the client's base URL \<open>/api\<close> (the
  client module that sets it is not in the repository and is modelled from the spec). The
  server side is the routing of \<open>src/backend/src/index.ts\<close>, which mounts
  \<open>routes/health.ts\<close> at \<open>/\<close> and \<open>routes/stores.ts\<close> at \<open>/api/stores\<close>: a route
  is a method and a path template whose \<open>:param\<close> segments match one non-empty
  segment, tried in the order of registration. An axios call resolves on a 2xx answer
  and rejects otherwise, with the body's \<open>error\<close> as \<open>response.data.error\<close>.
\<close>

section \<open>Requests\<close>

datatype http_method = GET | POST | DELETE

datatype api_call =
    CGetStores | CGetStore string | CCreate | CDelete string | CEvents string
  | CLogs string string nat | CHealth string | CRestart string string | CReset string | CAudit nat

definition api_base :: string where
  "api_base = ''/api''"

primrec client_request :: "api_call \<Rightarrow> http_method \<times> string" where
  "client_request CGetStores = (GET, api_base @ ''/stores'')"
| "client_request (CGetStore sid) = (GET, api_base @ ''/stores/'' @ sid)"
| "client_request CCreate = (POST, api_base @ ''/stores'')"
| "client_request (CDelete sid) = (DELETE, api_base @ ''/stores/'' @ sid)"
| "client_request (CEvents sid) = (GET, api_base @ ''/stores/'' @ sid @ ''/events'')"
| "client_request (CLogs sid pod tail) = (GET, api_base @ ''/stores/'' @ sid @ ''/logs/'' @ pod @ ''?tail='' @ show_nat tail)"
| "client_request (CHealth sid) = (GET, api_base @ ''/stores/'' @ sid @ ''/health'')"
| "client_request (CRestart sid target) = (POST, api_base @ ''/stores/'' @ sid @ ''/actions/restart?target='' @ target)"
| "client_request (CReset sid) = (POST, api_base @ ''/stores/'' @ sid @ ''/actions/reset-password'')"
| "client_request (CAudit limit) = (GET, api_base @ ''/audit?limit='' @ show_nat limit)"

text \<open>
  The client interpolates ids, pod names and the restart target as they are, without
  \<open>encodeURIComponent\<close>. In the browser the request sent is the URL up to a \<open>#\<close>:
  the fragment stays in the page.
\<close>

definition sent_url :: "string \<Rightarrow> string" where
  "sent_url url = takeWhile (\<lambda>c. c \<noteq> CHR ''#'') url"

section \<open>Routing\<close>

fun split_on :: "char \<Rightarrow> string \<Rightarrow> string list" where
  "split_on c [] = [[]]"
| "split_on c (x # xs) = (if x = c then [] # split_on c xs else (case split_on c xs of w # ws \<Rightarrow> (x # w) # ws | [] \<Rightarrow> [[x]]))"

definition url_path :: "string \<Rightarrow> string list" where
  "url_path url = tl (split_on (CHR ''/'') (takeWhile (\<lambda>c. c \<noteq> CHR ''?'') url))"

definition url_query :: "string \<Rightarrow> (string \<times> string) list" where
  "url_query url = (let q = dropWhile (\<lambda>c. c \<noteq> CHR ''?'') url in
     if q = [] then [] else map (\<lambda>kv. (takeWhile (\<lambda>c. c \<noteq> CHR ''='') kv, drop 1 (dropWhile (\<lambda>c. c \<noteq> CHR ''='') kv)))
                              (split_on (CHR ''&'') (tl q)))"

text \<open>
  Percent-decoding. Express matches a route against the raw path and then decodes each
  parameter with \<open>decodeURIComponent\<close>; a \<open>URIError\<close> becomes an error with status
  400 passed to the error middleware. Over 8-bit characters: an escape \<open>%XX\<close> below
  0x80 is that character, the UTF-8 pair \<open>%C2\<close>/\<open>%C3\<close> followed by \<open>%80\<close>--\<open>%BF\<close> is
  a code point U+0080--U+00FF, and any other escape is malformed or decodes above U+00FF,
  outside \<open>char\<close>: \<open>None\<close>.
\<close>

definition hex_nibble :: "char \<Rightarrow> nat option" where
  "hex_nibble c = (let n = (of_char c :: nat) in
     if 48 \<le> n \<and> n \<le> 57 then Some (n - 48)
     else if 97 \<le> n \<and> n \<le> 102 then Some (n - 87)
     else if 65 \<le> n \<and> n \<le> 70 then Some (n - 55) else None)"

definition pct_byte :: "char \<Rightarrow> char \<Rightarrow> nat option" where
  "pct_byte h l = (case (hex_nibble h, hex_nibble l) of (Some a, Some b) \<Rightarrow> Some (16 * a + b) | _ \<Rightarrow> None)"

fun pct_decode :: "string \<Rightarrow> string option" where
  "pct_decode [] = Some []"
| "pct_decode (c # r) =
     (if c \<noteq> CHR ''%'' then map_option (Cons c) (pct_decode r)
      else (case r of
              h # l # r1 \<Rightarrow> (case pct_byte h l of
                  None \<Rightarrow> None
                | Some b \<Rightarrow>
                    if b < 128 then map_option (Cons (char_of b)) (pct_decode r1)
                    else if b = 194 \<or> b = 195 then
                      (case r1 of
                         p # h2 # l2 # r2 \<Rightarrow> (case pct_byte h2 l2 of
                             Some b2 \<Rightarrow> if p = CHR ''%'' \<and> 128 \<le> b2 \<and> b2 < 192
                                       then map_option (Cons (char_of ((b - 192) * 64 + (b2 - 128)))) (pct_decode r2)
                                       else None
                           | None \<Rightarrow> None)
                       | _ \<Rightarrow> None)
                    else None)
            | _ \<Rightarrow> None))"

text \<open>
  The query parser (\<open>qs\<close>, Express 4's default): a \<open>+\<close> is a space, then
  \<open>decodeURIComponent\<close>, keeping the string with its spaces when that throws.
\<close>

definition qs_decode :: "string \<Rightarrow> string" where
  "qs_decode s = (let s' = map (\<lambda>c. if c = CHR ''+'' then CHR '' '' else c) s in
     case pct_decode s' of Some d \<Rightarrow> d | None \<Rightarrow> s')"

datatype seg = Lit string | Param

fun match_path :: "seg list \<Rightarrow> string list \<Rightarrow> string list option" where
  "match_path [] [] = Some []"
| "match_path (Lit l # ts) (s # ss) = (if l = s then match_path ts ss else None)"
| "match_path (Param # ts) (s # ss) = (if s = [] then None else map_option (Cons s) (match_path ts ss))"
| "match_path _ _ = None"

datatype endpoint =
    EHealthz | EReadyz | EAudit "string option"
  | EListStores | EGetStore string | ECreateStore | EDeleteStore string | EEvents string
  | ELogs string string "string option" | EHealth string | ERestart string "string option" | EReset string
  | EBadParam

text \<open>The routes in the order \<open>index.ts\<close> mounts the routers and the routers register them.\<close>

definition routes :: "(http_method \<times> seg list \<times> (string list \<Rightarrow> (string \<times> string) list \<Rightarrow> endpoint)) list" where
  "routes =
     [(GET, [Lit ''healthz''], \<lambda>_ _. EHealthz),
      (GET, [Lit ''readyz''], \<lambda>_ _. EReadyz),
      (GET, [Lit ''api'', Lit ''audit''], \<lambda>_ q. EAudit (map_of q ''limit'')),
      (GET, [Lit ''api'', Lit ''stores''], \<lambda>_ _. EListStores),
      (GET, [Lit ''api'', Lit ''stores'', Param], \<lambda>ps _. EGetStore (ps ! 0)),
      (POST, [Lit ''api'', Lit ''stores''], \<lambda>_ _. ECreateStore),
      (DELETE, [Lit ''api'', Lit ''stores'', Param], \<lambda>ps _. EDeleteStore (ps ! 0)),
      (GET, [Lit ''api'', Lit ''stores'', Param, Lit ''events''], \<lambda>ps _. EEvents (ps ! 0)),
      (GET, [Lit ''api'', Lit ''stores'', Param, Lit ''logs'', Param], \<lambda>ps q. ELogs (ps ! 0) (ps ! 1) (map_of q ''tail'')),
      (GET, [Lit ''api'', Lit ''stores'', Param, Lit ''health''], \<lambda>ps _. EHealth (ps ! 0)),
      (POST, [Lit ''api'', Lit ''stores'', Param, Lit ''actions'', Lit ''restart''], \<lambda>ps q. ERestart (ps ! 0) (map_of q ''target'')),
      (POST, [Lit ''api'', Lit ''stores'', Param, Lit ''actions'', Lit ''reset-password''], \<lambda>ps _. EReset (ps ! 0))]"

fun dispatch_in :: "(http_method \<times> seg list \<times> (string list \<Rightarrow> (string \<times> string) list \<Rightarrow> endpoint)) list
    \<Rightarrow> http_method \<Rightarrow> string \<Rightarrow> endpoint option" where
  "dispatch_in [] m url = None"
| "dispatch_in ((m', t, mk) # rs) m url =
     (if m' = m then (case match_path t (url_path url) of
         Some ps \<Rightarrow> Some (case those (map pct_decode ps) of
                     Some ps' \<Rightarrow> mk ps' (map (\<lambda>(k, v). (qs_decode k, qs_decode v)) (url_query url))
                   | None \<Rightarrow> EBadParam)
       | None \<Rightarrow> dispatch_in rs m url)
      else dispatch_in rs m url)"

definition dispatch :: "http_method \<Rightarrow> string \<Rightarrow> endpoint option" where
  "dispatch m url = dispatch_in routes m url"





section \<open>Responses and the create dialog\<close>

text \<open>The \<open>error\<close> field of a response body.\<close>

primrec body_error :: "body \<Rightarrow> string option" where
  "body_error (BStores ss q) = None"
| "body_error (BStore s) = None"
| "body_error (BError m) = Some m"
| "body_error BValidation = Some ''Validation failed''"
| "body_error (BDeletion sid) = None"
| "body_error (BEvents evs) = None"
| "body_error (BRestarted rs) = None"
| "body_error (BPassword pw) = None"
| "body_error (BLogs p c l) = None"
| "body_error (BHealth ps vs q ns) = None"
| "body_error (BAudit es) = None"
| "body_error (BStatus s t) = None"

text \<open>An axios call: a 2xx answer resolves with the body, any other rejects.\<close>

definition axios_result :: "response \<Rightarrow> body api_result" where
  "axios_result r = (case r of Resp n b \<Rightarrow>
     if 200 \<le> n \<and> n < 300 then ApiOk b else ApiErr (body_error b) (''Request failed with status code '' @ show_nat n))"

record modal_state =
  md_name :: string
  md_email :: string
  md_plan :: store_plan

definition modal_init :: modal_state where
  "modal_init = \<lparr>md_name = [], md_email = [], md_plan = Woocommerce\<rparr>"

text \<open>Only the WooCommerce button sets the plan: \<open>p === 'woocommerce' && setPlan(p)\<close>.\<close>

definition select_plan :: "store_plan \<Rightarrow> modal_state \<Rightarrow> modal_state" where
  "select_plan p md = (if p = Woocommerce then md\<lparr>md_plan := p\<rparr> else md)"

text \<open>\<open>handleSubmit\<close>: the body \<open>{ name, adminEmail: email, plan }\<close> of the POST.\<close>

definition modal_request :: "modal_state \<Rightarrow> create_req" where
  "modal_request md = \<lparr>rq_name = Some (md_name md), rq_adminEmail = Some (md_email md),
                        rq_plan = Some (plan_str (md_plan md))\<rparr>"

section \<open>Lemmas\<close>

lemma split_on_nonempty [simp]: "split_on c xs \<noteq> []"
  by (induction xs) (auto split: list.splits)















text \<open>
  What the backend receives when an id is not plain: an escape is decoded (\<open>a%2Fb\<close>
  reaches the handler as \<open>a/b\<close>), a malformed escape is a 400 error, a \<open>#\<close> cuts the
  URL, and a \<open>+\<close> in the restart target becomes a space.
\<close>

lemma client_request_not_encoded:
  "dispatch GET (sent_url (snd (client_request (CGetStore ''a%2Fb'')))) = Some (EGetStore ''a/b'')"
  "dispatch GET (sent_url (snd (client_request (CGetStore ''a%zz'')))) = Some EBadParam"
  "dispatch GET (sent_url (snd (client_request (CEvents ''a#b'')))) = Some (EGetStore ''a'')"
  "dispatch POST (sent_url (snd (client_request (CRestart ''a'' ''x+y'')))) = Some (ERestart ''a'' (Some ''x y''))"
  by code_simp+


text \<open>
  C37. Creating a store from the dashboard when the backend already holds
  \<open>maxStores\<close> stores: whatever is typed into the dialog, the backend answers without
  any change, and the dialog stays open with the backend's message: "Validation failed"
  for a name or e-mail the schema rejects, the store-limit message otherwise. The spinner
  stops.
\<close>

theorem create_from_dashboard_at_limit:
  assumes "maxStores cfg \<le> getStoreCount (stores (sv_world sv))"
  shows "snd (createStoreHandler cfg email_ok (modal_request md) ip sv) = sv
     \<and> app_error (handleCreate (axios_result (fst (createStoreHandler cfg email_ok (modal_request md) ip sv))) fr st)
        = Some (if valid_store_name (md_name md) \<and> email_ok (md_email md) then max_stores_msg cfg else ''Validation failed'')
     \<and> app_showCreate (handleCreate (axios_result (fst (createStoreHandler cfg email_ok (modal_request md) ip sv))) fr st)
        = app_showCreate st
     \<and> \<not> app_loading (handleCreate (axios_result (fst (createStoreHandler cfg email_ok (modal_request md) ip sv))) fr st)"
proof -
  have p: "parse_plan (Some (plan_str (md_plan md))) = Some (md_plan md)"
    by (cases "md_plan md") (simp_all add: parse_plan_def)
  have m: "max_stores_msg cfg \<noteq> []" by (simp add: max_stores_msg_def)
  show ?thesis using assms p m
    by (auto simp: createStoreHandler_def parse_create_def modal_request_def axios_result_def handleCreate_def
        js_or_def Let_def)
qed

section \<open>Witnesses\<close>


lemma create_from_dashboard_at_limit_witness:
  "maxStores (default_config\<lparr>maxStores := 1\<rparr>) \<le> getStoreCount (stores (sv_world demo_server))
   \<and> snd (createStoreHandler (default_config\<lparr>maxStores := 1\<rparr>) (\<lambda>_. True)
          (modal_request (modal_init\<lparr>md_name := ''My Shop'', md_email := ''a@b.c''\<rparr>)) None demo_server) = demo_server
   \<and> app_error (handleCreate (axios_result (fst (createStoreHandler (default_config\<lparr>maxStores := 1\<rparr>) (\<lambda>_. True)
          (modal_request (modal_init\<lparr>md_name := ''My Shop'', md_email := ''a@b.c''\<rparr>)) None demo_server)))
          (ApiErr None []) (app_init\<lparr>app_showCreate := True\<rparr>))
       = Some (max_stores_msg (default_config\<lparr>maxStores := 1\<rparr>))"
proof -
  have h: "maxStores (default_config\<lparr>maxStores := 1\<rparr>) \<le> getStoreCount (stores (sv_world demo_server))"
    by (simp add: demo_server_count)
  show ?thesis
    using h create_from_dashboard_at_limit [OF h, of "\<lambda>_. True" "modal_init\<lparr>md_name := ''My Shop'', md_email := ''a@b.c''\<rparr>"
        None "ApiErr None []" "app_init\<lparr>app_showCreate := True\<rparr>"] demo_names_valid
    by (simp add: modal_init_def)
qed

end
