(* ===== verification/Actions.thy ===== *)
theory Actions
  imports Api "HOL-Library.Word" "HOL-Library.Sublist"
begin

text \<open>
  The two store actions of \<open>src/backend/src/routes/stores.ts\<close>:
  \<open>POST /api/stores/:id/actions/restart\<close> patches the \<open>restartedAt\<close> annotation of the
  store's deployments one at a time, each in its own \<open>try ... catch\<close>, and
  \<open>POST /api/stores/:id/actions/reset-password\<close> lists the WordPress pod, runs WP-CLI in it
  and stores the new password. The Kubernetes calls are the cluster model's: a patch
  answers from the fault oracle first and 404 when the deployment does not exist; the pod
  list and the exit status of the exec are what the cluster answers at the call and are
  arguments of the handler, as are the eight random bytes of the new password. A handler
  runs as one function: the awaits inside it are not interleaved with other requests.
\<close>

unbundle bit_operations_syntax

section \<open>The cluster calls of the actions\<close>

definition restarted_at_key :: string where
  "restarted_at_key = ''spec.template.metadata.annotations.store-platform/restartedAt''"

text \<open>A strategic-merge patch sets the annotation of the one deployment it names.\<close>

definition patch_object :: "string \<Rightarrow> string \<Rightarrow> ms \<Rightarrow> k8s_object \<Rightarrow> k8s_object" where
  "patch_object ns n t ob =
     (if obj_kind ob = Deployment \<and> obj_namespace ob = ns \<and> obj_name ob = n
      then ob\<lparr>obj_data := map_set restarted_at_key (show_nat t) (obj_data ob)\<rparr> else ob)"

definition patch_deployment :: "string \<Rightarrow> string \<Rightarrow> ms \<Rightarrow> cluster \<Rightarrow> (error + unit) \<times> cluster" where
  "patch_deployment ns n t c =
     (case fault c (PatchDeployment ns n) t of
        Some (code, msg) \<Rightarrow> (Inl (HttpError code msg), c)
      | None \<Rightarrow> if has_object c Deployment ns n
                then (Inr (), c\<lparr>objects := map (patch_object ns n t) (objects c)\<rparr>)
                else (Inl (HttpError 404 http_failed), c))"

definition list_pods :: "string \<Rightarrow> string \<Rightarrow> ms \<Rightarrow> cluster \<Rightarrow> 'a list \<Rightarrow> error + 'a list" where
  "list_pods ns sel t c pods =
     (case fault c (ListPods ns sel) t of Some (code, msg) \<Rightarrow> Inl (HttpError code msg) | None \<Rightarrow> Inr pods)"

text \<open>
  The exec's status callback: \<open>None\<close> is \<open>status.status === 'Success'\<close>, \<open>Some stderr\<close>
  any other status, rejected with \<open>stderr || 'Exec failed'\<close>.
  A fault of the exec call stands for a failed connection. In the source,
  \<open>exec.exec\<close> then returns a rejected promise that nothing awaits, the status callback
  never runs and the request is never answered. The model throws instead, so the
  handler's catch answers 500: the one path of the reset-password action where the
  model answers and the code does not.
\<close>

definition exec_in_pod :: "string \<Rightarrow> string \<Rightarrow> ms \<Rightarrow> cluster \<Rightarrow> string option \<Rightarrow> error + unit" where
  "exec_in_pod ns pod t c status =
     (case fault c (ExecInPod ns pod) t of
        Some (code, msg) \<Rightarrow> Inl (HttpError code msg)
      | None \<Rightarrow> (case status of None \<Rightarrow> Inr () | Some stderr \<Rightarrow> Inl (Error (js_or (Some stderr) ''Exec failed''))))"

definition k8s_patch_deployment :: "string \<Rightarrow> string \<Rightarrow> unit wact" where
  "k8s_patch_deployment ns n w =
     (case patch_deployment ns n (clock w) (k8s w) of (r, c') \<Rightarrow> (r, tick (w\<lparr>k8s := c'\<rparr>)))"

definition k8s_list_pods :: "string \<Rightarrow> string \<Rightarrow> 'a list \<Rightarrow> 'a list wact" where
  "k8s_list_pods ns sel pods w = (list_pods ns sel (clock w) (k8s w) pods, tick w)"

definition k8s_exec :: "string \<Rightarrow> string \<Rightarrow> string option \<Rightarrow> unit wact" where
  "k8s_exec ns pod status w = (exec_in_pod ns pod (clock w) (k8s w) status, tick w)"

section \<open>Restart\<close>

definition restart_targets :: "string \<Rightarrow> string list" where
  "restart_targets target = (if target = ''all'' then [''wordpress'', ''mysql''] else [target])"

text \<open>The \<open>for\<close> loop: a failed patch is logged and skipped, a patched app is pushed.\<close>

primrec restart_loop :: "string \<Rightarrow> string list \<Rightarrow> string list wact" where
  "restart_loop ns [] = ok_act []"
| "restart_loop ns (app # apps) =
     bind_act (try_catch (bind_act (k8s_patch_deployment ns app) (\<lambda>_. ok_act [app])) (\<lambda>_. ok_act []))
       (\<lambda>r. bind_act (restart_loop ns apps) (\<lambda>rs. ok_act (r @ rs)))"

definition restart_body :: "store \<Rightarrow> string \<Rightarrow> string option \<Rightarrow> response wact" where
  "restart_body st target ip =
     bind_act (restart_loop (st_namespace st) (restart_targets target)) (\<lambda>restarted.
       bind_act (log_audit ''restart'' ''store'' (Some (st_id st)) (Some (st_name st)) (Some (''target='' @ target)) ip)
         (\<lambda>_. ok_act (Resp 200 (BRestarted restarted))))"

definition restartHandler :: "uuid \<Rightarrow> string option \<Rightarrow> string option \<Rightarrow> server \<Rightarrow> response \<times> server" where
  "restartHandler sid tq ip sv = (let w = sv_world sv; target = js_or tq ''all'' in
     case getStoreById sid (stores w) of
       None \<Rightarrow> (Resp 404 (BError ''Store not found''), sv)
     | Some st \<Rightarrow>
         if st_status st \<noteq> Ready then (Resp 409 (BError ''Can only restart ready stores''), sv)
         else (case try_catch (restart_body st target ip) (\<lambda>_. ok_act (Resp 500 (BError ''Failed to restart pods''))) w of
                 (Inr r, w') \<Rightarrow> (r, sv\<lparr>sv_world := w'\<rparr>)
               | (Inl _, w') \<Rightarrow> (Resp 500 (BError ''Failed to restart pods''), sv\<lparr>sv_world := w'\<rparr>)))"

section \<open>Reset password\<close>

text \<open>\<open>crypto.randomBytes(8).toString('hex')\<close>: two lowercase hex digits per byte, high nibble first.\<close>

definition hex_digit :: "8 word \<Rightarrow> char" where
  "hex_digit d = (if d < 10 then char_of (48 + unat d) else char_of (87 + unat d))"

definition byte_hex :: "8 word \<Rightarrow> string" where
  "byte_hex b = [hex_digit (drop_bit 4 b), hex_digit (b AND 15)]"

definition to_hex :: "8 word list \<Rightarrow> string" where
  "to_hex bs = concat (map byte_hex bs)"

text \<open>Decoding a hex string, the inverse the round trip below is stated with.\<close>

definition hex_val :: "char \<Rightarrow> 8 word option" where
  "hex_val c = (let n = of_char c :: nat in
     if 48 \<le> n \<and> n < 58 then Some (of_nat (n - 48))
     else if 97 \<le> n \<and> n < 103 then Some (of_nat (n - 87)) else None)"

fun from_hex :: "string \<Rightarrow> 8 word list option" where
  "from_hex [] = Some []"
| "from_hex [c] = None"
| "from_hex (h # l # r) = (case (hex_val h, hex_val l, from_hex r) of
     (Some a, Some b, Some bs) \<Rightarrow> Some ((a * 16 + b) # bs) | _ \<Rightarrow> None)"

definition reset_body :: "uuid \<Rightarrow> store \<Rightarrow> string \<Rightarrow> string list \<Rightarrow> string option \<Rightarrow> string option \<Rightarrow> response wact" where
  "reset_body sid st pw pods status ip =
     bind_act (k8s_list_pods (st_namespace st) ''app=wordpress'' pods) (\<lambda>items.
       if items = [] then ok_act (Resp 404 (BError ''WordPress pod not found''))
       else bind_act (k8s_exec (st_namespace st) (hd items) status) (\<lambda>_.
         bind_act (modify_act (\<lambda>w. w\<lparr>stores := updateAdminPassword sid pw (stores w)\<rparr>)) (\<lambda>_.
           bind_act (log_audit ''reset-password'' ''store'' (Some (st_id st)) (Some (st_name st)) None ip)
             (\<lambda>_. ok_act (Resp 200 (BPassword pw))))))"

definition resetPasswordHandler :: "uuid \<Rightarrow> 8 word list \<Rightarrow> string list \<Rightarrow> string option \<Rightarrow> string option
    \<Rightarrow> server \<Rightarrow> response \<times> server" where
  "resetPasswordHandler sid bytes pods status ip sv = (let w = sv_world sv in
     case getStoreById sid (stores w) of
       None \<Rightarrow> (Resp 404 (BError ''Store not found''), sv)
     | Some st \<Rightarrow>
         if st_status st \<noteq> Ready then (Resp 409 (BError ''Can only reset password for ready stores''), sv)
         else (case try_catch (reset_body sid st (to_hex bytes) pods status ip)
                      (\<lambda>_. ok_act (Resp 500 (BError ''Failed to reset password''))) w of
                 (Inr r, w') \<Rightarrow> (r, sv\<lparr>sv_world := w'\<rparr>)
               | (Inl _, w') \<Rightarrow> (Resp 500 (BError ''Failed to reset password''), sv\<lparr>sv_world := w'\<rparr>)))"

section \<open>Lemmas\<close>

lemma patch_object_keys [simp]:
  "obj_kind (patch_object ns n t ob) = obj_kind ob" "obj_namespace (patch_object ns n t ob) = obj_namespace ob"
  "obj_name (patch_object ns n t ob) = obj_name ob"
  by (simp_all add: patch_object_def)

lemma has_object_patch [simp]:
  "has_object (c\<lparr>objects := map (patch_object ns n t) (objects c)\<rparr>) = has_object c"
  by (simp add: has_object_def fun_eq_iff list_ex_iff)

lemma k8s_patch_frame:
  assumes "k8s_patch_deployment ns n w = (r, w')"
  shows "stores w' = stores w \<and> events w' = events w \<and> audit w' = audit w \<and> next_uuid w' = next_uuid w
    \<and> has_object (k8s w') = has_object (k8s w) \<and> fault (k8s w') = fault (k8s w)
    \<and> terminating (k8s w') = terminating (k8s w)"
  using assms by (auto simp: k8s_patch_deployment_def patch_deployment_def split: prod.splits option.splits if_splits)

lemma healthy_for_frame:
  "healthy_for ns c \<Longrightarrow> fault c' = fault c \<Longrightarrow> terminating c' = terminating c \<Longrightarrow> healthy_for ns c'"
  by (simp add: healthy_for_def ns_terminating_def)

lemma k8s_patch_healthy:
  "healthy_for ns (k8s w) \<Longrightarrow>
   fst (k8s_patch_deployment ns n w) = (if has_object (k8s w) Deployment ns n then Inr () else Inl (HttpError 404 http_failed))"
  by (simp add: k8s_patch_deployment_def patch_deployment_def healthy_for_def split: prod.splits)

lemma restart_loop_frame:
  "\<exists>rs w'. restart_loop ns apps w = (Inr rs, w') \<and> subseq rs apps
     \<and> stores w' = stores w \<and> events w' = events w \<and> audit w' = audit w \<and> next_uuid w' = next_uuid w
     \<and> clock w \<le> clock w'"
proof (induction apps arbitrary: w)
  case Nil
  then show ?case by simp
next
  case (Cons app apps)
  obtain r w1 where p: "k8s_patch_deployment ns app w = (r, w1)" by fastforce
  have c1: "clock w \<le> clock w1"
    using p by (auto simp: k8s_patch_deployment_def split: prod.splits)
  obtain hd w2 where t: "try_catch (bind_act (k8s_patch_deployment ns app) (\<lambda>_. ok_act [app])) (\<lambda>_. ok_act []) w
      = (Inr hd, w2)" and hd: "hd = [] \<or> hd = [app]" and w2: "w2 = w1"
    using p by (cases r) auto
  obtain rs w' where ih: "restart_loop ns apps w2 = (Inr rs, w') \<and> subseq rs apps
     \<and> stores w' = stores w2 \<and> events w' = events w2 \<and> audit w' = audit w2 \<and> next_uuid w' = next_uuid w2
     \<and> clock w2 \<le> clock w'"
    using Cons.IH by blast
  show ?case
    using t hd ih k8s_patch_frame [OF p] c1 w2 by auto
qed

lemma restart_loop_healthy:
  "healthy_for ns (k8s w) \<Longrightarrow> fst (restart_loop ns apps w) = Inr (filter (has_object (k8s w) Deployment ns) apps)"
proof (induction apps arbitrary: w)
  case Nil
  then show ?case by simp
next
  case (Cons app apps)
  obtain r w1 where p: "k8s_patch_deployment ns app w = (r, w1)" by fastforce
  have f: "has_object (k8s w1) = has_object (k8s w)" and h1: "healthy_for ns (k8s w1)"
    using k8s_patch_frame [OF p] healthy_for_frame [OF Cons.prems] by auto
  have r: "r = (if has_object (k8s w) Deployment ns app then Inr () else Inl (HttpError 404 http_failed))"
    using k8s_patch_healthy [OF Cons.prems, of app] p by simp
  have ih: "fst (restart_loop ns apps w1) = Inr (filter (has_object (k8s w) Deployment ns) apps)"
    using Cons.IH [OF h1] f by simp
  show ?case
    using p r ih by (cases "restart_loop ns apps w1") auto
qed

lemma restart_handler_ready:
  assumes "getStoreById sid (stores (sv_world sv)) = Some st" and "st_status st = Ready"
    and "restart_loop (st_namespace st) (restart_targets (js_or tq ''all'')) (sv_world sv) = (Inr rs, w')"
  shows "restartHandler sid tq ip sv = (Resp 200 (BRestarted rs), sv\<lparr>sv_world := w'\<lparr>
     audit := logAudit (next_uuid w') ''restart'' ''store'' (Some (st_id st)) (Some (st_name st))
                (Some (''target='' @ js_or tq ''all'')) ip (clock w') (audit w'),
     next_uuid := Suc (next_uuid w')\<rparr>\<rparr>)"
  using assms by (simp add: restartHandler_def restart_body_def log_audit_def)

text \<open>
  C38. For an existing store the restart route refuses with 409 exactly when the dashboard
  disables the action (the store is not Ready); it leaves the queue and the stores table
  as they were. For a Ready store it always answers 200, whatever the cluster answers,
  with the restarted apps a subsequence of the targets (\<open>all\<close> is wordpress then mysql),
  and appends one audit entry; on a cluster with no failures the restarted apps are
  exactly the targets whose deployment exists.
\<close>

theorem restartHandler_spec:
  assumes "getStoreById sid (stores (sv_world sv)) = Some st"
  shows "(resp_status (fst (restartHandler sid tq ip sv)) = 409 \<longleftrightarrow> action_disabled st a)
   \<and> sv_queue (snd (restartHandler sid tq ip sv)) = sv_queue sv
   \<and> stores (sv_world (snd (restartHandler sid tq ip sv))) = stores (sv_world sv)
   \<and> (st_status st = Ready \<longrightarrow> (\<exists>rs now. fst (restartHandler sid tq ip sv) = Resp 200 (BRestarted rs)
        \<and> subseq rs (restart_targets (js_or tq ''all''))
        \<and> audit (sv_world (snd (restartHandler sid tq ip sv)))
            = logAudit (next_uuid (sv_world sv)) ''restart'' ''store'' (Some (st_id st)) (Some (st_name st))
                (Some (''target='' @ js_or tq ''all'')) ip now (audit (sv_world sv))
        \<and> (healthy_for (st_namespace st) (k8s (sv_world sv))
            \<longrightarrow> rs = filter (has_object (k8s (sv_world sv)) Deployment (st_namespace st)) (restart_targets (js_or tq ''all'')))))"
proof (cases "st_status st = Ready")
  case False
  then show ?thesis
    using assms by (simp add: restartHandler_def action_disabled_def)
next
  case True
  let ?ts = "restart_targets (js_or tq ''all'')"
  obtain rs w' where l: "restart_loop (st_namespace st) ?ts (sv_world sv) = (Inr rs, w')" and sub: "subseq rs ?ts"
    and fr: "stores w' = stores (sv_world sv)" "audit w' = audit (sv_world sv)" "next_uuid w' = next_uuid (sv_world sv)"
    using restart_loop_frame by blast
  note h = restart_handler_ready [OF assms True l]
  have hl: "healthy_for (st_namespace st) (k8s (sv_world sv))
      \<Longrightarrow> rs = filter (has_object (k8s (sv_world sv)) Deployment (st_namespace st)) ?ts"
    using restart_loop_healthy [of "st_namespace st" "sv_world sv" ?ts] l by simp
  show ?thesis
    using True sub fr hl by (simp add: h action_disabled_def) blast
qed

lemma hex_val_digit: "d < 16 \<Longrightarrow> hex_val (hex_digit d) = Some d"
proof -
  assume d: "d < 16"
  then have u: "unat d < 16" by unat_arith
  show ?thesis
  proof (cases "d < 10")
    case True
    then have "unat d < 10" by unat_arith
    then show ?thesis using True by (simp add: hex_digit_def hex_val_def)
  next
    case False
    then have "10 \<le> unat d" by unat_arith
    then show ?thesis using False u by (simp add: hex_digit_def hex_val_def)
  qed
qed

lemma and_15: "(b :: 8 word) AND 15 = b mod 16"
proof -
  have m: "(15 :: 8 word) = mask 4" by (simp add: mask_numeral)
  have "b AND mask 4 = b mod 2 ^ 4" by (simp only: take_bit_eq_mod flip: take_bit_eq_mask)
  then show ?thesis by (simp add: m)
qed

lemma byte_nibbles: "drop_bit 4 b < (16 :: 8 word)" "b AND 15 < (16 :: 8 word)" "drop_bit 4 b * 16 + (b AND 15) = (b :: 8 word)"
proof -
  show "drop_bit 4 b < (16 :: 8 word)"
  proof -
    have "unat b < 256" using unsigned_less [of b] by simp
    then show ?thesis by (simp add: word_less_nat_alt drop_bit_eq_div unat_div_distrib)
  qed
  show "b AND 15 < (16 :: 8 word)"
    by (simp add: and_15 word_mod_less_divisor)
  show "drop_bit 4 b * 16 + (b AND 15) = (b :: 8 word)"
    by (simp add: and_15 drop_bit_eq_div div_mult_mod_eq)
qed

lemma from_to_hex: "from_hex (to_hex bs) = Some bs"
  by (induction bs) (simp_all add: to_hex_def byte_hex_def hex_val_digit byte_nibbles)

lemma length_to_hex: "length (to_hex bs) = 2 * length bs"
  by (induction bs) (simp_all add: to_hex_def byte_hex_def)
lemma reset_body_outcome:
  assumes "reset_body sid st pw pods status ip w = (r, w')"
  shows "(r = Inr (Resp 200 (BPassword pw)) \<and> stores w' = updateAdminPassword sid pw (stores w))
       \<or> ((r = Inr (Resp 404 (BError ''WordPress pod not found'')) \<or> isl r) \<and> stores w' = stores w \<and> audit w' = audit w)"
  using assms
  by (auto simp: reset_body_def bind_act_def k8s_list_pods_def k8s_exec_def log_audit_def
      split: sum.splits prod.splits if_splits)

lemma reset_body_healthy:
  assumes "healthy_for (st_namespace st) (k8s w)"
  shows "reset_body sid st pw pods status ip w =
     (if pods = [] then (Inr (Resp 404 (BError ''WordPress pod not found'')), tick w)
      else case status of
        None \<Rightarrow> (Inr (Resp 200 (BPassword pw)), (tick (tick w))\<lparr>stores := updateAdminPassword sid pw (stores w),
                   audit := logAudit (next_uuid w) ''reset-password'' ''store'' (Some (st_id st)) (Some (st_name st)) None ip
                              (clock (tick (tick w))) (audit w), next_uuid := Suc (next_uuid w)\<rparr>)
      | Some e \<Rightarrow> (Inl (Error (js_or (Some e) ''Exec failed'')), tick (tick w)))"
  using assms
  by (simp add: reset_body_def k8s_list_pods_def list_pods_def k8s_exec_def exec_in_pod_def log_audit_def healthy_for_def
      split: option.splits)

text \<open>
  C39. For an existing store the reset-password route refuses with 409 exactly when the
  dashboard disables the action. Whatever the cluster does, it either answers 200 with the
  new password and writes that password to the store's row, or answers otherwise and
  leaves the stores table and the audit log unchanged. For a Ready store on a cluster with
  no failures it answers 404 when no WordPress pod is listed, 200 when the exec succeeds,
  and 500 when it fails. The password is the hex encoding of the random bytes: two
  characters per byte, and it decodes back to the bytes.
\<close>

theorem resetPasswordHandler_spec:
  assumes "getStoreById sid (stores (sv_world sv)) = Some st"
  shows "(resp_status (fst (resetPasswordHandler sid bytes pods status ip sv)) = 409 \<longleftrightarrow> action_disabled st ResetPassword)
   \<and> sv_queue (snd (resetPasswordHandler sid bytes pods status ip sv)) = sv_queue sv
   \<and> (fst (resetPasswordHandler sid bytes pods status ip sv) = Resp 200 (BPassword (to_hex bytes))
        \<and> stores (sv_world (snd (resetPasswordHandler sid bytes pods status ip sv)))
          = updateAdminPassword sid (to_hex bytes) (stores (sv_world sv))
      \<or> fst (resetPasswordHandler sid bytes pods status ip sv) \<noteq> Resp 200 (BPassword (to_hex bytes))
        \<and> stores (sv_world (snd (resetPasswordHandler sid bytes pods status ip sv))) = stores (sv_world sv)
        \<and> audit (sv_world (snd (resetPasswordHandler sid bytes pods status ip sv))) = audit (sv_world sv))
   \<and> (st_status st = Ready \<and> healthy_for (st_namespace st) (k8s (sv_world sv)) \<longrightarrow>
        fst (resetPasswordHandler sid bytes pods status ip sv)
          = (if pods = [] then Resp 404 (BError ''WordPress pod not found'')
             else if status = None then Resp 200 (BPassword (to_hex bytes))
             else Resp 500 (BError ''Failed to reset password'')))
   \<and> from_hex (to_hex bytes) = Some bytes \<and> length (to_hex bytes) = 2 * length bytes"
proof (cases "st_status st = Ready")
  case False
  then show ?thesis
    using assms by (simp add: resetPasswordHandler_def action_disabled_def from_to_hex length_to_hex)
next
  case True
  let ?pw = "to_hex bytes"
  obtain r w' where b: "reset_body sid st ?pw pods status ip (sv_world sv) = (r, w')" by fastforce
  have h: "resetPasswordHandler sid bytes pods status ip sv
      = (case r of Inr resp \<Rightarrow> resp | Inl _ \<Rightarrow> Resp 500 (BError ''Failed to reset password''), sv\<lparr>sv_world := w'\<rparr>)"
    using assms True b by (cases r) (simp_all add: resetPasswordHandler_def)
  have o: "(r = Inr (Resp 200 (BPassword ?pw)) \<and> stores w' = updateAdminPassword sid ?pw (stores (sv_world sv)))
       \<or> ((r = Inr (Resp 404 (BError ''WordPress pod not found'')) \<or> isl r)
          \<and> stores w' = stores (sv_world sv) \<and> audit w' = audit (sv_world sv))"
    by (rule reset_body_outcome [OF b])
  have hl: "healthy_for (st_namespace st) (k8s (sv_world sv)) \<Longrightarrow>
      r = (if pods = [] then Inr (Resp 404 (BError ''WordPress pod not found''))
           else case status of None \<Rightarrow> Inr (Resp 200 (BPassword ?pw))
                | Some e \<Rightarrow> Inl (Error (js_or (Some e) ''Exec failed'')))"
    using reset_body_healthy [of st "sv_world sv" sid ?pw pods status ip] b by (simp split: option.splits if_splits)
  show ?thesis
  proof (intro conjI)
    show "(resp_status (fst (resetPasswordHandler sid bytes pods status ip sv)) = 409) = action_disabled st ResetPassword"
      using o True by (auto simp: h action_disabled_def isl_def)
    show "st_status st = Ready \<and> healthy_for (st_namespace st) (k8s (sv_world sv)) \<longrightarrow>
        fst (resetPasswordHandler sid bytes pods status ip sv)
          = (if pods = [] then Resp 404 (BError ''WordPress pod not found'')
             else if status = None then Resp 200 (BPassword ?pw) else Resp 500 (BError ''Failed to reset password''))"
      using hl by (auto simp: h split: option.splits)
  qed (use o in \<open>auto simp: h isl_def from_to_hex length_to_hex\<close>)
qed

section \<open>Witnesses\<close>

lemma restartHandler_spec_witness:
  "getStoreById 7 (stores (sv_world (demo_server\<lparr>sv_world := (sv_world demo_server)\<lparr>stores := [demo_store\<lparr>st_status := Ready\<rparr>]\<rparr>\<rparr>)))
     = Some (demo_store\<lparr>st_status := Ready\<rparr>)
   \<and> (\<exists>rs now. fst (restartHandler 7 None None (demo_server\<lparr>sv_world := (sv_world demo_server)\<lparr>stores := [demo_store\<lparr>st_status := Ready\<rparr>]\<rparr>\<rparr>))
          = Resp 200 (BRestarted rs)
        \<and> subseq rs [''wordpress'', ''mysql'']
        \<and> audit (sv_world (snd (restartHandler 7 None None (demo_server\<lparr>sv_world := (sv_world demo_server)\<lparr>stores := [demo_store\<lparr>st_status := Ready\<rparr>]\<rparr>\<rparr>))))
          = logAudit 100 ''restart'' ''store'' (Some 7) (Some ''Shop'') (Some ''target=all'') None now [])"
proof -
  let ?sv = "demo_server\<lparr>sv_world := (sv_world demo_server)\<lparr>stores := [demo_store\<lparr>st_status := Ready\<rparr>]\<rparr>\<rparr>"
  have s: "getStoreById 7 (stores (sv_world ?sv)) = Some (demo_store\<lparr>st_status := Ready\<rparr>)"
    by (simp add: getStoreById_def demo_store_def new_store_row_def)
  have d: "st_id (demo_store\<lparr>st_status := Ready\<rparr>) = 7" "st_name (demo_store\<lparr>st_status := Ready\<rparr>) = ''Shop''"
    "next_uuid (sv_world ?sv) = 100" "audit (sv_world ?sv) = []"
    "restart_targets (js_or None ''all'') = [''wordpress'', ''mysql'']" "js_or None ''all'' = ''all''"
    by (simp_all add: demo_store_def new_store_row_def demo_server_def demo_world_def restart_targets_def js_or_def)
  have r: "st_status (demo_store\<lparr>st_status := Ready\<rparr>) = Ready" by simp
  note t = restartHandler_spec [OF s, of None None RestartAll, THEN conjunct2, THEN conjunct2, THEN conjunct2, THEN mp, OF r]
  obtain rs now where a: "fst (restartHandler 7 None None ?sv) = Resp 200 (BRestarted rs)"
      "subseq rs (restart_targets (js_or None ''all''))"
      "audit (sv_world (snd (restartHandler 7 None None ?sv)))
         = logAudit (next_uuid (sv_world ?sv)) ''restart'' ''store'' (Some (st_id (demo_store\<lparr>st_status := Ready\<rparr>)))
             (Some (st_name (demo_store\<lparr>st_status := Ready\<rparr>))) (Some (''target='' @ js_or None ''all'')) None now (audit (sv_world ?sv))"
    using t by blast
  show ?thesis
  proof (intro conjI exI)
    show "getStoreById 7 (stores (sv_world ?sv)) = Some (demo_store\<lparr>st_status := Ready\<rparr>)" by (rule s)
    show "fst (restartHandler 7 None None ?sv) = Resp 200 (BRestarted rs)" by (rule a(1))
    show "subseq rs [''wordpress'', ''mysql'']" using a(2) d(5) by simp
    show "audit (sv_world (snd (restartHandler 7 None None ?sv)))
        = logAudit 100 ''restart'' ''store'' (Some 7) (Some ''Shop'') (Some ''target=all'') None now []"
      using a(3) d by simp
  qed
qed

lemma resetPasswordHandler_spec_witness:
  "getStoreById 7 [demo_store\<lparr>st_status := Ready\<rparr>] = Some (demo_store\<lparr>st_status := Ready\<rparr>)
   \<and> from_hex (to_hex [222, 173]) = Some [222, 173] \<and> to_hex [222, 173] = ''dead''"
proof -
  have s: "getStoreById 7 [demo_store\<lparr>st_status := Ready\<rparr>] = Some (demo_store\<lparr>st_status := Ready\<rparr>)"
    by (simp add: getStoreById_def demo_store_def new_store_row_def)
  have "from_hex (to_hex [222, 173]) = Some [222, 173]"
    using resetPasswordHandler_spec [of 7 "demo_server\<lparr>sv_world := (sv_world demo_server)\<lparr>stores := [demo_store\<lparr>st_status := Ready\<rparr>]\<rparr>\<rparr>"
        "demo_store\<lparr>st_status := Ready\<rparr>" "[222, 173]"] s by simp
  moreover have "to_hex [222, 173] = ''dead''"
    by code_simp
  ultimately show ?thesis using s by simp
qed

end
