(* ===== verification/Observe.thy ===== *)
theory Observe
  imports Actions
begin

text \<open>
  The read-only routes: \<open>GET /api/stores/:id/logs/:pod\<close> and
  \<open>GET /api/stores/:id/health\<close> of \<open>src/backend/src/routes/stores.ts\<close>, and
  \<open>/healthz\<close>, \<open>/readyz\<close> and \<open>/api/audit\<close> of \<open>src/backend/src/routes/health.ts\<close>.
  What the cluster lists (pods, claims, quotas) and a pod's log are what the cluster
  answers at the call and are arguments; each list call answers from the fault oracle
  first. The log read rejects a tail that is not a number or is negative, as the API
  server's validation does. \<open>Date.now()\<close> is the world's clock and a timestamp is kept
  as its millisecond count. Whether \<open>SELECT 1\<close> succeeds is an argument of \<open>/readyz\<close>.
\<close>

section \<open>parseInt\<close>

text \<open>
  \<open>parseInt(s, 10)\<close>: leading white space is skipped, one sign is read, then the longest
  run of decimal digits; no digit gives \<open>NaN\<close>, here \<open>None\<close>.
\<close>

definition parse_int :: "string \<Rightarrow> int option" where
  "parse_int s = (let s1 = dropWhile js_space s;
       (sg, s2) = (case s1 of c # r \<Rightarrow> if c = CHR ''-'' then (-1, r) else if c = CHR ''+'' then (1, r) else (1, s1)
                   | [] \<Rightarrow> (1, []));
       ds = takeWhile is_digit s2
     in if ds = [] then None else Some (sg * int (digits_val ds)))"

section \<open>Cluster reads\<close>

definition list_call :: "k8s_call \<Rightarrow> ms \<Rightarrow> cluster \<Rightarrow> 'a list \<Rightarrow> error + 'a list" where
  "list_call call t c items = (case fault c call t of Some (code, msg) \<Rightarrow> Inl (HttpError code msg) | None \<Rightarrow> Inr items)"

definition k8s_list :: "k8s_call \<Rightarrow> 'a list \<Rightarrow> 'a list wact" where
  "k8s_list call items w = (list_call call (clock w) (k8s w) items, tick w)"

text \<open>\<open>readNamespacedPodLog\<close> with \<open>tailLines\<close>: the last \<open>n\<close> lines of the log.\<close>

definition tail_lines :: "nat \<Rightarrow> string list \<Rightarrow> string" where
  "tail_lines n ls = concat (map (\<lambda>l. l @ ''\<newline>'') (drop (length ls - n) ls))"

definition read_pod_log :: "string \<Rightarrow> string \<Rightarrow> int option \<Rightarrow> ms \<Rightarrow> cluster \<Rightarrow> string list \<Rightarrow> error + string" where
  "read_pod_log ns pod tail t c ls =
     (case fault c (ReadPodLog ns pod) t of
        Some (code, msg) \<Rightarrow> Inl (HttpError code msg)
      | None \<Rightarrow> (case tail of
                  Some n \<Rightarrow> if 0 \<le> n then Inr (tail_lines (nat n) ls) else Inl (HttpError 400 http_failed)
                | None \<Rightarrow> Inl (HttpError 400 http_failed)))"

definition k8s_read_log :: "string \<Rightarrow> string \<Rightarrow> int option \<Rightarrow> string list \<Rightarrow> string wact" where
  "k8s_read_log ns pod tail ls w = (read_pod_log ns pod tail (clock w) (k8s w) ls, tick w)"

section \<open>Logs\<close>

definition logs_body :: "store \<Rightarrow> string \<Rightarrow> int option \<Rightarrow> string list \<Rightarrow> string list \<Rightarrow> response wact" where
  "logs_body st podType tail pods ls =
     bind_act (k8s_list_pods (st_namespace st) (''app='' @ podType) pods) (\<lambda>items.
       if items = [] then ok_act (Resp 404 (BError (''No '' @ podType @ '' pod found'')))
       else bind_act (k8s_read_log (st_namespace st) (hd items) tail ls)
              (\<lambda>logs. ok_act (Resp 200 (BLogs (hd items) podType logs))))"

definition logsHandler :: "uuid \<Rightarrow> string \<Rightarrow> string option \<Rightarrow> string list \<Rightarrow> string list \<Rightarrow> server \<Rightarrow> response \<times> server" where
  "logsHandler sid podType tq pods ls sv = (let w = sv_world sv in
     case getStoreById sid (stores w) of
       None \<Rightarrow> (Resp 404 (BError ''Store not found''), sv)
     | Some st \<Rightarrow>
         (case try_catch (logs_body st podType (parse_int (js_or tq ''100'')) pods ls)
                 (\<lambda>_. ok_act (Resp 500 (BError ''Failed to fetch logs''))) w of
            (Inr r, w') \<Rightarrow> (r, sv\<lparr>sv_world := w'\<rparr>)
          | (Inl _, w') \<Rightarrow> (Resp 500 (BError ''Failed to fetch logs''), sv\<lparr>sv_world := w'\<rparr>)))"

section \<open>Health\<close>

text \<open>A pod as the API lists it: the fields the route reads.\<close>

record pod_info =
  pd_name :: "string option"
  pd_phase :: "string option"
  pd_cs_ready :: "bool option"
  pd_cs_restarts :: "nat option"
  pd_cs_image :: "string option"
  pd_start :: "ms option"
  pd_requests :: kv
  pd_limits :: kv
  pd_image :: "string option"

record pvc_info =
  pc_name :: "string option"
  pc_phase :: "string option"
  pc_capacity :: "string option"
  pc_request :: "string option"
  pc_class :: "string option"

record quota_info =
  qi_hard :: "kv option"
  qi_used :: "kv option"

text \<open>\<open>Math.floor((Date.now() - startTime) / 1000)\<close>, or 0 without a start time.\<close>

definition pod_uptime :: "ms \<Rightarrow> ms option \<Rightarrow> int" where
  "pod_uptime now start = (case start of Some t \<Rightarrow> (int now - int t) div 1000 | None \<Rightarrow> 0)"

definition pod_view_of :: "ms \<Rightarrow> string \<Rightarrow> pod_info \<Rightarrow> pod_view" where
  "pod_view_of now app p =
     \<lparr>pv_name = pd_name p, pv_app = app, pv_phase = pd_phase p,
      pv_ready = (case pd_cs_ready p of Some b \<Rightarrow> b | None \<Rightarrow> False),
      pv_restartCount = (case pd_cs_restarts p of Some n \<Rightarrow> n | None \<Rightarrow> 0),
      pv_startTime = pd_start p, pv_uptime = pod_uptime now (pd_start p),
      pv_cpuRequest = js_or (map_of (pd_requests p) ''cpu'') ''N/A'',
      pv_cpuLimit = js_or (map_of (pd_limits p) ''cpu'') ''N/A'',
      pv_memRequest = js_or (map_of (pd_requests p) ''memory'') ''N/A'',
      pv_memLimit = js_or (map_of (pd_limits p) ''memory'') ''N/A'',
      pv_image = js_or (pd_cs_image p) (js_or (pd_image p) ''unknown'')\<rparr>"

definition pvc_view_of :: "pvc_info \<Rightarrow> pvc_view" where
  "pvc_view_of v = \<lparr>vv_name = pc_name v, vv_status = pc_phase v,
     vv_capacity = js_or (pc_capacity v) (js_or (pc_request v) ''N/A''),
     vv_storageClass = js_or (pc_class v) ''default''\<rparr>"

definition quota_of :: "quota_info list \<Rightarrow> (kv \<times> kv) option" where
  "quota_of qs = (case qs of [] \<Rightarrow> None
     | q # _ \<Rightarrow> Some (case qi_hard q of Some h \<Rightarrow> h | None \<Rightarrow> [], case qi_used q of Some u \<Rightarrow> u | None \<Rightarrow> []))"

text \<open>The loop over the two apps: a failed list is skipped; the pods are stamped after the call.\<close>

primrec health_pods :: "string \<Rightarrow> (string \<Rightarrow> pod_info list) \<Rightarrow> string list \<Rightarrow> pod_view list wact" where
  "health_pods ns pods [] = ok_act []"
| "health_pods ns pods (app # apps) =
     bind_act (try_catch (bind_act (k8s_list_pods ns (''app='' @ app) (pods app))
                            (\<lambda>items w. (Inr (map (pod_view_of (clock w) app) items), w)))
                (\<lambda>_. ok_act []))
       (\<lambda>vs. bind_act (health_pods ns pods apps) (\<lambda>rest. ok_act (vs @ rest)))"

definition health_body :: "store \<Rightarrow> (string \<Rightarrow> pod_info list) \<Rightarrow> pvc_info list \<Rightarrow> quota_info list \<Rightarrow> response wact" where
  "health_body st pods pvcs quotas =
     bind_act (health_pods (st_namespace st) pods [''wordpress'', ''mysql'']) (\<lambda>ps.
       bind_act (try_catch (bind_act (k8s_list (ListPVCs (st_namespace st)) pvcs) (\<lambda>l. ok_act (map pvc_view_of l)))
                   (\<lambda>_. ok_act [])) (\<lambda>vs.
         bind_act (try_catch (bind_act (k8s_list (ListQuotas (st_namespace st)) quotas) (\<lambda>l. ok_act (quota_of l)))
                     (\<lambda>_. ok_act None))
           (\<lambda>q. ok_act (Resp 200 (BHealth ps vs q (st_namespace st))))))"

definition healthHandler :: "uuid \<Rightarrow> (string \<Rightarrow> pod_info list) \<Rightarrow> pvc_info list \<Rightarrow> quota_info list \<Rightarrow> server
    \<Rightarrow> response \<times> server" where
  "healthHandler sid pods pvcs quotas sv = (let w = sv_world sv in
     case getStoreById sid (stores w) of
       None \<Rightarrow> (Resp 404 (BError ''Store not found''), sv)
     | Some st \<Rightarrow>
         (case try_catch (health_body st pods pvcs quotas)
                 (\<lambda>_. ok_act (Resp 500 (BError ''Failed to fetch health data''))) w of
            (Inr r, w') \<Rightarrow> (r, sv\<lparr>sv_world := w'\<rparr>)
          | (Inl _, w') \<Rightarrow> (Resp 500 (BError ''Failed to fetch health data''), sv\<lparr>sv_world := w'\<rparr>)))"

section \<open>The routes of health.ts\<close>

definition healthz :: "server \<Rightarrow> response" where
  "healthz sv = Resp 200 (BStatus ''ok'' (Some (show_nat (clock (sv_world sv)))))"

definition readyz :: "bool \<Rightarrow> server \<Rightarrow> response" where
  "readyz db_ok sv = (if db_ok then Resp 200 (BStatus ''ready'' (Some (show_nat (clock (sv_world sv)))))
                      else Resp 503 (BStatus ''not ready'' None))"

text \<open>
  \<open>GET /api/audit\<close>: \<open>parseInt(limit || '50', 10)\<close> bound to \<open>LIMIT ?\<close>. A \<open>NaN\<close>
  binds as \<open>NULL\<close>, which SQLite rejects; the route has no \<open>catch\<close>, so Express answers
  500.
\<close>

definition auditHandler :: "string option \<Rightarrow> server \<Rightarrow> response" where
  "auditHandler lq sv = (case parse_int (js_or lq ''50'') of
       Some n \<Rightarrow> Resp 200 (BAudit (getAuditLog n (audit (sv_world sv))))
     | None \<Rightarrow> Resp 500 (BError ''datatype mismatch''))"

section \<open>Lemmas\<close>

lemma is_digit_not_space: "is_digit c \<Longrightarrow> \<not> js_space c"
  by (simp add: is_digit_def js_space_def)

lemma parse_int_digits:
  assumes "list_all is_digit ds" and "ds \<noteq> []"
  shows "parse_int ds = Some (int (digits_val ds))" "parse_int (CHR ''-'' # ds) = Some (- int (digits_val ds))"
proof -
  obtain c r where cr: "ds = c # r" using assms(2) by (cases ds) auto
  have c: "is_digit c" "\<not> js_space c" "c \<noteq> CHR ''-''" "c \<noteq> CHR ''+''"
    using assms(1) cr is_digit_not_space [of c] by (auto simp: is_digit_def)
  have "\<forall>x\<in>set ds. is_digit x" using assms(1) by (simp add: list_all_iff)
  note t = takeWhile_eq_all_conv [THEN iffD2, OF this]
  show "parse_int ds = Some (int (digits_val ds))"
  proof -
    have "\<forall>x\<in>set r. is_digit x" using assms(1) cr by (simp add: list_all_iff)
    note tr = takeWhile_eq_all_conv [THEN iffD2, OF this]
    show ?thesis using c cr by (simp add: parse_int_def tr)
  qed
  show "parse_int (CHR ''-'' # ds) = Some (- int (digits_val ds))"
    using assms(2) by (simp add: parse_int_def js_space_def t Let_def)
qed

lemma parse_int_show_nat: "parse_int (show_nat n) = Some (int n)" "parse_int (CHR ''-'' # show_nat n) = Some (- int n)"
  using parse_int_digits [OF is_digit_show_nat show_nat_nonempty] digits_val_show_nat by simp_all

lemma parse_int_default: "parse_int ''100'' = Some 100" "parse_int ''50'' = Some 50"
  by (simp_all add: parse_int_def js_space_def is_digit_def digits_val_def)

lemma logs_body_healthy:
  assumes "healthy_for (st_namespace st) (k8s w)"
  shows "logs_body st podType tail pods ls w =
    (if pods = [] then (Inr (Resp 404 (BError (''No '' @ podType @ '' pod found''))), tick w)
     else (case tail of
             Some n \<Rightarrow> if 0 \<le> n then (Inr (Resp 200 (BLogs (hd pods) podType (tail_lines (nat n) ls))), tick (tick w))
                       else (Inl (HttpError 400 http_failed), tick (tick w))
           | None \<Rightarrow> (Inl (HttpError 400 http_failed), tick (tick w))))"
  using assms
  by (simp add: logs_body_def k8s_list_pods_def list_pods_def k8s_read_log_def read_pod_log_def healthy_for_def
      split: option.splits)

lemma logs_body_stores: "logs_body st podType tail pods ls w = (r, w') \<Longrightarrow> stores w' = stores w"
  by (auto simp: logs_body_def bind_act_def k8s_list_pods_def k8s_read_log_def split: sum.splits prod.splits if_splits)

lemma auditHandler_default: "auditHandler None sv = Resp 200 (BAudit (take 50 (rev (audit (sv_world sv)))))"
  by (simp add: auditHandler_def js_or_def parse_int_default getAuditLog_def)

text \<open>A negative \<open>limit\<close> is SQLite's \<open>LIMIT -1\<close>: the whole audit log.\<close>

lemma auditHandler_negative_limit:
  "auditHandler (Some (CHR ''-'' # show_nat (Suc n))) sv = Resp 200 (BAudit (rev (audit (sv_world sv))))"
  by (simp add: auditHandler_def js_or_def parse_int_show_nat getAuditLog_def)

lemma readyz_status: "resp_status (readyz db_ok sv) = (if db_ok then 200 else 503)"
  by (simp add: readyz_def)

text \<open>
  C18. On a cluster with no failures, the logs route for an existing store answers 404 when
  no pod carries the label \<open>app=<pod>\<close>, and otherwise the last \<open>tail\<close> lines of
  the first pod's log, 100 by default; a \<open>tail\<close> that \<open>parseInt\<close> reads as NaN or as a
  negative number is a client error that the route answers with 500. It writes nothing.
\<close>

theorem logsHandler_spec:
  assumes "getStoreById sid (stores (sv_world sv)) = Some st"
    and "healthy_for (st_namespace st) (k8s (sv_world sv))"
  shows "stores (sv_world (snd (logsHandler sid podType tq pods ls sv))) = stores (sv_world sv)
   \<and> fst (logsHandler sid podType tq pods ls sv)
     = (if pods = [] then Resp 404 (BError (''No '' @ podType @ '' pod found''))
        else case parse_int (js_or tq ''100'') of
               Some n \<Rightarrow> if 0 \<le> n then Resp 200 (BLogs (hd pods) podType (tail_lines (nat n) ls))
                         else Resp 500 (BError ''Failed to fetch logs'')
             | None \<Rightarrow> Resp 500 (BError ''Failed to fetch logs''))"
proof -
  let ?t = "parse_int (js_or tq ''100'')"
  note e = logs_body_healthy [OF assms(2), of podType ?t pods ls]
  show ?thesis
  proof (cases "pods = []")
    case True
    then have "logs_body st podType ?t [] ls (sv_world sv)
        = (Inr (Resp 404 (BError (''No '' @ podType @ '' pod found''))), tick (sv_world sv))"
      using e by simp
    then show ?thesis using True assms(1) by (simp add: logsHandler_def)
  next
    case False
    show ?thesis
    proof (cases ?t)
      case None
      then have "logs_body st podType ?t pods ls (sv_world sv) = (Inl (HttpError 400 http_failed), tick (tick (sv_world sv)))"
        using e False by simp
      then show ?thesis using None False assms(1) by (simp add: logsHandler_def)
    next
      case (Some n)
      then have "logs_body st podType ?t pods ls (sv_world sv)
          = (if 0 \<le> n then (Inr (Resp 200 (BLogs (hd pods) podType (tail_lines (nat n) ls))), tick (tick (sv_world sv)))
             else (Inl (HttpError 400 http_failed), tick (tick (sv_world sv))))"
        using e False by simp
      then show ?thesis using Some False assms(1) by (simp add: logsHandler_def)
    qed
  qed
qed

lemma health_pods_ok:
  "\<exists>ps w'. health_pods ns pods apps w = (Inr ps, w') \<and> stores w' = stores w \<and> events w' = events w
     \<and> audit w' = audit w \<and> k8s w' = k8s w \<and> clock w \<le> clock w'
     \<and> (healthy_for ns (k8s w) \<longrightarrow> map pv_name ps = map pd_name (concat (map pods apps))
                                   \<and> map pv_app ps = concat (map (\<lambda>a. map (\<lambda>_. a) (pods a)) apps))"
proof (induction apps arbitrary: w)
  case Nil
  then show ?case by simp
next
  case (Cons app apps)
  let ?w1 = "tick w"
  let ?vs = "case list_pods ns (''app='' @ app) (clock w) (k8s w) (pods app) of
              Inl _ \<Rightarrow> [] | Inr items \<Rightarrow> map (pod_view_of (clock ?w1) app) items"
  have h: "try_catch (bind_act (k8s_list_pods ns (''app='' @ app) (pods app))
                            (\<lambda>items w. (Inr (map (pod_view_of (clock w) app) items), w))) (\<lambda>_. ok_act []) w = (Inr ?vs, ?w1)"
    by (simp add: k8s_list_pods_def bind_act_def try_catch_def split: sum.splits)
  have hv: "healthy_for ns (k8s w) \<Longrightarrow> list_pods ns (''app='' @ app) (clock w) (k8s w) (pods app) = Inr (pods app)"
    by (simp add: list_pods_def healthy_for_def)
  obtain ps w' where ih: "health_pods ns pods apps ?w1 = (Inr ps, w') \<and> stores w' = stores ?w1 \<and> events w' = events ?w1
     \<and> audit w' = audit ?w1 \<and> k8s w' = k8s ?w1 \<and> clock ?w1 \<le> clock w'
     \<and> (healthy_for ns (k8s ?w1) \<longrightarrow> map pv_name ps = map pd_name (concat (map pods apps))
                                   \<and> map pv_app ps = concat (map (\<lambda>a. map (\<lambda>_. a) (pods a)) apps))"
    using Cons.IH by blast
  show ?case
    using h hv ih by (auto simp: pod_view_of_def comp_def)
qed

lemma pod_uptime_nonneg: "0 \<le> pod_uptime now (Some t) \<longleftrightarrow> t \<le> now"
  by (auto simp: pod_uptime_def pos_imp_zdiv_nonneg_iff)

lemma skewed_pod_uptime: "formatUptime (pod_uptime 10000 (Some 12500)) = ''-3s''"
  by code_simp


lemma list_call_tick:
  "\<exists>r. k8s_list call items w = (r, tick w) \<and> (healthy_for ns (k8s w) \<longrightarrow> r = Inr items)"
  by (simp add: k8s_list_def list_call_def healthy_for_def)

lemma health_body_ok:
  "\<exists>ps vs q w'. health_body st pods pvcs quotas w = (Inr (Resp 200 (BHealth ps vs q (st_namespace st))), w')
     \<and> stores w' = stores w \<and> events w' = events w \<and> audit w' = audit w
     \<and> (healthy_for (st_namespace st) (k8s w) \<longrightarrow>
          map pv_name ps = map pd_name (pods ''wordpress'' @ pods ''mysql'')
          \<and> map pv_app ps = map (\<lambda>_. ''wordpress'') (pods ''wordpress'') @ map (\<lambda>_. ''mysql'') (pods ''mysql'')
          \<and> vs = map pvc_view_of pvcs \<and> q = quota_of quotas)"
proof -
  let ?ns = "st_namespace st"
  obtain ps w1 where p: "health_pods ?ns pods [''wordpress'', ''mysql''] w = (Inr ps, w1)"
    and f1: "stores w1 = stores w" "events w1 = events w" "audit w1 = audit w" "k8s w1 = k8s w"
    and h1: "healthy_for ?ns (k8s w) \<longrightarrow> map pv_name ps = map pd_name (concat (map pods [''wordpress'', ''mysql'']))
               \<and> map pv_app ps = concat (map (\<lambda>a. map (\<lambda>_. a) (pods a)) [''wordpress'', ''mysql''])"
    using health_pods_ok [of ?ns pods "[''wordpress'', ''mysql'']" w] by blast
  obtain r2 where l2: "k8s_list (ListPVCs ?ns) pvcs w1 = (r2, tick w1)"
    and h2: "healthy_for ?ns (k8s w1) \<longrightarrow> r2 = Inr pvcs"
    using list_call_tick by blast
  obtain r3 where l3: "k8s_list (ListQuotas ?ns) quotas (tick w1) = (r3, tick (tick w1))"
    and h3: "healthy_for ?ns (k8s (tick w1)) \<longrightarrow> r3 = Inr quotas"
    using list_call_tick by blast
  let ?vs = "case r2 of Inl _ \<Rightarrow> [] | Inr l \<Rightarrow> map pvc_view_of l"
  let ?q = "case r3 of Inl _ \<Rightarrow> None | Inr l \<Rightarrow> quota_of l"
  have b: "health_body st pods pvcs quotas w = (Inr (Resp 200 (BHealth ps ?vs ?q ?ns)), tick (tick w1))"
    using p l2 l3 by (cases r2; cases r3) (simp_all add: health_body_def)
  show ?thesis
  proof (intro exI conjI)
    show "health_body st pods pvcs quotas w = (Inr (Resp 200 (BHealth ps ?vs ?q ?ns)), tick (tick w1))" by (rule b)
  qed (use f1 h1 h2 h3 in auto)
qed

text \<open>
  C19. The health route for an existing store answers 200 whatever the cluster does: a
  failed pod, claim or quota list is skipped. It writes no table. On a cluster with no
  failures it reports the WordPress pods, then the MySQL pods, each with its app, the claims
  and the first quota as listed.
\<close>

theorem healthHandler_spec:
  assumes "getStoreById sid (stores (sv_world sv)) = Some st"
  shows "\<exists>ps vs q. fst (healthHandler sid pods pvcs quotas sv) = Resp 200 (BHealth ps vs q (st_namespace st))
     \<and> stores (sv_world (snd (healthHandler sid pods pvcs quotas sv))) = stores (sv_world sv)
     \<and> events (sv_world (snd (healthHandler sid pods pvcs quotas sv))) = events (sv_world sv)
     \<and> audit (sv_world (snd (healthHandler sid pods pvcs quotas sv))) = audit (sv_world sv)
     \<and> (healthy_for (st_namespace st) (k8s (sv_world sv)) \<longrightarrow>
          map pv_name ps = map pd_name (pods ''wordpress'' @ pods ''mysql'')
          \<and> map pv_app ps = map (\<lambda>_. ''wordpress'') (pods ''wordpress'') @ map (\<lambda>_. ''mysql'') (pods ''mysql'')
          \<and> vs = map pvc_view_of pvcs \<and> q = quota_of quotas)"
proof -
  obtain ps vs q w' where b: "health_body st pods pvcs quotas (sv_world sv) = (Inr (Resp 200 (BHealth ps vs q (st_namespace st))), w')"
    and f: "stores w' = stores (sv_world sv)" "events w' = events (sv_world sv)" "audit w' = audit (sv_world sv)"
    and h: "healthy_for (st_namespace st) (k8s (sv_world sv)) \<longrightarrow>
          map pv_name ps = map pd_name (pods ''wordpress'' @ pods ''mysql'')
          \<and> map pv_app ps = map (\<lambda>_. ''wordpress'') (pods ''wordpress'') @ map (\<lambda>_. ''mysql'') (pods ''mysql'')
          \<and> vs = map pvc_view_of pvcs \<and> q = quota_of quotas"
    using health_body_ok by blast
  have e: "healthHandler sid pods pvcs quotas sv = (Resp 200 (BHealth ps vs q (st_namespace st)), sv\<lparr>sv_world := w'\<rparr>)"
    using assms b by (simp add: healthHandler_def)
  show ?thesis using e f h by auto
qed

section \<open>Witnesses\<close>

lemma logsHandler_spec_witness:
  "getStoreById 7 (stores (sv_world demo_server)) = Some demo_store
   \<and> healthy_for (st_namespace demo_store) (k8s (sv_world demo_server))
   \<and> fst (logsHandler 7 ''wordpress'' (Some ''abc'') [''wordpress-0''] [''ready''] demo_server)
       = Resp 500 (BError ''Failed to fetch logs'')
   \<and> fst (logsHandler 7 ''wordpress'' (Some ''1'') [''wordpress-0''] [''booting'', ''ready''] demo_server)
       = Resp 200 (BLogs ''wordpress-0'' ''wordpress'' ''ready\<newline>'')"
proof -
  have s: "getStoreById 7 (stores (sv_world demo_server)) = Some demo_store"
    by (simp add: getStoreById_def demo_server_def demo_world_def demo_store_def new_store_row_def)
  have h: "healthy_for (st_namespace demo_store) (k8s (sv_world demo_server))"
    using demo_healthy by (simp add: demo_server_def demo_world_def)
  have p: "parse_int (js_or (Some ''abc'') ''100'') = None" "parse_int (js_or (Some ''1'') ''100'') = Some 1"
    by (simp_all add: parse_int_def js_or_def js_space_def is_digit_def digits_val_def)
  have t: "tail_lines (nat 1) [''booting'', ''ready''] = ''ready\<newline>''"
    by (simp add: tail_lines_def)
  show ?thesis
    using logsHandler_spec [OF s h, of "''wordpress''" "Some ''abc''" "[''wordpress-0'']" "[''ready'']"]
      logsHandler_spec [OF s h, of "''wordpress''" "Some ''1''" "[''wordpress-0'']" "[''booting'', ''ready'']"]
      s h p t by simp
qed

lemma healthHandler_spec_witness:
  "getStoreById 7 (stores (sv_world demo_server)) = Some demo_store
   \<and> (\<exists>ps vs q. fst (healthHandler 7 (\<lambda>_. []) [] [] demo_server) = Resp 200 (BHealth ps vs q ''store-shop''))"
proof -
  have s: "getStoreById 7 (stores (sv_world demo_server)) = Some demo_store"
    by (simp add: getStoreById_def demo_server_def demo_world_def demo_store_def new_store_row_def)
  have n: "st_namespace demo_store = ''store-shop''" by (simp add: demo_store_def new_store_row_def)
  obtain ps vs q where "fst (healthHandler 7 (\<lambda>_. []) [] [] demo_server) = Resp 200 (BHealth ps vs q (st_namespace demo_store))"
    using healthHandler_spec [OF s, of "\<lambda>_. []" "[]" "[]"] by blast
  then show ?thesis using s n by auto
qed

end
