(* ===== verification/Secrets.thy ===== *)
theory Secrets
  imports Actions
begin

text \<open>
  The random material of a store: \<open>generatePassword\<close>, \<open>generateSalt\<close> and
  \<open>generateWordPressKeys\<close> of \<open>src/backend/src/utils/crypto.ts\<close>, and
  \<open>generateStoreSecrets\<close> of \<open>src/backend/src/k8s/secretGenerator.ts\<close>. Each
  \<open>crypto.randomBytes(n)\<close> is an argument: the \<open>i\<close>-th draw of \<open>generateStoreSecrets\<close>
  is \<open>rnd i\<close>, in the order the source makes the calls. \<open>toString('hex')\<close> is
  \<open>to_hex\<close> of the reset-password action; \<open>toString('base64')\<close> is RFC 4648 base64 with
  \<open>=\<close> padding.
\<close>

unbundle bit_operations_syntax

section \<open>Base64\<close>

definition b64_alphabet :: string where
  "b64_alphabet = ''ABCDEFGHIJKLMNOPQRSTUVWXYZabcdefghijklmnopqrstuvwxyz0123456789+/''"

definition b64_char :: "nat \<Rightarrow> char" where
  "b64_char i = b64_alphabet ! i"

text \<open>
  Three bytes are one 24-bit group, read as four 6-bit indices from the high end; a
  final group of one or two bytes is filled with zero bits and padded with \<open>=\<close>.
\<close>

definition b64_group :: "nat \<Rightarrow> nat \<Rightarrow> string" where
  "b64_group k v = take k [b64_char (v div 262144), b64_char (v div 4096 mod 64),
                           b64_char (v div 64 mod 64), b64_char (v mod 64)] @ replicate (4 - k) (CHR ''='')"

fun base64 :: "8 word list \<Rightarrow> string" where
  "base64 (a # b # c # r) = b64_group 4 (unat a * 65536 + unat b * 256 + unat c) @ base64 r"
| "base64 [a, b] = b64_group 3 (unat a * 65536 + unat b * 256)"
| "base64 [a] = b64_group 2 (unat a * 65536)"
| "base64 [] = []"

section \<open>crypto.ts\<close>

text \<open>\<open>generatePassword(length)\<close>: \<open>randomBytes(length).toString('hex').substring(0, length)\<close>.\<close>

definition generatePassword :: "8 word list \<Rightarrow> nat \<Rightarrow> string" where
  "generatePassword bytes len = take len (to_hex bytes)"

definition generateSalt :: "8 word list \<Rightarrow> nat \<Rightarrow> string" where
  "generateSalt bytes len = take len (base64 bytes)"

definition wp_key_names :: "string list" where
  "wp_key_names = [''AUTH_KEY'', ''SECURE_AUTH_KEY'', ''LOGGED_IN_KEY'', ''NONCE_KEY'',
                   ''AUTH_SALT'', ''SECURE_AUTH_SALT'', ''LOGGED_IN_SALT'', ''NONCE_SALT'']"

text \<open>\<open>generateWordPressKeys()\<close>: eight salts of the default length 64, drawn in key order.\<close>

definition generateWordPressKeys :: "(nat \<Rightarrow> 8 word list) \<Rightarrow> kv" where
  "generateWordPressKeys rnd = map (\<lambda>i. (wp_key_names ! i, generateSalt (rnd i) 64)) [0..<8]"

section \<open>secretGenerator.ts\<close>

definition generateStoreSecrets :: "(nat \<Rightarrow> 8 word list) \<Rightarrow> store_secrets" where
  "generateStoreSecrets rnd =
     \<lparr>mysqlRootPassword = generatePassword (rnd 0) 32, mysqlPassword = generatePassword (rnd 1) 32,
      wpAdminPassword = generatePassword (rnd 2) 16, wpKeys = generateWordPressKeys (\<lambda>i. rnd (3 + i))\<rparr>"

text \<open>The draws are \<open>randomBytes(n)\<close> of the sizes the calls ask for.\<close>

definition draws_ok :: "(nat \<Rightarrow> 8 word list) \<Rightarrow> bool" where
  "draws_ok rnd = (length (rnd 0) = 32 \<and> length (rnd 1) = 32 \<and> length (rnd 2) = 16
                   \<and> (\<forall>i<8. length (rnd (3 + i)) = 64))"

section \<open>Lemmas\<close>

lemma length_b64_group [simp]: "k \<le> 4 \<Longrightarrow> length (b64_group k v) = 4"
  by (simp add: b64_group_def)

lemma div3_step: "(3 + n) div 3 = Suc (n div (3::nat))"
  using div_add_self1 [of 3 n] by simp

lemma length_base64: "length (base64 bs) = 4 * ((length bs + 2) div 3)"
proof (induction bs rule: base64.induct)
  case (1 a b c r)
  have l: "length (a # b # c # r) + 2 = 3 + (length r + 2)" by simp
  have e: "(length (a # b # c # r) + 2) div 3 = Suc ((length r + 2) div 3)"
    unfolding l by (rule div3_step)
  have "length (base64 (a # b # c # r)) = 4 + length (base64 r)" by simp
  also have "\<dots> = 4 * Suc ((length r + 2) div 3)" using "1.IH" by simp
  finally show ?case unfolding e .
qed simp_all

lemma b64_char_in: "i < 64 \<Longrightarrow> b64_char i \<in> set b64_alphabet"
  by (simp add: b64_char_def b64_alphabet_def del: set_simps)

lemma b64_group_full:
  assumes "v < 16777216"
  shows "set (b64_group 4 v) \<subseteq> set b64_alphabet"
proof -
  have "v div 262144 < 64" using assms by simp
  then show ?thesis by (simp add: b64_group_def b64_char_in)
qed

lemma unat_byte_lt: "unat (a :: 8 word) < 256"
  using unsigned_less [of a] by simp

lemma group_lt: "unat (a :: 8 word) * 65536 + unat (b :: 8 word) * 256 + unat (c :: 8 word) < 16777216"
  using unat_byte_lt [of a] unat_byte_lt [of b] unat_byte_lt [of c] by simp

lemma base64_full_groups: "set (take (4 * (length bs div 3)) (base64 bs)) \<subseteq> set b64_alphabet"
proof (induction bs rule: base64.induct)
  case (1 a b c r)
  have "set (b64_group 4 (unat a * 65536 + unat b * 256 + unat c)) \<subseteq> set b64_alphabet"
    by (rule b64_group_full [OF group_lt])
  then show ?case using "1.IH" div3_step [of "length r"] by (simp add: take_add)
qed simp_all

lemma generateSalt_length: "length bs = n \<Longrightarrow> length (generateSalt bs n) = n"
  by (simp add: generateSalt_def length_base64)

lemma generateSalt_alphabet: "length bs = n \<Longrightarrow> n \<le> 4 * (n div 3) \<Longrightarrow> set (generateSalt bs n) \<subseteq> set b64_alphabet"
  using base64_full_groups [of bs] set_take_subset_set_take [of n "4 * (length bs div 3)" "base64 bs"]
  by (auto simp: generateSalt_def)

lemma eq_not_b64: "CHR ''='' \<notin> set b64_alphabet"
  by (simp add: b64_alphabet_def)

lemma generatePassword_length: "length bs = n \<Longrightarrow> length (generatePassword bs n) = n"
  by (simp add: generatePassword_def length_to_hex)

lemma to_hex_append: "to_hex (xs @ ys) = to_hex xs @ to_hex ys"
  by (simp add: to_hex_def)

lemma generatePassword_half: "generatePassword bs (2 * k) = to_hex (take k bs)"
proof (induction bs arbitrary: k)
  case Nil
  then show ?case by (simp add: generatePassword_def to_hex_def)
next
  case (Cons b bs)
  then show ?case
    by (cases k) (simp_all add: generatePassword_def to_hex_def byte_hex_def)
qed


lemma wpKeys_names: "map fst (generateWordPressKeys rnd) = wp_key_names"
  by (simp add: generateWordPressKeys_def wp_key_names_def upt_rec)

lemma wpKeys_values:
  assumes "\<forall>i<8. length (rnd i) = 64"
  shows "\<forall>kv \<in> set (generateWordPressKeys rnd). length (snd kv) = 64 \<and> set (snd kv) \<subseteq> set b64_alphabet"
proof -
  have a: "\<And>i. i < 8 \<Longrightarrow> set (generateSalt (rnd i) 64) \<subseteq> set b64_alphabet"
    using assms by (intro generateSalt_alphabet) simp_all
  show ?thesis using assms a by (auto simp: generateWordPressKeys_def generateSalt_length)
qed

text \<open>
  What a store's secrets look like: the two MySQL passwords have 32 hex characters and the
  admin password 16, carrying only the first half of the bytes drawn for them; the eight
  WordPress keys come in the order of \<open>wp_key_names\<close>, each 64 base64 characters
  without padding.
\<close>

lemma generateStoreSecrets_shape:
  assumes "draws_ok rnd"
  shows "length (mysqlRootPassword (generateStoreSecrets rnd)) = 32
     \<and> length (mysqlPassword (generateStoreSecrets rnd)) = 32
     \<and> length (wpAdminPassword (generateStoreSecrets rnd)) = 16
     \<and> mysqlRootPassword (generateStoreSecrets rnd) = to_hex (take 16 (rnd 0))
     \<and> wpAdminPassword (generateStoreSecrets rnd) = to_hex (take 8 (rnd 2))
     \<and> map fst (wpKeys (generateStoreSecrets rnd)) = wp_key_names
     \<and> (\<forall>kv \<in> set (wpKeys (generateStoreSecrets rnd)). length (snd kv) = 64 \<and> set (snd kv) \<subseteq> set b64_alphabet)"
proof -
  have l: "length (rnd 0) = 32" "length (rnd 1) = 32" "length (rnd 2) = 16" "\<forall>i<8. length (rnd (3 + i)) = 64"
    using assms by (simp_all add: draws_ok_def)
  show ?thesis
    using l wpKeys_values [OF l(4)] wpKeys_names [of "\<lambda>i. rnd (3 + i)"]
      generatePassword_half [of "rnd 0" 16] generatePassword_half [of "rnd 2" 8] generatePassword_length [OF l(2)]
    by (simp add: generateStoreSecrets_def length_to_hex)
qed

lemma wordpress_secret_keys_distinct:
  "distinct (map fst (obj_data (buildWordPressSecret ns (generateStoreSecrets rnd))))"
proof -
  have "map fst (map (\<lambda>(k, v). (''stringData.'' @ k, v)) (wpKeys (generateStoreSecrets rnd)))
      = map (\<lambda>k. ''stringData.'' @ k) wp_key_names"
    using arg_cong [OF wpKeys_names [of "\<lambda>i. rnd (3 + i)"], of "map (\<lambda>k. ''stringData.'' @ k)"]
    by (simp add: generateStoreSecrets_def case_prod_beta comp_def)
  then show ?thesis by (simp add: buildWordPressSecret_def mk_object_def wp_key_names_def)
qed

end
