(* ===== verification/Audit_Panel.thy ===== *)
theory Audit_Panel
  imports Observe
begin

text \<open>
  The dashboard's audit log panel, \<open>AuditLogPanel\<close> of \<open>src/frontend/src/App.tsx\<close>, and
  the client call \<open>getAuditLog\<close> of \<open>src/frontend/src/api/stores.ts\<close> it makes against
  \<open>GET /api/audit\<close>. The panel's state is the three \<open>useState\<close> hooks; one
  \<open>fetch\<close> of its effect is \<open>panel_fetch\<close>, and \<open>panel_refresh\<close> runs it against the
  backend's \<open>auditHandler\<close>. Each row shows a badge whose colour and label are looked
  up by the entry's action in \<open>actionColors\<close> and \<open>actionLabels\<close>.
\<close>

section \<open>Panel state and fetch\<close>

record audit_panel =
  ap_entries :: "audit_entry list"
  ap_loading :: bool
  ap_limit :: nat

definition audit_panel_init :: audit_panel where
  "audit_panel_init = \<lparr>ap_entries = [], ap_loading = True, ap_limit = 50\<rparr>"

text \<open>
  \<open>getAuditLog(limit)\<close>: \<open>GET /audit?limit=<limit>\<close> resolving with \<open>data.entries\<close>.
  The backend answers 2xx only with an entries body.
\<close>

definition audit_entries_of :: "body \<Rightarrow> audit_entry list" where
  "audit_entries_of b = (case b of BAudit es \<Rightarrow> es | _ \<Rightarrow> [])"

definition getAuditLog_client :: "nat \<Rightarrow> server \<Rightarrow> audit_entry list api_result" where
  "getAuditLog_client limit sv = (case axios_result (auditHandler (Some (show_nat limit)) sv) of
       ApiOk b \<Rightarrow> ApiOk (audit_entries_of b)
     | ApiErr m s \<Rightarrow> ApiErr m s)"

text \<open>The effect's \<open>fetch\<close>: the entries on success, an error ignored, \<open>loading\<close> off either way.\<close>

definition panel_fetch :: "audit_entry list api_result \<Rightarrow> audit_panel \<Rightarrow> audit_panel" where
  "panel_fetch r p = (case r of
       ApiOk es \<Rightarrow> p\<lparr>ap_entries := es, ap_loading := False\<rparr>
     | ApiErr _ _ \<Rightarrow> p\<lparr>ap_loading := False\<rparr>)"

definition panel_refresh :: "server \<Rightarrow> audit_panel \<Rightarrow> audit_panel" where
  "panel_refresh sv p = panel_fetch (getAuditLog_client (ap_limit p) sv) p"

text \<open>The limit selector: \<open>setLimit\<close> re-runs the effect, which fetches at once.\<close>

definition set_limit :: "nat \<Rightarrow> server \<Rightarrow> audit_panel \<Rightarrow> audit_panel" where
  "set_limit n sv p = panel_refresh sv (p\<lparr>ap_limit := n\<rparr>)"

section \<open>Rows\<close>

definition action_colors :: "(string \<times> string) list" where
  "action_colors = [(''store.create'', ''#10b981''), (''store.delete'', ''#ef4444''),
     (''store.restart'', ''#326CE5''), (''store.reset_password'', ''#f59e0b''),
     (''store.provision_complete'', ''#10b981''), (''store.provision_failed'', ''#ef4444'')]"

definition action_labels :: "(string \<times> string) list" where
  "action_labels = [(''store.create'', ''Created''), (''store.delete'', ''Deleted''),
     (''store.restart'', ''Restarted''), (''store.reset_password'', ''Password Reset''),
     (''store.provision_complete'', ''Provisioned''), (''store.provision_failed'', ''Failed'')]"

text \<open>
  \<open>actionColors[entry.action] || t.textSecondary\<close> and
  \<open>actionLabels[entry.action] || entry.action\<close>; \<open>d\<close> is the theme's \<open>textSecondary\<close>.
\<close>

definition audit_badge :: "string \<Rightarrow> audit_entry \<Rightarrow> string \<times> string" where
  "audit_badge d e = (js_or (map_of action_colors (au_action e)) d,
                      js_or (map_of action_labels (au_action e)) (au_action e))"

text \<open>The resource, details and IP cells: \<open>entry.resourceName || entry.resourceId || '-'\<close> and so on.\<close>

definition audit_cells :: "audit_entry \<Rightarrow> string \<times> string \<times> string" where
  "audit_cells e = (js_or (au_resourceName e) (js_or (map_option show_nat (au_resourceId e)) ''-''),
                    js_or (au_details e) ''-'', js_or (au_ipAddress e) ''-'')"

text \<open>The actions the backend writes: \<open>logAudit\<close> in \<open>routes/stores.ts\<close>.\<close>

definition backend_audit_actions :: "string list" where
  "backend_audit_actions = [''create'', ''delete'', ''restart'', ''reset-password'']"

definition audit_ok :: "world \<Rightarrow> bool" where
  "audit_ok w = list_all (\<lambda>e. au_action e \<in> set backend_audit_actions) (audit w)"

section \<open>Lemmas\<close>

lemma getAuditLog_client_ok: "getAuditLog_client n sv = ApiOk (take n (rev (audit (sv_world sv))))"
  by (simp add: getAuditLog_client_def auditHandler_def js_or_def show_nat_nonempty parse_int_show_nat
      getAuditLog_def axios_result_def audit_entries_of_def)

lemma panel_refresh_entries:
  "ap_entries (panel_refresh sv p) = take (ap_limit p) (rev (audit (sv_world sv)))"
  "ap_loading (panel_refresh sv p) = False" "ap_limit (panel_refresh sv p) = ap_limit p"
  by (simp_all add: panel_refresh_def getAuditLog_client_ok panel_fetch_def)

lemma backend_actions_unkeyed:
  "a \<in> set backend_audit_actions \<Longrightarrow> map_of action_colors a = None \<and> map_of action_labels a = None"
  by (auto simp: backend_audit_actions_def action_colors_def action_labels_def)

lemma audit_ok_append:
  "audit_ok w \<Longrightarrow> audit w' = audit w @ [e] \<Longrightarrow> au_action e \<in> set backend_audit_actions \<Longrightarrow> audit_ok w'"
  by (simp add: audit_ok_def)

lemma audit_ok_same: "audit_ok w \<Longrightarrow> audit w' = audit w \<Longrightarrow> audit_ok w'"
  by (simp add: audit_ok_def)

lemma audit_ok_log:
  "audit_ok w \<Longrightarrow> a \<in> set backend_audit_actions \<Longrightarrow> audit w' = logAudit aid a rt rid rn dt ip now (audit w) \<Longrightarrow> audit_ok w'"
  by (simp add: audit_ok_def logAudit_def)

lemma createStoreHandler_audit_ok:
  "audit_ok (sv_world sv) \<Longrightarrow> audit_ok (sv_world (snd (createStoreHandler cfg v rq ip sv)))"
  unfolding createStoreHandler_def Let_def
  by (simp add: audit_ok_def logAudit_def backend_audit_actions_def split: option.split prod.split sum.split)

lemma deleteStoreHandler_audit_ok:
  "audit_ok (sv_world sv) \<Longrightarrow> audit_ok (sv_world (fst (snd (deleteStoreHandler sid ip sv))))"
  unfolding deleteStoreHandler_def Let_def
  by (simp add: cleanup_start_def audit_ok_def logAudit_def backend_audit_actions_def split: option.split)

lemma restart_body_audit:
  assumes "restart_body st target ip w = (r, w')"
  shows "audit w' = logAudit (next_uuid w) ''restart'' ''store'' (Some (st_id st)) (Some (st_name st))
                      (Some (''target='' @ target)) ip (clock w') (audit w)"
proof -
  obtain rs w1 where l: "restart_loop (st_namespace st) (restart_targets target) w = (Inr rs, w1)"
    and f: "audit w1 = audit w" "next_uuid w1 = next_uuid w"
    using restart_loop_frame [of "st_namespace st" "restart_targets target" w] by blast
  show ?thesis using assms l f by (auto simp: restart_body_def bind_act_def log_audit_def)
qed

lemma try_catch_ok_world: "snd (try_catch m (\<lambda>_. ok_act x) s) = snd (m s)"
  by (simp add: try_catch_def ok_act_def split: prod.split sum.split)

lemma handler_world:
  "snd (case t of (Inr r, w') \<Rightarrow> (r, sv\<lparr>sv_world := w'\<rparr>) | (Inl _, w') \<Rightarrow> (r0, sv\<lparr>sv_world := w'\<rparr>))
     = sv\<lparr>sv_world := snd t\<rparr>"
  by (simp split: prod.split sum.split)

lemma restartHandler_world:
  "sv_world (snd (restartHandler sid tq ip sv)) = sv_world sv
   \<or> (\<exists>st. sv_world (snd (restartHandler sid tq ip sv)) = snd (restart_body st (js_or tq ''all'') ip (sv_world sv)))"
  by (simp add: restartHandler_def Let_def handler_world try_catch_ok_world split: option.split) blast

lemma restartHandler_audit_ok:
  assumes "audit_ok (sv_world sv)"
  shows "audit_ok (sv_world (snd (restartHandler sid tq ip sv)))"
proof -
  have body: "audit_ok (snd (restart_body st target ip' (sv_world sv)))" for st target ip'
    by (rule audit_ok_log [OF assms _ restart_body_audit [OF prod.collapse [symmetric]]])
      (simp add: backend_audit_actions_def)
  consider "sv_world (snd (restartHandler sid tq ip sv)) = sv_world sv"
    | st where "sv_world (snd (restartHandler sid tq ip sv)) = snd (restart_body st (js_or tq ''all'') ip (sv_world sv))"
    using restartHandler_world [of sid tq ip sv] by blast
  then show ?thesis by cases (simp_all only: assms body)
qed

lemma reset_body_audit:
  assumes "reset_body sid st pw pods status ip w = (r, w')"
  shows "audit w' = audit w \<or> audit w' = logAudit (next_uuid w) ''reset-password'' ''store'' (Some (st_id st))
                                  (Some (st_name st)) None ip (clock w') (audit w)"
  using assms
  by (auto simp: reset_body_def bind_act_def k8s_list_pods_def k8s_exec_def log_audit_def
      split: sum.splits prod.splits if_splits)

lemma resetPasswordHandler_world:
  "sv_world (snd (resetPasswordHandler sid bytes pods status ip sv)) = sv_world sv
   \<or> (\<exists>st. sv_world (snd (resetPasswordHandler sid bytes pods status ip sv))
          = snd (reset_body sid st (to_hex bytes) pods status ip (sv_world sv)))"
  by (simp add: resetPasswordHandler_def Let_def handler_world try_catch_ok_world split: option.split) blast

lemma resetPasswordHandler_audit_ok:
  assumes "audit_ok (sv_world sv)"
  shows "audit_ok (sv_world (snd (resetPasswordHandler sid bytes pods status ip sv)))"
proof -
  have body: "audit_ok (snd (reset_body sid st pw pods status ip (sv_world sv)))" for st pw
  proof -
    note a = reset_body_audit [OF prod.collapse [symmetric], of sid st pw pods status ip "sv_world sv"]
    show ?thesis
    proof (rule disjE [OF a])
      assume "audit (snd (reset_body sid st pw pods status ip (sv_world sv))) = audit (sv_world sv)"
      then show ?thesis by (rule audit_ok_same [OF assms])
    next
      assume "audit (snd (reset_body sid st pw pods status ip (sv_world sv))) = logAudit (next_uuid (sv_world sv))
         ''reset-password'' ''store'' (Some (st_id st)) (Some (st_name st)) None ip
         (clock (snd (reset_body sid st pw pods status ip (sv_world sv)))) (audit (sv_world sv))"
      from audit_ok_log [OF assms _ this] show ?thesis by (simp add: backend_audit_actions_def)
    qed
  qed
  consider "sv_world (snd (resetPasswordHandler sid bytes pods status ip sv)) = sv_world sv"
    | st where "sv_world (snd (resetPasswordHandler sid bytes pods status ip sv))
          = snd (reset_body sid st (to_hex bytes) pods status ip (sv_world sv))"
    using resetPasswordHandler_world [of sid bytes pods status ip sv] by blast
  then show ?thesis by cases (simp_all only: assms body)
qed


lemma audit_badge_backend: "au_action e \<in> set backend_audit_actions \<Longrightarrow> audit_badge d e = (d, au_action e)"
  by (simp add: audit_badge_def backend_actions_unkeyed js_or_def)

section \<open>The panel against the backend\<close>

text \<open>
  C2. The audit panel never colours or labels an entry the backend writes. The panel looks
  up \<open>store.create\<close>, \<open>store.delete\<close>, \<open>store.restart\<close>, \<open>store.reset_password\<close> and
  two provisioning actions; the backend logs \<open>create\<close>, \<open>delete\<close>, \<open>restart\<close> and
  \<open>reset-password\<close>. An audit log holding only those actions stays so under each of the
  four handlers that write it, and after a refresh every row the panel shows, the newest
  \<open>limit\<close> entries, has the theme's default colour and the raw action as its label.
\<close>

theorem audit_panel_badges_fallback:
  assumes "audit_ok (sv_world sv)"
  shows "audit_ok (sv_world (snd (createStoreHandler cfg v rq ip sv)))
    \<and> audit_ok (sv_world (fst (snd (deleteStoreHandler sid ip sv))))
    \<and> audit_ok (sv_world (snd (restartHandler sid tq ip sv)))
    \<and> audit_ok (sv_world (snd (resetPasswordHandler sid bytes pods status ip sv)))
    \<and> map (audit_badge d) (ap_entries (panel_refresh sv p))
        = map (\<lambda>e. (d, au_action e)) (take (ap_limit p) (rev (audit (sv_world sv))))"
proof -
  have "\<forall>e \<in> set (take (ap_limit p) (rev (audit (sv_world sv)))). au_action e \<in> set backend_audit_actions"
    using assms set_take_subset [of "ap_limit p" "rev (audit (sv_world sv))"]
    by (auto simp: audit_ok_def list_all_iff)
  then have "map (audit_badge d) (ap_entries (panel_refresh sv p))
        = map (\<lambda>e. (d, au_action e)) (take (ap_limit p) (rev (audit (sv_world sv))))"
    unfolding panel_refresh_entries by (simp add: audit_badge_backend)
  then show ?thesis
    using assms createStoreHandler_audit_ok deleteStoreHandler_audit_ok restartHandler_audit_ok
      resetPasswordHandler_audit_ok by blast
qed

section \<open>Witnesses\<close>

lemma audit_panel_badges_fallback_witness:
  "audit_ok (sv_world (demo_server\<lparr>sv_world := (sv_world demo_server)\<lparr>audit :=
       logAudit 9 ''create'' ''store'' (Some 7) (Some ''My Shop'') None None 0 []\<rparr>\<rparr>))
   \<and> audit_ok (sv_world (snd (resetPasswordHandler 7 [222, 173] [] None None
       (demo_server\<lparr>sv_world := (sv_world demo_server)\<lparr>audit :=
          logAudit 9 ''create'' ''store'' (Some 7) (Some ''My Shop'') None None 0 []\<rparr>\<rparr>))))
   \<and> map (audit_badge ''#6b7280'') (ap_entries (panel_refresh
       (demo_server\<lparr>sv_world := (sv_world demo_server)\<lparr>audit :=
          logAudit 9 ''create'' ''store'' (Some 7) (Some ''My Shop'') None None 0 []\<rparr>\<rparr>) audit_panel_init))
     = [(''#6b7280'', ''create'')]"
proof -
  let ?sv = "demo_server\<lparr>sv_world := (sv_world demo_server)\<lparr>audit :=
       logAudit 9 ''create'' ''store'' (Some 7) (Some ''My Shop'') None None 0 []\<rparr>\<rparr>"
  have h: "audit_ok (sv_world ?sv)" by (simp add: audit_ok_def logAudit_def backend_audit_actions_def)
  note t = audit_panel_badges_fallback [OF h, of default_config "\<lambda>_. True" "demo_req ''My Shop''" None 7 None
      "[222, 173]" "[]" None "''#6b7280''" audit_panel_init]
  have "map (\<lambda>e. (''#6b7280'', au_action e)) (take (ap_limit audit_panel_init) (rev (audit (sv_world ?sv))))
      = [(''#6b7280'', ''create'')]"
    by (simp add: audit_panel_init_def logAudit_def)
  then show ?thesis using h t by simp
qed

end
