(* ===== verification/Spec2Isabelle.thy ===== *)
theory Spec2Isabelle
  imports Names Provisioning Cleanup Routes Migrations Api Actions Observe Secrets Audit_Panel
begin

text \<open>
  A verification development for the store platform of this repository: a backend that
  accepts store requests over HTTP (\<open>src/backend/src/routes/stores.ts\<close>), records them
  in SQLite (\<open>src/backend/src/db\<close>), and provisions each store as a Kubernetes
  namespace holding MySQL, WordPress and WooCommerce
  (\<open>src/backend/src/services/provisioners/woocommerceProvisioner.ts\<close>), and a React
  dashboard (\<open>src/frontend/src\<close>) that drives it.

  \<^bold>\<open>Theories.\<close>
  \<^item> \<open>Prelude\<close>: actions \<open>'s \<Rightarrow> (error + 'a) \<times> 's\<close> (a statement that may throw),
    statement blocks, \<open>try/catch\<close>, the error type, frame rules (\<open>act_keeps\<close>) and
    total-correctness triples with an error postcondition (\<open>triple\<close>).
  \<^item> \<open>Names\<close>: \<open>generateSlug\<close>, \<open>generateNamespace\<close> (\<open>utils/nameGenerator.ts\<close>) and
    the name check of the create schema.
  \<^item> \<open>Store_Repo\<close>, \<open>Event_Log\<close>: the three tables and every repository function.
  \<^item> \<open>Migrations\<close>: the schema and \<open>runMigrations\<close> (\<open>db/migrate.ts\<close>), and the
    columns the repositories' statements use.
  \<^item> \<open>Cluster\<close>: the configuration (\<open>config.ts\<close>), the cluster as an environment, and the
    manifests of \<open>k8s/resourceBuilder.ts\<close> and \<open>k8s/secretGenerator.ts\<close>.
  \<^item> \<open>World\<close>: the state the services act on (tables, cluster, clock, fresh ids) and
    the repository and cluster calls lifted to it.
  \<^item> \<open>Waits\<close>: the three polling loops (\<open>waitForDeploymentReady\<close>,
    \<open>waitForJobComplete\<close>, \<open>waitForNamespaceDeletion\<close>) as terminating functions.
  \<^item> \<open>Woo_Pipeline\<close>, \<open>Woo_Runs\<close>, \<open>Woo_Healthy\<close>: the eleven steps of
    \<open>WooCommerceProvisioner.provision\<close> and whole runs of it.
  \<^item> \<open>Queue\<close>, \<open>Provisioning\<close>: the p-queue of \<open>provisioningService.ts\<close>, the
    queued task with its catch, the provisioner registry and the Medusa stub.
  \<^item> \<open>Cleanup\<close>: \<open>cleanupStore\<close> of \<open>cleanupService.ts\<close>.
  \<^item> \<open>Routes\<close>: the store handlers of \<open>routes/stores.ts\<close> on a server state holding the
    world and the queue.
  \<^item> \<open>Frontend\<close>: the computing parts of \<open>App.tsx\<close>: badges, labels, duration and
    uptime texts, the timeline's deduplication, the \<open>App\<close> state and handlers, the card
    actions.
  \<^item> \<open>Api\<close>: the client of \<open>api/stores.ts\<close>, the routing of \<open>index.ts\<close> with
    Express's percent-decoding of parameters and \<open>qs\<close>'s decoding of the query, the
    browser dropping a URL's fragment, axios' handling of answers and the create dialog.
  \<^item> \<open>Actions\<close>: the restart and reset-password actions of \<open>routes/stores.ts\<close>, with
    the deployment patch, the pod list and the exec they call, and the hex encoding of the
    new password as \<open>8 word\<close> bytes.
  \<^item> \<open>Observe\<close>: the logs and health routes of \<open>routes/stores.ts\<close> with
    \<open>parseInt\<close>, and the \<open>/healthz\<close>, \<open>/readyz\<close> and \<open>/api/audit\<close> routes of
    \<open>routes/health.ts\<close>.
  \<^item> \<open>Secrets\<close>: \<open>generatePassword\<close>, \<open>generateSalt\<close> and
    \<open>generateWordPressKeys\<close> of \<open>utils/crypto.ts\<close> and \<open>generateStoreSecrets\<close>, over
    the bytes \<open>randomBytes\<close> returns, with Node's hex and base64 encodings.
  \<^item> \<open>Audit_Panel\<close>: the dashboard's \<open>AuditLogPanel\<close>, its state, one fetch of its
    polling effect against \<open>/api/audit\<close> through \<open>getAuditLog\<close>, and its rows, with
    the invariant that the audit log holds only the actions the backend writes.
  This theory holds the properties that span the pipeline and the dashboard.

  \<^bold>\<open>Properties.\<close> C1, C3, C5--C6: the shape and (non-)idempotence of slugs, the
  validity of namespaces, and which names have an empty slug. C2: the audit panel shows
  every entry the backend writes without its colour or label, since the two key their
  actions differently. C4: the deployment wait returns within
  \<open>\<lceil>secs / 5\<rceil>\<close> polls. C7--C8 and C30: the repository keeps the table's keys and
  identities, and the table refines a finite map from ids to rows.
  C9--C14: whole WooCommerce runs, healthy, replayed and failing. C15 and C40: the queue
  admits in arrival order within its concurrency, and a queued store starts once the
  stores ahead of it have, provided running tasks settle (C16 shows the task always
  settles). C16--C17 and C20--C22: the queue task and the teardown on every outcome.
  C18--C19: the logs and health routes, including the client errors the logs route answers
  with 500. C23--C27 and
  C38--C39: the HTTP handlers on every branch, errors included. C28--C29, C31--C32: the
  migration runner on every database: what it records, that it is idempotent, that it
  leaves the schema the repositories use, and that it never repairs an older table. C33--C37: the dashboard: deduplication against its specification, the timeline
  of a healthy run, the uptime text read back, the client's URLs routed to the intended
  handlers once Express has decoded them, and a create at the limit seen from the dashboard.

  \<^bold>\<open>Time.\<close> The clock is in milliseconds. A cluster call advances it by the cluster's
  latency and \<open>sleep(ms)\<close> by \<open>ms\<close>; database calls take no time. Each wait loop
  terminates because \<open>deadline - clock\<close> drops by at least its sleep on every round, so no
  fuel is needed; a fuel version of the deployment wait shows that
  \<open>\<lceil>secs / 5\<rceil> + 1\<close> rounds are always enough.

  \<^bold>\<open>Not modelled.\<close> Rendering (JSX, styles) and the browser's timers. The cluster is
  not code of the repository and is an environment with oracles. The bytes of
  \<open>randomBytes\<close> are an argument, as are the pod list, the exec status and the random bytes of the
  reset-password action. The rate limiters (a library's configuration), helmet, cors,
  morgan and the server bootstrap of \<open>index.ts\<close> are not modelled.
  A handler that awaits runs as one function: other requests are not interleaved with it.
  A request the source never answers (a failed exec connection in reset-password) is
  answered 500 by the model. Rows of the event and audit logs with equal timestamps are
  read in insertion order, which SQLite does not promise. Duplicate query keys, which
  \<open>qs\<close> turns into arrays, are read as their first value.
\<close>

text \<open>
  C34. The dashboard's timeline of a store whose WooCommerce run went through against a
  healthy cluster: eleven rows in pipeline order, every one marked done, except the network
  policy step, which stays pending when the policy existed before the run.
\<close>

theorem healthy_run_timeline:
  assumes "step_trace sid evs = woo_trace np"
  shows "timeline_view (getEventsByStoreId sid evs) \<noteq> None
     \<and> map (\<lambda>(l, m, _). (l, m)) (the (timeline_view (getEventsByStoreId sid evs)))
        = [(''Namespace'', MarkDone), (''Secrets'', MarkDone), (''Quota'', MarkDone), (''MySQL'', MarkDone),
           (''MySQL Ready'', MarkDone), (''WordPress'', MarkDone), (''WordPress Ready'', MarkDone),
           (''WooCommerce'', MarkDone), (''Ingress'', MarkDone),
           (''Network Policy'', if np then MarkPending else MarkDone), (''Complete'', MarkDone)]"
proof -
  let ?xs = "getEventsByStoreId sid evs"
  have p: "map ev_proj ?xs = woo_trace np" using assms ev_proj_trace [of sid evs] by simp
  then have ne: "?xs \<noteq> []" by (auto simp: woo_trace_def)
  have "map (\<lambda>(l, m, _). (l, m)) (the (timeline_view ?xs))
      = map (\<lambda>p. (step_label (fst p), event_mark (snd p)))
          (map (pick_pair (woo_trace np)) (rev (remdups (rev (map fst (woo_trace np))))))"
    using timeline_view_marks [OF ne] dedup_proj [of ?xs] p by simp
  also have "\<dots> = [(''Namespace'', MarkDone), (''Secrets'', MarkDone), (''Quota'', MarkDone), (''MySQL'', MarkDone),
           (''MySQL Ready'', MarkDone), (''WordPress'', MarkDone), (''WordPress Ready'', MarkDone),
           (''WooCommerce'', MarkDone), (''Ingress'', MarkDone),
           (''Network Policy'', if np then MarkPending else MarkDone), (''Complete'', MarkDone)]"
    by (cases np) (simp_all add: woo_trace_def pick_pair_def step_label_def step_labels_def event_mark_def)
  finally show ?thesis using ne by (simp add: timeline_view_def)
qed

lemma healthy_run_timeline_witness:
  "step_trace 7 (map (\<lambda>(s, t). \<lparr>ev_id = 0, ev_storeId = 7, ev_step = s, ev_status = t, ev_message = [], ev_createdAt = 0\<rparr>)
       (woo_trace True)) = woo_trace True
   \<and> map (\<lambda>(l, m, _). (l, m)) (the (timeline_view (getEventsByStoreId 7
       (map (\<lambda>(s, t). \<lparr>ev_id = 0, ev_storeId = 7, ev_step = s, ev_status = t, ev_message = [], ev_createdAt = 0\<rparr>)
         (woo_trace True))))) ! 9 = (''Network Policy'', MarkPending)"
proof -
  have h: "step_trace 7 (map (\<lambda>(s, t). \<lparr>ev_id = 0, ev_storeId = 7, ev_step = s, ev_status = t, ev_message = [], ev_createdAt = 0\<rparr>)
       (woo_trace True)) = woo_trace True"
    by (simp add: step_trace_def getEventsByStoreId_def woo_trace_def)
  show ?thesis using h healthy_run_timeline [OF h] by simp
qed

end
